(* ===== verification/Prelude.thy ===== *)
theory Prelude
  imports Complex_Main "HOL-Library.Multiset" "HOL-Library.Word"
begin

text \<open>
  Shared vocabulary of the development: Go's 64-bit integer arithmetic with its
  wrap-around, the result type of fallible Go functions, nullable database
  identifiers, and the generic lemmas on results, options and lists that the
  component theories use.

  A Go function that returns \<open>(T, error)\<close> is a function into \<open>'e + 'a\<close> with
  \<open>Inl\<close> for a non-nil error. Durations and instants are integers counting
  nanoseconds, as \<open>time.Duration\<close> does.
\<close>

named_theorems result_simps \<open>rewrite rules for the result type\<close>
named_theorems int64_simps \<open>wrap-around rules for 64-bit arithmetic\<close>

section \<open>Names of the model's types\<close>

type_synonym duration = int
type_synonym instant = int

text \<open>A \<open>pgtype.UUID\<close>: its sixteen bytes as one word; \<open>None\<close> is the value with \<open>Valid = false\<close>.\<close>
type_synonym uuid = "128 word option"

abbreviation uuid_valid :: "uuid \<Rightarrow> bool" where
  "uuid_valid u \<equiv> u \<noteq> None"

definition nanosecond_per_second :: int where
  "nanosecond_per_second = 1000000000"

definition seconds :: "int \<Rightarrow> duration" where
  "seconds n = n * 1000000000"

definition minutes :: "int \<Rightarrow> duration" where
  "minutes n = n * 60000000000"

definition millisecond :: duration where
  "millisecond = 1000000"

section \<open>Results\<close>

fun bind_result :: "'e + 'a \<Rightarrow> ('a \<Rightarrow> 'e + 'b) \<Rightarrow> 'e + 'b" where
  "bind_result (Inl e) f = Inl e"
| "bind_result (Inr a) f = f a"

declare bind_result.simps [result_simps]

lemma bind_result_Inr_iff [result_simps]:
  "bind_result m f = Inr b \<longleftrightarrow> (\<exists>a. m = Inr a \<and> f a = Inr b)"
  by (cases m) auto

lemma bind_result_Inl_iff [result_simps]:
  "bind_result m f = Inl e \<longleftrightarrow> m = Inl e \<or> (\<exists>a. m = Inr a \<and> f a = Inl e)"
  by (cases m) auto

lemma bind_result_cong [fundef_cong]:
  "m = m' \<Longrightarrow> (\<And>a. m' = Inr a \<Longrightarrow> f a = g a) \<Longrightarrow> bind_result m f = bind_result m' g"
  by (cases m') auto

lemma bind_result_assoc: "bind_result (bind_result m f) g = bind_result m (\<lambda>a. bind_result (f a) g)"
  by (cases m) auto

definition guard_result :: "bool \<Rightarrow> 'e \<Rightarrow> 'e + unit" where
  "guard_result ok e = (if ok then Inr () else Inl e)"

lemma guard_result_Inr_iff [simp, result_simps]: "guard_result b e = Inr u \<longleftrightarrow> b"
  by (simp add: guard_result_def)

lemma guard_result_Inl_iff [simp, result_simps]:
  "guard_result b e = Inl e' \<longleftrightarrow> \<not> b \<and> e' = e"
  by (auto simp: guard_result_def)

section \<open>64-bit signed integers\<close>

definition min_int64 :: int where "min_int64 = - (2 ^ 63)"
definition max_int64 :: int where "max_int64 = 2 ^ 63 - 1"

definition is_int64 :: "int \<Rightarrow> bool" where
  "is_int64 x \<longleftrightarrow> - 9223372036854775808 \<le> x \<and> x \<le> 9223372036854775807"

definition to_int64 :: "int \<Rightarrow> int" where
  "to_int64 x = (x + 9223372036854775808) mod 18446744073709551616 - 9223372036854775808"

definition add64 :: "int \<Rightarrow> int \<Rightarrow> int" where "add64 a b = to_int64 (a + b)"
definition sub64 :: "int \<Rightarrow> int \<Rightarrow> int" where "sub64 a b = to_int64 (a - b)"
definition mul64 :: "int \<Rightarrow> int \<Rightarrow> int" where "mul64 a b = to_int64 (a * b)"

text \<open>Go's integer division truncates towards zero.\<close>

definition quo :: "int \<Rightarrow> int \<Rightarrow> int" where
  "quo a b = sgn a * sgn b * (\<bar>a\<bar> div \<bar>b\<bar>)"

definition rem :: "int \<Rightarrow> int \<Rightarrow> int" where
  "rem a b = a - b * quo a b"

lemma is_int64_to_int64 [simp, int64_simps]: "is_int64 (to_int64 x)"
proof -
  have "0 \<le> (x + 9223372036854775808) mod 18446744073709551616"
    and "(x + 9223372036854775808) mod 18446744073709551616 < 18446744073709551616"
    by simp_all
  then show ?thesis unfolding is_int64_def to_int64_def by linarith
qed

lemma to_int64_id [int64_simps]: "is_int64 x \<Longrightarrow> to_int64 x = x"
  unfolding is_int64_def to_int64_def by (simp add: mod_pos_pos_trivial)

lemma is_int64_bounds: "is_int64 x \<longleftrightarrow> min_int64 \<le> x \<and> x \<le> max_int64"
  by (simp add: is_int64_def min_int64_def max_int64_def)

lemma add64_id [int64_simps]: "is_int64 (a + b) \<Longrightarrow> add64 a b = a + b"
  by (simp add: add64_def to_int64_id)

lemma sub64_id [int64_simps]: "is_int64 (a - b) \<Longrightarrow> sub64 a b = a - b"
  by (simp add: sub64_def to_int64_id)

lemma mul64_id [int64_simps]: "is_int64 (a * b) \<Longrightarrow> mul64 a b = a * b"
  by (simp add: mul64_def to_int64_id)

lemma quo_nonneg: "0 \<le> a \<Longrightarrow> 0 < b \<Longrightarrow> quo a b = a div b"
  by (cases "a = 0") (simp_all add: quo_def)

lemma rem_nonneg: "0 \<le> a \<Longrightarrow> 0 < b \<Longrightarrow> rem a b = a mod b"
  by (simp add: rem_def quo_nonneg minus_mult_div_eq_mod)

lemma quo_neg: "a < 0 \<Longrightarrow> 0 < b \<Longrightarrow> quo a b = - ((- a) div b)"
  by (simp add: quo_def)

lemma rem_neg: "a < 0 \<Longrightarrow> 0 < b \<Longrightarrow> rem a b = - ((- a) mod b)"
  by (simp add: rem_def quo_neg) (simp add: minus_div_mult_eq_mod [symmetric] algebra_simps)

section \<open>Strings\<close>

text \<open>The case folding of the ASCII letters.\<close>

definition ascii_lower :: "string \<Rightarrow> string" where
  "ascii_lower = map (\<lambda>c. if 65 \<le> (of_char c :: nat) \<and> (of_char c :: nat) \<le> 90 then char_of ((of_char c :: nat) + 32) else c)"

section \<open>Rounding a rational up\<close>

lemma ceiling_of_fraction_pos:
  assumes "0 < d"
  shows "\<lceil>of_int n / (of_int d :: rat)\<rceil> = - ((- n) div d)"
proof -
  have "\<lceil>of_int n / (of_int d :: rat)\<rceil> = - \<lfloor>of_int (- n) / (of_int d :: rat)\<rfloor>"
    by (simp add: ceiling_def)
  also have "\<lfloor>of_int (- n) / (of_int d :: rat)\<rfloor> = (- n) div d"
    by (rule floor_divide_of_int_eq)
  finally show ?thesis .
qed

lemma neg_div_pos_remainder:
  assumes "0 < d" and "n mod d \<noteq> 0"
  shows "- ((- n) div d) = n div (d::int) + 1"
  using assms by (simp add: zdiv_zminus1_eq_if)

lemma neg_div_no_remainder:
  assumes "0 < d" and "n mod d = 0"
  shows "- ((- n) div d) = n div (d::int)"
  using assms by (simp add: zdiv_zminus1_eq_if)

section \<open>Lists\<close>

lemma mset_take_nth_drop:
  "i < length xs \<Longrightarrow> add_mset (xs ! i) (mset (take i xs @ drop (Suc i) xs)) = mset xs"
  by (metis append_take_drop_id Cons_nth_drop_Suc mset.simps(2) mset_append
      union_mset_add_mset_right)

lemma sum_list_update_add:
  fixes a :: "'a :: comm_monoid_add"
  shows "i < length xs \<Longrightarrow> sum_list (xs[i := xs ! i + a]) = sum_list xs + a"
  by (induction xs arbitrary: i) (auto split: nat.split simp: ac_simps)

lemma sorted_map_const: "\<forall>x \<in> set xs. f x = c \<Longrightarrow> sorted (map f xs)"
  by (induction xs) auto

lemma sorted_map_dropWhile: "sorted (map f xs) \<Longrightarrow> sorted (map f (dropWhile P xs))"
  by (induction xs) auto

lemma sum_list_split_nth:
  fixes f :: "'b \<Rightarrow> 'a :: comm_monoid_add"
  shows "i < length xs \<Longrightarrow> sum_list (map f xs) = sum_list (map f (take i xs)) + f (xs ! i) + sum_list (map f (drop (Suc i) xs))"
  by (induction xs arbitrary: i) (auto simp: nth_Cons take_Cons ac_simps split: nat.splits)

lemma find_only:
  assumes "x \<in> set xs" and "P x" and "\<And>y. y \<in> set xs \<Longrightarrow> P y \<Longrightarrow> y = x"
  shows "find P xs = Some x"
proof (cases "find P xs")
  case None
  then show ?thesis using assms(1,2) by (simp add: find_None_iff)
next
  case (Some y)
  then have "y \<in> set xs" "P y" by (auto simp: find_Some_iff)
  then show ?thesis using Some assms(3) by blast
qed

end
