(* ===== verification/BreakerStore.thy ===== *)
theory BreakerStore
  imports Prelude
begin

text \<open>
  \<open>foundation/drivers/breaker\<close>: the store circuit-breaker state is kept in. The Go
  interface \<open>Store\<close> is a record of its three operations over an abstract state; the
  locale states what a client may rely on; the in-process implementation of
  \<open>memory.go\<close> is its interpretation. The clock is an argument of the operations that
  read it.
\<close>

section \<open>The interface\<close>

definition StatusClosed :: string where "StatusClosed = ''closed''"
definition StatusOpen :: string where "StatusOpen = ''open''"
definition StatusHalfOpen :: string where "StatusHalfOpen = ''half_open''"

lemmas status_defs = StatusClosed_def StatusOpen_def StatusHalfOpen_def

text \<open>The zero value of \<open>time.Time\<close>, the first instant of the year one.\<close>

definition zero_time :: instant where "zero_time = - 62135596800000000000"

record BState =
  b_Status :: string
  b_Failures :: int
  b_Opens :: int
  b_Until :: instant

definition zero_state :: BState where
  "zero_state = \<lparr>b_Status = [], b_Failures = 0, b_Opens = 0, b_Until = zero_time\<rparr>"

text \<open>\<open>Get\<close> answers an error, nothing, or a state; the booleans say whether a write succeeded.\<close>

record 's Store =
  store_Get :: "instant \<Rightarrow> string \<Rightarrow> 's \<Rightarrow> (unit + BState option) \<times> 's"
  store_Set :: "instant \<Rightarrow> string \<Rightarrow> BState \<Rightarrow> duration \<Rightarrow> 's \<Rightarrow> bool \<times> 's"
  store_Delete :: "string \<Rightarrow> 's \<Rightarrow> bool \<times> 's"

definition peek :: "'s Store \<Rightarrow> instant \<Rightarrow> string \<Rightarrow> 's \<Rightarrow> unit + BState option" where
  "peek S now key s = fst (store_Get S now key s)"

locale breaker_store =
  fixes S :: "'s Store"
  assumes get_set: "peek S now' key (snd (store_Set S now key st ttl s)) =
      Inr (if 0 < ttl \<and> now + ttl < now' then None else Some st)"
    and get_set_other: "key' \<noteq> key \<Longrightarrow> peek S now' key' (snd (store_Set S now key st ttl s)) = peek S now' key' s"
    and get_delete: "peek S now' key (snd (store_Delete S key s)) = Inr None"
    and get_delete_other: "key' \<noteq> key \<Longrightarrow> peek S now' key' (snd (store_Delete S key s)) = peek S now' key' s"
    and get_stable: "now \<le> now' \<Longrightarrow> peek S now' key' (snd (store_Get S now key s)) = peek S now' key' s"

section \<open>The in-process implementation\<close>

record memState =
  ms_st :: BState
  ms_expiresAt :: "instant option"

type_synonym Memory = "string \<rightharpoonup> memState"

definition NewMemory :: Memory where "NewMemory = Map.empty"

definition mem_expired :: "instant \<Rightarrow> memState \<Rightarrow> bool" where
  "mem_expired now e = (case ms_expiresAt e of None \<Rightarrow> False | Some t \<Rightarrow> now > t)"

text \<open>The second critical section of \<open>Get\<close>: delete the entry only if it is still the one that was read.\<close>

definition mem_cleanup :: "string \<Rightarrow> memState \<Rightarrow> Memory \<Rightarrow> Memory" where
  "mem_cleanup key e m = (if m key = Some e then m(key := None) else m)"

definition Memory_Get :: "instant \<Rightarrow> string \<Rightarrow> Memory \<Rightarrow> (unit + BState option) \<times> Memory" where
  "Memory_Get now key m =
     (case m key of
        None \<Rightarrow> (Inr None, m)
      | Some e \<Rightarrow> if mem_expired now e then (Inr None, mem_cleanup key e m) else (Inr (Some (ms_st e)), m))"

definition Memory_Set :: "instant \<Rightarrow> string \<Rightarrow> BState \<Rightarrow> duration \<Rightarrow> Memory \<Rightarrow> bool \<times> Memory" where
  "Memory_Set now key st ttl m =
     (True, m(key \<mapsto> \<lparr>ms_st = st, ms_expiresAt = (if ttl > 0 then Some (now + ttl) else None)\<rparr>))"

definition Memory_Delete :: "string \<Rightarrow> Memory \<Rightarrow> bool \<times> Memory" where
  "Memory_Delete key m = (True, m(key := None))"

definition memory_store :: "Memory Store" where
  "memory_store = \<lparr>store_Get = Memory_Get, store_Set = Memory_Set, store_Delete = Memory_Delete\<rparr>"

section \<open>The store used when none is injected\<close>

definition noopBreakerStore :: "unit Store" where
  "noopBreakerStore = \<lparr>store_Get = (\<lambda>_ _ s. (Inr None, s)), store_Set = (\<lambda>_ _ _ _ s. (True, s)),
     store_Delete = (\<lambda>_ s. (True, s))\<rparr>"

section \<open>The implementation keeps the contract\<close>

lemma peek_memory:
  "peek memory_store now key m =
     Inr (case m key of None \<Rightarrow> None | Some e \<Rightarrow> if mem_expired now e then None else Some (ms_st e))"
  by (simp add: peek_def memory_store_def Memory_Get_def split: option.split)

lemma mem_expired_mono: "mem_expired now e \<Longrightarrow> now \<le> now' \<Longrightarrow> mem_expired now' e"
  by (auto simp: mem_expired_def split: option.splits)

text \<open>Cleaning up an entry that had expired when it was read changes no later answer, whatever happened in between.\<close>

lemma peek_mem_cleanup:
  assumes "mem_expired now e" and "now \<le> now'"
  shows "peek memory_store now' key' (mem_cleanup key e m) = peek memory_store now' key' m"
  using mem_expired_mono [OF assms] by (auto simp: peek_memory mem_cleanup_def split: option.split)

interpretation memory: breaker_store memory_store
proof unfold_locales
  fix now now' key key' st ttl and s :: Memory
  show "peek memory_store now' key (snd (store_Set memory_store now key st ttl s)) =
      Inr (if 0 < ttl \<and> now + ttl < now' then None else Some st)"
    unfolding peek_memory by (simp add: memory_store_def Memory_Set_def mem_expired_def)
  show "peek memory_store now' key (snd (store_Delete memory_store key s)) = Inr None"
    unfolding peek_memory by (simp add: memory_store_def Memory_Delete_def)
  show "key' \<noteq> key \<Longrightarrow> peek memory_store now' key' (snd (store_Set memory_store now key st ttl s)) =
      peek memory_store now' key' s"
    unfolding peek_memory by (simp add: memory_store_def Memory_Set_def)
  show "key' \<noteq> key \<Longrightarrow> peek memory_store now' key' (snd (store_Delete memory_store key s)) =
      peek memory_store now' key' s"
    unfolding peek_memory by (simp add: memory_store_def Memory_Delete_def)
  show "now \<le> now' \<Longrightarrow> peek memory_store now' key' (snd (store_Get memory_store now key s)) =
      peek memory_store now' key' s"
    using peek_mem_cleanup
    by (auto simp: memory_store_def Memory_Get_def split: option.split)
qed

text \<open>
  Expiry cleanup never swallows fresh state. Between the moment a read finds an
  expired entry and the moment it deletes it, any write may land on any key; the
  delete that follows leaves every answer of the store as that write left it, at
  every later time.
\<close>

theorem cleanup_keeps_concurrent_write:
  assumes "m key = Some e" and "mem_expired now e" and "now \<le> now'"
  shows "peek memory_store now' key' (mem_cleanup key e (snd (Memory_Set now2 key2 st ttl m))) =
    peek memory_store now' key' (snd (Memory_Set now2 key2 st ttl m))"
  by (rule peek_mem_cleanup [OF assms(2,3)])

definition stale_entry :: memState where
  "stale_entry = \<lparr>ms_st = zero_state, ms_expiresAt = Some 10\<rparr>"

theorem cleanup_keeps_concurrent_write_witness:
  "peek memory_store 12 ''p'' (mem_cleanup ''p'' stale_entry
      (snd (Memory_Set 11 ''p'' (zero_state\<lparr>b_Status := StatusOpen\<rparr>) 30 [''p'' \<mapsto> stale_entry]))) =
    peek memory_store 12 ''p''
      (snd (Memory_Set 11 ''p'' (zero_state\<lparr>b_Status := StatusOpen\<rparr>) 30 [''p'' \<mapsto> stale_entry]))"
  by (rule cleanup_keeps_concurrent_write [of _ _ _ 11]) (simp_all add: stale_entry_def mem_expired_def)

end
