(* ===== verification/PublicId.thy ===== *)
theory PublicId
  imports Prelude
begin

text \<open>
  \<open>foundation/publicid/publicid.go\<close>: rendering internal identifiers, bare for logs and
  storage scopes and prefixed for the outside, and reading the prefixed form back.
  Reading the bare form is the database driver's \<open>UUID.Scan\<close>, a parameter here; what
  the code relies on is that it reads back what was rendered and yields a valid id.
\<close>

section \<open>Rendering\<close>

definition hex_char :: "nat \<Rightarrow> char" where
  "hex_char d = ''0123456789abcdef'' ! (d mod 16)"

fun hex_fixed :: "nat \<Rightarrow> nat \<Rightarrow> string" where
  "hex_fixed 0 n = []"
| "hex_fixed (Suc w) n = hex_fixed w (n div 16) @ [hex_char (n mod 16)]"

definition dashed :: "string \<Rightarrow> string" where
  "dashed h = take 8 h @ ''-'' @ take 4 (drop 8 h) @ ''-'' @ take 4 (drop 12 h) @ ''-''
     @ take 4 (drop 16 h) @ ''-'' @ drop 20 h"

definition UUIDString :: "uuid \<Rightarrow> string" where
  "UUIDString u = (case u of None \<Rightarrow> [] | Some b \<Rightarrow> dashed (hex_fixed 32 (unat b)))"

definition FormatId :: "string \<Rightarrow> uuid \<Rightarrow> string" where
  "FormatId pre u = (case u of None \<Rightarrow> [] | Some b \<Rightarrow> pre @ ''_'' @ dashed (hex_fixed 32 (unat b)))"

datatype id_error = MissingPrefix string | InvalidUUID

definition cut_prefix :: "string \<Rightarrow> string \<Rightarrow> string option" where
  "cut_prefix pre s = (if take (length pre) s = pre then Some (drop (length pre) s) else None)"

definition ParseId :: "(string \<Rightarrow> uuid option) \<Rightarrow> string \<Rightarrow> string \<Rightarrow> id_error + uuid" where
  "ParseId scan pre s =
     (case cut_prefix (pre @ ''_'') s of
        None \<Rightarrow> Inl (MissingPrefix pre)
      | Some raw \<Rightarrow> (case scan raw of None \<Rightarrow> Inl InvalidUUID | Some u \<Rightarrow> Inr u))"

definition OrgPrefix :: string where "OrgPrefix = ''org''"

definition OrgMatches :: "(string \<Rightarrow> uuid option) \<Rightarrow> string \<Rightarrow> string \<Rightarrow> bool" where
  "OrgMatches scan principalOrg urlOrg =
     (case ParseId scan OrgPrefix urlOrg of
        Inl e \<Rightarrow> False
      | Inr u \<Rightarrow> UUIDString u = principalOrg)"

section \<open>Rendering loses nothing\<close>

lemma hex_char_inj: "hex_char (a mod 16) = hex_char (b mod 16) \<Longrightarrow> a mod 16 = b mod 16"
proof -
  have d: "distinct ''0123456789abcdef''" "length ''0123456789abcdef'' = 16" by simp_all
  assume "hex_char (a mod 16) = hex_char (b mod 16)"
  then show ?thesis using d nth_eq_iff_index_eq [OF d(1), of "a mod 16" "b mod 16"] by (simp add: hex_char_def)
qed

lemma length_hex_fixed [simp]: "length (hex_fixed w n) = w"
  by (induction w arbitrary: n) auto

lemma hex_fixed_inj: "n < 16 ^ w \<Longrightarrow> m < 16 ^ w \<Longrightarrow> hex_fixed w n = hex_fixed w m \<Longrightarrow> n = m"
proof (induction w arbitrary: n m)
  case (Suc w)
  then have "n div 16 = m div 16" "n mod 16 = m mod 16"
    using hex_char_inj by (auto simp: less_mult_imp_div_less)
  then show ?case by (metis div_mult_mod_eq)
qed simp

lemma uuid_groups: "x = take 8 x @ take 4 (drop 8 x) @ take 4 (drop 12 x) @ take 4 (drop 16 x) @ drop 20 x"
  using take_add [of 8 4 x] take_add [of 12 4 x] take_add [of 16 4 x] append_take_drop_id [of 20 x] by simp

lemma dashed_inj:
  assumes "length h = 32" and "length h' = 32" and "dashed h = dashed h'"
  shows "h = h'"
proof -
  have parts: "take 8 h = take 8 h'" "take 4 (drop 8 h) = take 4 (drop 8 h')"
    "take 4 (drop 12 h) = take 4 (drop 12 h')" "take 4 (drop 16 h) = take 4 (drop 16 h')" "drop 20 h = drop 20 h'"
    using assms by (simp_all add: dashed_def)
  show ?thesis by (subst uuid_groups [of h], subst uuid_groups [of h']) (simp only: parts)
qed

lemma UUIDString_inj [simp]: "UUIDString u = UUIDString v \<longleftrightarrow> u = v"
proof -
  have ne: "dashed (hex_fixed 32 n) \<noteq> []" "[] \<noteq> dashed (hex_fixed 32 n)" for n
    by (simp_all add: dashed_def)
  have "unat (b :: 128 word) < 16 ^ 32" for b using unsigned_less [of b] by simp
  then have "dashed (hex_fixed 32 (unat b)) = dashed (hex_fixed 32 (unat c)) \<Longrightarrow> b = c" for b c :: "128 word"
    using dashed_inj hex_fixed_inj by (metis length_hex_fixed word_unat_eq_iff)
  then show ?thesis using ne by (auto simp: UUIDString_def split: option.splits)
qed

text \<open>
  An organization id in a URL matches exactly the organization the credential
  carries: whatever the driver reads a rendered id back as, the prefixed form of a
  valid id parses to that id under its own prefix, and \<open>OrgMatches\<close> accepts the
  rendered form of one organization for another's credential never.
\<close>

theorem OrgMatches_exact:
  assumes "\<And>b. scan (UUIDString (Some b)) = Some (Some b)"
  shows "ParseId scan pre (FormatId pre (Some b)) = Inr (Some b) \<and>
    (OrgMatches scan (UUIDString u) (FormatId OrgPrefix (Some b)) \<longleftrightarrow> u = Some b)"
proof -
  have "ParseId scan pre (FormatId pre (Some b)) = Inr (Some b)" for pre
    using assms [of b] by (simp add: ParseId_def FormatId_def cut_prefix_def UUIDString_def)
  then show ?thesis by (auto simp: OrgMatches_def)
qed

text \<open>A driver that reads back exactly the rendered forms.\<close>

definition hex_digit :: "char \<Rightarrow> nat" where
  "hex_digit c = length (takeWhile (\<lambda>d. d \<noteq> c) ''0123456789abcdef'')"

definition hex_value :: "string \<Rightarrow> nat" where
  "hex_value s = foldl (\<lambda>n c. n * 16 + hex_digit c) 0 s"

definition scan_rendered :: "string \<Rightarrow> uuid option" where
  "scan_rendered s =
     (let b = of_nat (hex_value (filter (\<lambda>c. c \<noteq> CHR ''-'') s))
      in if UUIDString (Some b) = s then Some (Some b) else None)"

lemma hex_char_cases: "d < 16 \<Longrightarrow> hex_digit (hex_char d) = d \<and> hex_char d \<noteq> CHR ''-''"
proof -
  have "\<forall>d \<in> set [0..<16]. hex_digit (hex_char d) = d \<and> hex_char d \<noteq> CHR ''-''" by code_simp
  then show "d < 16 \<Longrightarrow> ?thesis" by simp
qed

lemma hex_value_fixed: "n < 16 ^ w \<Longrightarrow> hex_value (hex_fixed w n) = n \<and> CHR ''-'' \<notin> set (hex_fixed w n)"
proof (induction w arbitrary: n)
  case (Suc w)
  then show ?case
    using Suc.IH [of "n div 16"] hex_char_cases [of "n mod 16"]
    by (auto simp: hex_value_def less_mult_imp_div_less)
qed (simp add: hex_value_def)

lemma scan_rendered_back: "scan_rendered (UUIDString (Some b)) = Some (Some b)"
proof -
  let ?h = "hex_fixed 32 (unat b)"
  have "unat b < 16 ^ 32" using unsigned_less [of b] by simp
  from hex_value_fixed [OF this] have h: "hex_value ?h = unat b" "\<forall>c \<in> set ?h. c \<noteq> CHR ''-''" by auto
  have "filter (\<lambda>c. c \<noteq> CHR ''-'') (dashed x) = filter (\<lambda>c. c \<noteq> CHR ''-'') x" for x
    using arg_cong [OF uuid_groups [of x], of "filter (\<lambda>c. c \<noteq> CHR ''-'')"]
    unfolding filter_append by (simp add: dashed_def)
  with h(2) have "filter (\<lambda>c. c \<noteq> CHR ''-'') (UUIDString (Some b)) = ?h"
    by (simp add: UUIDString_def filter_id_conv)
  with h(1) show ?thesis by (simp add: scan_rendered_def Let_def)
qed

theorem OrgMatches_exact_witness:
  "ParseId scan_rendered ''key'' (FormatId ''key'' (Some 7)) = Inr (Some 7) \<and>
    (OrgMatches scan_rendered (UUIDString (Some 8)) (FormatId OrgPrefix (Some 7)) \<longleftrightarrow> Some (8 :: 128 word) = Some 7)"
  by (rule OrgMatches_exact) (rule scan_rendered_back)

end
