(* ===== verification/Breaker.thy ===== *)
theory Breaker
  imports BreakerStore PublicId
begin

text \<open>
  \<open>internal/gateway/proxy/breaker.go\<close>: circuit breaking at two levels, a provider and a
  provider credential, with a backoff ladder indexed by the number of times the
  circuit has opened. The state is the store's and the persisted cooldown table.

  Each operation runs at one instant, an argument, and takes the jitter it draws as
  a rational in [0, 1); the backoff arithmetic, which the code performs in 64-bit
  floats, is exact here. The store interface is an argument, as in the code.
\<close>

section \<open>Constants\<close>

definition backoffLadder :: "duration list" where
  "backoffLadder = [seconds 30, minutes 1, minutes 4, minutes 10, minutes 30]"

definition providerFailureThreshold :: int where "providerFailureThreshold = 5"
definition jitterFraction :: rat where "jitterFraction = 1 / 5"
definition keyAuthCooldown :: duration where "keyAuthCooldown = minutes 30"
definition ladderMemory :: duration where "ladderMemory = minutes 10"

section \<open>State\<close>

text \<open>The database handle: absent, or present and answering or not.\<close>

datatype database = NoDatabase | Database bool

record 's Breaker =
  br_store :: "'s Store"
  br_gw :: database
  br_ladder :: "duration list"

definition NewBreaker :: "'s Store \<Rightarrow> database \<Rightarrow> 's Breaker" where
  "NewBreaker store gw = \<lparr>br_store = store, br_gw = gw, br_ladder = backoffLadder\<rparr>"

type_synonym cooldowns = "(string \<times> uuid) \<rightharpoonup> (instant \<times> string)"

record 's circuits =
  cs_store :: 's
  cs_cooldowns :: cooldowns

definition providerKeyScope :: "uuid \<Rightarrow> string" where
  "providerKeyScope u = ''gw:brk:pk:'' @ UUIDString u"

definition providerScope :: "uuid \<Rightarrow> string" where
  "providerScope u = ''gw:brk:p:'' @ UUIDString u"

section \<open>Operations\<close>

text \<open>The state \<open>store.Get\<close> answers when its other results are dropped.\<close>

definition state_of :: "unit + BState option \<Rightarrow> BState" where
  "state_of r = (case r of Inr (Some st) \<Rightarrow> st | _ \<Rightarrow> zero_state)"

definition Available :: "'s Breaker \<Rightarrow> instant \<Rightarrow> string \<Rightarrow> 's circuits \<Rightarrow> bool \<times> 's circuits" where
  "Available b now scope c =
     (let (r, s) = store_Get (br_store b) now scope (cs_store c);
          c = c\<lparr>cs_store := s\<rparr>
      in case r of
           Inl _ \<Rightarrow> (True, c)
         | Inr None \<Rightarrow> (True, c)
         | Inr (Some st) \<Rightarrow>
             if b_Status st = StatusClosed then (True, c)
             else if now > b_Until st then (True, c)
             else (False, c))"

definition ProviderAvailable :: "'s Breaker \<Rightarrow> instant \<Rightarrow> uuid \<Rightarrow> 's circuits \<Rightarrow> bool \<times> 's circuits" where
  "ProviderAvailable b now u c = Available b now (providerScope u) c"

definition KeyAvailable :: "'s Breaker \<Rightarrow> instant \<Rightarrow> uuid \<Rightarrow> 's circuits \<Rightarrow> bool \<times> 's circuits" where
  "KeyAvailable b now u c = Available b now (providerKeyScope u) c"

definition DeleteCooldown :: "'s Breaker \<Rightarrow> string \<Rightarrow> uuid \<Rightarrow> cooldowns \<Rightarrow> cooldowns" where
  "DeleteCooldown b dbScope u rows =
     (if br_gw b = Database True then rows((dbScope, u) := None) else rows)"

definition UpsertCooldown :: "'s Breaker \<Rightarrow> string \<Rightarrow> uuid \<Rightarrow> instant \<Rightarrow> string \<Rightarrow> cooldowns \<Rightarrow> cooldowns" where
  "UpsertCooldown b dbScope u until reason rows =
     (if br_gw b = Database True then rows((dbScope, u) \<mapsto> (until, reason)) else rows)"

definition reset :: "'s Breaker \<Rightarrow> instant \<Rightarrow> string \<Rightarrow> string \<Rightarrow> uuid \<Rightarrow> 's circuits \<Rightarrow> 's circuits" where
  "reset b now scope dbScope u c =
     (let (r, s) = store_Get (br_store b) now scope (cs_store c);
          c = c\<lparr>cs_store := s\<rparr>
      in case r of
           Inl _ \<Rightarrow> c
         | Inr None \<Rightarrow> c
         | Inr (Some st) \<Rightarrow>
             if b_Status st = StatusClosed then c
             else c\<lparr>cs_store := snd (store_Delete (br_store b) scope s),
                    cs_cooldowns := DeleteCooldown b dbScope u (cs_cooldowns c)\<rparr>)"

definition RecordSuccess :: "'s Breaker \<Rightarrow> instant \<Rightarrow> uuid \<Rightarrow> uuid \<Rightarrow> 's circuits \<Rightarrow> 's circuits" where
  "RecordSuccess b now providerID keyID c =
     (let c = reset b now (providerScope providerID) ''provider'' providerID c
      in if uuid_valid keyID then reset b now (providerKeyScope keyID) ''provider_key'' keyID c else c)"

text \<open>The conversion of a float to \<open>time.Duration\<close> truncates towards zero.\<close>

definition truncate_rat :: "rat \<Rightarrow> int" where
  "truncate_rat r = (if r < 0 then \<lceil>r\<rceil> else \<lfloor>r\<rfloor>)"

definition nextBackoff :: "'s Breaker \<Rightarrow> rat \<Rightarrow> int \<Rightarrow> duration" where
  "nextBackoff b jitter opens =
     (let idx = opens;
          idx = (if idx \<ge> int (length (br_ladder b)) then int (length (br_ladder b)) - 1 else idx);
          idx = (if idx < 0 then 0 else idx);
          base = br_ladder b ! nat idx;
          delta = of_int base * jitterFraction;
          offset = (jitter * 2 - 1) * delta
      in truncate_rat (of_int base + offset))"

definition open_circuit :: "'s Breaker \<Rightarrow> instant \<Rightarrow> string \<Rightarrow> string \<Rightarrow> uuid \<Rightarrow> int \<Rightarrow> duration \<Rightarrow> string
    \<Rightarrow> 's circuits \<Rightarrow> 's circuits" where
  "open_circuit b now scope dbScope u opens cooldown reason c =
     (let until = now + cooldown
      in c\<lparr>cs_store := snd (store_Set (br_store b) now scope
             \<lparr>b_Status = StatusOpen, b_Failures = 0, b_Opens = opens + 1, b_Until = until\<rparr>
             (cooldown + ladderMemory) (cs_store c)),
           cs_cooldowns := UpsertCooldown b dbScope u until reason (cs_cooldowns c)\<rparr>)"

definition RecordKeyFailure :: "'s Breaker \<Rightarrow> instant \<Rightarrow> rat \<Rightarrow> uuid \<Rightarrow> duration \<Rightarrow> bool \<Rightarrow> 's circuits \<Rightarrow> 's circuits" where
  "RecordKeyFailure b now jitter keyID hint authFailure c =
     (if \<not> uuid_valid keyID then c
      else (let scope = providerKeyScope keyID;
                (r, s) = store_Get (br_store b) now scope (cs_store c);
                st = state_of r;
                cooldown = (if authFailure then keyAuthCooldown
                            else (let backoff = nextBackoff b jitter (b_Opens st)
                                  in if hint > backoff then hint else backoff))
            in open_circuit b now scope ''provider_key'' keyID (b_Opens st) cooldown
                 ''credential-level failure'' (c\<lparr>cs_store := s\<rparr>)))"

definition RecordProviderFailure :: "'s Breaker \<Rightarrow> instant \<Rightarrow> rat \<Rightarrow> uuid \<Rightarrow> string \<Rightarrow> 's circuits \<Rightarrow> 's circuits" where
  "RecordProviderFailure b now jitter providerID reason c =
     (let scope = providerScope providerID;
          (r, s) = store_Get (br_store b) now scope (cs_store c);
          st = state_of r;
          failures = b_Failures st + 1
      in if failures < providerFailureThreshold \<and> b_Status st \<noteq> StatusOpen
         then c\<lparr>cs_store := snd (store_Set (br_store b) now scope
                  \<lparr>b_Status = StatusClosed, b_Failures = failures, b_Opens = b_Opens st, b_Until = zero_time\<rparr>
                  (hd (br_ladder b)) s)\<rparr>
         else open_circuit b now scope ''provider'' providerID (b_Opens st)
                (nextBackoff b jitter (b_Opens st)) reason (c\<lparr>cs_store := s\<rparr>))"

section \<open>Restoring after a restart\<close>

text \<open>A row of \<open>ListActiveCooldowns\<close>, which selects the rows whose deadline is still ahead.\<close>

record CooldownRow =
  cd_Scope :: string
  cd_RefID :: uuid
  cd_Until :: instant

fun restore_rows :: "'s Breaker \<Rightarrow> instant \<Rightarrow> CooldownRow list \<Rightarrow> 's \<Rightarrow> 's" where
  "restore_rows b now [] s = s"
| "restore_rows b now (r # rs) s =
     (let scope = (if cd_Scope r = ''provider_key'' then providerKeyScope (cd_RefID r)
                   else providerScope (cd_RefID r));
          ttl = cd_Until r - now
      in if ttl \<le> 0 then restore_rows b now rs s
         else restore_rows b now rs (snd (store_Set (br_store b) now scope
                (zero_state\<lparr>b_Status := StatusOpen, b_Until := cd_Until r\<rparr>) ttl s)))"

definition RestoreCooldowns :: "'s Breaker \<Rightarrow> instant \<Rightarrow> CooldownRow list \<Rightarrow> 's circuits \<Rightarrow> 's circuits" where
  "RestoreCooldowns b now rows c =
     (if br_gw b = Database True then c\<lparr>cs_store := restore_rows b now rows (cs_store c)\<rparr> else c)"

section \<open>What the operations do to a scope\<close>

lemma scope_inj [simp]:
  "providerScope u = providerScope v \<longleftrightarrow> u = v"
  "providerKeyScope u = providerKeyScope v \<longleftrightarrow> u = v"
  "providerScope u \<noteq> providerKeyScope v" "providerKeyScope v \<noteq> providerScope u"
  by (simp_all add: providerScope_def providerKeyScope_def)

lemma ladderMemory_pos: "0 < ladderMemory"
  by (simp add: ladderMemory_def minutes_def)

text \<open>The backoff of a rung stays within a fifth of it.\<close>

definition rung :: "'s Breaker \<Rightarrow> int \<Rightarrow> duration" where
  "rung b opens = br_ladder b ! nat (max 0 (min opens (int (length (br_ladder b)) - 1)))"

lemma nextBackoff_bounds:
  assumes "0 \<le> j" and "j < 1" and "0 \<le> rung b opens"
  shows "4 * rung b opens \<le> 5 * nextBackoff b j opens + 4" "5 * nextBackoff b j opens \<le> 6 * rung b opens"
    "0 \<le> nextBackoff b j opens"
proof -
  let ?r = "of_int (rung b opens) :: rat"
  define x where "x = ?r * (4 / 5) + ?r * (j * (2 / 5))"
  have "?r + (j * 2 - 1) * (?r * jitterFraction) = x" by (simp add: x_def jitterFraction_def field_simps)
  then have n: "nextBackoff b j opens = truncate_rat x"
    by (auto simp: nextBackoff_def rung_def Let_def max_def min_def)
  have r: "0 \<le> ?r" using assms(3) by simp
  have p: "0 \<le> ?r * (j * (2 / 5))" using assms(1) r by simp
  have q: "?r * (j * (2 / 5)) \<le> ?r * (2 / 5)" by (rule mult_left_mono [OF _ r]) (use assms(2) in simp)
  have lo: "?r * 4 \<le> x * 5" and hi: "x * 5 \<le> ?r * 6" and pos: "0 \<le> x"
    using p q r unfolding x_def by (simp_all add: field_simps)
  then have t: "nextBackoff b j opens = \<lfloor>x\<rfloor>" by (simp add: n truncate_rat_def)
  have f: "of_int \<lfloor>x\<rfloor> \<le> x" "x < of_int \<lfloor>x\<rfloor> + 1" using floor_correct [of x] by simp_all
  from lo f(2) have "of_int (4 * rung b opens) < (of_int (5 * nextBackoff b j opens + 5) :: rat)" unfolding t by simp
  then show "4 * rung b opens \<le> 5 * nextBackoff b j opens + 4" by (simp only: of_int_less_iff)
  from hi f(1) have "5 * (of_int \<lfloor>x\<rfloor> :: rat) \<le> 6 * ?r" by linarith
  then have "(of_int (5 * nextBackoff b j opens) :: rat) \<le> of_int (6 * rung b opens)" unfolding t by simp
  then show "5 * nextBackoff b j opens \<le> 6 * rung b opens" by (simp only: of_int_le_iff)
  show "0 \<le> nextBackoff b j opens" using pos by (simp add: t)
qed

definition open_state :: "int \<Rightarrow> instant \<Rightarrow> BState" where
  "open_state opens until = \<lparr>b_Status = StatusOpen, b_Failures = 0, b_Opens = opens, b_Until = until\<rparr>"

context breaker_store
begin

lemma available_peek:
  assumes "br_store b = S"
  shows "fst (Available b now scope c) =
    (case peek S now scope (cs_store c) of
       Inr (Some st) \<Rightarrow> b_Status st = StatusClosed \<or> b_Until st < now
     | _ \<Rightarrow> True)"
  using assms by (auto simp: Available_def peek_def Let_def split: prod.split sum.split option.split)

lemma peek_open_circuit:
  assumes "br_store b = S"
  shows "peek S now' key (cs_store (open_circuit b now scope db u opens cd reason c)) =
    (if key = scope
     then Inr (if 0 < cd + ladderMemory \<and> now + (cd + ladderMemory) < now' then None
               else Some (open_state (opens + 1) (now + cd)))
     else peek S now' key (cs_store c))"
  using assms by (simp add: open_circuit_def Let_def get_set get_set_other open_state_def)

text \<open>A circuit just opened refuses until its cooldown is over and lets a probe through after it.\<close>

lemma available_open_circuit:
  assumes "br_store b = S"
  shows "fst (Available b now' scope (open_circuit b now scope db u opens cd reason c)) \<longleftrightarrow> now + cd < now'"
  using ladderMemory_pos
  by (auto simp: available_peek [OF assms] peek_open_circuit [OF assms] open_state_def status_defs)

text \<open>How a failure is recorded, read through the store's answers.\<close>

lemma peek_provider_failure:
  assumes "br_store b = S" and "st = state_of (peek S now (providerScope u) (cs_store c))" and "now \<le> now'"
  shows "peek S now' key (cs_store (RecordProviderFailure b now j u reason c)) =
    (if key = providerScope u
     then (if b_Failures st + 1 < providerFailureThreshold \<and> b_Status st \<noteq> StatusOpen
           then Inr (if 0 < hd (br_ladder b) \<and> now + hd (br_ladder b) < now' then None
                     else Some \<lparr>b_Status = StatusClosed, b_Failures = b_Failures st + 1,
                                b_Opens = b_Opens st, b_Until = zero_time\<rparr>)
           else (let cd = nextBackoff b j (b_Opens st)
                 in Inr (if 0 < cd + ladderMemory \<and> now + (cd + ladderMemory) < now' then None
                         else Some (open_state (b_Opens st + 1) (now + cd)))))
     else peek S now' key (cs_store c))"
proof -
  obtain r s where g: "store_Get S now (providerScope u) (cs_store c) = (r, s)" by (metis surj_pair)
  then have st: "st = state_of r" using assms(2) by (simp add: peek_def)
  have stable: "peek S now' key s = peek S now' key (cs_store c)" for key
    using get_stable [OF assms(3), of key "providerScope u" "cs_store c"] g by simp
  show ?thesis
    by (cases "b_Failures st + 1 < providerFailureThreshold \<and> b_Status st \<noteq> StatusOpen")
      (auto simp: RecordProviderFailure_def assms(1) g st get_set get_set_other stable
        peek_open_circuit [OF assms(1)] Let_def)
qed

lemma peek_reset:
  assumes "br_store b = S" and "now \<le> now'"
  shows "peek S now' key (cs_store (reset b now scope db u c)) =
    (if key = scope \<and> (\<exists>st. peek S now scope (cs_store c) = Inr (Some st) \<and> b_Status st \<noteq> StatusClosed)
     then Inr None else peek S now' key (cs_store c))"
proof -
  obtain r s where g: "store_Get S now scope (cs_store c) = (r, s)" by (metis surj_pair)
  then have "peek S now' key s = peek S now' key (cs_store c)" for key
    using get_stable [OF assms(2), of key scope "cs_store c"] by simp
  with g show ?thesis
    by (auto simp: reset_def assms(1) peek_def Let_def get_delete [unfolded peek_def] get_delete_other [unfolded peek_def]
        split: sum.split option.split)
qed

end

section \<open>Counting up to the threshold\<close>

fun record_failures :: "'s Breaker \<Rightarrow> uuid \<Rightarrow> (instant \<times> rat) list \<Rightarrow> 's circuits \<Rightarrow> 's circuits" where
  "record_failures b u [] c = c"
| "record_failures b u ((t, j) # ts) c =
     record_failures b u ts (RecordProviderFailure b t j u ''upstream failure'' c)"

text \<open>Each failure comes within the counting window, one rung of the ladder, of the one before.\<close>

fun within_window :: "'s Breaker \<Rightarrow> instant \<Rightarrow> (instant \<times> rat) list \<Rightarrow> bool" where
  "within_window b t [] \<longleftrightarrow> True"
| "within_window b t ((t', j) # ts) \<longleftrightarrow>
     t \<le> t' \<and> t' \<le> t + hd (br_ladder b) \<and> within_window b t' ts"

fun last_time :: "instant \<Rightarrow> (instant \<times> rat) list \<Rightarrow> instant" where
  "last_time t [] = t"
| "last_time t ((t', j) # ts) = last_time t' ts"

text \<open>For a whole window from \<open>t\<close> the scope reads as closed, never opened, with \<open>f\<close> failures counted.\<close>

definition counted :: "'s Breaker \<Rightarrow> uuid \<Rightarrow> instant \<Rightarrow> int \<Rightarrow> 's circuits \<Rightarrow> bool" where
  "counted b u t f c \<longleftrightarrow>
     (\<forall>now. t \<le> now \<and> now \<le> t + hd (br_ladder b) \<longrightarrow>
        (let r = peek (br_store b) now (providerScope u) (cs_store c); st = state_of r
         in b_Status st \<noteq> StatusOpen \<and> (r = Inr (Some st) \<longrightarrow> b_Status st = StatusClosed) \<and>
            b_Failures st = f \<and> b_Opens st = 0))"

context breaker_store
begin

lemma counted_step:
  assumes "br_store b = S" and "counted b u t f c" and "t \<le> t'" and "t' \<le> t + hd (br_ladder b)"
    and "f + 1 < providerFailureThreshold"
  shows "counted b u t' (f + 1) (RecordProviderFailure b t' j u reason c)"
proof -
  define st where "st = state_of (peek S t' (providerScope u) (cs_store c))"
  have "b_Status st \<noteq> StatusOpen" "b_Failures st = f" "b_Opens st = 0"
    using assms(1-4) by (simp_all add: counted_def st_def Let_def)
  then show ?thesis
    using assms(5) peek_provider_failure [OF assms(1) st_def]
    by (auto simp: counted_def assms(1) Let_def state_of_def status_defs)
qed

lemma counted_run:
  assumes "br_store b = S"
  shows "counted b u t f c \<Longrightarrow> within_window b t ts \<Longrightarrow> f + int (length ts) < providerFailureThreshold \<Longrightarrow>
    counted b u (last_time t ts) (f + int (length ts)) (record_failures b u ts c)"
proof (induction ts arbitrary: t f c)
  case (Cons p ts)
  obtain t' j where p: "p = (t', j)" by (cases p)
  from Cons.prems p have "counted b u t' (f + 1) (RecordProviderFailure b t' j u ''upstream failure'' c)"
    by (intro counted_step [OF assms]) auto
  from Cons.IH [OF this] Cons.prems p show ?case by (simp add: ac_simps)
qed simp

lemma counted_available:
  assumes "br_store b = S" and "counted b u t f c" and "t \<le> now" and "now \<le> t + hd (br_ladder b)"
  shows "fst (ProviderAvailable b now u c)"
  using assms unfolding ProviderAvailable_def available_peek [OF assms(1)]
  by (auto simp: counted_def Let_def state_of_def split: sum.split option.split)

lemma counted_opens:
  assumes "br_store b = S" and "counted b u t f c" and "t \<le> t'" and "t' \<le> t + hd (br_ladder b)"
    and "providerFailureThreshold \<le> f + 1" and "t' \<le> now"
  shows "fst (ProviderAvailable b now u (RecordProviderFailure b t' j u reason c)) \<longleftrightarrow>
    t' + nextBackoff b j 0 < now"
proof -
  define st where "st = state_of (peek S t' (providerScope u) (cs_store c))"
  have "b_Status st \<noteq> StatusOpen" "b_Failures st = f" "b_Opens st = 0"
    using assms(1-4) by (simp_all add: counted_def st_def Let_def)
  then show ?thesis
    using assms(5) ladderMemory_pos peek_provider_failure [OF assms(1) st_def assms(6)]
    by (auto simp: ProviderAvailable_def available_peek [OF assms(1)] open_state_def Let_def status_defs)
qed

end

lemma fresh_counted: "counted (NewBreaker memory_store gw) u t 0 \<lparr>cs_store = NewMemory, cs_cooldowns = rows\<rparr>"
  by (simp add: counted_def NewBreaker_def peek_memory NewMemory_def state_of_def zero_state_def status_defs Let_def)

lemma NewBreaker_fields [simp]:
  "br_store (NewBreaker S gw) = S" "br_gw (NewBreaker S gw) = gw" "br_ladder (NewBreaker S gw) = backoffLadder"
  by (simp_all add: NewBreaker_def)

definition fresh_circuits :: "Memory circuits" where
  "fresh_circuits = \<lparr>cs_store = NewMemory, cs_cooldowns = Map.empty\<rparr>"

lemmas fresh_run = memory.counted_run [OF _ fresh_counted [of gw u t Map.empty, folded fresh_circuits_def]] for gw u t

lemma within_window_append:
  "within_window b t (ts @ [(t', j)]) \<longleftrightarrow>
     within_window b t ts \<and> last_time t ts \<le> t' \<and> t' \<le> last_time t ts + hd (br_ladder b)"
  by (induction b t ts rule: within_window.induct) auto

lemma record_failures_append:
  "record_failures b u (ts @ [(t, j)]) c = RecordProviderFailure b t j u ''upstream failure'' (record_failures b u ts c)"
  by (induction b u ts c rule: record_failures.induct) auto

text \<open>
  C31. One blip does not take a provider offline and five in a row do. From a fresh
  breaker, after four failures each within the counting window of the one before the
  provider is still available; the fifth opens its circuit, which then refuses every
  request until the first rung of the ladder, with its jitter, has passed and lets
  the next one through as a probe.
\<close>

theorem provider_opens_at_threshold:
  assumes "within_window (NewBreaker memory_store gw) t0 (ts @ [(t, j)])" and "length ts = 4" and "t \<le> now"
  shows "fst (ProviderAvailable (NewBreaker memory_store gw) t u
      (record_failures (NewBreaker memory_store gw) u ts fresh_circuits)) \<and>
    (fst (ProviderAvailable (NewBreaker memory_store gw) now u
      (record_failures (NewBreaker memory_store gw) u (ts @ [(t, j)]) fresh_circuits)) \<longleftrightarrow>
     t + nextBackoff (NewBreaker memory_store gw) j 0 < now)"
proof -
  let ?b = "NewBreaker memory_store gw"
  have w: "within_window ?b t0 ts" "last_time t0 ts \<le> t" "t \<le> last_time t0 ts + hd (br_ladder ?b)"
    using assms(1) by (simp_all add: within_window_append)
  have c: "counted ?b u (last_time t0 ts) 4 (record_failures ?b u ts fresh_circuits)"
    using fresh_run [where gw = gw and u = u, OF _ w(1)] assms(2) by (simp add: providerFailureThreshold_def)
  have s: "br_store ?b = memory_store" by simp
  show ?thesis
    unfolding record_failures_append
    using memory.counted_available [OF s c w(2,3)]
      memory.counted_opens [OF s c w(2,3) _ assms(3), of j "''upstream failure''"]
    by (simp add: providerFailureThreshold_def)
qed

definition five_failures :: "(instant \<times> rat) list" where
  "five_failures = [(seconds 1, 0), (seconds 2, 0), (seconds 3, 0), (seconds 4, 0)]"

theorem provider_opens_at_threshold_witness:
  "fst (ProviderAvailable (NewBreaker memory_store NoDatabase) (seconds 5) (Some 9)
      (record_failures (NewBreaker memory_store NoDatabase) (Some 9) five_failures fresh_circuits)) \<and>
    (fst (ProviderAvailable (NewBreaker memory_store NoDatabase) (seconds 20) (Some 9)
      (record_failures (NewBreaker memory_store NoDatabase) (Some 9) (five_failures @ [(seconds 5, 1 / 2)]) fresh_circuits)) \<longleftrightarrow>
     seconds 5 + nextBackoff (NewBreaker memory_store NoDatabase) (1 / 2) 0 < seconds 20)"
  by (rule provider_opens_at_threshold [of _ "seconds 1"])
    (simp_all add: five_failures_def seconds_def backoffLadder_def)

text \<open>
  A success does not restart the count. The threshold is documented as
  consecutive failures, but recording a success on a circuit that is still closed
  leaves the count in place: four failures, then a success, then one more failure
  inside the window open the circuit exactly as five in a row do.
\<close>

theorem success_does_not_restart_count:
  assumes "within_window (NewBreaker memory_store gw) t0 (ts @ [(t, j)])" and "length ts = 4"
    and "0 \<le> j" and "j < 1"
  shows "\<not> fst (ProviderAvailable (NewBreaker memory_store gw) t u
      (RecordProviderFailure (NewBreaker memory_store gw) t j u ''upstream failure''
        (RecordSuccess (NewBreaker memory_store gw) t u None
          (record_failures (NewBreaker memory_store gw) u ts fresh_circuits))))"
proof -
  let ?b = "NewBreaker memory_store gw"
  let ?c = "record_failures ?b u ts fresh_circuits"
  have w: "within_window ?b t0 ts" "last_time t0 ts \<le> t" "t \<le> last_time t0 ts + hd (br_ladder ?b)"
    using assms(1) by (simp_all add: within_window_append)
  have c: "counted ?b u (last_time t0 ts) 4 ?c"
    using fresh_run [where gw = gw and u = u, OF _ w(1)] assms(2) by (simp add: providerFailureThreshold_def)
  have s: "br_store ?b = memory_store" by simp
  define st where "st = state_of (peek memory_store t (providerScope u) (cs_store (RecordSuccess ?b t u None ?c)))"
  have "peek memory_store t (providerScope u) (cs_store (RecordSuccess ?b t u None ?c)) =
      peek memory_store t (providerScope u) (cs_store ?c)"
    using c w(2,3) memory.peek_reset [OF s order_refl [of t]]
    by (auto simp: RecordSuccess_def counted_def Let_def state_of_def)
  then have st: "b_Status st \<noteq> StatusOpen" "b_Failures st = 4" "b_Opens st = 0"
    using c w(2,3) by (simp_all add: st_def counted_def Let_def)
  have "0 \<le> nextBackoff ?b j 0"
    using nextBackoff_bounds(3) [OF assms(3,4), of ?b 0] by (simp add: rung_def backoffLadder_def seconds_def)
  then show ?thesis
    using st ladderMemory_pos memory.peek_provider_failure [OF s st_def order_refl]
    by (auto simp: ProviderAvailable_def memory.available_peek [OF s] open_state_def providerFailureThreshold_def
        Let_def status_defs)
qed

theorem success_does_not_restart_count_witness:
  "\<not> fst (ProviderAvailable (NewBreaker memory_store NoDatabase) (seconds 5) (Some 9)
      (RecordProviderFailure (NewBreaker memory_store NoDatabase) (seconds 5) 0 (Some 9) ''upstream failure''
        (RecordSuccess (NewBreaker memory_store NoDatabase) (seconds 5) (Some 9) None
          (record_failures (NewBreaker memory_store NoDatabase) (Some 9) five_failures fresh_circuits))))"
  by (rule success_does_not_restart_count [of _ "seconds 1"])
    (simp_all add: five_failures_def seconds_def backoffLadder_def)

section \<open>Climbing the ladder\<close>

text \<open>
  Every reopening climbs one rung. When a provider's circuit is remembered as
  open, the next recorded failure opens it again at once, one opening later, for
  between four fifths and six fifths of the rung its openings so far name; the last
  rung is the ceiling. The provider is refused for exactly that long, every other
  scope answers as before, and with a database the deadline is persisted.
\<close>

theorem reopening_climbs_ladder:
  assumes "peek memory_store now (providerScope u) (cs_store c) = Inr (Some st)" and "b_Status st = StatusOpen"
    and "0 \<le> j" and "j < 1" and "now \<le> now'"
  shows "let b = NewBreaker memory_store gw; cd = nextBackoff b j (b_Opens st);
             c' = RecordProviderFailure b now j u reason c
    in peek memory_store now (providerScope u) (cs_store c') = Inr (Some (open_state (b_Opens st + 1) (now + cd))) \<and>
       4 * rung b (b_Opens st) \<le> 5 * cd + 4 \<and> 5 * cd \<le> 6 * rung b (b_Opens st) \<and>
       rung b (b_Opens st) \<in> set backoffLadder \<and>
       (fst (ProviderAvailable b now' u c') \<longleftrightarrow> now + cd < now') \<and>
       (\<forall>v. v \<noteq> u \<longrightarrow> fst (ProviderAvailable b now' v c') = fst (ProviderAvailable b now' v c)) \<and>
       (\<forall>k. fst (KeyAvailable b now' k c') = fst (KeyAvailable b now' k c)) \<and>
       (gw = Database True \<longrightarrow> cs_cooldowns c' (''provider'', u) = Some (now + cd, reason))"
proof -
  let ?b = "NewBreaker memory_store gw"
  let ?cd = "nextBackoff ?b j (b_Opens st)"
  let ?c' = "RecordProviderFailure ?b now j u reason c"
  have s: "br_store ?b = memory_store" by simp
  have st: "st = state_of (peek memory_store now (providerScope u) (cs_store c))"
    by (simp add: assms(1) state_of_def)
  have r: "rung ?b (b_Opens st) \<in> set backoffLadder"
    unfolding rung_def NewBreaker_fields by (rule nth_mem) (simp add: backoffLadder_def)
  then have "0 \<le> rung ?b (b_Opens st)" by (auto simp: backoffLadder_def seconds_def minutes_def)
  note bounds = nextBackoff_bounds [OF assms(3,4) this]
  note peek = memory.peek_provider_failure [OF s st, of now' _ j reason, OF assms(5)]
    memory.peek_provider_failure [OF s st order_refl, of _ j reason]
  have rows: "gw = Database True \<Longrightarrow> cs_cooldowns ?c' (''provider'', u) = Some (now + ?cd, reason)"
    using assms(1,2)
    by (auto simp: RecordProviderFailure_def peek_def state_of_def open_circuit_def UpsertCooldown_def Let_def
        split: prod.split)
  show ?thesis
    unfolding Let_def ProviderAvailable_def KeyAvailable_def memory.available_peek [OF s] peek
    using assms(2) r bounds rows ladderMemory_pos by (auto simp: Let_def open_state_def status_defs)
qed

definition once_open :: "Memory circuits" where
  "once_open = \<lparr>cs_store = [providerScope (Some 9) \<mapsto> \<lparr>ms_st = open_state 1 (seconds 40), ms_expiresAt = None\<rparr>],
     cs_cooldowns = Map.empty\<rparr>"

theorem reopening_climbs_ladder_witness:
  "let b = NewBreaker memory_store (Database True); cd = nextBackoff b (1 / 2) (b_Opens (open_state 1 (seconds 40)));
             c' = RecordProviderFailure b (seconds 50) (1 / 2) (Some 9) ''boom'' once_open
    in peek memory_store (seconds 50) (providerScope (Some 9)) (cs_store c') =
         Inr (Some (open_state (b_Opens (open_state 1 (seconds 40)) + 1) (seconds 50 + cd))) \<and>
       4 * rung b (b_Opens (open_state 1 (seconds 40))) \<le> 5 * cd + 4 \<and>
       5 * cd \<le> 6 * rung b (b_Opens (open_state 1 (seconds 40))) \<and>
       rung b (b_Opens (open_state 1 (seconds 40))) \<in> set backoffLadder \<and>
       (fst (ProviderAvailable b (seconds 60) (Some 9) c') \<longleftrightarrow> seconds 50 + cd < seconds 60) \<and>
       (\<forall>v. v \<noteq> Some 9 \<longrightarrow> fst (ProviderAvailable b (seconds 60) v c') = fst (ProviderAvailable b (seconds 60) v once_open)) \<and>
       (\<forall>k. fst (KeyAvailable b (seconds 60) k c') = fst (KeyAvailable b (seconds 60) k once_open)) \<and>
       (Database True = Database True \<longrightarrow> cs_cooldowns c' (''provider'', Some 9) = Some (seconds 50 + cd, ''boom''))"
  by (rule reopening_climbs_ladder)
    (simp_all add: peek_memory once_open_def mem_expired_def open_state_def seconds_def)

section \<open>Recovery and restart\<close>

text \<open>
  A success closes both circuits it names, in memory and in the persisted table:
  whatever state the provider and the credential were in, both are available from
  then on, and where a circuit was open its persisted deadline is gone too, so a
  restart does not bring the cooldown back.
\<close>

theorem success_closes_circuits:
  assumes "uuid_valid k" and "now \<le> now'"
    and "peek memory_store now (providerScope u) (cs_store c) = Inr (Some st)" and "b_Status st = StatusOpen"
    and "peek memory_store now (providerKeyScope k) (cs_store c) = Inr (Some st')" and "b_Status st' = StatusOpen"
  shows "let b = NewBreaker memory_store (Database True); c' = RecordSuccess b now u k c
    in fst (ProviderAvailable b now' u c') \<and> fst (KeyAvailable b now' k c') \<and>
       cs_cooldowns c' (''provider'', u) = None \<and> cs_cooldowns c' (''provider_key'', k) = None"
proof -
  let ?b = "NewBreaker memory_store (Database True)"
  let ?c1 = "reset ?b now (providerScope u) ''provider'' u c"
  have s: "br_store ?b = memory_store" by simp
  note pr = memory.peek_reset [OF s]
  have k: "peek memory_store now (providerKeyScope k) (cs_store ?c1) = Inr (Some st')"
    using assms(5) by (simp add: pr)
  have ne: "b_Status st \<noteq> StatusClosed" "b_Status st' \<noteq> StatusClosed" using assms(4,6) by (simp_all add: status_defs)
  have rows: "cs_cooldowns (reset ?b now scope db v c) = (cs_cooldowns c)((db, v) := None)"
    if "peek memory_store now scope (cs_store c) = Inr (Some st)" "b_Status st \<noteq> StatusClosed" for scope db v c st
    using that by (auto simp: reset_def peek_def DeleteCooldown_def Let_def split: prod.split)
  show ?thesis
    using assms(1) ne k
    by (auto simp: Let_def RecordSuccess_def ProviderAvailable_def KeyAvailable_def memory.available_peek [OF s]
        pr [OF assms(2)] assms(3) rows [OF k] rows [OF assms(3)])
qed

definition both_open :: "Memory circuits" where
  "both_open = \<lparr>cs_store =
       [providerScope (Some 9) \<mapsto> \<lparr>ms_st = open_state 1 (seconds 90), ms_expiresAt = None\<rparr>,
        providerKeyScope (Some 4) \<mapsto> \<lparr>ms_st = open_state 2 (seconds 95), ms_expiresAt = None\<rparr>],
     cs_cooldowns = [(''provider'', Some 9) \<mapsto> (seconds 90, ''boom'')]\<rparr>"

theorem success_closes_circuits_witness:
  "let b = NewBreaker memory_store (Database True); c' = RecordSuccess b (seconds 50) (Some 9) (Some 4) both_open
    in fst (ProviderAvailable b (seconds 60) (Some 9) c') \<and> fst (KeyAvailable b (seconds 60) (Some 4) c') \<and>
       cs_cooldowns c' (''provider'', Some 9) = None \<and> cs_cooldowns c' (''provider_key'', Some 4) = None"
  by (rule success_closes_circuits [where st = "open_state 1 (seconds 90)" and st' = "open_state 2 (seconds 95)"])
    (simp_all add: peek_memory both_open_def mem_expired_def open_state_def seconds_def)

definition row_scope :: "CooldownRow \<Rightarrow> string" where
  "row_scope r = (if cd_Scope r = ''provider_key'' then providerKeyScope (cd_RefID r) else providerScope (cd_RefID r))"

context breaker_store
begin

text \<open>Rows of one scope carry one deadline, the table's key being the scope; restoring keeps it.\<close>

lemma peek_restore_rows:
  assumes "br_store b = S" and "\<forall>r' \<in> set rows. row_scope r' = row_scope r \<longrightarrow> cd_Until r' = cd_Until r"
    and "now < cd_Until r" and "now' \<le> cd_Until r"
    and "r \<in> set rows \<or> peek S now' (row_scope r) s = Inr (Some (zero_state\<lparr>b_Status := StatusOpen, b_Until := cd_Until r\<rparr>))"
  shows "peek S now' (row_scope r) (restore_rows b now rows s) =
    Inr (Some (zero_state\<lparr>b_Status := StatusOpen, b_Until := cd_Until r\<rparr>))"
  using assms(2,5)
proof (induction rows arbitrary: s)
  case (Cons r' rows)
  have step: "restore_rows b now (r' # rows) s =
      (if cd_Until r' \<le> now then restore_rows b now rows s
       else restore_rows b now rows (snd (store_Set S now (row_scope r')
              (zero_state\<lparr>b_Status := StatusOpen, b_Until := cd_Until r'\<rparr>) (cd_Until r' - now) s)))"
    by (simp add: row_scope_def assms(1) Let_def)
  show ?case
  proof (cases "cd_Until r' \<le> now")
    case True
    with Cons.prems assms(3) have "row_scope r' \<noteq> row_scope r" "r' \<noteq> r" by auto
    with True Cons show ?thesis unfolding step by auto
  next
    case False
    have "peek S now' (row_scope r) (snd (store_Set S now (row_scope r')
        (zero_state\<lparr>b_Status := StatusOpen, b_Until := cd_Until r'\<rparr>) (cd_Until r' - now) s)) =
      (if row_scope r' = row_scope r then Inr (Some (zero_state\<lparr>b_Status := StatusOpen, b_Until := cd_Until r\<rparr>))
       else peek S now' (row_scope r) s)"
      using Cons.prems(1) assms(4) by (auto simp: get_set get_set_other)
    with False Cons show ?thesis unfolding step by auto
  qed
qed simp

end

text \<open>
  A cooldown survives a restart. When the persisted rows are read back into an
  empty store, every provider and every credential with a row whose deadline is
  still ahead is refused until that deadline and available after it, whatever the
  order and number of the other rows.
\<close>

theorem cooldown_survives_restart:
  assumes "r \<in> set rows" and "\<forall>r' \<in> set rows. row_scope r' = row_scope r \<longrightarrow> cd_Until r' = cd_Until r"
    and "now < cd_Until r" and "now \<le> now'" and "now' \<le> cd_Until r"
  shows "\<not> fst (Available (NewBreaker memory_store (Database True)) now' (row_scope r)
    (RestoreCooldowns (NewBreaker memory_store (Database True)) now rows \<lparr>cs_store = NewMemory, cs_cooldowns = table\<rparr>))"
proof -
  let ?b = "NewBreaker memory_store (Database True)"
  have s: "br_store ?b = memory_store" by simp
  have "peek memory_store now' (row_scope r) (restore_rows ?b now rows NewMemory) =
      Inr (Some (zero_state\<lparr>b_Status := StatusOpen, b_Until := cd_Until r\<rparr>))"
    using memory.peek_restore_rows [OF s assms(2,3,5)] assms(1) by blast
  with assms(5) show ?thesis
    by (simp add: memory.available_peek [OF s] RestoreCooldowns_def status_defs)
qed

definition restart_rows :: "CooldownRow list" where
  "restart_rows = [\<lparr>cd_Scope = ''provider'', cd_RefID = Some 1, cd_Until = 50\<rparr>,
     \<lparr>cd_Scope = ''provider_key'', cd_RefID = Some 1, cd_Until = 90\<rparr>]"

theorem cooldown_survives_restart_witness:
  "\<not> fst (Available (NewBreaker memory_store (Database True)) 80 (row_scope (restart_rows ! 1))
    (RestoreCooldowns (NewBreaker memory_store (Database True)) 60 restart_rows
      \<lparr>cs_store = NewMemory, cs_cooldowns = Map.empty\<rparr>))"
  by (rule cooldown_survives_restart) (simp_all add: restart_rows_def row_scope_def)

section \<open>Credentials\<close>

text \<open>
  A credential failure cools the credential for at least as long as the upstream
  asked: a rejected credential for thirty minutes, any other failure for the larger
  of the upstream's hint and the rung its history names. No provider's availability
  changes, and a failure without a credential changes nothing.
\<close>

theorem key_failure_cools_key_only:
  assumes "now \<le> now'"
    and "st = state_of (peek memory_store now (providerKeyScope k) (cs_store c))"
    and "cd = (if authFailure then minutes 30 else max hint (nextBackoff (NewBreaker memory_store gw) j (b_Opens st)))"
  shows "let b = NewBreaker memory_store gw; c' = RecordKeyFailure b now j k hint authFailure c
    in (if k = None then c' = c else (fst (KeyAvailable b now' k c') \<longleftrightarrow> now + cd < now')) \<and>
       (\<forall>u. fst (ProviderAvailable b now' u c') = fst (ProviderAvailable b now' u c))"
proof (cases k)
  case None
  then show ?thesis by (simp add: RecordKeyFailure_def Let_def)
next
  case (Some w)
  then have k: "k \<noteq> None" by simp
  let ?b = "NewBreaker memory_store gw"
  have s: "br_store ?b = memory_store" by simp
  obtain r m where g: "store_Get memory_store now (providerKeyScope k) (cs_store c) = (r, m)" by (metis surj_pair)
  have st: "st = state_of r" using assms(2) g by (simp add: peek_def)
  have f: "RecordKeyFailure ?b now j k hint authFailure c =
      open_circuit ?b now (providerKeyScope k) ''provider_key'' k (b_Opens st) cd ''credential-level failure'' (c\<lparr>cs_store := m\<rparr>)"
    using k by (simp add: RecordKeyFailure_def g st assms(3) keyAuthCooldown_def Let_def max_def)
  have "peek memory_store now' (providerScope u) m = peek memory_store now' (providerScope u) (cs_store c)" for u
    using memory.get_stable [OF assms(1), of "providerScope u" "providerKeyScope k" "cs_store c"] g by simp
  then show ?thesis
    unfolding Let_def f KeyAvailable_def memory.available_open_circuit [OF s]
    using k by (auto simp: ProviderAvailable_def memory.available_peek [OF s] memory.peek_open_circuit [OF s])
qed

theorem key_failure_cools_key_only_witness:
  "let b = NewBreaker memory_store NoDatabase; c' = RecordKeyFailure b 10 0 (Some 4) (seconds 5) True fresh_circuits
    in (if Some (4 :: 128 word) = None then c' = fresh_circuits
        else (fst (KeyAvailable b 20 (Some 4) c') \<longleftrightarrow> 10 + minutes 30 < 20)) \<and>
       (\<forall>u. fst (ProviderAvailable b 20 u c') = fst (ProviderAvailable b 20 u fresh_circuits))"
  by (rule key_failure_cools_key_only [where st = zero_state])
    (simp_all add: peek_memory fresh_circuits_def NewMemory_def state_of_def)

end
