(* ===== verification/Router.thy ===== *)
theory Router
  imports Prelude
begin

text \<open>
  \<open>internal/gateway/proxy/router.go\<close>: the order candidates are tried in, the global retry
  budget and the per-provider concurrency limit.

  The random source is a list of draws: \<open>rnd.IntN(total)\<close> takes the next one modulo
  \<open>total\<close>, so every sequence the generator can produce is some list. The budget's
  ratio test, which the code evaluates in 64-bit floats, is the exact one.
\<close>

section \<open>Routes\<close>

record ProviderCapacity =
  RateLimitRPM :: int
  RateLimitTPM :: int
  MaxConcurrency :: int

text \<open>The fields of \<open>catalog.Route\<close> that admission, routing, failover and billing read.\<close>

record Route =
  r_ID :: uuid
  r_ProviderID :: uuid
  r_ProviderSlug :: string
  r_ProviderVendor :: string
  r_BaseURL :: string
  r_Priority :: int
  r_Weight :: int
  r_ProcurementMultiplierBps :: int
  r_ContextWindow :: int
  r_MaxOutputTokens :: int
  r_MaxImages :: int
  r_IgnoresMaxOutputTokens :: bool
  r_Capacity :: ProviderCapacity

section \<open>Candidate order\<close>

definition IntN :: "nat list \<Rightarrow> int \<Rightarrow> int \<times> nat list" where
  "IntN draws n = (case draws of [] \<Rightarrow> (0, []) | d # rest \<Rightarrow> (int d mod n, rest))"

definition weight_of :: "Route \<Rightarrow> int" where
  "weight_of r = (if r_Weight r < 1 then 1 else r_Weight r)"

definition total_weight :: "Route list \<Rightarrow> int" where
  "total_weight pool = foldl (\<lambda>total r. total + weight_of r) 0 pool"

text \<open>The scan for the picked candidate; \<open>idx\<close> stays zero when the loop runs out.\<close>

fun pick_index :: "Route list \<Rightarrow> int \<Rightarrow> nat \<Rightarrow> nat" where
  "pick_index [] pick i = 0"
| "pick_index (r # rs) pick i =
     (if pick < weight_of r then i else pick_index rs (pick - weight_of r) (Suc i))"

lemma pick_index_bound: "pick_index pool pick i < i + length pool \<or> pick_index pool pick i = 0"
  by (induction pool pick i rule: pick_index.induct) auto

lemma pick_index_length: "pool \<noteq> [] \<Longrightarrow> pick_index pool pick 0 < length pool"
  using pick_index_bound [of pool pick 0] by auto

lemma shorter_pool:
  "pool \<noteq> [] \<Longrightarrow> length (take (pick_index pool p 0) pool @ drop (Suc (pick_index pool p 0)) pool) < length pool"
  using pick_index_length [of pool p] by simp

function shuffle_loop :: "nat list \<Rightarrow> Route list \<Rightarrow> Route list \<times> nat list" where
  "shuffle_loop draws pool =
     (if pool = [] then ([], draws)
      else (let (pick, draws) = IntN draws (total_weight pool);
                idx = pick_index pool pick 0;
                (rest, draws) = shuffle_loop draws (take idx pool @ drop (Suc idx) pool)
            in (pool ! idx # rest, draws)))"
  by pat_completeness auto
termination
  by (relation "measure (length \<circ> snd)") (auto simp del: length_append length_take length_drop simp: shorter_pool)

declare shuffle_loop.simps [simp del]

definition weightedShuffle :: "nat list \<Rightarrow> Route list \<Rightarrow> Route list \<times> nat list" where
  "weightedShuffle draws grp = (if length grp \<le> 1 then (grp, draws) else shuffle_loop draws grp)"

text \<open>The grouping loop of \<open>Order\<close>: the run of the first candidate's priority, then the rest.\<close>

function order_groups :: "nat list \<Rightarrow> Route list \<Rightarrow> Route list \<times> nat list" where
  "order_groups draws [] = ([], draws)"
| "order_groups draws (r # rs) =
     (let grp = takeWhile (\<lambda>x. r_Priority x = r_Priority r) (r # rs);
          later = dropWhile (\<lambda>x. r_Priority x = r_Priority r) (r # rs);
          (front, draws) = weightedShuffle draws grp;
          (back, draws) = order_groups draws later
      in (front @ back, draws))"
  by pat_completeness auto
termination
  by (relation "measure (length \<circ> snd)") (auto simp: length_dropWhile_le less_Suc_eq_le)

definition Order :: "nat list \<Rightarrow> Route list \<Rightarrow> Route list \<times> nat list" where
  "Order draws candidates =
     (if length candidates \<le> 1 then (candidates, draws) else order_groups draws candidates)"

definition maxRouteAttempts :: nat where "maxRouteAttempts = 3"

section \<open>The retry budget\<close>

record RetryBudget =
  rb_requests :: int
  rb_retries :: int

definition minSamples :: int where "minSamples = 100"

definition NewRetryBudget :: RetryBudget where
  "NewRetryBudget = \<lparr>rb_requests = 0, rb_retries = 0\<rparr>"

definition StartRequest :: "RetryBudget \<Rightarrow> RetryBudget" where
  "StartRequest b = b\<lparr>rb_requests := rb_requests b + 1\<rparr>"

definition AllowRetry :: "RetryBudget \<Rightarrow> bool \<times> RetryBudget" where
  "AllowRetry b =
     (if rb_requests b < minSamples then (True, b)
      else if of_int (rb_retries b + 1) > of_int (rb_requests b) * (1 / 10 :: rat) then (False, b)
      else (True, b\<lparr>rb_retries := rb_retries b + 1\<rparr>))"

section \<open>The concurrency limit\<close>

text \<open>\<open>None\<close> is the nil semaphore, which admits everything; \<open>sem_used\<close> is how many slots are taken.\<close>

record Semaphore =
  sem_used :: nat
  sem_capacity :: nat

definition NewSemaphore :: "int \<Rightarrow> Semaphore option" where
  "NewSemaphore n = (if n \<le> 0 then None else Some \<lparr>sem_used = 0, sem_capacity = nat n\<rparr>)"

definition Capacity :: "Semaphore option \<Rightarrow> int" where
  "Capacity s = (case s of None \<Rightarrow> 0 | Some s \<Rightarrow> int (sem_capacity s))"

definition TryAcquire :: "Semaphore option \<Rightarrow> bool \<times> Semaphore option" where
  "TryAcquire s =
     (case s of
        None \<Rightarrow> (True, None)
      | Some s \<Rightarrow> if sem_used s < sem_capacity s then (True, Some (s\<lparr>sem_used := sem_used s + 1\<rparr>)) else (False, Some s))"

definition Release :: "Semaphore option \<Rightarrow> Semaphore option" where
  "Release s =
     (case s of None \<Rightarrow> None | Some s \<Rightarrow> Some (if sem_used s > 0 then s\<lparr>sem_used := sem_used s - 1\<rparr> else s))"

section \<open>The order is a permutation that respects priority\<close>

lemma mset_shuffle_loop: "mset (fst (shuffle_loop draws pool)) = mset pool"
proof (induction draws pool rule: shuffle_loop.induct)
  case (1 draws pool)
  show ?case
  proof (cases "pool = []")
    case True
    then show ?thesis by (simp add: shuffle_loop.simps)
  next
    case False
    obtain p ds where p: "IntN draws (total_weight pool) = (p, ds)" by (metis surj_pair)
    let ?i = "pick_index pool p 0"
    have "mset (fst (shuffle_loop ds (take ?i pool @ drop (Suc ?i) pool))) = mset (take ?i pool @ drop (Suc ?i) pool)"
      using 1 [OF False] p by simp
    with False p show ?thesis
      using mset_take_nth_drop [OF pick_index_length [OF False, of p]]
      by (subst shuffle_loop.simps) (auto simp: Let_def split: prod.split)
  qed
qed

lemma mset_weightedShuffle: "mset (fst (weightedShuffle draws grp)) = mset grp"
  by (simp add: weightedShuffle_def mset_shuffle_loop)

lemma mset_order_groups: "mset (fst (order_groups draws cs)) = mset cs"
proof (induction draws cs rule: order_groups.induct)
  case (2 draws r rs)
  let ?P = "\<lambda>x. r_Priority x = r_Priority r"
  obtain front and ds where f: "weightedShuffle draws (takeWhile ?P (r # rs)) = (front, ds)" by (metis surj_pair)
  obtain later and ds' where b: "order_groups ds (dropWhile ?P (r # rs)) = (later, ds')" by (metis surj_pair)
  have "mset front = mset (takeWhile ?P (r # rs))" using mset_weightedShuffle [of draws] f by (metis fst_conv)
  moreover have "mset later = mset (dropWhile ?P (r # rs))"
    using 2 [OF refl refl f [symmetric] refl] b by (simp del: dropWhile.simps)
  ultimately have "mset (front @ later) = mset (takeWhile ?P (r # rs) @ dropWhile ?P (r # rs))" by (simp only: mset_append)
  then show ?case using f b by (simp only: order_groups.simps Let_def case_prod_conv fst_conv takeWhile_dropWhile_id)
qed simp

lemma sorted_order_groups:
  "sorted (map r_Priority cs) \<Longrightarrow> sorted (map r_Priority (fst (order_groups draws cs)))"
proof (induction draws cs rule: order_groups.induct)
  case (2 draws r rs)
  let ?P = "\<lambda>x. r_Priority x = r_Priority r"
  obtain front and ds where f: "weightedShuffle draws (takeWhile ?P (r # rs)) = (front, ds)" by (metis surj_pair)
  obtain later and ds' where b: "order_groups ds (dropWhile ?P (r # rs)) = (later, ds')" by (metis surj_pair)
  have "set front = set (takeWhile ?P (r # rs))"
    using mset_weightedShuffle [of draws] f by (metis fst_conv mset_eq_setD)
  then have fp: "\<forall>x \<in> set front. r_Priority x = r_Priority r" using set_takeWhileD by metis
  then have sf: "sorted (map r_Priority front)" by (rule sorted_map_const)
  have "set later = set (dropWhile ?P (r # rs))"
    using mset_order_groups [of ds] b by (metis fst_conv mset_eq_setD)
  then have lp: "\<forall>x \<in> set later. r_Priority r \<le> r_Priority x"
    using 2(2) by (auto dest!: set_dropWhileD split: if_splits)
  have "sorted (map r_Priority (dropWhile ?P (r # rs)))"
    by (rule sorted_map_dropWhile [OF 2(2)])
  then have "sorted (map r_Priority later)" using 2(1) [OF refl refl f [symmetric] refl] b by simp
  with sf fp lp have "sorted (map r_Priority (front @ later))" by (simp add: sorted_append)
  then show ?case using f b by (simp only: order_groups.simps Let_def case_prod_conv fst_conv)
qed simp

text \<open>
  Ordering loses no candidate and never jumps a priority: whatever is drawn, the
  result holds exactly the given candidates, and when they arrive in ascending
  priority order they leave in it, so a standby is tried only after every candidate
  of a lower number.
\<close>

theorem Order_permutes_within_priority:
  assumes "sorted (map r_Priority candidates)"
  shows "mset (fst (Order draws candidates)) = mset candidates \<and>
    sorted (map r_Priority (fst (Order draws candidates)))"
  using assms by (simp add: Order_def mset_order_groups sorted_order_groups)

definition sample_route :: Route where
  "sample_route = \<lparr>r_ID = Some 1, r_ProviderID = Some 1, r_ProviderSlug = ''a'', r_ProviderVendor = ''v'', r_BaseURL = ''b'',
     r_Priority = 1, r_Weight = 3, r_ProcurementMultiplierBps = 10000, r_ContextWindow = 0, r_MaxOutputTokens = 0,
     r_MaxImages = 0, r_IgnoresMaxOutputTokens = False,
     r_Capacity = \<lparr>RateLimitRPM = 0, RateLimitTPM = 0, MaxConcurrency = 2\<rparr>\<rparr>"

definition sample_routes :: "Route list" where
  "sample_routes = [sample_route, sample_route\<lparr>r_ID := Some 2, r_ProviderID := Some 2, r_Weight := 0\<rparr>,
     sample_route\<lparr>r_ID := Some 3, r_ProviderID := Some 3, r_Priority := 2\<rparr>]"

theorem Order_permutes_within_priority_witness:
  "mset (fst (Order [3, 0] sample_routes)) = mset sample_routes \<and>
    sorted (map r_Priority (fst (Order [3, 0] sample_routes)))"
  by (rule Order_permutes_within_priority) (simp add: sample_routes_def sample_route_def)

section \<open>Weights are exact shares\<close>

lemma weight_pos: "0 < weight_of r"
  by (simp add: weight_of_def)

lemma total_weight_sum: "total_weight pool = sum_list (map weight_of pool)"
proof -
  have "foldl (\<lambda>total r. total + weight_of r) a pool = a + sum_list (map weight_of pool)" for a
    by (induction pool arbitrary: a) (simp_all add: add.assoc)
  then show ?thesis by (simp add: total_weight_def)
qed

lemma prefix_weight_nonneg: "0 \<le> sum_list (map weight_of rs)"
  by (rule sum_list_nonneg) (auto intro: less_imp_le weight_pos)

lemma pick_index_ge: "0 \<le> p \<Longrightarrow> p < sum_list (map weight_of pool) \<Longrightarrow> k \<le> pick_index pool p k"
  by (induction pool p k rule: pick_index.induct) (auto dest: Suc_leD)

lemma pick_index_interval:
  assumes "0 \<le> p" and "p < sum_list (map weight_of pool)" and "i < length pool"
  shows "pick_index pool p k = k + i \<longleftrightarrow>
    sum_list (map weight_of (take i pool)) \<le> p \<and> p < sum_list (map weight_of (take i pool)) + weight_of (pool ! i)"
  using assms
proof (induction pool p k arbitrary: i rule: pick_index.induct)
  case (2 r rs p k)
  show ?case
  proof (cases "p < weight_of r")
    case True
    then show ?thesis
      using 2(2,4) prefix_weight_nonneg [of "take (i - 1) rs"] by (cases i) auto
  next
    case False
    have ge: "Suc k \<le> pick_index rs (p - weight_of r) (Suc k)"
      using 2(2,3) False by (intro pick_index_ge) auto
    show ?thesis
    proof (cases i)
      case 0
      with False ge show ?thesis by auto
    next
      case (Suc n)
      with 2(1) [of n] 2(2-4) False show ?thesis by auto
    qed
  qed
qed simp

text \<open>
  A weight is an exact share of the draws. Of the equally likely values a draw
  over a pool can take, exactly as many select a candidate as its weight says, a
  weight below one counting as one, so no candidate is ever starved and none gets
  more than its share.
\<close>

theorem draw_selects_by_weight:
  assumes "i < length pool"
  shows "card {p. 0 \<le> p \<and> p < total_weight pool \<and> pick_index pool p 0 = i} = nat (max 1 (r_Weight (pool ! i)))"
proof -
  let ?a = "sum_list (map weight_of (take i pool))"
  have "sum_list (map weight_of pool) =
      ?a + weight_of (pool ! i) + sum_list (map weight_of (drop (Suc i) pool))"
    by (rule sum_list_split_nth [OF assms])
  then have le: "?a + weight_of (pool ! i) \<le> total_weight pool"
    using prefix_weight_nonneg [of "drop (Suc i) pool"] by (simp add: total_weight_sum)
  have "0 \<le> p \<and> p < total_weight pool \<and> pick_index pool p 0 = i \<longleftrightarrow> ?a \<le> p \<and> p < ?a + weight_of (pool ! i)" for p
  proof (cases "0 \<le> p \<and> p < total_weight pool")
    case True
    then show ?thesis using pick_index_interval [of p pool i 0] assms by (simp add: total_weight_sum)
  next
    case False
    then show ?thesis using le prefix_weight_nonneg [of "take i pool"] by linarith
  qed
  then have "{p. 0 \<le> p \<and> p < total_weight pool \<and> pick_index pool p 0 = i} = {?a ..< ?a + weight_of (pool ! i)}"
    by (simp add: atLeastLessThan_def atLeast_def lessThan_def Int_def)
  then show ?thesis by (simp add: weight_of_def max_def)
qed

theorem draw_selects_by_weight_witness:
  "card {p. 0 \<le> p \<and> p < total_weight sample_routes \<and> pick_index sample_routes p 0 = 1} =
     nat (max 1 (r_Weight (sample_routes ! 1)))"
  by (rule draw_selects_by_weight) (simp add: sample_routes_def)

section \<open>The retry budget bounds the retry rate\<close>

datatype budget_op = Start | Retry

text \<open>Run a sequence of budget operations, counting the retries granted once the sample is large enough.\<close>

fun budget_run :: "budget_op list \<Rightarrow> RetryBudget \<Rightarrow> int \<Rightarrow> RetryBudget \<times> int" where
  "budget_run [] b granted = (b, granted)"
| "budget_run (Start # ops) b granted = budget_run ops (StartRequest b) granted"
| "budget_run (Retry # ops) b granted =
     (let (ok, b') = AllowRetry b
      in budget_run ops b' (if ok \<and> minSamples \<le> rb_requests b then granted + 1 else granted))"

lemma AllowRetry_ratio: "10 * rb_retries b \<le> rb_requests b \<Longrightarrow> 10 * rb_retries (snd (AllowRetry b)) \<le> rb_requests (snd (AllowRetry b))"
proof -
  assume *: "10 * rb_retries b \<le> rb_requests b"
  have "10 * (rb_retries b + 1) \<le> rb_requests b"
    if "\<not> of_int (rb_retries b + 1) > of_int (rb_requests b) * (1 / 10 :: rat)"
  proof -
    from that have "(of_int (10 * (rb_retries b + 1)) :: rat) \<le> of_int (rb_requests b)" by (simp add: not_less)
    then show ?thesis by (simp only: of_int_le_iff)
  qed
  with * show ?thesis by (auto simp: AllowRetry_def)
qed

text \<open>
  Retries never exceed a tenth of the requests: after any sequence of requests
  and retry decisions, the retries granted since the sample became large enough to
  judge are exactly those counted, and at most one for every ten requests.
\<close>

theorem retry_budget_bounds_retries:
  "let (b, granted) = budget_run ops NewRetryBudget 0
   in rb_retries b = granted \<and> 10 * granted \<le> rb_requests b"
proof -
  have "rb_retries b' = g' \<and> 10 * g' \<le> rb_requests b'"
    if "budget_run ops b g = (b', g')" and "rb_retries b = g" and "10 * g \<le> rb_requests b" for b g b' g'
    using that
  proof (induction ops arbitrary: b g)
    case (Cons op ops)
    show ?case
    proof (cases op)
      case Start
      with Cons show ?thesis by (simp add: StartRequest_def)
    next
      case Retry
      have "rb_retries (snd (AllowRetry b)) =
          (if fst (AllowRetry b) \<and> minSamples \<le> rb_requests b then g + 1 else g)"
        using Cons.prems(2) by (auto simp: AllowRetry_def)
      with Retry Cons.prems Cons.IH [of "snd (AllowRetry b)"] AllowRetry_ratio [of b] show ?thesis
        by (simp add: Let_def case_prod_beta split: if_splits)
    qed
  qed auto
  from this [of NewRetryBudget 0] show ?thesis by (auto simp: NewRetryBudget_def split: prod.split)
qed

section \<open>The concurrency limit holds\<close>

text \<open>A step is one attempt to enter, or one request inside leaving; the count is of requests inside.\<close>

inductive sem_step :: "Semaphore option \<times> nat \<Rightarrow> Semaphore option \<times> nat \<Rightarrow> bool" where
  enter: "TryAcquire s = (True, s') \<Longrightarrow> sem_step (s, n) (s', Suc n)"
| refuse: "TryAcquire s = (False, s') \<Longrightarrow> sem_step (s, n) (s', n)"
| leave: "sem_step (s, Suc n) (Release s, n)"

lemma sem_step_invariant:
  assumes "sem_step\<^sup>*\<^sup>* (NewSemaphore cap, 0) (s, n)" and "0 < cap"
  shows "\<exists>t. s = Some t \<and> sem_used t = n \<and> n \<le> nat cap \<and> sem_capacity t = nat cap"
  using assms(1)
proof (induction rule: rtranclp_induct2)
  case refl
  then show ?case using assms(2) by (simp add: NewSemaphore_def)
next
  case (step s n s' n')
  then show ?case
    by (auto elim!: sem_step.cases simp: TryAcquire_def Release_def split: if_splits)
qed

text \<open>
  A provider's concurrency limit is never exceeded and never leaks: in every
  interleaving of requests entering and leaving, the requests inside are at most the
  limit, and an attempt is refused exactly when that many are inside.
\<close>

theorem semaphore_limits_concurrency:
  assumes "sem_step\<^sup>*\<^sup>* (NewSemaphore cap, 0) (s, n)" and "0 < cap"
  shows "int n \<le> cap \<and> (fst (TryAcquire s) \<longleftrightarrow> int n < cap)"
  using sem_step_invariant [OF assms] assms(2) by (auto simp: TryAcquire_def split: if_splits)

theorem semaphore_limits_concurrency_witness:
  "int 1 \<le> (1 :: int) \<and> (fst (TryAcquire (Some \<lparr>sem_used = 1, sem_capacity = 1\<rparr>)) \<longleftrightarrow> int 1 < (1 :: int))"
proof (rule semaphore_limits_concurrency)
  have "sem_step (NewSemaphore 1, 0) (Some \<lparr>sem_used = 1, sem_capacity = 1\<rparr>, Suc 0)"
    by (rule sem_step.enter) (simp add: NewSemaphore_def TryAcquire_def)
  then show "sem_step\<^sup>*\<^sup>* (NewSemaphore 1, 0) (Some \<lparr>sem_used = 1, sem_capacity = 1\<rparr>, 1)" by simp
qed simp

end
