(* ===== verification/Money.thy ===== *)
theory Money
  imports Prelude
begin

text \<open>
  \<open>foundation/money\<close>: amounts are 64-bit counts of nano units; the wire form is a
  decimal string. This theory models the two printers, the parser and the two
  literal validators, and proves that what the wire printer writes the parser
  reads back.
\<close>

section \<open>Decimal digits\<close>

definition digit_char :: "nat \<Rightarrow> char" where
  "digit_char d = char_of (48 + d)"

definition digit_val :: "char \<Rightarrow> nat" where
  "digit_val c = of_char c - 48"

definition is_digit :: "char \<Rightarrow> bool" where
  "is_digit c \<longleftrightarrow> 48 \<le> (of_char c :: nat) \<and> (of_char c :: nat) \<le> 57"

text \<open>The decimal representation that \<open>%d\<close> and \<open>big.Int.String\<close> print.\<close>

fun dec :: "nat \<Rightarrow> string" where
  "dec n = (if n < 10 then [digit_char n] else dec (n div 10) @ [digit_char (n mod 10)])"

declare dec.simps [simp del]

definition NanoPerUnit :: int where
  "NanoPerUnit = 1000000000"

section \<open>The printers\<close>

definition pad2 :: "string \<Rightarrow> string" where
  "pad2 s = replicate (2 - length s) (CHR ''0'') @ s"

definition FormatNano :: "int \<Rightarrow> string" where
  "FormatNano nano =
     (let neg = nano < 0;
          absv = (if neg then (- (nano + 1)) mod 2 ^ 64 + 1 else nano);
          major = absv div NanoPerUnit;
          cents = (absv mod NanoPerUnit) div (NanoPerUnit div 100);
          sign = (if neg then ''-'' else [])
      in sign @ dec (nat major) @ ''.'' @ pad2 (dec (nat cents)))"

definition trim_right_zeros :: "string \<Rightarrow> string" where
  "trim_right_zeros s = rev (dropWhile (\<lambda>c. c = CHR ''0'') (rev s))"

definition FormatScaled :: "int \<Rightarrow> nat \<Rightarrow> string" where
  "FormatScaled n scale =
     (if n = 0 then ''0''
      else
        let negative = n < 0;
            digits0 = dec (nat \<bar>n\<bar>);
            digits = (if length digits0 \<le> scale
                      then replicate (scale - length digits0 + 1) (CHR ''0'') @ digits0
                      else digits0);
            cut = length digits - scale;
            whole = take cut digits;
            fraction = trim_right_zeros (drop cut digits);
            out = (if fraction \<noteq> [] then whole @ ''.'' @ fraction else whole)
        in if negative then ''-'' @ out else out)"

definition FormatNanoExact :: "int \<Rightarrow> string" where
  "FormatNanoExact nano = FormatScaled nano 9"

section \<open>The validators\<close>

definition allDigits :: "string \<Rightarrow> bool" where
  "allDigits s \<longleftrightarrow> (\<forall>c \<in> set s. is_digit c)"

text \<open>\<open>strings.Cut(s, ".")\<close>: the text before the first dot, the text after it, whether there was one.\<close>

definition cut_dot :: "string \<Rightarrow> string \<times> string \<times> bool" where
  "cut_dot s =
     (let whole = takeWhile (\<lambda>c. c \<noteq> CHR ''.'') s;
          rest = dropWhile (\<lambda>c. c \<noteq> CHR ''.'') s
      in (whole, drop 1 rest, rest \<noteq> []))"

text \<open>The optional fraction group of both regular expressions: a dot and one or more digits.\<close>

definition optional_fraction :: "string \<Rightarrow> bool" where
  "optional_fraction rest \<longleftrightarrow>
     rest = [] \<or> (hd rest = CHR ''.'' \<and> tl rest \<noteq> [] \<and> allDigits (tl rest))"

definition IsSignedDecimal :: "string \<Rightarrow> bool" where
  "IsSignedDecimal s =
     (let body = (if s \<noteq> [] \<and> hd s = CHR ''-'' then tl s else s);
          whole = takeWhile is_digit body
      in whole \<noteq> [] \<and> optional_fraction (dropWhile is_digit body))"

definition plainDecimalRE :: "string \<Rightarrow> bool" where
  "plainDecimalRE s =
     (let whole = takeWhile is_digit s
      in whole \<noteq> [] \<and> (hd whole = CHR ''0'' \<longrightarrow> tl whole = []) \<and>
         optional_fraction (dropWhile is_digit s))"

definition IsPlainDecimal :: "string \<Rightarrow> int \<Rightarrow> bool" where
  "IsPlainDecimal s places =
     (if \<not> plainDecimalRE s then False
      else if places \<le> 0 then True
      else (let dot = takeWhile (\<lambda>c. c \<noteq> CHR ''.'') s
            in dot = s \<or> int (length s) - int (length dot) - 1 \<le> places))"

section \<open>The parser\<close>

datatype money_error = NotDecimal string | Overflows string

text \<open>The loop over the whole part, with its overflow check before each step.\<close>

fun parse_whole :: "string \<Rightarrow> string \<Rightarrow> int \<Rightarrow> money_error + int" where
  "parse_whole raw [] n = Inr n"
| "parse_whole raw (c # cs) n =
     (let d = int (digit_val c)
      in if n > (2 ^ 63 - 1 - d) div 10 then Inl (Overflows raw)
         else parse_whole raw cs (n * 10 + d))"

text \<open>The loop over the fraction: the scale shrinks by ten at each digit.\<close>

fun parse_fraction :: "string \<Rightarrow> int \<Rightarrow> int \<Rightarrow> int" where
  "parse_fraction [] scale fr = fr"
| "parse_fraction (c # cs) scale fr =
     (let scale' = scale div 10 in parse_fraction cs scale' (fr + int (digit_val c) * scale'))"

definition ParseDecimalNano :: "string \<Rightarrow> money_error + int" where
  "ParseDecimalNano raw =
     (let negative = (raw \<noteq> [] \<and> hd raw = CHR ''-'');
          s = (if negative then tl raw else raw);
          (whole, fraction, hasDot) = cut_dot s
      in if whole = [] \<or> \<not> allDigits whole then Inl (NotDecimal raw)
         else if hasDot \<and> (fraction = [] \<or> length fraction > 9 \<or> \<not> allDigits fraction)
         then Inl (NotDecimal raw)
         else bind_result (parse_whole raw whole 0) (\<lambda>n.
           if n > (2 ^ 63 - 1) div NanoPerUnit then Inl (Overflows raw)
           else
             let n1 = n * NanoPerUnit
             in bind_result
                  (if hasDot
                   then (let fr = parse_fraction fraction NanoPerUnit 0
                         in if n1 > (2 ^ 63 - 1) - fr then Inl (Overflows raw) else Inr (n1 + fr))
                   else Inr n1)
                  (\<lambda>n2. Inr (if negative then - n2 else n2))))"

section \<open>The value of a digit string\<close>

definition val :: "string \<Rightarrow> nat" where
  "val s = foldl (\<lambda>n c. n * 10 + digit_val c) 0 s"

lemma foldl_val: "foldl (\<lambda>n c. n * 10 + digit_val c) a s = a * 10 ^ length s + val s"
proof (induction s arbitrary: a)
  case Nil
  then show ?case by (simp add: val_def)
next
  case (Cons c s)
  have "val (c # s) = digit_val c * 10 ^ length s + val s"
    using Cons.IH [of "digit_val c"] by (simp add: val_def)
  with Cons.IH [of "a * 10 + digit_val c"] show ?case by (simp add: algebra_simps)
qed

lemma val_Nil [simp]: "val [] = 0"
  by (simp add: val_def)

lemma val_Cons: "val (c # s) = digit_val c * 10 ^ length s + val s"
  using foldl_val [of "digit_val c" s] by (simp add: val_def)

lemma val_append: "val (s @ t) = val s * 10 ^ length t + val t"
  using foldl_val [of "val s" t] by (simp add: val_def)

lemma digit_char_facts [simp]:
  assumes "d < 10"
  shows "digit_val (digit_char d) = d" "is_digit (digit_char d)"
    "digit_char d = CHR ''0'' \<longleftrightarrow> d = 0" "digit_char d \<noteq> CHR ''.''" "digit_char d \<noteq> CHR ''-''"
proof -
  have *: "of_char (digit_char d) = 48 + d" using assms by (simp add: digit_char_def)
  then show "digit_val (digit_char d) = d" by (simp add: digit_val_def)
  from * show "is_digit (digit_char d)" using assms by (simp add: is_digit_def)
  have "digit_char d = c \<longleftrightarrow> 48 + d = of_char c" for c
    using * by (metis char_of_char)
  then show "digit_char d = CHR ''0'' \<longleftrightarrow> d = 0" "digit_char d \<noteq> CHR ''.''" "digit_char d \<noteq> CHR ''-''"
    by simp_all
qed

lemma zero_digit [simp]: "digit_val (CHR ''0'') = 0" "is_digit (CHR ''0'')"
  by (simp_all add: digit_val_def is_digit_def)

lemma is_digit_simps [simp]: "\<not> is_digit (CHR ''.'')" "\<not> is_digit (CHR ''-'')"
  by (simp_all add: is_digit_def)

lemma val_replicate_zero [simp]: "val (replicate k (CHR ''0'')) = 0"
  by (induction k) (simp_all add: val_Cons)

lemma val_zeros_append [simp]: "val (replicate k (CHR ''0'') @ s) = val s"
  by (induction k) (simp_all add: val_Cons)

lemma digit_val_le: "is_digit c \<Longrightarrow> digit_val c \<le> 9"
  by (auto simp: is_digit_def digit_val_def)

lemma val_less_power: "allDigits s \<Longrightarrow> val s < 10 ^ length s"
proof (induction s)
  case Nil
  then show ?case by simp
next
  case (Cons c s)
  then have "val s < 10 ^ length s" and "digit_val c \<le> 9"
    by (auto simp: allDigits_def intro: digit_val_le)
  then have "digit_val c * 10 ^ length s + val s < 9 * 10 ^ length s + 10 ^ length s"
    by (intro add_le_less_mono) simp_all
  then show ?case by (simp add: val_Cons)
qed

lemma dec_facts: "val (dec n) = n \<and> allDigits (dec n) \<and> dec n \<noteq> []"
proof (induction n rule: dec.induct)
  case (1 n)
  show ?case
  proof (cases "n < 10")
    case True
    then show ?thesis by (subst (1 2 3) dec.simps) (simp add: val_Cons allDigits_def)
  next
    case False
    with "1.IH" have "val (dec (n div 10)) = n div 10" "allDigits (dec (n div 10))" by auto
    with False show ?thesis
      by (subst (1 2 3) dec.simps) (simp add: val_append val_Cons allDigits_def)
  qed
qed

lemma val_dec [simp]: "val (dec n) = n"
  and allDigits_dec [simp]: "allDigits (dec n)"
  and dec_nonempty [simp]: "dec n \<noteq> []"
  using dec_facts by auto

lemma allDigits_zeros [simp]: "allDigits (replicate k (CHR ''0''))"
  by (simp add: allDigits_def)

lemma allDigits_append [simp]: "allDigits (s @ t) \<longleftrightarrow> allDigits s \<and> allDigits t"
  by (auto simp: allDigits_def)

lemma allDigits_take_drop: "allDigits s \<Longrightarrow> allDigits (take k s) \<and> allDigits (drop k s)"
  by (auto simp: allDigits_def dest: in_set_takeD in_set_dropD)


section \<open>What the two loops of the parser compute\<close>

lemma parse_whole_small:
  assumes "allDigits s" and "0 \<le> n" and "n * 10 ^ length s + int (val s) \<le> 2 ^ 63 - 1"
  shows "parse_whole raw s n = Inr (n * 10 ^ length s + int (val s))"
  using assms
proof (induction s arbitrary: n)
  case Nil
  then show ?case by simp
next
  case (Cons c s)
  define d where "d = int (digit_val c)"
  have d: "0 \<le> d" by (simp add: d_def)
  have eq: "n * 10 ^ length (c # s) + int (val (c # s)) = (n * 10 + d) * 10 ^ length s + int (val s)"
    by (simp add: val_Cons d_def algebra_simps)
  define x where "x = n * 10 + d"
  have "x * 1 \<le> x * 10 ^ length s"
    using Cons.prems(2) d by (intro mult_left_mono) (simp_all add: x_def)
  moreover have "x * 10 ^ length s + int (val s) \<le> 2 ^ 63 - 1"
    using Cons.prems(3) unfolding eq x_def .
  ultimately have le: "n * 10 + d \<le> 2 ^ 63 - 1"
    using of_nat_0_le_iff [of "val s", where 'a = int] unfolding x_def by simp
  then have "n * 10 \<le> 2 ^ 63 - 1 - d" by linarith
  then have "\<not> n > (2 ^ 63 - 1 - d) div 10"
    by linarith
  moreover have "parse_whole raw s (n * 10 + d) = Inr ((n * 10 + d) * 10 ^ length s + int (val s))"
    using Cons.prems eq d by (intro Cons.IH) (auto simp: allDigits_def)
  ultimately show ?case
    using eq by (simp add: Let_def d_def)
qed

lemma parse_whole_result:
  "parse_whole raw s n = Inl (Overflows raw) \<or>
   parse_whole raw s n = Inr (n * 10 ^ length s + int (val s))"
proof (induction s arbitrary: n)
  case Nil
  then show ?case by simp
next
  case (Cons c s)
  have "(n * 10 + int (digit_val c)) * 10 ^ length s + int (val s) =
      n * 10 ^ length (c # s) + int (val (c # s))"
    by (simp add: val_Cons algebra_simps)
  with Cons.IH [of "n * 10 + int (digit_val c)"] show ?case by (auto simp: Let_def)
qed

lemma parse_fraction_scaled:
  assumes "length s \<le> k"
  shows "parse_fraction s (10 ^ k) a = a + int (val (s @ replicate (k - length s) (CHR ''0'')))"
  using assms
proof (induction s arbitrary: k a)
  case Nil
  then show ?case by simp
next
  case (Cons c s)
  then obtain k' where k: "k = Suc k'" and le: "length s \<le> k'" by (cases k) auto
  have "val ((c # s) @ replicate (k - length (c # s)) (CHR ''0'')) =
      digit_val c * 10 ^ k' + val (s @ replicate (k' - length s) (CHR ''0''))"
    using le by (simp add: k val_Cons)
  with Cons.IH [OF le] k show ?case by (simp add: Let_def)
qed

lemma trim_right_zeros_append:
  obtains k where "s = trim_right_zeros s @ replicate k (CHR ''0'')"
proof
  let ?z = "takeWhile (\<lambda>c. c = CHR ''0'') (rev s)"
  have z: "?z = replicate (length ?z) (CHR ''0'')"
    by (metis (full_types) replicate_eqI set_takeWhileD)
  have "rev s = ?z @ dropWhile (\<lambda>c. c = CHR ''0'') (rev s)" by simp
  then have "s = trim_right_zeros s @ rev ?z"
    unfolding trim_right_zeros_def by (metis rev_append rev_rev_ident)
  then show "s = trim_right_zeros s @ replicate (length ?z) (CHR ''0'')"
    by (metis z rev_replicate)
qed

lemma cut_dot_digits:
  assumes "allDigits w"
  shows "cut_dot w = (w, [], False)" and "cut_dot (w @ CHR ''.'' # f) = (w, f, True)"
proof -
  have nd: "\<forall>c \<in> set w. c \<noteq> CHR ''.''" using assms by (auto simp: allDigits_def)
  then have tw: "takeWhile (\<lambda>c. c \<noteq> CHR ''.'') w = w" and dw: "dropWhile (\<lambda>c. c \<noteq> CHR ''.'') w = []"
    by (auto simp: takeWhile_eq_all_conv)
  show "cut_dot w = (w, [], False)" unfolding cut_dot_def Let_def tw dw by simp
  from nd show "cut_dot (w @ CHR ''.'' # f) = (w, f, True)"
    by (simp add: cut_dot_def takeWhile_append2 dropWhile_append2)
qed

section \<open>Printing and parsing\<close>

text \<open>The unsigned body the wire printer writes for a positive magnitude.\<close>

definition scaled_body :: "nat \<Rightarrow> string" where
  "scaled_body m =
     (let digits0 = dec m;
          digits = (if length digits0 \<le> 9
                    then replicate (9 - length digits0 + 1) (CHR ''0'') @ digits0 else digits0);
          cut = length digits - 9;
          fraction = trim_right_zeros (drop cut digits)
      in if fraction \<noteq> [] then take cut digits @ ''.'' @ fraction else take cut digits)"

lemma FormatNanoExact_body:
  "n \<noteq> 0 \<Longrightarrow> FormatNanoExact n = (if n < 0 then ''-'' else []) @ scaled_body (nat \<bar>n\<bar>)"
  by (simp add: FormatNanoExact_def FormatScaled_def scaled_body_def Let_def)

lemma scaled_body_parts:
  obtains w f where "scaled_body m = w @ (if f \<noteq> [] then ''.'' @ f else [])"
    and "w \<noteq> []" and "allDigits w" and "allDigits f" and "length f \<le> 9"
    and "val w * 10 ^ 9 + val (f @ replicate (9 - length f) (CHR ''0'')) = m"
proof -
  define ds where "ds = (if length (dec m) \<le> 9
    then replicate (9 - length (dec m) + 1) (CHR ''0'') @ dec m else dec m)"
  define w where "w = take (length ds - 9) ds"
  define f where "f = trim_right_zeros (drop (length ds - 9) ds)"
  have ds: "allDigits ds" "val ds = m" "9 < length ds"
    by (simp_all add: ds_def del: replicate.simps)
  have len: "length (drop (length ds - 9) ds) = 9" using ds(3) by simp
  obtain k where k: "drop (length ds - 9) ds = f @ replicate k (CHR ''0'')"
    using trim_right_zeros_append [of "drop (length ds - 9) ds"] unfolding f_def by metis
  with len have lf: "length f \<le> 9" "k = 9 - length f" by auto
  have "ds = w @ drop (length ds - 9) ds" by (simp add: w_def)
  then have "val ds = val w * 10 ^ 9 + val (f @ replicate (9 - length f) (CHR ''0''))"
    using val_append [of w "drop (length ds - 9) ds"] len k lf(2) by simp
  moreover have "allDigits w" "allDigits f"
    using allDigits_take_drop [OF ds(1), of "length ds - 9"] k by (auto simp: w_def)
  moreover have "w \<noteq> []" using ds(3) by (auto simp: w_def)
  moreover have "scaled_body m = w @ (if f \<noteq> [] then ''.'' @ f else [])"
    by (simp add: scaled_body_def ds_def [symmetric] w_def f_def Let_def)
  ultimately show thesis using ds(2) lf(1) by (intro that [of w f]) simp_all
qed

text \<open>What the parser does with an unsigned body of digits, with or without a fraction.\<close>

lemma ParseDecimalNano_parts:
  assumes w: "w \<noteq> []" "allDigits w" and f: "allDigits f" "length f \<le> 9"
    and m: "m = int (val w) * 10 ^ 9 + int (val (f @ replicate (9 - length f) (CHR ''0'')))"
  shows "ParseDecimalNano ((if neg then ''-'' else []) @ w @ (if f \<noteq> [] then ''.'' @ f else [])) =
    (if m \<le> 2 ^ 63 - 1 then Inr (if neg then - m else m)
     else Inl (Overflows ((if neg then ''-'' else []) @ w @ (if f \<noteq> [] then ''.'' @ f else []))))"
    (is "ParseDecimalNano ?raw = _")
proof -
  define fv where "fv = int (val (f @ replicate (9 - length f) (CHR ''0'')))"
  have fv: "0 \<le> fv" "fv < 10 ^ 9"
  proof -
    have "val (f @ replicate (9 - length f) (CHR ''0'')) < 10 ^ 9"
      using val_less_power [of "f @ replicate (9 - length f) (CHR ''0'')"] f by simp
    then show "fv < 10 ^ 9" by (simp add: fv_def)
  qed (simp add: fv_def)
  have hd: "hd w \<noteq> CHR ''-''" using w by (cases w) (auto simp: allDigits_def)
  have neg: "(?raw \<noteq> [] \<and> hd ?raw = CHR ''-'') = neg" using w hd by auto
  have body: "(if neg then tl ?raw else ?raw) = w @ (if f \<noteq> [] then ''.'' @ f else [])" by simp
  have cd: "cut_dot (w @ (if f \<noteq> [] then ''.'' @ f else [])) = (w, f, f \<noteq> [])"
    using cut_dot_digits [OF w(2)] by simp
  have pf: "f \<noteq> [] \<Longrightarrow> parse_fraction f NanoPerUnit 0 = fv"
    using parse_fraction_scaled [OF f(2), of 0] by (simp add: NanoPerUnit_def fv_def)
  have f0: "f = [] \<Longrightarrow> fv = 0" by (simp add: fv_def)
  have step: "ParseDecimalNano ?raw = bind_result (parse_whole ?raw w 0) (\<lambda>n.
      if n > (2 ^ 63 - 1) div NanoPerUnit then Inl (Overflows ?raw)
      else if n * NanoPerUnit > (2 ^ 63 - 1) - fv then Inl (Overflows ?raw)
      else Inr (if neg then - (n * NanoPerUnit + fv) else n * NanoPerUnit + fv))"
    (is "_ = bind_result _ ?k")
  proof -
    have g1: "(w = [] \<or> \<not> allDigits w) = False" using w by simp
    have g2: "(f \<noteq> [] \<and> (f = [] \<or> length f > 9 \<or> \<not> allDigits f)) = False" using f by simp
    have big: "n > (2 ^ 63 - 1) div NanoPerUnit \<longleftrightarrow> n * NanoPerUnit > 2 ^ 63 - 1" for n :: int
      by (auto simp: NanoPerUnit_def)
    show ?thesis
      unfolding ParseDecimalNano_def Let_def neg body cd prod.case g1 g2 if_False
      by (rule bind_result_cong [OF refl]) (cases "f = []"; simp add: pf f0 big del: power_numeral)
  qed
  have kv: "?k (int (val w)) = (if m \<le> 2 ^ 63 - 1 then Inr (if neg then - m else m) else Inl (Overflows ?raw))"
    using fv unfolding m fv_def [symmetric] NanoPerUnit_def by auto
  show ?thesis
  proof (cases "m \<le> 2 ^ 63 - 1")
    case True
    then have "int (val w) \<le> 2 ^ 63 - 1" using fv unfolding m fv_def by auto
    then have "parse_whole ?raw w 0 = Inr (int (val w))"
      using parse_whole_small [OF w(2), of 0] by simp
    then show ?thesis unfolding step using kv by simp
  next
    case False
    from parse_whole_result [of ?raw w 0] consider
      "parse_whole ?raw w 0 = Inl (Overflows ?raw)" | "parse_whole ?raw w 0 = Inr (int (val w))"
      by auto
    then have "ParseDecimalNano ?raw = Inl (Overflows ?raw)"
      unfolding step by cases (simp_all only: bind_result.simps kv False if_False)
    then show ?thesis using False by (simp only: if_False)
  qed
qed

text \<open>
  C39. The wire form round-trips: for every 64-bit amount except the most negative
  one, parsing what \<open>FormatNanoExact\<close> prints gives the amount back, with no loss
  and no sign error.
\<close>

theorem parse_format_nano:
  assumes "is_int64 n" and "n \<noteq> min_int64"
  shows "ParseDecimalNano (FormatNanoExact n) = Inr n"
proof (cases "n = 0")
  case True
  show ?thesis unfolding True by code_simp
next
  case False
  obtain w f where sb: "scaled_body (nat \<bar>n\<bar>) = w @ (if f \<noteq> [] then ''.'' @ f else [])"
    and w: "w \<noteq> []" "allDigits w" and f: "allDigits f" "length f \<le> 9"
    and v: "val w * 10 ^ 9 + val (f @ replicate (9 - length f) (CHR ''0'')) = nat \<bar>n\<bar>"
    by (rule scaled_body_parts)
  have "int (val w * 10 ^ 9 + val (f @ replicate (9 - length f) (CHR ''0''))) = int (nat \<bar>n\<bar>)"
    using v by (rule arg_cong)
  then have "int (val w) * 10 ^ 9 + int (val (f @ replicate (9 - length f) (CHR ''0''))) = \<bar>n\<bar>"
    unfolding of_nat_add of_nat_mult of_nat_power of_nat_numeral by simp
  from ParseDecimalNano_parts [OF w f this [symmetric], of "n < 0"]
  show ?thesis
    using assms False unfolding FormatNanoExact_body [OF False] sb
    by (auto simp: is_int64_def min_int64_def)
qed

theorem parse_format_nano_witness:
  "is_int64 (- 500000000) \<and> ParseDecimalNano (FormatNanoExact (- 500000000)) = Inr (- 500000000)"
  using parse_format_nano [of "- 500000000"] by (simp add: is_int64_def min_int64_def)

end
