(* ===== verification/Errors.thy ===== *)
theory Errors
  imports Money
begin

text \<open>
  \<open>internal/gateway/proxy/errors.go\<close> and the gateway's part of the error-code registry
  \<open>foundation/errcode\<close>: the carrier of a failed dataplane call and how it is rendered on
  each protocol's surface. The two tables are association lists, read as the maps
  they are.
\<close>

section \<open>Codes\<close>

definition GatewayAllProvidersFailed :: string where "GatewayAllProvidersFailed = ''gateway.all_providers_failed''"
definition GatewayArtifactGone :: string where "GatewayArtifactGone = ''gateway.artifact_gone''"
definition GatewayInsufficientCredits :: string where "GatewayInsufficientCredits = ''gateway.insufficient_credits''"
definition GatewayInsufficientScope :: string where "GatewayInsufficientScope = ''gateway.insufficient_scope''"
definition GatewayInternal :: string where "GatewayInternal = ''gateway.internal''"
definition GatewayInvalidApiKey :: string where "GatewayInvalidApiKey = ''gateway.invalid_api_key''"
definition GatewayInvalidRequest :: string where "GatewayInvalidRequest = ''gateway.invalid_request''"
definition GatewayJobNotCancelable :: string where "GatewayJobNotCancelable = ''gateway.job_not_cancelable''"
definition GatewayJobNotReady :: string where "GatewayJobNotReady = ''gateway.job_not_ready''"
definition GatewayKeyBudgetExceeded :: string where "GatewayKeyBudgetExceeded = ''gateway.key_budget_exceeded''"
definition GatewayKeyExpired :: string where "GatewayKeyExpired = ''gateway.key_expired''"
definition GatewayKeyRevoked :: string where "GatewayKeyRevoked = ''gateway.key_revoked''"
definition GatewayModelDisabled :: string where "GatewayModelDisabled = ''gateway.model_disabled''"
definition GatewayModelNotFound :: string where "GatewayModelNotFound = ''gateway.model_not_found''"
definition GatewayModelTierDisabled :: string where "GatewayModelTierDisabled = ''gateway.model_tier_disabled''"
definition GatewayModelUnpriced :: string where "GatewayModelUnpriced = ''gateway.model_unpriced''"
definition GatewayOrgSuspended :: string where "GatewayOrgSuspended = ''gateway.org_suspended''"
definition GatewayRateLimited :: string where "GatewayRateLimited = ''gateway.rate_limited''"
definition GatewayRequestTooLarge :: string where "GatewayRequestTooLarge = ''gateway.request_too_large''"
definition GatewayResourceNotFound :: string where "GatewayResourceNotFound = ''gateway.resource_not_found''"
definition GatewaySaturated :: string where "GatewaySaturated = ''gateway.saturated''"
definition GatewayStateRouteUnavailable :: string where "GatewayStateRouteUnavailable = ''gateway.state_route_unavailable''"
definition GatewayUpstreamTimeout :: string where "GatewayUpstreamTimeout = ''gateway.upstream_timeout''"
definition GatewayVideoContentRejected :: string where "GatewayVideoContentRejected = ''gateway.video_content_rejected''"
definition GatewayVideoParamsUnsupported :: string where "GatewayVideoParamsUnsupported = ''gateway.video_params_unsupported''"

lemmas code_defs = GatewayAllProvidersFailed_def GatewayArtifactGone_def GatewayInsufficientCredits_def GatewayInsufficientScope_def GatewayInternal_def GatewayInvalidApiKey_def GatewayInvalidRequest_def GatewayJobNotCancelable_def GatewayJobNotReady_def GatewayKeyBudgetExceeded_def GatewayKeyExpired_def GatewayKeyRevoked_def GatewayModelDisabled_def GatewayModelNotFound_def GatewayModelTierDisabled_def GatewayModelUnpriced_def GatewayOrgSuspended_def GatewayRateLimited_def GatewayRequestTooLarge_def GatewayResourceNotFound_def GatewaySaturated_def GatewayStateRouteUnavailable_def GatewayUpstreamTimeout_def GatewayVideoContentRejected_def GatewayVideoParamsUnsupported_def

text \<open>The registry's statuses, the single place they are kept.\<close>

definition registry :: "(string \<times> int) list" where
  "registry =
     [(GatewayAllProvidersFailed, 502),
      (GatewayArtifactGone, 410),
      (GatewayInsufficientCredits, 402),
      (GatewayInsufficientScope, 403),
      (GatewayInternal, 500),
      (GatewayInvalidApiKey, 401),
      (GatewayInvalidRequest, 400),
      (GatewayJobNotCancelable, 409),
      (GatewayJobNotReady, 409),
      (GatewayKeyBudgetExceeded, 402),
      (GatewayKeyExpired, 401),
      (GatewayKeyRevoked, 401),
      (GatewayModelDisabled, 503),
      (GatewayModelNotFound, 404),
      (GatewayModelTierDisabled, 403),
      (GatewayModelUnpriced, 503),
      (GatewayOrgSuspended, 403),
      (GatewayRateLimited, 429),
      (GatewayRequestTooLarge, 413),
      (GatewayResourceNotFound, 404),
      (GatewaySaturated, 429),
      (GatewayStateRouteUnavailable, 503),
      (GatewayUpstreamTimeout, 502),
      (GatewayVideoContentRejected, 422),
      (GatewayVideoParamsUnsupported, 400)]"

record errShape =
  openAIType :: string
  anthropicType :: string
  geminiStatus :: string

definition shape :: "string \<Rightarrow> string \<Rightarrow> string \<Rightarrow> errShape" where
  "shape ot a g = \<lparr>openAIType = ot, anthropicType = a, geminiStatus = g\<rparr>"

definition shapes :: "(string \<times> errShape) list" where
  "shapes =
     [(GatewayInvalidApiKey, shape ''authentication_error'' ''authentication_error'' ''UNAUTHENTICATED''),
      (GatewayKeyRevoked, shape ''authentication_error'' ''authentication_error'' ''UNAUTHENTICATED''),
      (GatewayKeyExpired, shape ''authentication_error'' ''authentication_error'' ''UNAUTHENTICATED''),
      (GatewayOrgSuspended, shape ''permission_error'' ''permission_error'' ''PERMISSION_DENIED''),
      (GatewayInsufficientScope, shape ''permission_error'' ''permission_error'' ''PERMISSION_DENIED''),
      (GatewayInsufficientCredits, shape ''insufficient_quota'' ''invalid_request_error'' ''RESOURCE_EXHAUSTED''),
      (GatewayKeyBudgetExceeded, shape ''insufficient_quota'' ''invalid_request_error'' ''RESOURCE_EXHAUSTED''),
      (GatewayRateLimited, shape ''rate_limit_error'' ''rate_limit_error'' ''RESOURCE_EXHAUSTED''),
      (GatewaySaturated, shape ''rate_limit_error'' ''overloaded_error'' ''RESOURCE_EXHAUSTED''),
      (GatewayModelNotFound, shape ''invalid_request_error'' ''not_found_error'' ''NOT_FOUND''),
      (GatewayResourceNotFound, shape ''invalid_request_error'' ''not_found_error'' ''NOT_FOUND''),
      (GatewayModelTierDisabled, shape ''permission_error'' ''permission_error'' ''PERMISSION_DENIED''),
      (GatewayModelDisabled, shape ''api_error'' ''overloaded_error'' ''UNAVAILABLE''),
      (GatewayModelUnpriced, shape ''api_error'' ''api_error'' ''FAILED_PRECONDITION''),
      (GatewayVideoParamsUnsupported, shape ''invalid_request_error'' ''invalid_request_error'' ''INVALID_ARGUMENT''),
      (GatewayJobNotCancelable, shape ''invalid_request_error'' ''invalid_request_error'' ''FAILED_PRECONDITION''),
      (GatewayJobNotReady, shape ''invalid_request_error'' ''invalid_request_error'' ''FAILED_PRECONDITION''),
      (GatewayArtifactGone, shape ''invalid_request_error'' ''not_found_error'' ''NOT_FOUND''),
      (GatewayVideoContentRejected, shape ''invalid_request_error'' ''invalid_request_error'' ''INVALID_ARGUMENT''),
      (GatewayRequestTooLarge, shape ''invalid_request_error'' ''invalid_request_error'' ''INVALID_ARGUMENT''),
      (GatewayInvalidRequest, shape ''invalid_request_error'' ''invalid_request_error'' ''INVALID_ARGUMENT''),
      (GatewayUpstreamTimeout, shape ''api_error'' ''api_error'' ''DEADLINE_EXCEEDED''),
      (GatewayAllProvidersFailed, shape ''api_error'' ''api_error'' ''UNAVAILABLE''),
      (GatewayStateRouteUnavailable, shape ''api_error'' ''api_error'' ''UNAVAILABLE''),
      (GatewayInternal, shape ''api_error'' ''api_error'' ''INTERNAL'')]"

section \<open>The error carrier\<close>

record Error =
  e_Code :: string
  e_Message :: string
  e_RetryAfter :: duration
  e_UpstreamMessage :: string

definition NewError :: "string \<Rightarrow> string \<Rightarrow> Error" where
  "NewError c message = \<lparr>e_Code = c, e_Message = message, e_RetryAfter = 0, e_UpstreamMessage = []\<rparr>"

definition statusOf :: "string \<Rightarrow> int" where
  "statusOf c = (case map_of registry c of Some s \<Rightarrow> s | None \<Rightarrow> 500)"

section \<open>Rendering\<close>

definition SurfaceOpenAI :: string where "SurfaceOpenAI = ''openai''"
definition SurfaceAnthropic :: string where "SurfaceAnthropic = ''anthropic''"
definition SurfaceGemini :: string where "SurfaceGemini = ''gemini''"

definition genericServerMessage :: string where
  "genericServerMessage = ''The upstream or gateway is temporarily unavailable; please retry''"

definition errorDomain :: string where "errorDomain = ''fairlb''"

datatype error_body =
    OpenAIError string string string        \<comment> \<open>message, type, code\<close>
  | AnthropicError string string string     \<comment> \<open>type, message, code\<close>
  | GeminiError int string string string string  \<comment> \<open>code, message, status, reason, domain\<close>

record error_response =
  er_status :: int
  er_RetryAfter :: "string option"
  er_body :: error_body

text \<open>\<open>Duration.Round(time.Second)\<close> on a positive duration, in seconds: half rounds up.\<close>

definition round_seconds :: "duration \<Rightarrow> int" where
  "round_seconds d = (d + 500000000) div 1000000000"

definition WriteError :: "string \<Rightarrow> Error \<Rightarrow> error_response" where
  "WriteError surface e =
     (let (e, sh) = (case map_of shapes (e_Code e) of
                       Some sh \<Rightarrow> (e, sh)
                     | None \<Rightarrow> (NewError GatewayInternal ''Internal server error'',
                                the (map_of shapes GatewayInternal)));
          status = statusOf (e_Code e);
          msg = e_Message e;
          msg = (if e_UpstreamMessage e \<noteq> [] then e_UpstreamMessage e else msg);
          msg = (if status \<ge> 500 \<and> e_UpstreamMessage e = [] then genericServerMessage else msg)
      in \<lparr>er_status = status,
          er_RetryAfter = (if e_RetryAfter e > 0 then Some (dec (nat (round_seconds (e_RetryAfter e)))) else None),
          er_body =
            (if surface = SurfaceAnthropic then AnthropicError (anthropicType sh) msg (e_Code e)
             else if surface = SurfaceGemini
             then GeminiError (statusOf (e_Code e)) msg
                    (if geminiStatus sh = [] then ''UNKNOWN'' else geminiStatus sh) (e_Code e) errorDomain
             else OpenAIError msg (openAIType sh) (e_Code e))\<rparr>)"

fun body_message :: "error_body \<Rightarrow> string" where
  "body_message (OpenAIError msg t c) = msg"
| "body_message (AnthropicError t msg c) = msg"
| "body_message (GeminiError n msg st c d) = msg"

fun body_code :: "error_body \<Rightarrow> string" where
  "body_code (OpenAIError msg t c) = c"
| "body_code (AnthropicError t msg c) = c"
| "body_code (GeminiError n msg st c d) = c"

section \<open>The tables are exhaustive\<close>

lemma tables_agree: "set (map fst shapes) = set (map fst registry) \<and>
    distinct (map fst registry) \<and> distinct (map fst shapes) \<and> length shapes = length registry"
  by code_simp

lemma shape_of_registered: "c \<in> set (map fst registry) \<Longrightarrow> \<exists>sh. map_of shapes c = Some sh"
proof -
  assume "c \<in> set (map fst registry)"
  then have "c \<in> fst ` set shapes" using tables_agree by simp
  then show ?thesis by (metis map_of_eq_None_iff not_None_eq)
qed

lemma registered_of_shape: "map_of shapes c = Some sh \<Longrightarrow> c \<in> set (map fst registry)"
  using tables_agree map_of_SomeD [of shapes c sh] by (metis fst_conv image_eqI set_map)

lemma gemini_status_named: "map_of shapes c = Some sh \<Longrightarrow> geminiStatus sh \<noteq> []"
proof -
  have "\<forall>(c, sh) \<in> set shapes. geminiStatus sh \<noteq> []" by code_simp
  then show "map_of shapes c = Some sh \<Longrightarrow> ?thesis" by (auto dest: map_of_SomeD)
qed

lemma internal_registered: "map_of shapes GatewayInternal = Some (shape ''api_error'' ''api_error'' ''INTERNAL'')"
  "statusOf GatewayInternal = 500"
  by code_simp+

text \<open>
  What a caller sees of a failure, on every protocol's surface. A registered code
  is rendered under itself with the registry's status; an unregistered one is
  rendered as an internal error and nothing of it is shown. A server-side failure
  shows its own text only when that text is the upstream's, otherwise the one
  generic sentence, so no internal detail leaves the gateway.
\<close>

theorem rendered_error_hides_internals:
  "let r = WriteError surface e
   in (if e_Code e \<in> set (map fst registry)
       then er_status r = statusOf (e_Code e) \<and> body_code (er_body r) = e_Code e \<and>
            body_message (er_body r) =
              (if e_UpstreamMessage e \<noteq> [] then e_UpstreamMessage e
               else if statusOf (e_Code e) < 500 then e_Message e else genericServerMessage)
       else er_status r = 500 \<and> body_code (er_body r) = GatewayInternal \<and>
            body_message (er_body r) = genericServerMessage)"
proof (cases "e_Code e \<in> set (map fst registry)")
  case True
  then obtain sh where "map_of shapes (e_Code e) = Some sh" using shape_of_registered by blast
  with True show ?thesis by (auto simp: WriteError_def Let_def)
next
  case False
  then have "map_of shapes (e_Code e) = None" using registered_of_shape by (cases "map_of shapes (e_Code e)") auto
  with False show ?thesis by (simp add: WriteError_def Let_def internal_registered NewError_def)
qed

text \<open>
  A short wait is announced as no wait. The header is the wait rounded to the
  nearest second, so a refusal that asks for less than half a second -- a limit above
  a hundred and twenty a minute produces one -- answers \<open>Retry-After: 0\<close>, and the
  caller is told to retry at once.
\<close>

theorem short_retry_after_renders_zero:
  assumes "0 < e_RetryAfter e" and "e_RetryAfter e < 500 * millisecond" and "map_of shapes (e_Code e) \<noteq> None"
  shows "er_RetryAfter (WriteError surface e) = Some ''0''"
proof -
  have "round_seconds (e_RetryAfter e) = 0" using assms(1,2) by (simp add: round_seconds_def millisecond_def)
  moreover have "dec 0 = ''0''" by code_simp
  ultimately show ?thesis using assms by (auto simp: WriteError_def Let_def)
qed

definition quick_refusal :: Error where
  "quick_refusal = \<lparr>e_Code = GatewayRateLimited, e_Message = ''Request rate limit exceeded'',
     e_RetryAfter = 300 * millisecond, e_UpstreamMessage = []\<rparr>"

theorem short_retry_after_renders_zero_witness:
  "er_RetryAfter (WriteError SurfaceOpenAI quick_refusal) = Some ''0''"
proof (rule short_retry_after_renders_zero)
  have "map_of shapes GatewayRateLimited \<noteq> None" by code_simp
  then show "map_of shapes (e_Code quick_refusal) \<noteq> None" by (simp add: quick_refusal_def)
qed (simp_all add: quick_refusal_def millisecond_def)

end
