(* ===== verification/Classify.thy ===== *)
theory Classify
  imports Errors
begin

text \<open>
  \<open>internal/gateway/proxy/classify.go\<close>: what an upstream failure means. The class decides
  whether the request rotates to another candidate, which circuit records it and
  what the caller sees.
\<close>

datatype FailureClass = ClassKey | ClassProvider | ClassRoute | ClassClient | ClassTerminal

record Classification =
  c_Class :: FailureClass
  c_Err :: "Error option"
  c_CooldownHint :: duration
  c_CountsTowardHealth :: bool
  c_keyID :: uuid
  c_upstreamStatus :: int

text \<open>The zero value: the first class, no error.\<close>

definition no_classification :: Classification where
  "no_classification = \<lparr>c_Class = ClassKey, c_Err = None, c_CooldownHint = 0, c_CountsTowardHealth = False,
     c_keyID = None, c_upstreamStatus = 0\<rparr>"

fun class_string :: "FailureClass \<Rightarrow> string" where
  "class_string ClassKey = ''key''"
| "class_string ClassProvider = ''provider''"
| "class_string ClassRoute = ''route''"
| "class_string ClassClient = ''client''"
| "class_string ClassTerminal = ''terminal''"

definition withStatus :: "int \<Rightarrow> Classification \<Rightarrow> Classification" where
  "withStatus status c = c\<lparr>c_upstreamStatus := status\<rparr>"

definition statusOverloaded :: int where "statusOverloaded = 529"

text \<open>\<open>strconv.Atoi\<close>: an optional sign and decimal digits, within 64 bits.\<close>

definition Atoi :: "string \<Rightarrow> int option" where
  "Atoi s =
     (let negative = (s \<noteq> [] \<and> hd s = CHR ''-'');
          digits = (if s \<noteq> [] \<and> (hd s = CHR ''-'' \<or> hd s = CHR ''+'') then tl s else s);
          v = (if negative then - int (val digits) else int (val digits))
      in if digits \<noteq> [] \<and> allDigits digits \<and> is_int64 v then Some v else None)"

text \<open>The product of seconds and \<open>time.Second\<close> is a 64-bit one and wraps.\<close>

definition parseRetryAfter :: "string \<Rightarrow> duration" where
  "parseRetryAfter v =
     (if v = [] then 0
      else case Atoi v of
             None \<Rightarrow> 0
           | Some secs \<Rightarrow> if secs < 0 then 0 else mul64 secs 1000000000)"

text \<open>The bytes \<open>bytes.TrimSpace\<close> removes from plain ASCII text.\<close>

definition is_space :: "char \<Rightarrow> bool" where
  "is_space c \<longleftrightarrow> of_char c \<in> {9, 10, 11, 12, 13, 32 :: nat}"

definition trim_space :: "string \<Rightarrow> string" where
  "trim_space s = rev (dropWhile is_space (rev (dropWhile is_space s)))"

definition truncateBody :: "string \<Rightarrow> string" where
  "truncateBody body = trim_space (if length body > 2000 then take 2000 body else body)"

definition ClassifyStatus :: "int \<Rightarrow> string \<Rightarrow> string \<Rightarrow> Classification" where
  "ClassifyStatus status body retryAfter =
     (if status = 401 \<or> status = 403 then
        withStatus status (no_classification\<lparr>c_Class := ClassKey,
          c_Err := Some (NewError GatewayAllProvidersFailed ''Upstream rejected the credential''),
          c_CountsTowardHealth := False\<rparr>)
      else if status = 429 then
        withStatus status (no_classification\<lparr>c_Class := ClassKey,
          c_Err := Some \<lparr>e_Code = GatewayRateLimited, e_Message = ''Upstream rate limit reached'',
            e_RetryAfter = seconds 1, e_UpstreamMessage = []\<rparr>,
          c_CooldownHint := parseRetryAfter retryAfter,
          c_CountsTowardHealth := False\<rparr>)
      else if status = 404 \<or> status = 405 then
        withStatus status (no_classification\<lparr>c_Class := ClassRoute,
          c_Err := Some (NewError GatewayModelNotFound ''Model not available on the selected upstream'')\<rparr>)
      else if status = 413 then
        withStatus status (no_classification\<lparr>c_Class := ClassClient,
          c_Err := Some (NewError GatewayRequestTooLarge ''Request body exceeds the upstream limit'')\<rparr>)
      else if status = 408 then
        withStatus status (no_classification\<lparr>c_Class := ClassProvider,
          c_Err := Some (NewError GatewayUpstreamTimeout ''Upstream timed out''),
          c_CountsTowardHealth := True\<rparr>)
      else if status = statusOverloaded then
        withStatus status (no_classification\<lparr>c_Class := ClassProvider,
          c_Err := Some (NewError GatewayAllProvidersFailed ''Upstream is overloaded''),
          c_CountsTowardHealth := True\<rparr>)
      else if status \<ge> 500 then
        withStatus status (no_classification\<lparr>c_Class := ClassProvider,
          c_Err := Some (NewError GatewayAllProvidersFailed ''Upstream error''),
          c_CountsTowardHealth := True\<rparr>)
      else if status \<ge> 400 then
        withStatus status (no_classification\<lparr>c_Class := ClassClient,
          c_Err := Some \<lparr>e_Code = GatewayInvalidRequest, e_Message = ''Invalid request'',
            e_RetryAfter = 0, e_UpstreamMessage = truncateBody body\<rparr>\<rparr>)
      else
        withStatus status (no_classification\<lparr>c_Class := ClassProvider,
          c_Err := Some (NewError GatewayInternal ''Unexpected upstream status''),
          c_CountsTowardHealth := True\<rparr>))"

text \<open>\<open>pinned\<close>: the request carries an affinity-pinned credential, shared or the organization's.\<close>

definition classifyUpstreamStatus :: "bool \<Rightarrow> int \<Rightarrow> string \<Rightarrow> string \<Rightarrow> Classification" where
  "classifyUpstreamStatus pinned status body retryAfter =
     (if status = 404 \<and> pinned then
        withStatus status (no_classification\<lparr>c_Class := ClassClient,
          c_Err := Some (NewError GatewayResourceNotFound ''Resource not found or expired'')\<rparr>)
      else ClassifyStatus status body retryAfter)"

text \<open>What a transport failure looks like to the code: the gateway's own timer, the caller leaving, a timeout, or anything else.\<close>

datatype transport_error = FirstByteBudget | Canceled | NetTimeout | OtherTransport

fun ClassifyTransportError :: "transport_error \<Rightarrow> Classification" where
  "ClassifyTransportError FirstByteBudget = no_classification\<lparr>c_Class := ClassProvider,
     c_Err := Some (NewError GatewayUpstreamTimeout ''Upstream timed out''), c_CountsTowardHealth := True\<rparr>"
| "ClassifyTransportError Canceled = no_classification\<lparr>c_Class := ClassTerminal, c_Err := None,
     c_CountsTowardHealth := False\<rparr>"
| "ClassifyTransportError NetTimeout = no_classification\<lparr>c_Class := ClassProvider,
     c_Err := Some (NewError GatewayUpstreamTimeout ''Upstream timed out''), c_CountsTowardHealth := True\<rparr>"
| "ClassifyTransportError OtherTransport = no_classification\<lparr>c_Class := ClassProvider,
     c_Err := Some (NewError GatewayUpstreamTimeout ''Upstream is unreachable''), c_CountsTowardHealth := True\<rparr>"

definition Retryable :: "Classification \<Rightarrow> bool" where
  "Retryable c = (case c_Class c of ClassKey \<Rightarrow> True | ClassProvider \<Rightarrow> True | ClassRoute \<Rightarrow> True | _ \<Rightarrow> False)"

text \<open>The test \<open>applyBreaker\<close> makes to tell a rejected credential from a rate limit.\<close>

definition auth_failure :: "Classification \<Rightarrow> bool" where
  "auth_failure c \<longleftrightarrow> c_CooldownHint c = 0 \<and> (case c_Err c of None \<Rightarrow> False | Some e \<Rightarrow> e_Code e = GatewayAllProvidersFailed)"

section \<open>The decision table\<close>

lemma ClassifyStatus_fields:
  "c_upstreamStatus (ClassifyStatus status body ra) = status"
  "c_keyID (ClassifyStatus status body ra) = None"
  "c_Err (ClassifyStatus status body ra) \<noteq> None"
  by (simp_all add: ClassifyStatus_def withStatus_def no_classification_def)

text \<open>
  The failover decision table. For every upstream error status: exactly the
  server-side ones, the timeout and the overload count against the provider's
  health; a rejected credential or a rate limit is the credential's and never the
  provider's, and only the rejected one is treated as an authentication failure; a
  request the caller got wrong is not retried; everything else is; and the verdict
  always carries the status it came from and an error to show.
\<close>

theorem ClassifyStatus_table:
  assumes "400 \<le> status"
  shows "let c = ClassifyStatus status body ra
    in (c_CountsTowardHealth c \<longleftrightarrow> status \<ge> 500 \<or> status = 408) \<and>
       (c_Class c = ClassKey \<longleftrightarrow> status \<in> {401, 403, 429}) \<and>
       (c_Class c = ClassKey \<longrightarrow> (auth_failure c \<longleftrightarrow> status \<noteq> 429)) \<and>
       (c_Class c = ClassProvider \<longleftrightarrow> c_CountsTowardHealth c) \<and>
       (Retryable c \<longleftrightarrow> status \<in> {401, 403, 404, 405, 408, 429} \<or> status \<ge> 500) \<and>
       c_upstreamStatus c = status \<and> c_Err c \<noteq> None"
proof -
  have ne: "GatewayRateLimited \<noteq> GatewayAllProvidersFailed" by (simp add: code_defs)
  show ?thesis
    using assms ne
    by (simp add: ClassifyStatus_def withStatus_def no_classification_def Retryable_def auth_failure_def
        statusOverloaded_def NewError_def Let_def)
qed

theorem ClassifyStatus_table_witness:
  "let c = ClassifyStatus 429 [] ''30''
    in \<not> c_CountsTowardHealth c \<and> c_Class c = ClassKey \<and> \<not> auth_failure c \<and> Retryable c \<and>
       c_upstreamStatus c = 429 \<and> c_Err c \<noteq> None"
  using ClassifyStatus_table [of 429 "[]" "''30''"] by (simp add: Let_def)

end
