(* ===== verification/Ledger.thy ===== *)
theory Ledger
  imports Prelude "HOL-Library.AList"
begin

text \<open>
  How money moves: the four operations the gateway asks of the accounting side
  (\<open>internal/gateway/settle/settle.go\<close>), their implementation for a self-hosted
  deployment (\<open>internal/community/settle/settle.go\<close>) and the per-key spend it
  writes and budgets read (\<open>AddSpend\<close> and \<open>SpendSince\<close> of
  \<open>access/apikeys/store.go\<close>).

  The interface is the locale \<open>settlement\<close>: what a key has spent is moved by
  \<open>SettleTx\<close> alone, by exactly the amount settled. A failing \<open>SettleTx\<close> runs
  inside the caller's transaction, which rolls back, so it has no new state.
\<close>

section \<open>The interface\<close>

record HoldInput =
  hi_OrgID :: uuid
  hi_RequestID :: string
  hi_AmountNano :: int
  hi_TTL :: duration

record SettleInput =
  si_OrgID :: uuid
  si_RequestID :: string
  si_ActualNano :: int
  si_APIKeyID :: uuid

text \<open>An accounting error carries an error code, or none.\<close>

datatype hold_error = CodeError string | OtherError

record 'l Settler =
  st_Hold :: "HoldInput \<Rightarrow> 'l \<Rightarrow> (hold_error + uuid) \<times> 'l"
  st_Void :: "uuid \<Rightarrow> string \<Rightarrow> 'l \<Rightarrow> (unit + unit) \<times> 'l"
  st_SettleTx :: "instant \<Rightarrow> SettleInput \<Rightarrow> 'l \<Rightarrow> unit + 'l"
  st_ProtectHold :: "uuid \<Rightarrow> string \<Rightarrow> 'l \<Rightarrow> (unit + bool) \<times> 'l"

locale settlement =
  fixes S :: "'l Settler" and spent :: "'l \<Rightarrow> uuid \<Rightarrow> int"
  assumes hold_keeps: "spent (snd (st_Hold S h l)) = spent l"
    and void_keeps: "spent (snd (st_Void S org req l)) = spent l"
    and protect_keeps: "spent (snd (st_ProtectHold S org req l)) = spent l"
    and settle_adds: "st_SettleTx S now i l = Inr l' \<Longrightarrow> 0 \<le> si_ActualNano i \<Longrightarrow>
      spent l' = (if si_APIKeyID i = None then spent l
                  else (spent l)(si_APIKeyID i := spent l (si_APIKeyID i) + si_ActualNano i))"

section \<open>Per-key spend\<close>

text \<open>
  The rows of \<open>api_key_daily_spend\<close> and the \<open>total_spent_nano\<close> column of the existing
  keys. Amounts are \<open>bigint\<close> columns: an overflow is an error and the statement, with
  its transaction, is undone. A spend row needs its key to exist.
\<close>

record key_spend =
  ks_daily :: "((uuid \<times> int) \<times> int) list"
  ks_total :: "uuid \<rightharpoonup> int"

definition daily_of :: "key_spend \<Rightarrow> uuid \<Rightarrow> int \<Rightarrow> int" where
  "daily_of s k day = (case map_of (ks_daily s) (k, day) of None \<Rightarrow> 0 | Some v \<Rightarrow> v)"

definition AddSpend :: "uuid \<Rightarrow> int \<Rightarrow> int \<Rightarrow> key_spend \<Rightarrow> unit + key_spend" where
  "AddSpend keyID day amount s =
     (case ks_total s keyID of
        None \<Rightarrow> Inl ()
      | Some old \<Rightarrow>
          if \<not> is_int64 (daily_of s keyID day + amount) \<or> \<not> is_int64 (old + amount) then Inl ()
          else Inr (s\<lparr>ks_daily := AList.update (keyID, day) (daily_of s keyID day + amount) (ks_daily s),
                      ks_total := (ks_total s)(keyID \<mapsto> old + amount)\<rparr>))"

definition SpendSince :: "uuid \<Rightarrow> int \<Rightarrow> key_spend \<Rightarrow> unit + int" where
  "SpendSince keyID day s =
     (let sum = sum_list (map snd (filter (\<lambda>((k, d), v). k = keyID \<and> day \<le> d) (ks_daily s)))
      in if is_int64 sum then Inr sum else Inl ())"

section \<open>The self-hosted implementation\<close>

definition nanos_per_day :: int where "nanos_per_day = 86400000000000"

text \<open>The UTC day an instant falls on, counted from the epoch.\<close>

definition day_of :: "instant \<Rightarrow> int" where
  "day_of now = now div nanos_per_day"

definition Recorder_Hold :: "HoldInput \<Rightarrow> key_spend \<Rightarrow> (hold_error + uuid) \<times> key_spend" where
  "Recorder_Hold i s = (Inr None, s)"

definition Recorder_Void :: "uuid \<Rightarrow> string \<Rightarrow> key_spend \<Rightarrow> (unit + unit) \<times> key_spend" where
  "Recorder_Void org req s = (Inr (), s)"

definition Recorder_SettleTx :: "instant \<Rightarrow> SettleInput \<Rightarrow> key_spend \<Rightarrow> unit + key_spend" where
  "Recorder_SettleTx now i s =
     (if \<not> uuid_valid (si_APIKeyID i) \<or> si_ActualNano i \<le> 0 then Inr s
      else AddSpend (si_APIKeyID i) (day_of now) (si_ActualNano i) s)"

definition Recorder_ProtectHold :: "uuid \<Rightarrow> string \<Rightarrow> key_spend \<Rightarrow> (unit + bool) \<times> key_spend" where
  "Recorder_ProtectHold org req s = (Inr False, s)"

definition Recorder :: "key_spend Settler" where
  "Recorder = \<lparr>st_Hold = Recorder_Hold, st_Void = Recorder_Void, st_SettleTx = Recorder_SettleTx,
     st_ProtectHold = Recorder_ProtectHold\<rparr>"

definition total_spent :: "key_spend \<Rightarrow> uuid \<Rightarrow> int" where
  "total_spent s k = (case ks_total s k of None \<Rightarrow> 0 | Some v \<Rightarrow> v)"

interpretation community: settlement Recorder total_spent
proof
  fix now i l l'
  assume "st_SettleTx Recorder now i l = Inr l'" and "0 \<le> si_ActualNano i"
  then show "total_spent l' = (if si_APIKeyID i = None then total_spent l
      else (total_spent l)(si_APIKeyID i := total_spent l (si_APIKeyID i) + si_ActualNano i))"
    by (auto simp: Recorder_def Recorder_SettleTx_def AddSpend_def total_spent_def fun_eq_iff
        split: if_splits option.splits)
qed (simp_all add: Recorder_def Recorder_Hold_def Recorder_Void_def Recorder_ProtectHold_def)

section \<open>What a period adds up to\<close>

definition spend_rows :: "uuid \<Rightarrow> int \<Rightarrow> ((uuid \<times> int) \<times> int) list \<Rightarrow> int" where
  "spend_rows k day rows = sum_list (map snd (filter (\<lambda>((k', d), v). k' = k \<and> day \<le> d) rows))"

lemma spend_rows_update:
  assumes "distinct (map fst rows)"
  shows "spend_rows k day (AList.update (k', d) ((case map_of rows (k', d) of None \<Rightarrow> 0 | Some v \<Rightarrow> v) + a) rows) =
    spend_rows k day rows + (if k' = k \<and> day \<le> d then a else 0)"
  using assms
proof (induction rows)
  case (Cons r rows)
  have "(k', d) \<notin> fst ` set rows" if "fst r = (k', d)" using Cons.prems that by auto
  then have "map_of rows (k', d) = None" if "fst r = (k', d)" using that by (auto simp: map_of_eq_None_iff)
  then show ?case using Cons by (cases r) (auto simp: spend_rows_def)
qed (simp add: spend_rows_def)

text \<open>One settlement of a key: the instant and the amount.\<close>

fun settle_run :: "(instant \<times> uuid \<times> int) list \<Rightarrow> key_spend \<Rightarrow> unit + key_spend" where
  "settle_run [] s = Inr s"
| "settle_run ((t, k, a) # rest) s =
     bind_result (st_SettleTx Recorder t
       \<lparr>si_OrgID = None, si_RequestID = [], si_ActualNano = a, si_APIKeyID = k\<rparr> s) (settle_run rest)"

definition charges_since :: "uuid \<Rightarrow> int \<Rightarrow> (instant \<times> uuid \<times> int) list \<Rightarrow> int" where
  "charges_since k day run = sum_list (map (\<lambda>(t, k', a). if k' = k \<and> day \<le> day_of t then max 0 a else 0) run)"

lemma settle_run_rows:
  assumes "settle_run run s = Inr s'" and "distinct (map fst (ks_daily s))" and "uuid_valid k"
  shows "distinct (map fst (ks_daily s')) \<and>
    spend_rows k day (ks_daily s') = spend_rows k day (ks_daily s) + charges_since k day run"
  using assms
proof (induction run arbitrary: s)
  case (Cons e run)
  obtain t k' a where e: "e = (t, k', a)" by (cases e)
  from Cons.prems(1) obtain s1 where s1:
      "Recorder_SettleTx t \<lparr>si_OrgID = None, si_RequestID = [], si_ActualNano = a, si_APIKeyID = k'\<rparr> s = Inr s1"
    and rest: "settle_run run s1 = Inr s'"
    by (auto simp: e Recorder_def bind_result_Inr_iff)
  have step: "distinct (map fst (ks_daily s1)) \<and> spend_rows k day (ks_daily s1) =
      spend_rows k day (ks_daily s) + (if k' = k \<and> day \<le> day_of t then max 0 a else 0)"
    using s1 Cons.prems(2,3) spend_rows_update [of "ks_daily s" k day k' "day_of t" a]
    by (auto simp: Recorder_SettleTx_def AddSpend_def daily_of_def distinct_update split: if_splits option.splits)
  show ?case using Cons.IH [OF rest] step Cons.prems(3) by (simp add: e charges_since_def)
qed (simp add: charges_since_def)

lemma SpendSince_rows: "SpendSince k day s = (if is_int64 (spend_rows k day (ks_daily s))
    then Inr (spend_rows k day (ks_daily s)) else Inl ())"
  by (simp add: SpendSince_def spend_rows_def)

end
