(* ===== verification/RateLimit.thy ===== *)
theory RateLimit
  imports Prelude
begin

text \<open>
  \<open>foundation/drivers/ratelimit\<close>: the limiter interface and its cross-instance
  implementation, a token bucket whose whole decision runs as one script on the
  server. The script's numbers are exact rationals here; the server's clock, in
  milliseconds, is the model's clock. A key past its expiry is absent.
\<close>

section \<open>The interface\<close>

record Result =
  res_Allowed :: bool
  res_Limit :: int
  res_Remaining :: int
  res_ResetAt :: instant
  res_RetryAfter :: duration

definition no_result :: Result where
  "no_result = \<lparr>res_Allowed = False, res_Limit = 0, res_Remaining = 0, res_ResetAt = 0, res_RetryAfter = 0\<rparr>"

text \<open>\<open>AllowN(key, n, limit, window)\<close> at an instant, over the limiter's state; the left result is an error.\<close>

record 'l Limiter =
  lim_AllowN :: "instant \<Rightarrow> string \<Rightarrow> int \<Rightarrow> int \<Rightarrow> duration \<Rightarrow> 'l \<Rightarrow> (unit + Result) \<times> 'l"

definition lim_Allow :: "'l Limiter \<Rightarrow> instant \<Rightarrow> string \<Rightarrow> int \<Rightarrow> duration \<Rightarrow> 'l \<Rightarrow> (unit + Result) \<times> 'l" where
  "lim_Allow L now key limit window s = lim_AllowN L now key 1 limit window s"

locale rate_limiter =
  fixes L :: "'l Limiter"
  assumes keys_independent: "key' \<noteq> key \<Longrightarrow>
      fst (lim_AllowN L now' key' n limit window (snd (lim_AllowN L now key n2 limit2 window2 s))) =
      fst (lim_AllowN L now' key' n limit window s)"
    and too_large: "limit < n \<Longrightarrow> 0 < n \<Longrightarrow> lim_AllowN L now key n limit window s = (Inr r, s') \<Longrightarrow>
      \<not> res_Allowed r \<and> s' = s"
    and refusal_waits: "0 < n \<Longrightarrow> n \<le> limit \<Longrightarrow> lim_AllowN L now key n limit window s = (Inr r, s') \<Longrightarrow>
      \<not> res_Allowed r \<Longrightarrow> 0 < res_RetryAfter r"

section \<open>The script\<close>

record bucket =
  bk_tokens :: rat
  bk_ts :: int
  bk_limit :: int
  bk_window :: int

text \<open>A stored bucket expires one window after it was written.\<close>

definition present :: "int \<Rightarrow> bucket option \<Rightarrow> bucket option" where
  "present now b = (case b of None \<Rightarrow> None | Some k \<Rightarrow> if now < bk_ts k + bk_window k then Some k else None)"

definition refill :: "int \<Rightarrow> int \<Rightarrow> int \<Rightarrow> bucket option \<Rightarrow> rat" where
  "refill now limit window st =
     (let rate = of_int limit / of_int window;
          (tokens, ts) = (case st of
             None \<Rightarrow> (of_int limit, now)
           | Some k \<Rightarrow> if bk_limit k \<noteq> limit \<or> bk_window k \<noteq> window then (of_int limit, now)
                       else (bk_tokens k, bk_ts k));
          elapsed = max 0 (now - ts)
      in min (of_int limit) (tokens + of_int elapsed * rate))"

definition takeScript :: "int \<Rightarrow> int \<Rightarrow> int \<Rightarrow> int \<Rightarrow> bucket option \<Rightarrow> (bool \<times> int \<times> int) \<times> bucket" where
  "takeScript now limit window n st =
     (let rate = of_int limit / of_int window;
          tokens = refill now limit window st;
          ok = tokens \<ge> of_int n;
          left = (if ok then tokens - of_int n else tokens);
          retry = (if ok then 0 else \<lceil>(of_int n - tokens) / rate\<rceil>)
      in ((ok, \<lfloor>left\<rfloor>, retry), \<lparr>bk_tokens = left, bk_ts = now, bk_limit = limit, bk_window = window\<rparr>))"

section \<open>The driver\<close>

type_synonym redis = "string \<Rightarrow> bucket option"

definition window_ms :: "duration \<Rightarrow> int" where
  "window_ms window = (if quo window 1000000 \<le> 0 then 1 else quo window 1000000)"

definition Redis_AllowN :: "instant \<Rightarrow> string \<Rightarrow> int \<Rightarrow> int \<Rightarrow> duration \<Rightarrow> redis \<Rightarrow> (unit + Result) \<times> redis" where
  "Redis_AllowN now key n limit window s =
     (let n = (if n \<le> 0 then 1 else n);
          res = no_result\<lparr>res_Limit := limit\<rparr>
      in if n > limit
         then (let wait = quo (mul64 n window) limit
               in (Inr (res\<lparr>res_RetryAfter := wait, res_ResetAt := now + wait\<rparr>), s))
         else (let server = now div 1000000;
                   k = ''flb:rl:'' @ key;
                   ((ok, remaining, retryMs), b) = takeScript server limit (window_ms window) n (present server (s k));
                   s = s(k := Some b)
               in if ok
                  then (Inr (res\<lparr>res_Allowed := True, res_Remaining := max remaining 0, res_ResetAt := now + window\<rparr>), s)
                  else (let wait = mul64 retryMs 1000000;
                            wait = (if wait \<le> 0 then 1000000 else wait)
                        in (Inr (res\<lparr>res_RetryAfter := wait, res_ResetAt := now + wait\<rparr>), s))))"

definition redis_limiter :: "redis Limiter" where
  "redis_limiter = \<lparr>lim_AllowN = Redis_AllowN\<rparr>"

lemma Redis_result: "\<exists>r s'. Redis_AllowN now key n limit window s = (Inr r, s')"
  by (auto simp: Redis_AllowN_def Let_def split: prod.split)

lemma Redis_state_other:
  "k \<noteq> ''flb:rl:'' @ key \<Longrightarrow> snd (Redis_AllowN now key n limit window s) k = s k"
  by (auto simp: Redis_AllowN_def Let_def split: prod.split)

lemma Redis_result_cong:
  "s (''flb:rl:'' @ key) = s' (''flb:rl:'' @ key) \<Longrightarrow>
     fst (Redis_AllowN now key n limit window s) = fst (Redis_AllowN now key n limit window s')"
  by (auto simp: Redis_AllowN_def Let_def split: prod.split)

interpretation redis: rate_limiter redis_limiter
proof unfold_locales
  fix key key' :: string and now now' n limit window n2 limit2 window2 :: int and s :: redis
  assume "key' \<noteq> key"
  then show "fst (lim_AllowN redis_limiter now' key' n limit window
        (snd (lim_AllowN redis_limiter now key n2 limit2 window2 s))) =
      fst (lim_AllowN redis_limiter now' key' n limit window s)"
    unfolding redis_limiter_def Limiter.simps
    by (intro Redis_result_cong Redis_state_other) simp
next
  fix key :: string and now n limit window :: int and r and s s' :: redis
  assume "limit < n" "0 < n" "lim_AllowN redis_limiter now key n limit window s = (Inr r, s')"
  then show "\<not> res_Allowed r \<and> s' = s"
    by (auto simp: redis_limiter_def Redis_AllowN_def no_result_def Let_def)
next
  fix key :: string and now n limit window :: int and r and s s' :: redis
  assume "0 < n" "n \<le> limit" "lim_AllowN redis_limiter now key n limit window s = (Inr r, s')" "\<not> res_Allowed r"
  then show "0 < res_RetryAfter r"
    by (auto simp: redis_limiter_def Redis_AllowN_def Let_def split: prod.splits if_splits)
qed

section \<open>What the bucket holds\<close>

text \<open>A bucket written by the script for these parameters, not in the future.\<close>

definition bucket_ok :: "int \<Rightarrow> int \<Rightarrow> int \<Rightarrow> bucket option \<Rightarrow> bool" where
  "bucket_ok limit window now b \<longleftrightarrow>
     (case b of None \<Rightarrow> True
      | Some k \<Rightarrow> 0 \<le> bk_tokens k \<and> bk_tokens k \<le> of_int limit \<and> bk_ts k \<le> now \<and>
                  bk_limit k = limit \<and> bk_window k = window)"

lemma refill_None [simp]: "refill now limit window None = of_int limit"
  by (simp add: refill_def)

lemma refill_Some:
  "bk_limit k = limit \<Longrightarrow> bk_window k = window \<Longrightarrow> bk_ts k \<le> now \<Longrightarrow>
     refill now limit window (Some k) =
       min (of_int limit) (bk_tokens k + of_int (now - bk_ts k) * (of_int limit / of_int window))"
  by (simp add: refill_def Let_def max_def)

lemma refill_bounds:
  assumes "bucket_ok limit window now b" and "0 < limit" and "0 < window"
  shows "0 \<le> refill now limit window b" "refill now limit window b \<le> of_int limit"
  using assms by (auto simp: bucket_ok_def refill_Some split: option.splits)

text \<open>An expired key and the bucket it would still hold are the same thing: both are full.\<close>

lemma refill_present:
  assumes "bucket_ok limit window now b" and "0 < limit" and "0 < window"
  shows "refill now limit window (present now b) = refill now limit window b"
proof (cases b)
  case None
  then show ?thesis by (simp add: present_def)
next
  case (Some k)
  show ?thesis
  proof (cases "now < bk_ts k + bk_window k")
    case True
    then show ?thesis by (simp add: present_def Some)
  next
    case False
    have k: "0 \<le> bk_tokens k" "bk_ts k \<le> now" "bk_limit k = limit" "bk_window k = window"
      using assms(1) Some by (simp_all add: bucket_ok_def)
    have "(of_int window :: rat) * (of_int limit / of_int window) \<le> of_int (now - bk_ts k) * (of_int limit / of_int window)"
      by (rule mult_right_mono) (use False k(4) assms(2,3) in \<open>simp_all flip: of_int_diff\<close>)
    then have "of_int limit \<le> bk_tokens k + of_int (now - bk_ts k) * (of_int limit / of_int window)"
      using k(1) assms(3) by simp
    then show ?thesis using False by (simp add: Some present_def refill_Some [OF k(3,4,2)])
  qed
qed

lemma refill_later:
  assumes "bucket_ok limit window now b" and "now \<le> now'" and "0 < limit" and "0 < window"
  shows "refill now' limit window b \<le> refill now limit window b + of_int (now' - now) * (of_int limit / of_int window)"
proof (cases b)
  case None
  then show ?thesis using assms(2-4) by simp
next
  case (Some k)
  then have k: "bk_limit k = limit" "bk_window k = window" "bk_ts k \<le> now"
    using assms(1) by (simp_all add: bucket_ok_def)
  have r: "0 \<le> of_int (now' - now) * (of_int limit / of_int window :: rat)" using assms(2-4) by simp
  have "(of_int (now' - bk_ts k) :: rat) = of_int (now - bk_ts k) + of_int (now' - now)" by simp
  then have "of_int (now' - bk_ts k) * (of_int limit / of_int window :: rat) =
      of_int (now - bk_ts k) * (of_int limit / of_int window) + of_int (now' - now) * (of_int limit / of_int window)"
    by (simp only: distrib_right)
  with r show ?thesis using k assms(2) by (simp add: Some refill_Some)
qed

lemma takeScript_bucket:
  assumes "takeScript now limit window n (present now b) = ((ok, remaining, retry), b')"
    and "bucket_ok limit window now b" and "0 < limit" and "0 < window" and "0 \<le> n"
  shows "bucket_ok limit window now (Some b')"
    "refill now limit window (Some b') = refill now limit window b - (if ok then of_int n else 0)"
    "ok \<longleftrightarrow> of_int n \<le> refill now limit window b"
proof -
  have ok: "ok \<longleftrightarrow> of_int n \<le> refill now limit window b"
    and b': "b' = \<lparr>bk_tokens = refill now limit window b - (if ok then of_int n else 0), bk_ts = now,
      bk_limit = limit, bk_window = window\<rparr>"
    using assms(1) unfolding takeScript_def refill_present [OF assms(2-4)] by (auto simp: Let_def)
  show "ok \<longleftrightarrow> of_int n \<le> refill now limit window b" by (rule ok)
  note r = refill_bounds [OF assms(2-4)]
  show "bucket_ok limit window now (Some b')" using r ok assms(5) by (auto simp: bucket_ok_def b')
  show "refill now limit window (Some b') = refill now limit window b - (if ok then of_int n else 0)"
    using r assms(5) by (simp add: b' refill_Some)
qed

section \<open>Nothing above the declared rate is admitted\<close>

text \<open>A run of requests on one key: when each arrives, how much it asks for. The result is how much was admitted.\<close>

fun take_run :: "int \<Rightarrow> int \<Rightarrow> (int \<times> int) list \<Rightarrow> bucket option \<Rightarrow> int" where
  "take_run limit window [] b = 0"
| "take_run limit window ((t, n) # reqs) b =
     (let ((ok, _, _), b') = takeScript t limit window n (present t b)
      in (if ok then n else 0) + take_run limit window reqs (Some b'))"

fun ordered_from :: "int \<Rightarrow> (int \<times> int) list \<Rightarrow> bool" where
  "ordered_from t [] \<longleftrightarrow> True"
| "ordered_from t ((t', n) # reqs) \<longleftrightarrow> t \<le> t' \<and> 0 \<le> n \<and> ordered_from t' reqs"

fun end_time :: "int \<Rightarrow> (int \<times> int) list \<Rightarrow> int" where
  "end_time t [] = t"
| "end_time t ((t', n) # reqs) = end_time t' reqs"

lemma end_time_ge: "ordered_from t reqs \<Longrightarrow> t \<le> end_time t reqs"
  by (induction t reqs rule: end_time.induct) auto

lemma bucket_ok_later: "bucket_ok limit window now b \<Longrightarrow> now \<le> now' \<Longrightarrow> bucket_ok limit window now' b"
  by (auto simp: bucket_ok_def split: option.splits)

lemma take_run_potential:
  assumes "0 < limit" and "0 < window"
  shows "bucket_ok limit window t b \<Longrightarrow> ordered_from t reqs \<Longrightarrow>
    of_int (take_run limit window reqs b) \<le>
      refill t limit window b + of_int (end_time t reqs - t) * (of_int limit / of_int window)"
proof (induction reqs arbitrary: t b)
  case Nil
  then show ?case using refill_bounds(1) [OF Nil(1) assms] by simp
next
  case (Cons req reqs)
  obtain t' n where req: "req = (t', n)" by (cases req)
  obtain ok remaining retry b' where s: "takeScript t' limit window n (present t' b) = ((ok, remaining, retry), b')"
    by (metis surj_pair)
  have tt: "t \<le> t'" and n: "0 \<le> n" and o: "ordered_from t' reqs" using Cons.prems(2) req by simp_all
  have ok': "bucket_ok limit window t' b" using bucket_ok_later [OF Cons.prems(1) tt] .
  note step = takeScript_bucket [OF s ok' assms n]
  have "of_int (take_run limit window reqs (Some b')) \<le>
      refill t' limit window (Some b') + of_int (end_time t' reqs - t') * (of_int limit / of_int window)"
    by (rule Cons.IH [OF step(1) o])
  then have "of_int (take_run limit window (req # reqs) b) \<le>
      refill t' limit window b + of_int (end_time t' reqs - t') * (of_int limit / of_int window)"
    using step(2) by (simp add: req s split: if_splits)
  also have "\<dots> \<le> refill t limit window b + of_int (t' - t) * (of_int limit / of_int window)
      + of_int (end_time t' reqs - t') * (of_int limit / of_int window)"
    using refill_later [OF Cons.prems(1) tt assms] by simp
  also have "\<dots> = refill t limit window b + of_int (end_time t (req # reqs) - t) * (of_int limit / of_int window)"
    by (simp add: req left_diff_distrib diff_divide_distrib)
  finally show ?case .
qed

text \<open>
  C32. The limiter never admits more than its declared rate plus one burst: of any run
  of requests on one key, in any sizes and at any instants, the units admitted
  between two instants are at most the limit plus the limit's share of the time
  between them -- key expiry included, which never loosens the limit.
\<close>

theorem admitted_within_rate:
  assumes "0 < limit" and "0 < window" and "bucket_ok limit window t b" and "ordered_from t reqs"
  shows "take_run limit window reqs b * window \<le> limit * (window + (end_time t reqs - t))"
proof -
  let ?rate = "of_int limit / of_int window :: rat"
  have "of_int (take_run limit window reqs b) \<le> of_int limit + of_int (end_time t reqs - t) * ?rate"
    using take_run_potential [OF assms] refill_bounds(2) [OF assms(3,1,2)] by linarith
  then have "of_int (take_run limit window reqs b) * of_int window \<le>
      (of_int limit + of_int (end_time t reqs - t) * ?rate) * of_int window"
    using assms(2) by (intro mult_right_mono) simp_all
  also have "\<dots> = of_int (limit * (window + (end_time t reqs - t)))"
    using assms(2) by (simp add: distrib_right algebra_simps)
  finally show ?thesis by (simp only: of_int_mult [symmetric] of_int_le_iff)
qed

theorem admitted_within_rate_witness:
  "take_run 3 1000 [(0, 1), (10, 3), (20, 2), (900, 2)] None * 1000 \<le>
     3 * (1000 + (end_time 0 [(0, 1), (10, 3), (20, 2), (900, 2)] - 0))"
  by (rule admitted_within_rate) (simp_all add: bucket_ok_def)

text \<open>
  A refusal tells the caller how long to wait, and waiting is enough: when a
  request within the limit is refused, the wait is positive, and the same request
  made once it has passed, with nothing admitted in between, is allowed.
\<close>

theorem refused_wait_suffices:
  assumes "takeScript now limit window n (present now b) = ((False, remaining, retry), b')"
    and "bucket_ok limit window now b" and "0 < limit" and "0 < window" and "0 \<le> n" and "n \<le> limit"
    and "now + retry \<le> later"
  shows "0 < retry \<and> fst (fst (takeScript later limit window n (present later (Some b'))))"
proof -
  let ?rate = "of_int limit / of_int window :: rat"
  let ?tokens = "refill now limit window b"
  note step = takeScript_bucket [OF assms(1-5)]
  have rate: "0 < ?rate" using assms(3,4) by simp
  have retry: "retry = \<lceil>(of_int n - ?tokens) / ?rate\<rceil>" and short: "?tokens < of_int n"
    and b': "bk_tokens b' = ?tokens" "bk_ts b' = now" "bk_limit b' = limit" "bk_window b' = window"
    using assms(1) unfolding takeScript_def refill_present [OF assms(2-4)] by (auto simp: Let_def split: if_splits)
  have pos: "0 < (of_int n - ?tokens) / ?rate" by (rule divide_pos_pos [OF _ rate]) (use short in simp)
  then have "0 < retry" by (simp add: retry)
  have "(of_int n - ?tokens) / ?rate \<le> of_int (later - now)"
    using assms(7) le_of_int_ceiling [of "(of_int n - ?tokens) / ?rate"] unfolding retry
    by (metis add_le_imp_le_diff add.commute of_int_le_iff order_trans)
  then have "of_int n - ?tokens \<le> of_int (later - now) * ?rate" using rate by (simp only: pos_divide_le_eq)
  then have "of_int n \<le> refill later limit window (Some b')"
    using \<open>0 < retry\<close> assms(6,7) b' by (simp add: refill_Some)
  moreover have "bucket_ok limit window later (Some b')"
    using bucket_ok_later [OF step(1)] \<open>0 < retry\<close> assms(7) by simp
  ultimately show ?thesis
    using \<open>0 < retry\<close> takeScript_bucket(3) [OF _ _ assms(3-5), of later "Some b'"] by (metis surj_pair fst_conv)
qed

definition drained :: bucket where
  "drained = \<lparr>bk_tokens = 0, bk_ts = 0, bk_limit = 3, bk_window = 1000\<rparr>"

lemma drained_refuses:
  "takeScript 100 3 1000 2 (present 100 (Some drained)) =
     ((False, 0, 567), \<lparr>bk_tokens = 3 / 10, bk_ts = 100, bk_limit = 3, bk_window = 1000\<rparr>)"
proof -
  have "\<lceil>1700 / (3 :: rat)\<rceil> = 567" by (rule ceiling_unique) simp_all
  moreover have "\<lfloor>3 / (10 :: rat)\<rfloor> = 0" by (rule floor_unique) simp_all
  ultimately show ?thesis by (simp add: takeScript_def present_def drained_def refill_def Let_def)
qed

theorem refused_wait_suffices_witness:
  "(0 :: int) < 567 \<and> fst (fst (takeScript 667 3 1000 2
     (present 667 (Some \<lparr>bk_tokens = 3 / 10, bk_ts = 100, bk_limit = 3, bk_window = 1000\<rparr>))))"
  by (rule refused_wait_suffices [OF drained_refuses]) (simp_all add: bucket_ok_def drained_def)

end
