(* ===== verification/Guard.thy ===== *)
theory Guard
  imports Ledger RateLimit Errors PublicId
begin

text \<open>
  \<open>internal/gateway/proxy/guard.go\<close>: the admission gates of one key -- its model
  allowlist, its organization's tier, its spend budget and the request and token
  rates of both levels -- and the identity they read (\<open>auth.go\<close>).

  A gate answers the error it refuses with, or nothing. The rate gates consume
  allowance, so they also pass the limiter's state on. Their lemmas are proved for
  any limiter that keeps the contract \<open>rate_limiter\<close>.
\<close>

section \<open>The identity\<close>

record Identity =
  id_KeyID :: uuid
  id_OrgID :: uuid
  id_KeyHash :: string
  id_Scopes :: "string list"
  id_ModelTierID :: uuid
  id_ModelTierStatus :: string
  id_ExpiresAt :: "instant option"
  id_AllowAllModels :: bool
  id_AllowedModels :: "string list"
  id_SpendLimitNano :: int
  id_SpendLimitInterval :: string
  id_RateLimitRPM :: int
  id_RateLimitTPM :: int
  id_OrgRateLimitRPM :: int
  id_OrgRateLimitTPM :: int
  id_TotalSpentNano :: int
  id_WalletCurrency :: string

definition no_identity :: Identity where
  "no_identity = \<lparr>id_KeyID = None, id_OrgID = None, id_KeyHash = [], id_Scopes = [], id_ModelTierID = None,
     id_ModelTierStatus = [], id_ExpiresAt = None, id_AllowAllModels = False, id_AllowedModels = [],
     id_SpendLimitNano = 0, id_SpendLimitInterval = [], id_RateLimitRPM = 0, id_RateLimitTPM = 0,
     id_OrgRateLimitRPM = 0, id_OrgRateLimitTPM = 0, id_TotalSpentNano = 0, id_WalletCurrency = []\<rparr>"

section \<open>The gates without side effects\<close>

fun model_listed :: "string list \<Rightarrow> string \<Rightarrow> bool" where
  "model_listed [] slug = False"
| "model_listed (m # ms) slug = (if m = slug then True else model_listed ms slug)"

definition CheckModel :: "Identity \<Rightarrow> string \<Rightarrow> Error option" where
  "CheckModel i modelSlug =
     (if id_AllowAllModels i then None
      else if model_listed (id_AllowedModels i) modelSlug then None
      else Some (NewError GatewayModelNotFound ''Model not found or unavailable''))"

definition CheckTier :: "Identity \<Rightarrow> Error option" where
  "CheckTier i =
     (if \<not> uuid_valid (id_ModelTierID i)
      then Some (NewError GatewayModelTierDisabled ''Your model access tier is unavailable; contact support'')
      else if id_ModelTierStatus i \<noteq> ''active''
      then Some (NewError GatewayModelTierDisabled ''Your model access tier is disabled; contact support'')
      else None)"

section \<open>Budget periods\<close>

text \<open>
  The proleptic Gregorian calendar over days counted from 1970-01-01: what
  \<open>time.Time\<close>'s \<open>Day\<close> answers, walking the months from the epoch.
\<close>

definition leap_year :: "nat \<Rightarrow> bool" where
  "leap_year y \<longleftrightarrow> y mod 4 = 0 \<and> (y mod 100 \<noteq> 0 \<or> y mod 400 = 0)"

definition month_days :: "nat \<Rightarrow> nat \<Rightarrow> nat" where
  "month_days y mo = (if mo = 2 then (if leap_year y then 29 else 28)
     else if mo = 4 \<or> mo = 6 \<or> mo = 9 \<or> mo = 11 then 30 else 31)"

function month_day :: "nat \<Rightarrow> nat \<Rightarrow> nat \<Rightarrow> nat" where
  "month_day y mo left =
     (if left < month_days y mo then left + 1
      else if mo = 12 then month_day (y + 1) 1 (left - month_days y mo)
      else month_day y (mo + 1) (left - month_days y mo))"
  by pat_completeness auto
termination by (relation "measure (\<lambda>(y, mo, left). left)") (auto simp: month_days_def)

declare month_day.simps [simp del]

text \<open>The first day of the budget period of an instant, as the day it is.\<close>

definition periodStart :: "string \<Rightarrow> instant \<Rightarrow> int" where
  "periodStart interval now =
     (if interval = ''monthly'' then day_of now - (int (month_day 1970 1 (nat (day_of now))) - 1)
      else day_of now)"

definition CheckBudget :: "Identity \<Rightarrow> instant \<Rightarrow> key_spend \<Rightarrow> Error option" where
  "CheckBudget i now keys =
     (let limit = id_SpendLimitNano i;
          over = (\<lambda>spent. if spent \<ge> limit
                   then Some (NewError GatewayKeyBudgetExceeded ''API key budget exhausted'') else None)
      in if limit \<le> 0 \<or> id_SpendLimitInterval i = [] then None
         else if id_SpendLimitInterval i = ''total'' then over (id_TotalSpentNano i)
         else if id_SpendLimitInterval i = ''daily'' \<or> id_SpendLimitInterval i = ''monthly''
         then (case SpendSince (id_KeyID i) (periodStart (id_SpendLimitInterval i) now) keys of
                 Inl _ \<Rightarrow> Some (NewError GatewayInternal ''Budget check failed'')
               | Inr spent \<Rightarrow> over spent)
         else None)"

section \<open>The rate gates\<close>

definition rate_limited :: "string \<Rightarrow> duration \<Rightarrow> Error" where
  "rate_limited message wait =
     \<lparr>e_Code = GatewayRateLimited, e_Message = message, e_RetryAfter = wait, e_UpstreamMessage = []\<rparr>"

definition rateWindow :: duration where "rateWindow = minutes 1"

definition checkRequests :: "'l Limiter \<Rightarrow> instant \<Rightarrow> string \<Rightarrow> int \<Rightarrow> string \<Rightarrow> 'l \<Rightarrow> Error option \<times> 'l" where
  "checkRequests L now bucket limit message l =
     (if limit \<le> 0 then (None, l)
      else case lim_Allow L now bucket limit rateWindow l of
             (Inl _, l) \<Rightarrow> (None, l)
           | (Inr res, l) \<Rightarrow> if res_Allowed res then (None, l) else (Some (rate_limited message (res_RetryAfter res)), l))"

definition checkTokens :: "'l Limiter \<Rightarrow> instant \<Rightarrow> string \<Rightarrow> int \<Rightarrow> int \<Rightarrow> string \<Rightarrow> 'l \<Rightarrow> Error option \<times> 'l" where
  "checkTokens L now bucket limit estimatedTokens message l =
     (if limit \<le> 0 \<or> estimatedTokens \<le> 0 then (None, l)
      else case lim_AllowN L now bucket (min estimatedTokens (limit + 1)) limit rateWindow l of
             (Inl _, l) \<Rightarrow> (None, l)
           | (Inr res, l) \<Rightarrow> if res_Allowed res then (None, l) else (Some (rate_limited message (res_RetryAfter res)), l))"

definition CheckRate :: "'l Limiter option \<Rightarrow> Identity \<Rightarrow> instant \<Rightarrow> int \<Rightarrow> 'l \<Rightarrow> Error option \<times> 'l" where
  "CheckRate limiter i now estimatedTokens l =
     (case limiter of
        None \<Rightarrow> (None, l)
      | Some L \<Rightarrow>
          (let orgID = UUIDString (id_OrgID i);
               keyID = UUIDString (id_KeyID i);
               (e, l) = checkRequests L now (''gw:rpm:org:'' @ orgID) (id_OrgRateLimitRPM i)
                          ''Organization request rate limit exceeded'' l
           in if e \<noteq> None then (e, l)
           else let (e, l) = checkTokens L now (''gw:tpm:org:'' @ orgID) (id_OrgRateLimitTPM i) estimatedTokens
                          ''Organization token rate limit exceeded'' l
           in if e \<noteq> None then (e, l)
           else let (e, l) = checkRequests L now (''gw:rpm:'' @ keyID) (id_RateLimitRPM i)
                          ''Request rate limit exceeded'' l
           in if e \<noteq> None then (e, l)
           else checkTokens L now (''gw:tpm:'' @ keyID) (id_RateLimitTPM i) estimatedTokens
                          ''Token rate limit exceeded'' l))"

section \<open>Budget periods start on the first day of a month\<close>

lemma month_day_pos: "1 \<le> month_day y mo left \<and> month_day y mo left \<le> 31"
proof (induction y mo left rule: month_day.induct)
  case (1 y mo left)
  show ?case
    using 1 by (subst (1 2) month_day.simps) (auto simp: month_days_def)
qed

lemma month_day_le: "month_day y mo left \<le> left + 1"
proof (induction y mo left rule: month_day.induct)
  case (1 y mo left)
  show ?case
    using 1 by (subst month_day.simps) force
qed

lemma month_day_back: "k < month_day y mo left \<Longrightarrow> month_day y mo (left - k) = month_day y mo left - k"
proof (induction y mo left rule: month_day.induct)
  case (1 y mo left)
  show ?case
  proof (cases "left < month_days y mo")
    case True
    then have "left - k < month_days y mo" by simp
    then show ?thesis
      using "1.prems" True by (simp add: month_day.simps [of y mo left] month_day.simps [of y mo "left - k"])
  next
    case False
    have shift: "left - k - month_days y mo = left - month_days y mo - k" by simp
    show ?thesis
    proof (cases "mo = 12")
      case True
      have lt: "k < month_day (y + 1) 1 (left - month_days y mo)"
        using "1.prems" False True by (simp add: month_day.simps [of y 12 left])
      then have "\<not> left - k < month_days y mo"
        using False month_day_le [of "y + 1" 1 "left - month_days y mo"] by linarith
      then show ?thesis
        using "1.IH"(1) [OF False True lt] False True shift
        by (simp add: month_day.simps [of y 12 left] month_day.simps [of y 12 "left - k"])
    next
      case neq: False
      have lt: "k < month_day y (mo + 1) (left - month_days y mo)"
        using "1.prems" False neq by (simp add: month_day.simps [of y mo left])
      then have "\<not> left - k < month_days y mo"
        using False month_day_le [of y "mo + 1" "left - month_days y mo"] by linarith
      then show ?thesis
        using "1.IH"(2) [OF False neq lt] False neq
        by (simp add: month_day.simps [of y mo left] month_day.simps [of y mo "left - k"] add.commute)
    qed
  qed
qed

abbreviation day_in_month :: "int \<Rightarrow> nat" where
  "day_in_month d \<equiv> month_day 1970 1 (nat d)"

lemma periodStart_monthly:
  assumes "0 \<le> now"
  defines "s \<equiv> periodStart ''monthly'' now"
  shows "0 \<le> s" and "s \<le> day_of now" and "day_of now - s \<le> 30" and "day_in_month s = 1"
    and "\<And>d. s < d \<Longrightarrow> d \<le> day_of now \<Longrightarrow> day_in_month d \<noteq> 1"
proof -
  have day: "0 \<le> day_of now" using assms by (simp add: day_of_def nanos_per_day_def pos_imp_zdiv_nonneg_iff)
  define md where "md = day_in_month (day_of now)"
  have md: "1 \<le> md" "md \<le> 31" "int md \<le> day_of now + 1"
    using month_day_pos month_day_le [of 1970 1 "nat (day_of now)"] day by (auto simp: md_def)
  have s: "s = day_of now - (int md - 1)" by (simp add: s_def periodStart_def md_def)
  show "0 \<le> s" "s \<le> day_of now" "day_of now - s \<le> 30" using md s by auto
  have earlier: "day_in_month (day_of now - int k) = md - k" if "k < md" for k
  proof -
    have "nat (day_of now - int k) = nat (day_of now) - k" by (simp add: nat_diff_distrib')
    then show ?thesis using month_day_back [of k 1970 1 "nat (day_of now)"] that by (simp add: md_def)
  qed
  show "day_in_month s = 1" using earlier [of "md - 1"] md s by (simp add: of_nat_diff)
  fix d assume d: "s < d" "d \<le> day_of now"
  have "day_in_month (day_of now - int (nat (day_of now - d))) = md - nat (day_of now - d)"
    using d s md by (intro earlier) linarith
  then show "day_in_month d \<noteq> 1" using d s md by simp
qed

section \<open>The budget sees every settled charge\<close>


definition budgeted :: Identity where
  "budgeted = no_identity\<lparr>id_KeyID := Some 7, id_SpendLimitNano := 100, id_SpendLimitInterval := ''daily''\<rparr>"

definition two_charges :: "(instant \<times> uuid \<times> int) list" where
  "two_charges = [(5, Some 7, 60), (6, Some 8, 30), (9, Some 7, 45)]"

lemma two_charges_run:
  "settle_run two_charges \<lparr>ks_daily = [], ks_total = [Some 7 \<mapsto> 0, Some 8 \<mapsto> 0]\<rparr> =
    Inr \<lparr>ks_daily = [((Some 7, 0), 105), ((Some 8, 0), 30)], ks_total = [Some 7 \<mapsto> 105, Some 8 \<mapsto> 30]\<rparr>"
  by (simp add: two_charges_def Recorder_def Recorder_SettleTx_def AddSpend_def daily_of_def day_of_def
      nanos_per_day_def is_int64_def fun_upd_twist)


section \<open>A refusal at the organization's ceiling\<close>

lemma hex_not_o: "hex_char d \<noteq> CHR ''o''"
proof -
  have "d mod 16 < length ''0123456789abcdef''" by simp
  then have "hex_char d \<in> set ''0123456789abcdef''" unfolding hex_char_def by (rule nth_mem)
  then show ?thesis by auto
qed

lemma set_hex_fixed: "set (hex_fixed w n) \<subseteq> range hex_char"
  by (induction w n rule: hex_fixed.induct) auto

lemma key_bucket_not_org: "kind @ UUIDString u \<noteq> kind @ ''org:'' @ UUIDString v"
proof (cases u)
  case (Some b)
  obtain c h where h: "hex_fixed 32 (unat b) = c # h"
    by (metis length_hex_fixed list.exhaust list.size(3) zero_neq_numeral)
  then have "c \<in> range hex_char" using set_hex_fixed [of 32 "unat b"] by auto
  then have "c \<noteq> CHR ''o''" using hex_not_o by auto
  moreover have "UUIDString u = c # tl (UUIDString u)" by (simp add: Some UUIDString_def dashed_def h)
  ultimately show ?thesis by (metis append_Cons list.inject same_append_eq)
qed (simp add: UUIDString_def)

text \<open>The answers of a limiter on one bucket, which is all a caller can see of its state.\<close>

definition same_answers :: "'l Limiter \<Rightarrow> string \<Rightarrow> 'l \<Rightarrow> 'l \<Rightarrow> bool" where
  "same_answers L bucket l l' \<longleftrightarrow>
     (\<forall>now n limit window. fst (lim_AllowN L now bucket n limit window l') = fst (lim_AllowN L now bucket n limit window l))"

lemma same_answers_refl [simp]: "same_answers L bucket l l"
  by (simp add: same_answers_def)

lemma same_answers_trans: "same_answers L bucket l l' \<Longrightarrow> same_answers L bucket l' l'' \<Longrightarrow> same_answers L bucket l l''"
  by (simp add: same_answers_def)

lemma checkRequests_message: "fst (checkRequests L now bucket limit message l) = Some e \<Longrightarrow>
    e_Message e = message \<and> e_Code e = GatewayRateLimited"
  by (auto simp: checkRequests_def rate_limited_def split: if_splits prod.splits sum.splits)

lemma checkTokens_message: "fst (checkTokens L now bucket limit est message l) = Some e \<Longrightarrow>
    e_Message e = message \<and> e_Code e = GatewayRateLimited"
  by (auto simp: checkTokens_def rate_limited_def split: if_splits prod.splits sum.splits)

context rate_limiter
begin

lemma AllowN_other: "bucket \<noteq> bucket' \<Longrightarrow> lim_AllowN L now bucket n limit window l = (r, l') \<Longrightarrow> same_answers L bucket' l l'"
  using keys_independent [of bucket' bucket _ _ _ _ now n limit window l] by (simp add: same_answers_def)

lemma checkRequests_other:
  "bucket \<noteq> bucket' \<Longrightarrow> same_answers L bucket' l (snd (checkRequests L now bucket limit message l))"
  using AllowN_other [of bucket bucket' now 1 limit rateWindow l]
  by (auto simp: checkRequests_def lim_Allow_def split: prod.split sum.split)

lemma checkTokens_other:
  "bucket \<noteq> bucket' \<Longrightarrow> same_answers L bucket' l (snd (checkTokens L now bucket limit est message l))"
  using AllowN_other [of bucket bucket' now "min est (limit + 1)" limit rateWindow l]
  by (auto simp: checkTokens_def split: prod.split sum.split)

lemma org_refusal_spares:
  assumes "CheckRate (Some L) i now est l = (Some e, l')"
    and "e_Message e \<in> {''Organization request rate limit exceeded'', ''Organization token rate limit exceeded''}"
    and "bucket \<noteq> ''gw:rpm:org:'' @ UUIDString (id_OrgID i)" and "bucket \<noteq> ''gw:tpm:org:'' @ UUIDString (id_OrgID i)"
  shows "same_answers L bucket l l'"
proof -
  let ?R = "checkRequests L now (''gw:rpm:org:'' @ UUIDString (id_OrgID i)) (id_OrgRateLimitRPM i)
    ''Organization request rate limit exceeded'' l"
  let ?T = "checkTokens L now (''gw:tpm:org:'' @ UUIDString (id_OrgID i)) (id_OrgRateLimitTPM i) est
    ''Organization token rate limit exceeded'' (snd ?R)"
  have "l' = snd ?R \<or> l' = snd ?T"
  proof (rule ccontr)
    assume "\<not> ?thesis"
    then have "fst ?R = None" and "fst ?T = None"
      using assms(1) by (auto simp: CheckRate_def Let_def case_prod_beta split: if_splits)
    then show False using assms by (auto simp: CheckRate_def Let_def case_prod_beta split: if_splits
          dest: checkRequests_message checkTokens_message checkTokens_message [OF arg_cong [where f = fst, of _ "(Some e, l')", simplified]])
  qed
  moreover have R: "same_answers L bucket l (snd ?R)" using assms(3) by (intro checkRequests_other) simp
  moreover have "same_answers L bucket (snd ?R) (snd ?T)" using assms(4) by (intro checkTokens_other) simp
  then have "same_answers L bucket l (snd ?T)" by (rule same_answers_trans [OF R])
  ultimately show ?thesis by (elim disjE) (simp_all only:)
qed

end

text \<open>
  When the whole organization is at its ceiling, finding that out costs the key
  nothing: a request refused at the organization's request or token rate leaves every
  later answer of the limiter on both of the key's own buckets as it was.
\<close>

theorem org_refusal_spares_key:
  assumes "CheckRate (Some redis_limiter) i now est l = (Some e, l')"
    and "e_Message e \<in> {''Organization request rate limit exceeded'', ''Organization token rate limit exceeded''}"
  shows "e_Code e = GatewayRateLimited \<and>
    same_answers redis_limiter (''gw:rpm:'' @ UUIDString (id_KeyID i)) l l' \<and>
    same_answers redis_limiter (''gw:tpm:'' @ UUIDString (id_KeyID i)) l l'"
proof (intro conjI)
  show "e_Code e = GatewayRateLimited"
    using assms(1) by (auto simp: CheckRate_def Let_def case_prod_beta split: if_splits
        dest: checkRequests_message checkTokens_message checkTokens_message [OF arg_cong [where f = fst, of _ "(Some e, l')", simplified]])
  show "same_answers redis_limiter (''gw:rpm:'' @ UUIDString (id_KeyID i)) l l'"
    using key_bucket_not_org [of "''gw:rpm:''"] by (intro redis.org_refusal_spares [OF assms]) auto
  show "same_answers redis_limiter (''gw:tpm:'' @ UUIDString (id_KeyID i)) l l'"
    using key_bucket_not_org [of "''gw:tpm:''"] by (intro redis.org_refusal_spares [OF assms]) auto
qed

definition org_capped :: Identity where
  "org_capped = no_identity\<lparr>id_KeyID := Some 7, id_OrgID := Some 3, id_OrgRateLimitTPM := 10\<rparr>"

theorem org_refusal_spares_key_witness:
  "\<exists>e l'. CheckRate (Some redis_limiter) org_capped 0 50 (\<lambda>_. None) = (Some e, l') \<and>
    e_Code e = GatewayRateLimited \<and>
    same_answers redis_limiter (''gw:rpm:'' @ UUIDString (Some 7)) (\<lambda>_. None) l'"
proof -
  have "\<exists>e. CheckRate (Some redis_limiter) org_capped 0 50 (\<lambda>_. None) = (Some e, \<lambda>_. None) \<and>
      e_Message e = ''Organization token rate limit exceeded''"
    by (simp add: CheckRate_def org_capped_def no_identity_def checkRequests_def checkTokens_def redis_limiter_def
        Redis_AllowN_def rate_limited_def no_result_def Let_def)
  then obtain e where e: "CheckRate (Some redis_limiter) org_capped 0 50 (\<lambda>_. None) = (Some e, \<lambda>_. None)"
    and "e_Message e = ''Organization token rate limit exceeded''" by blast
  then have "e_Code e = GatewayRateLimited \<and>
      same_answers redis_limiter (''gw:rpm:'' @ UUIDString (id_KeyID org_capped)) (\<lambda>_. None) (\<lambda>_. None)"
    using org_refusal_spares_key [OF e] by simp
  then show ?thesis using e by (auto simp: org_capped_def)
qed

end
