(* ===== verification/Rotation.thy ===== *)
theory Rotation
  imports Breaker Router Classify Guard
begin

text \<open>
  \<open>internal/gateway/proxy/rotation.go\<close> and the parts of \<open>pipeline.go\<close> it drives: which
  candidates are usable, whether an upstream account has allowance left, which
  credential is used, how one request walks its candidates and which circuit each
  failure advances.

  One attempt is a parameter: a function of the route, the attempt's number, the
  circuits and a state of its own (credential cursors, the organization's credentials),
  answering the outcome, the circuits it leaves (a success records itself there) and that
  state. Its outcome carries the time it took. The model runs one request at a time.
\<close>

section \<open>State and configuration\<close>

record ('s, 'l) pipeline_config =
  pc_breaker :: "'s Breaker"
  pc_limiter :: "'l Limiter option"
  pc_perProviderConcurrency :: int
  pc_probes :: bool

record ('s, 'l, 'x) pipeline_state =
  ps_circuits :: "'s circuits"
  ps_budget :: RetryBudget
  ps_semaphores :: "string \<rightharpoonup> Semaphore option"
  ps_limiter :: 'l
  ps_attempt :: 'x
  ps_draws :: "nat list"
  ps_jitter :: "rat list"
  ps_probe_requests :: "(uuid \<times> string) list"

definition defaultProviderConcurrency :: int where "defaultProviderConcurrency = 64"

section \<open>Capacity\<close>

definition semaphoreFor :: "('s, 'l) pipeline_config \<Rightarrow> uuid \<Rightarrow> int \<Rightarrow> (string \<rightharpoonup> Semaphore option)
    \<Rightarrow> Semaphore option \<times> (string \<rightharpoonup> Semaphore option)" where
  "semaphoreFor cfg providerID limit sems =
     (let limit = (if limit \<le> 0 then pc_perProviderConcurrency cfg else limit);
          key = UUIDString providerID;
          fresh = (let sem = NewSemaphore limit in (sem, sems(key \<mapsto> sem)))
      in case sems key of
           Some sem \<Rightarrow> if Capacity sem = limit then (sem, sems) else fresh
         | None \<Rightarrow> fresh)"

definition providerCapacityBucket :: "string \<Rightarrow> uuid \<Rightarrow> string" where
  "providerCapacityBucket kind providerID = ''gw:cap:'' @ kind @ '':'' @ UUIDString providerID"

text \<open>One gate of \<open>capacityAllows\<close>: an error of the limiter lets the attempt through.\<close>

definition capacity_gate :: "(unit + Result) \<times> 'l \<Rightarrow> (bool \<times> duration) \<times> 'l" where
  "capacity_gate a =
     (case a of
        (Inl _, l) \<Rightarrow> ((True, 0), l)
      | (Inr res, l) \<Rightarrow> if \<not> res_Allowed res then ((False, res_RetryAfter res), l) else ((True, 0), l))"

definition capacityAllows :: "('s, 'l) pipeline_config \<Rightarrow> instant \<Rightarrow> Route \<Rightarrow> int \<Rightarrow> 'l \<Rightarrow> (bool \<times> duration) \<times> 'l" where
  "capacityAllows cfg now route estimatedTokens l =
     (case pc_limiter cfg of
        None \<Rightarrow> ((True, 0), l)
      | Some L \<Rightarrow>
          (let rpm = RateLimitRPM (r_Capacity route);
               (a, l) = (if rpm > 0
                         then capacity_gate (lim_Allow L now (providerCapacityBucket ''rpm'' (r_ProviderID route)) rpm rateWindow l)
                         else ((True, 0), l))
           in if \<not> fst a then (a, l)
              else (let tpm = RateLimitTPM (r_Capacity route)
                    in if tpm > 0 \<and> estimatedTokens > 0
                       then capacity_gate (lim_AllowN L now (providerCapacityBucket ''tpm'' (r_ProviderID route))
                              (min estimatedTokens (tpm + 1)) tpm rateWindow l)
                       else ((True, 0), l))))"

section \<open>Credentials\<close>

definition nextKeyOffset :: "uuid \<Rightarrow> nat \<Rightarrow> (string \<rightharpoonup> 64 word) \<Rightarrow> nat \<times> (string \<rightharpoonup> 64 word)" where
  "nextKeyOffset providerID n cursors =
     (if n \<le> 1 then (0, cursors)
      else (let key = UUIDString providerID;
                v = (case cursors key of None \<Rightarrow> 0 | Some v \<Rightarrow> v) + 1
            in (unat v mod n, cursors(key \<mapsto> v))))"

text \<open>A stored credential: its id and its sealed secret. Opening the seal is a parameter.\<close>

type_synonym stored_key = "uuid \<times> string"

fun pick_loop :: "'s Breaker \<Rightarrow> (string \<Rightarrow> uuid \<Rightarrow> string option) \<Rightarrow> instant \<Rightarrow> stored_key list
    \<Rightarrow> 's circuits \<Rightarrow> (uuid \<times> string) option \<times> 's circuits" where
  "pick_loop b box now [] c = (None, c)"
| "pick_loop b box now ((kid, enc) # ks) c =
     (let (ok, c) = KeyAvailable b now kid c
      in if \<not> ok then pick_loop b box now ks c
         else case box enc kid of
                None \<Rightarrow> pick_loop b box now ks c
              | Some plain \<Rightarrow> (Some (kid, plain), c))"

definition pickKey :: "'s Breaker \<Rightarrow> (string \<Rightarrow> uuid \<Rightarrow> string option) \<Rightarrow> instant \<Rightarrow> stored_key list option \<Rightarrow> Route
    \<Rightarrow> 's circuits \<Rightarrow> (string \<rightharpoonup> 64 word) \<Rightarrow> (Error + uuid \<times> string) \<times> 's circuits \<times> (string \<rightharpoonup> 64 word)" where
  "pickKey b box now stored route c cursors =
     (case stored of
        None \<Rightarrow> (Inl (NewError GatewayAllProvidersFailed ''Provider is unavailable''), c, cursors)
      | Some [] \<Rightarrow> (Inl (NewError GatewayAllProvidersFailed ''Provider is unavailable''), c, cursors)
      | Some keys \<Rightarrow>
          (let (start, cursors) = nextKeyOffset (r_ProviderID route) (length keys) cursors;
               (found, c) = pick_loop b box now (map (\<lambda>i. keys ! ((start + i) mod length keys)) [0..<length keys]) c
           in case found of
                Some k \<Rightarrow> (Inr k, c, cursors)
              | None \<Rightarrow> (Inl (NewError GatewayAllProvidersFailed
                   ''Provider has no usable credential: all are cooling down or failed to decrypt''), c, cursors)))"

section \<open>Circuits\<close>

fun availableRoutes :: "'s Breaker \<Rightarrow> instant \<Rightarrow> Route list \<Rightarrow> 's circuits \<Rightarrow> Route list \<times> 's circuits" where
  "availableRoutes b now [] c = ([], c)"
| "availableRoutes b now (r # rs) c =
     (let (ok, c) = ProviderAvailable b now (r_ProviderID r) c;
          (out, c) = availableRoutes b now rs c
      in (if ok then r # out else out, c))"

definition next_jitter :: "rat list \<Rightarrow> rat" where
  "next_jitter js = (case js of [] \<Rightarrow> 0 | j # _ \<Rightarrow> j)"

text \<open>\<open>endpoint\<close> is the one the request's surface names, empty when it names none.\<close>

definition applyBreaker :: "('s, 'l) pipeline_config \<Rightarrow> instant \<Rightarrow> Route \<Rightarrow> string \<Rightarrow> Classification \<Rightarrow> bool
    \<Rightarrow> ('s, 'l, 'x) pipeline_state \<Rightarrow> ('s, 'l, 'x) pipeline_state" where
  "applyBreaker cfg now route endpoint cls byok st =
     (case c_Class cls of
        ClassKey \<Rightarrow>
          st\<lparr>ps_circuits := RecordKeyFailure (pc_breaker cfg) now (next_jitter (ps_jitter st)) (c_keyID cls)
               (c_CooldownHint cls) (auth_failure cls) (ps_circuits st), ps_jitter := drop 1 (ps_jitter st)\<rparr>
      | ClassProvider \<Rightarrow>
          if c_CountsTowardHealth cls
          then st\<lparr>ps_circuits := RecordProviderFailure (pc_breaker cfg) now (next_jitter (ps_jitter st))
                    (r_ProviderID route) ''upstream failure'' (ps_circuits st), ps_jitter := drop 1 (ps_jitter st)\<rparr>
          else st
      | ClassRoute \<Rightarrow>
          if pc_probes cfg \<and> \<not> byok \<and> endpoint \<noteq> []
          then st\<lparr>ps_probe_requests := ps_probe_requests st @ [(r_ID route, endpoint)]\<rparr>
          else st
      | _ \<Rightarrow> st)"

section \<open>Rotation\<close>

record attemptOutcome =
  ao_cls :: Classification
  ao_err :: "Error option"
  ao_keyID :: uuid
  ao_byok :: bool
  ao_committed :: bool
  ao_budgetSpent :: bool
  ao_elapsed :: duration

record failedHop =
  fh_RouteID :: string
  fh_ProviderID :: string
  fh_ProviderKeyID :: string
  fh_Class :: string
  fh_HTTPStatus :: int
  fh_ErrorCode :: string
  fh_LatencyMs :: int
  fh_Priority :: int
  fh_Weight :: int

record rotationResult =
  rr_route :: "Route option"
  rr_keyID :: uuid
  rr_byok :: bool
  rr_attempts :: nat
  rr_trail :: "failedHop list"
  rr_err :: "Error option"

definition zero_rotation :: rotationResult where
  "zero_rotation = \<lparr>rr_route = None, rr_keyID = None, rr_byok = False, rr_attempts = 0, rr_trail = [], rr_err = None\<rparr>"

definition saturated :: "duration \<Rightarrow> Error" where
  "saturated wait = \<lparr>e_Code = GatewaySaturated, e_Message = ''Upstream capacity saturated'', e_RetryAfter = wait,
     e_UpstreamMessage = []\<rparr>"

definition failed_hop :: "Route \<Rightarrow> attemptOutcome \<Rightarrow> Error \<Rightarrow> failedHop" where
  "failed_hop route out e =
     \<lparr>fh_RouteID = UUIDString (r_ID route), fh_ProviderID = UUIDString (r_ProviderID route),
      fh_ProviderKeyID = UUIDString (ao_keyID out), fh_Class = class_string (c_Class (ao_cls out)),
      fh_HTTPStatus = c_upstreamStatus (ao_cls out), fh_ErrorCode = e_Code e,
      fh_LatencyMs = quo (ao_elapsed out) 1000000, fh_Priority = r_Priority route, fh_Weight = r_Weight route\<rparr>"

type_synonym ('s, 'x) attempt = "Route \<Rightarrow> nat \<Rightarrow> 's circuits \<Rightarrow> 'x \<Rightarrow> attemptOutcome \<times> 's circuits \<times> 'x"

text \<open>
  One candidate. \<open>Inl\<close> leaves the loop, its flag saying whether the function returned
  from there (past the final check) or broke out; \<open>Inr\<close> goes on to the next candidate.
\<close>

definition rotate_step :: "('s, 'l) pipeline_config \<Rightarrow> ('s, 'x) attempt \<Rightarrow> string \<Rightarrow> int \<Rightarrow> instant \<Rightarrow> Route
    \<Rightarrow> rotationResult \<Rightarrow> ('s, 'l, 'x) pipeline_state
    \<Rightarrow> bool \<times> rotationResult \<times> ('s, 'l, 'x) pipeline_state + instant \<times> rotationResult \<times> ('s, 'l, 'x) pipeline_state" where
  "rotate_step cfg attempt endpoint est now route res st =
     (if rr_attempts res \<ge> maxRouteAttempts then Inl (False, res, st)
      else let (ok, budget) = (if rr_attempts res > 0 then AllowRetry (ps_budget st) else (True, ps_budget st));
               st = st\<lparr>ps_budget := budget\<rparr>
      in if \<not> ok then Inl (False, res, st)
      else let res = res\<lparr>rr_route := Some route, rr_keyID := None\<rparr>;
               ((room, wait), l) = capacityAllows cfg now route est (ps_limiter st);
               st = st\<lparr>ps_limiter := l\<rparr>
      in if \<not> room
         then Inr (now, res\<lparr>rr_err := Some (saturated (if wait \<le> 0 then seconds 1 else wait))\<rparr>, st)
      else let (sem, sems) = semaphoreFor cfg (r_ProviderID route) (MaxConcurrency (r_Capacity route)) (ps_semaphores st);
               (entered, sem) = TryAcquire sem;
               st = st\<lparr>ps_semaphores := sems(UUIDString (r_ProviderID route) \<mapsto> sem)\<rparr>
      in if \<not> entered
         then Inr (now, res\<lparr>rr_err := Some (saturated (seconds 1))\<rparr>, st)
      else let res = res\<lparr>rr_attempts := rr_attempts res + 1\<rparr>;
               (out, c, x) = attempt route (rr_attempts res) (ps_circuits st) (ps_attempt st);
               now = now + ao_elapsed out;
               st = st\<lparr>ps_circuits := c, ps_attempt := x, ps_semaphores := (ps_semaphores st)(UUIDString (r_ProviderID route) \<mapsto> Release sem)\<rparr>;
               res = res\<lparr>rr_keyID := ao_keyID out, rr_byok := ao_byok out\<rparr>
      in case ao_err out of
           None \<Rightarrow> Inl (True, res\<lparr>rr_err := None\<rparr>, st)
         | Some e \<Rightarrow>
             (let res = res\<lparr>rr_err := Some e\<rparr>;
                  st = applyBreaker cfg now route endpoint (ao_cls out) (ao_byok out) st
              in if ao_committed out then Inl (True, res, st)
                 else (let res = res\<lparr>rr_trail := rr_trail res @ [failed_hop route out e]\<rparr>
                       in if \<not> Retryable (ao_cls out) \<or> ao_budgetSpent out then Inl (True, res, st)
                          else Inr (now, res, st))))"

fun rotate_loop :: "('s, 'l) pipeline_config \<Rightarrow> ('s, 'x) attempt \<Rightarrow> string \<Rightarrow> int \<Rightarrow> instant \<Rightarrow> Route list
    \<Rightarrow> rotationResult \<Rightarrow> ('s, 'l, 'x) pipeline_state \<Rightarrow> bool \<times> rotationResult \<times> ('s, 'l, 'x) pipeline_state" where
  "rotate_loop cfg attempt endpoint est now [] res st = (False, res, st)"
| "rotate_loop cfg attempt endpoint est now (route # rest) res st =
     (case rotate_step cfg attempt endpoint est now route res st of
        Inl done \<Rightarrow> done
      | Inr (now, res, st) \<Rightarrow> rotate_loop cfg attempt endpoint est now rest res st)"

definition rotate :: "('s, 'l) pipeline_config \<Rightarrow> ('s, 'x) attempt \<Rightarrow> string \<Rightarrow> int \<Rightarrow> instant \<Rightarrow> Route list
    \<Rightarrow> ('s, 'l, 'x) pipeline_state \<Rightarrow> rotationResult \<times> ('s, 'l, 'x) pipeline_state" where
  "rotate cfg attempt endpoint est now candidates st =
     (let st = st\<lparr>ps_budget := StartRequest (ps_budget st)\<rparr>;
          (usable, c) = availableRoutes (pc_breaker cfg) now candidates (ps_circuits st);
          (ordered, draws) = Order (ps_draws st) usable;
          st = st\<lparr>ps_circuits := c, ps_draws := draws\<rparr>
      in if ordered = []
         then (zero_rotation\<lparr>rr_err := Some (NewError GatewayAllProvidersFailed ''No provider available: every circuit is open'')\<rparr>, st)
         else (let (returned, res, st) = rotate_loop cfg attempt endpoint est now ordered zero_rotation st
               in if \<not> returned \<and> rr_err res = None
                  then (res\<lparr>rr_err := Some (NewError GatewayAllProvidersFailed ''Every candidate failed'')\<rparr>, st)
                  else (res, st)))"

section \<open>How a rotation ends\<close>

text \<open>What holds each time the loop is about to look at the next candidate.\<close>

definition rotation_inv :: "Route set \<Rightarrow> rotationResult \<Rightarrow> bool" where
  "rotation_inv R res \<longleftrightarrow> length (rr_trail res) = rr_attempts res \<and> rr_attempts res \<le> maxRouteAttempts \<and>
     (if rr_err res = None then rr_attempts res = 0 \<and> rr_route res = None else rr_route res \<in> Some ` R)"

text \<open>What the result looks like when it leaves the loop.\<close>

definition rotation_post :: "Route set \<Rightarrow> bool \<Rightarrow> rotationResult \<Rightarrow> bool" where
  "rotation_post R returned res \<longleftrightarrow>
     rr_attempts res \<le> maxRouteAttempts \<and>
     length (rr_trail res) \<le> rr_attempts res \<and> rr_attempts res \<le> Suc (length (rr_trail res)) \<and>
     rr_route res \<in> Some ` R \<and>
     (rr_err res = None \<longrightarrow> returned \<and> rr_attempts res = Suc (length (rr_trail res)))"

lemma rotate_step_post:
  assumes "rotation_inv R res" and "route \<in> R"
  shows "case rotate_step cfg attempt endpoint est now route res st of
      Inl (returned, res', st') \<Rightarrow> rotation_post R returned res'
    | Inr (now', res', st') \<Rightarrow> rotation_inv R res' \<and> rr_err res' \<noteq> None"
  using assms
  by (auto simp: rotate_step_def rotation_inv_def rotation_post_def maxRouteAttempts_def Let_def
      split: prod.split option.split if_splits)

lemma rotate_loop_post:
  assumes "rotation_inv R res" and "set routes \<subseteq> R" and "routes \<noteq> [] \<or> rr_err res \<noteq> None"
    and "rotate_loop cfg attempt endpoint est now routes res st = (returned, res', st')"
  shows "rotation_post R returned res'"
  using assms
proof (induction routes arbitrary: now res st)
  case Nil
  then show ?case by (auto simp: rotation_inv_def rotation_post_def split: if_splits)
next
  case (Cons route rest)
  have step: "case rotate_step cfg attempt endpoint est now route res st of
      Inl (returned, res', st') \<Rightarrow> rotation_post R returned res'
    | Inr (now', res', st') \<Rightarrow> rotation_inv R res' \<and> rr_err res' \<noteq> None"
    by (rule rotate_step_post) (use Cons.prems in auto)
  show ?case
  proof (cases "rotate_step cfg attempt endpoint est now route res st")
    case (Inl d)
    with step Cons.prems(4) show ?thesis by simp
  next
    case (Inr c)
    obtain now2 res2 st2 where c: "c = (now2, res2, st2)" by (metis prod_cases3)
    from step Inr c have "rotation_inv R res2" "rr_err res2 \<noteq> None" by simp_all
    with Cons.IH [of res2 now2 st2] Cons.prems(2,4) Inr c show ?thesis by simp
  qed
qed

lemma availableRoutes_subset: "set (fst (availableRoutes b now rs c)) \<subseteq> set rs"
  by (induction rs arbitrary: c) (auto simp: Let_def case_prod_beta)

lemma rotate_outcome:
  assumes "rotate cfg attempt endpoint est now candidates st = (res, st')"
  shows "rr_attempts res \<le> 3 \<and> length (rr_trail res) \<le> rr_attempts res \<and>
    rr_attempts res \<le> Suc (length (rr_trail res)) \<and>
    (rr_err res = None \<longrightarrow> rr_attempts res = Suc (length (rr_trail res)) \<and>
       (\<exists>route \<in> set candidates. rr_route res = Some route))"
proof -
  obtain usable c where u: "availableRoutes (pc_breaker cfg) now candidates (ps_circuits st) = (usable, c)" by (metis surj_pair)
  obtain ordered draws where o: "Order (ps_draws st) usable = (ordered, draws)" by (metis surj_pair)
  have "set ordered = set usable" using arg_cong [OF o, of fst] mset_order_groups
    by (auto simp: Order_def split: if_splits) (metis mset_eq_setD)+
  then have sub: "set ordered \<subseteq> set candidates" using availableRoutes_subset u by (metis fst_conv)
  show ?thesis
  proof (cases "ordered = []")
    case True
    with assms u o show ?thesis by (auto simp: rotate_def Let_def zero_rotation_def)
  next
    case False
    let ?st = "st\<lparr>ps_budget := StartRequest (ps_budget st), ps_circuits := c, ps_draws := draws\<rparr>"
    obtain ret res2 st2 where l: "rotate_loop cfg attempt endpoint est now ordered zero_rotation ?st = (ret, res2, st2)"
      by (metis prod_cases3)
    have "rotation_inv (set candidates) zero_rotation" by (simp add: rotation_inv_def zero_rotation_def)
    from rotate_loop_post [OF this sub _ l] False have "rotation_post (set candidates) ret res2" by simp
    with assms u o l False show ?thesis
      by (auto simp: rotate_def Let_def rotation_post_def maxRouteAttempts_def split: if_splits)
  qed
qed

lemma rotate_route:
  assumes "rotate cfg attempt endpoint est now candidates st = (res, st')" and "rr_err res = None" and "rr_route res = Some route"
  shows "route \<in> set candidates"
  using rotate_outcome [OF assms(1)] assms(2,3) by auto


text \<open>A rotation that serves does so by one attempt, and reports that attempt's credential.\<close>

lemma rotate_loop_served:
  assumes "rotate_loop cfg attempt endpoint est now routes res st = (True, res', st')" and "rr_err res' = None"
  shows "\<exists>route n c x out c'. attempt route n c x = (out, c', ps_attempt st') \<and> ao_err out = None \<and>
    rr_route res' = Some route \<and> rr_keyID res' = ao_keyID out \<and> rr_byok res' = ao_byok out"
  using assms
proof (induction routes arbitrary: now res st)
  case (Cons route rest)
  show ?case
  proof (cases "rotate_step cfg attempt endpoint est now route res st")
    case (Inl d)
    with Cons.prems have "rotate_step cfg attempt endpoint est now route res st = Inl (True, res', st')" by simp
    then show ?thesis using Cons.prems(2)
      by (auto simp: rotate_step_def Let_def split: prod.splits option.splits if_splits) metis+
  next
    case (Inr c)
    then show ?thesis using Cons by (cases c) auto
  qed
qed simp

lemma rotate_served:
  assumes "rotate cfg attempt endpoint est now candidates st = (res, st')" and "rr_err res = None"
  shows "\<exists>route n c x out c'. attempt route n c x = (out, c', ps_attempt st') \<and> ao_err out = None \<and>
    rr_route res = Some route \<and> rr_keyID res = ao_keyID out \<and> rr_byok res = ao_byok out"
proof -
  obtain usable c where u: "availableRoutes (pc_breaker cfg) now candidates (ps_circuits st) = (usable, c)" by (metis surj_pair)
  obtain ordered draws where o: "Order (ps_draws st) usable = (ordered, draws)" by (metis surj_pair)
  let ?st = "st\<lparr>ps_budget := StartRequest (ps_budget st), ps_circuits := c, ps_draws := draws\<rparr>"
  obtain ret res2 st2 where l: "rotate_loop cfg attempt endpoint est now ordered zero_rotation ?st = (ret, res2, st2)"
    by (metis prod_cases3)
  with assms u o have "ret" "res2 = res" "st2 = st'" by (auto simp: rotate_def Let_def split: if_splits)
  with l assms(2) show ?thesis using rotate_loop_served by metis
qed

section \<open>Failover reaches a working candidate\<close>

text \<open>Every provider's semaphore is idle, so a request may enter each.\<close>

definition idle :: "(string \<rightharpoonup> Semaphore option) \<Rightarrow> bool" where
  "idle sems \<longleftrightarrow> (\<forall>k s. sems k = Some (Some s) \<longrightarrow> sem_used s = 0 \<and> 0 < sem_capacity s)"

lemma idle_semaphoreFor:
  assumes "idle sems" and "semaphoreFor cfg p limit sems = (sem, sems')" and "TryAcquire sem = (entered, sem')"
  shows "entered" and "idle (sems'(k \<mapsto> Release sem'))"
proof -
  have fresh: "NewSemaphore n = Some s \<Longrightarrow> sem_used s = 0 \<and> 0 < sem_capacity s" for n s
    by (auto simp: NewSemaphore_def split: if_splits)
  have "idle sems'" and "\<forall>s. sem = Some s \<longrightarrow> sem_used s = 0 \<and> 0 < sem_capacity s"
    using assms(1,2) fresh by (auto simp: semaphoreFor_def idle_def Let_def split: option.splits if_splits)
  with assms(3) show "entered" and "idle (sems'(k \<mapsto> Release sem'))"
    by (auto simp: TryAcquire_def Release_def idle_def split: option.splits if_splits)
qed

text \<open>The attempts of a run in which nothing depends on the circuits: the outcome is a function of the route.\<close>

definition scripted :: "(Route \<Rightarrow> attemptOutcome) \<Rightarrow> ('s, 'x) attempt" where
  "scripted f = (\<lambda>route n c x. (f route, c, x))"

definition fails_over :: "attemptOutcome \<Rightarrow> bool" where
  "fails_over out \<longleftrightarrow> ao_err out \<noteq> None \<and> Retryable (ao_cls out) \<and> \<not> ao_committed out \<and> \<not> ao_budgetSpent out"

definition ready :: "('s, 'l, 'x) pipeline_state \<Rightarrow> bool" where
  "ready st \<longleftrightarrow> idle (ps_semaphores st) \<and> rb_requests (ps_budget st) < minSamples"

lemma applyBreaker_keeps: "ps_semaphores (applyBreaker cfg now route ep cls byok st) = ps_semaphores st"
  "ps_budget (applyBreaker cfg now route ep cls byok st) = ps_budget st"
  by (simp_all add: applyBreaker_def split: FailureClass.split)

lemma rotate_step_scripted:
  assumes "pc_limiter cfg = None" and "ready st" and "rr_attempts res < maxRouteAttempts"
  shows "ao_err (f route) = None \<Longrightarrow>
      \<exists>st'. rotate_step cfg (scripted f) ep est now route res st =
        Inl (True, res\<lparr>rr_route := Some route, rr_keyID := ao_keyID (f route), rr_byok := ao_byok (f route),
               rr_attempts := Suc (rr_attempts res), rr_err := None\<rparr>, st')" (is "_ \<Longrightarrow> ?served")
    and "fails_over (f route) \<Longrightarrow>
      \<exists>now' st' res'. rotate_step cfg (scripted f) ep est now route res st = Inr (now', res', st') \<and> ready st' \<and>
        rr_attempts res' = Suc (rr_attempts res) \<and>
        rr_trail res' = rr_trail res @ [failed_hop route (f route) (the (ao_err (f route)))]" (is "_ \<Longrightarrow> ?next")
proof -
  obtain sem sems where sm: "semaphoreFor cfg (r_ProviderID route) (MaxConcurrency (r_Capacity route)) (ps_semaphores st) = (sem, sems)"
    by (metis surj_pair)
  obtain entered sem' where ta: "TryAcquire sem = (entered, sem')" by (metis surj_pair)
  have i: "idle (ps_semaphores st)" and b: "rb_requests (ps_budget st) < minSamples"
    using assms(2) by (simp_all add: ready_def)
  note e = idle_semaphoreFor [OF i sm ta]
  have a: "AllowRetry (ps_budget st) = (True, ps_budget st)" using b by (simp add: AllowRetry_def)
  show "ao_err (f route) = None \<Longrightarrow> ?served"
    using assms(1,3) sm ta e(1) a
    by (auto simp: rotate_step_def scripted_def capacityAllows_def Let_def)
  show "fails_over (f route) \<Longrightarrow> ?next"
    using assms(1,3) sm ta e a b
    by (auto simp: rotate_step_def scripted_def capacityAllows_def fails_over_def ready_def applyBreaker_keeps Let_def)
qed

lemma rotate_loop_scripted:
  assumes "pc_limiter cfg = None" and "ready st" and "\<forall>x \<in> set pre. fails_over (f x)" and "ao_err (f r) = None"
    and "rr_attempts res + length pre < maxRouteAttempts"
  shows "\<exists>res' st'. rotate_loop cfg (scripted f) ep est now (pre @ r # post) res st = (True, res', st') \<and>
    rr_err res' = None \<and> rr_route res' = Some r \<and> rr_attempts res' = Suc (rr_attempts res + length pre) \<and>
    rr_trail res' = rr_trail res @ map (\<lambda>x. failed_hop x (f x) (the (ao_err (f x)))) pre"
  using assms(2,3,5)
proof (induction pre arbitrary: now res st)
  case Nil
  then have "rr_attempts res < maxRouteAttempts" by simp
  from rotate_step_scripted(1) [where f = f and route = r, OF assms(1) Nil(1) this assms(4), of ep est now] obtain st' where
    "rotate_step cfg (scripted f) ep est now r res st = Inl (True, res\<lparr>rr_route := Some r, rr_keyID := ao_keyID (f r),
       rr_byok := ao_byok (f r), rr_attempts := Suc (rr_attempts res), rr_err := None\<rparr>, st')" by blast
  then show ?case by simp
next
  case (Cons x pre)
  then have "rr_attempts res < maxRouteAttempts" "fails_over (f x)" by simp_all
  from rotate_step_scripted(2) [where f = f and route = x, OF assms(1) Cons.prems(1) this, of ep est now] obtain now' res' st' where
    step: "rotate_step cfg (scripted f) ep est now x res st = Inr (now', res', st')" "ready st'"
      "rr_attempts res' = Suc (rr_attempts res)"
      "rr_trail res' = rr_trail res @ [failed_hop x (f x) (the (ao_err (f x)))]" by blast
  have "rr_attempts res' + length pre < maxRouteAttempts" using Cons.prems(3) step(3) by simp
  from Cons.IH [OF step(2) _ this, of now'] Cons.prems(2) step show ?case by auto
qed


section \<open>Examples\<close>

definition sample_config :: "(Memory, redis) pipeline_config" where
  "sample_config = \<lparr>pc_breaker = NewBreaker memory_store NoDatabase, pc_limiter = None,
     pc_perProviderConcurrency = defaultProviderConcurrency, pc_probes = True\<rparr>"

definition sample_state :: "(Memory, redis, unit) pipeline_state" where
  "sample_state = \<lparr>ps_circuits = fresh_circuits, ps_budget = NewRetryBudget, ps_semaphores = Map.empty,
     ps_limiter = (\<lambda>_. None), ps_attempt = (), ps_draws = [], ps_jitter = [], ps_probe_requests = []\<rparr>"

definition served :: attemptOutcome where
  "served = \<lparr>ao_cls = no_classification, ao_err = None, ao_keyID = Some 7, ao_byok = False, ao_committed = False,
     ao_budgetSpent = False, ao_elapsed = 0\<rparr>"

definition overload_outcome :: attemptOutcome where
  "overload_outcome = served\<lparr>ao_cls := ClassifyStatus 529 [] [], ao_err := c_Err (ClassifyStatus 529 [] [])\<rparr>"

definition first_overloaded :: "Route \<Rightarrow> attemptOutcome" where
  "first_overloaded route = (if r_ID route = Some 1 then overload_outcome else served)"

lemma overloaded_fails_over: "fails_over overload_outcome"
  by (simp add: fails_over_def overload_outcome_def served_def ClassifyStatus_def withStatus_def no_classification_def
      Retryable_def statusOverloaded_def)

lemma sample_available:
  "availableRoutes (NewBreaker memory_store NoDatabase) now rs fresh_circuits = (rs, fresh_circuits)"
  by (induction rs) (simp_all add: ProviderAvailable_def Available_def memory_store_def Memory_Get_def
      fresh_circuits_def NewMemory_def)

definition two_routes :: "Route list" where
  "two_routes = [sample_route, sample_route\<lparr>r_ID := Some 2, r_ProviderID := Some 2, r_Priority := 2\<rparr>]"

lemma two_routes_order: "fst (Order [] two_routes) = [sample_route] @ two_routes ! 1 # []"
  by (simp add: Order_def two_routes_def weightedShuffle_def sample_route_def)

lemma sample_order:
  "fst (Order (ps_draws sample_state) (fst (availableRoutes (pc_breaker sample_config) 0 two_routes (ps_circuits sample_state)))) =
     [sample_route] @ two_routes ! 1 # []"
  by (simp add: sample_config_def sample_state_def sample_available two_routes_order del: append.simps)



section \<open>A skipped candidate spends the retry budget\<close>

text \<open>
  A candidate skipped for lack of capacity is documented to spend neither an
  attempt nor a unit of the global retry budget. It spends no attempt, but after a
  first failure the budget is asked before the concurrency limit is: the saturated
  candidate is passed over without an upstream call, and a retry has been counted.
\<close>

theorem skipped_candidate_spends_budget:
  assumes "0 < rr_attempts res" and "rr_attempts res < 3" and "pc_limiter cfg = None"
    and "minSamples \<le> rb_requests (ps_budget st)"
    and "10 * (rb_retries (ps_budget st) + 1) \<le> rb_requests (ps_budget st)"
    and "ps_semaphores st (UUIDString (r_ProviderID route)) = Some (Some \<lparr>sem_used = n, sem_capacity = n\<rparr>)"
    and "0 < n" and "MaxConcurrency (r_Capacity route) = int n"
  shows "\<exists>res' st'. rotate_step cfg attempt endpoint est now route res st = Inr (now, res', st') \<and>
    rr_attempts res' = rr_attempts res \<and> rb_retries (ps_budget st') = rb_retries (ps_budget st) + 1"
proof -
  have "(of_int (rb_retries (ps_budget st) + 1) :: rat) \<le> of_int (rb_requests (ps_budget st)) * (1 / 10)"
    using assms(5) by (simp add: field_simps flip: of_int_le_iff [where ?'a = rat])
  then have "AllowRetry (ps_budget st) = (True, (ps_budget st)\<lparr>rb_retries := rb_retries (ps_budget st) + 1\<rparr>)"
    using assms(4) by (simp add: AllowRetry_def)
  then show ?thesis
    using assms(1-3,6-8)
    by (simp add: rotate_step_def maxRouteAttempts_def capacityAllows_def semaphoreFor_def Capacity_def
        TryAcquire_def Let_def)
qed

definition busy_state :: "(Memory, redis, unit) pipeline_state" where
  "busy_state = sample_state\<lparr>ps_budget := \<lparr>rb_requests = 1000, rb_retries = 0\<rparr>,
     ps_semaphores := [UUIDString (Some 2) \<mapsto> Some \<lparr>sem_used = 2, sem_capacity = 2\<rparr>]\<rparr>"

theorem skipped_candidate_spends_budget_witness:
  "\<exists>res' st'. rotate_step sample_config (scripted (\<lambda>_. overload_outcome)) ''chat'' 10 0 (two_routes ! 1)
      (zero_rotation\<lparr>rr_attempts := 1\<rparr>) busy_state = Inr (0, res', st') \<and>
    rr_attempts res' = rr_attempts (zero_rotation\<lparr>rr_attempts := 1\<rparr>) \<and>
    rb_retries (ps_budget st') = rb_retries (ps_budget busy_state) + 1"
  by (rule skipped_candidate_spends_budget [where n = 2])
    (simp_all add: sample_config_def busy_state_def sample_state_def minSamples_def two_routes_def sample_route_def)

section \<open>Choosing a credential\<close>

context breaker_store
begin

lemma available_stable:
  assumes "br_store b = S"
  shows "fst (Available b now scope (snd (Available b now scope' c))) = fst (Available b now scope c)"
proof -
  have "cs_store (snd (Available b now scope' c)) = snd (store_Get S now scope' (cs_store c))"
    using assms by (auto simp: Available_def Let_def split: prod.split sum.split option.split)
  then show ?thesis by (simp add: available_peek [OF assms] get_stable)
qed

lemma pick_loop_find:
  assumes "br_store b = S"
  shows "fst (pick_loop b box now ks c) =
    map_option (\<lambda>(kid, enc). (kid, the (box enc kid)))
      (find (\<lambda>(kid, enc). fst (KeyAvailable b now kid c) \<and> box enc kid \<noteq> None) ks)"
proof (induction ks arbitrary: c)
  case (Cons k ks)
  obtain kid enc where k: "k = (kid, enc)" by (cases k)
  have st: "fst (KeyAvailable b now k' (snd (KeyAvailable b now kid c))) = fst (KeyAvailable b now k' c)" for k'
    using available_stable [OF assms] by (simp add: KeyAvailable_def)
  show ?case
    using Cons.IH [of "snd (KeyAvailable b now kid c)"] unfolding k st
    by (auto simp: Let_def case_prod_beta split: option.split)
qed simp

end

lemma rotated_set:
  assumes "keys \<noteq> []"
  shows "set (map (\<lambda>i. keys ! ((start + i) mod length keys)) [0..<length keys]) = set keys"
proof -
  let ?n = "length keys"
  have n: "0 < ?n" using assms by simp
  have "\<exists>i < ?n. (start + i) mod ?n = j" if "j < ?n" for j
  proof (intro exI conjI)
    let ?i = "(j + (?n - start mod ?n)) mod ?n"
    show "?i < ?n" using n by simp
    have "start mod ?n < ?n" using n by simp
    then have "start mod ?n + (j + (?n - start mod ?n)) = j + ?n" by simp
    then have "(start + ?i) mod ?n = (j + ?n) mod ?n" by (metis mod_add_eq mod_mod_trivial)
    then show "(start + ?i) mod ?n = j" using that by simp
  qed
  then have "(\<lambda>i. (start + i) mod ?n) ` {0..<?n} = {0..<?n}" using n by (fastforce simp: image_iff)
  then have "(!) keys ` (\<lambda>i. (start + i) mod ?n) ` {0..<?n} = (!) keys ` {0..<?n}" by (rule arg_cong)
  then show ?thesis by (auto simp: image_image set_conv_nth [of keys])
qed

text \<open>
  A usable credential is found whenever one exists, and load is spread. With
  credentials stored, selection fails only when every one of them is cooling down or
  does not open; what it returns is a stored credential that is not cooling down,
  with its own secret; and when all are usable it is the one the provider's cursor,
  advanced by one for each selection, points at.
\<close>

theorem pickKey_finds_usable:
  assumes "keys \<noteq> []" and "pickKey (NewBreaker memory_store gw) box now (Some keys) route c cursors = (r, c', cursors')"
  shows "(case r of
      Inl e \<Rightarrow> \<forall>(kid, enc) \<in> set keys. \<not> fst (KeyAvailable (NewBreaker memory_store gw) now kid c) \<or> box enc kid = None
    | Inr (kid, plain) \<Rightarrow> \<exists>enc. (kid, enc) \<in> set keys \<and> box enc kid = Some plain \<and>
        fst (KeyAvailable (NewBreaker memory_store gw) now kid c)) \<and>
    (1 < length keys \<and> (\<forall>(kid, enc) \<in> set keys. fst (KeyAvailable (NewBreaker memory_store gw) now kid c) \<and> box enc kid \<noteq> None) \<longrightarrow>
      (\<exists>v plain. cursors' (UUIDString (r_ProviderID route)) = Some v \<and> r = Inr (fst (keys ! (unat v mod length keys)), plain) \<and>
         v = (case cursors (UUIDString (r_ProviderID route)) of None \<Rightarrow> 0 | Some w \<Rightarrow> w) + 1))"
proof -
  let ?b = "NewBreaker memory_store gw"
  define P where "P = (\<lambda>(kid, enc). fst (KeyAvailable ?b now kid c) \<and> box enc kid \<noteq> None)"
  obtain start cursors2 where nk: "nextKeyOffset (r_ProviderID route) (length keys) cursors = (start, cursors2)" by (metis surj_pair)
  define ks where "ks = map (\<lambda>i. keys ! ((start + i) mod length keys)) [0..<length keys]"
  obtain found c2 where f: "pick_loop ?b box now ks c = (found, c2)" by (metis surj_pair)
  have s: "br_store ?b = memory_store" by simp
  have found: "found = map_option (\<lambda>(kid, enc). (kid, the (box enc kid))) (find P ks)"
    using memory.pick_loop_find [OF s, of box now ks c] f unfolding P_def by simp
  have r: "r = (case found of Some k \<Rightarrow> Inr k | None \<Rightarrow> Inl (NewError GatewayAllProvidersFailed
      ''Provider has no usable credential: all are cooling down or failed to decrypt''))" "cursors' = cursors2"
    using assms(2) nk f assms(1) unfolding ks_def by (cases keys; auto simp: pickKey_def Let_def split: option.splits)+
  have set: "set ks = set keys" unfolding ks_def by (rule rotated_set [OF assms(1)])
  have "case r of
      Inl e \<Rightarrow> \<forall>(kid, enc) \<in> set keys. \<not> fst (KeyAvailable ?b now kid c) \<or> box enc kid = None
    | Inr (kid, plain) \<Rightarrow> \<exists>enc. (kid, enc) \<in> set keys \<and> box enc kid = Some plain \<and> fst (KeyAvailable ?b now kid c)"
  proof (cases "find P ks")
    case None
    then have "\<forall>k \<in> set keys. \<not> P k" by (auto simp: find_None_iff set)
    with None found r(1) show ?thesis by (auto simp: P_def)
  next
    case (Some k)
    then have "k \<in> set ks" "P k" by (auto simp: find_Some_iff)
    with Some found r(1) set show ?thesis by (cases k) (auto simp: P_def)
  qed
  moreover have "\<exists>v plain. cursors' (UUIDString (r_ProviderID route)) = Some v \<and> r = Inr (fst (keys ! (unat v mod length keys)), plain) \<and>
      v = (case cursors (UUIDString (r_ProviderID route)) of None \<Rightarrow> 0 | Some w \<Rightarrow> w) + 1"
    if len: "1 < length keys" and all: "\<forall>(kid, enc) \<in> set keys. fst (KeyAvailable ?b now kid c) \<and> box enc kid \<noteq> None"
  proof -
    obtain v where v: "cursors' (UUIDString (r_ProviderID route)) = Some v" "start = unat v mod length keys"
      "v = (case cursors (UUIDString (r_ProviderID route)) of None \<Rightarrow> 0 | Some w \<Rightarrow> w) + 1"
      using nk len r(2) by (auto simp: nextKeyOffset_def Let_def)
    have "0 < length keys" using assms(1) by simp
    note u = upt_conv_Cons [OF this]
    have h: "ks = keys ! (start mod length keys) # tl ks" unfolding ks_def u by simp
    have "keys ! (start mod length keys) \<in> set keys" using assms(1) by simp
    with all have "P (keys ! (start mod length keys))" by (auto simp: P_def)
    then have "find P ks = Some (keys ! (start mod length keys))" by (subst h) simp
    with found r(1) v show ?thesis by (auto split: prod.split)
  qed
  ultimately show ?thesis by blast
qed

definition two_keys :: "stored_key list" where
  "two_keys = [(Some 1, ''a''), (Some 2, ''b'')]"

definition open_box :: "string \<Rightarrow> uuid \<Rightarrow> string option" where
  "open_box enc kid = Some enc"

lemma two_keys_pick:
  "pickKey (NewBreaker memory_store NoDatabase) open_box 0 (Some two_keys) sample_route fresh_circuits Map.empty =
     (Inr (Some 2, ''b''), fresh_circuits, [UUIDString (Some 1) \<mapsto> 1])"
  by (simp add: pickKey_def two_keys_def nextKeyOffset_def sample_route_def KeyAvailable_def Available_def
      memory_store_def Memory_Get_def fresh_circuits_def NewMemory_def open_box_def Let_def)

theorem pickKey_finds_usable_witness:
  "\<exists>enc. (Some 2, enc) \<in> set two_keys \<and> open_box enc (Some 2) = Some ''b'' \<and>
    fst (KeyAvailable (NewBreaker memory_store NoDatabase) 0 (Some 2) fresh_circuits)"
proof -
  have "two_keys \<noteq> []" by (simp add: two_keys_def)
  from pickKey_finds_usable [OF this two_keys_pick] show ?thesis by simp
qed

end
