(* ===== verification/KeyFormat.thy ===== *)
theory KeyFormat
  imports Prelude "HOL-Library.Word" "HOL-Library.Sublist"
begin

text \<open>
  \<open>access/keyfmt/keyfmt.go\<close>: the outward form of a virtual key, its checksum and the local
  check that precedes every lookup. \<open>hash/crc32\<close> and \<open>big.Int.Text\<close> of the standard library
  are written out; the random body is an argument.
\<close>

unbundle bit_operations_syntax

section \<open>CRC-32\<close>

definition crc_bit :: "32 word \<Rightarrow> 32 word" where
  "crc_bit s = (if bit s 0 then drop_bit 1 s XOR 0xEDB88320 else drop_bit 1 s)"

definition crc_byte :: "32 word \<Rightarrow> char \<Rightarrow> 32 word" where
  "crc_byte s c = (crc_bit ^^ 8) (s XOR of_nat (of_char c))"

definition ChecksumIEEE :: "string \<Rightarrow> 32 word" where
  "ChecksumIEEE body = NOT (foldl crc_byte (NOT 0) body)"

section \<open>Base 62\<close>

definition digit62 :: "nat \<Rightarrow> char" where
  "digit62 d = ''0123456789abcdefghijklmnopqrstuvwxyzABCDEFGHIJKLMNOPQRSTUVWXYZ'' ! d"

fun text62 :: "nat \<Rightarrow> string" where
  "text62 n = (if n < 62 then [digit62 n] else text62 (n div 62) @ [digit62 (n mod 62)])"

declare text62.simps [simp del]

section \<open>Keys\<close>

definition Prefix :: string where "Prefix = ''sk-flb-v1-''"
definition randomBytes :: nat where "randomBytes = 32"
definition checkLen :: nat where "checkLen = 6"
definition minBodyLen :: nat where "minBodyLen = 8"

definition checksum :: "string \<Rightarrow> string" where
  "checksum body =
     (let s = text62 (unat (ChecksumIEEE body))
      in if length s < checkLen then replicate (checkLen - length s) (CHR ''0'') @ s else s)"

definition NewKey :: "nat \<Rightarrow> nat + string" where
  "NewKey raw =
     (let body = text62 raw
      in if length body < minBodyLen then Inl (length body) else Inr (Prefix @ body @ checksum body))"

definition ValidKey :: "string \<Rightarrow> bool" where
  "ValidKey key =
     (if \<not> prefix Prefix key then False
      else let rest = drop (length Prefix) key
           in if length rest < minBodyLen + checkLen then False
              else let body = take (length rest - checkLen) rest;
                       check = drop (length rest - checkLen) rest
                   in check = checksum body)"

section \<open>The checksum tells single characters apart\<close>

lemma xor_cancel: "a XOR c = b XOR c \<Longrightarrow> a = (b :: 'a :: len word)"
proof -
  assume "a XOR c = b XOR c"
  then have "(a XOR c) XOR c = (b XOR c) XOR c" by simp
  then show ?thesis by (simp add: xor.assoc)
qed

lemma crc_bit_inj: "crc_bit s = crc_bit t \<Longrightarrow> s = t"
proof -
  assume eq: "crc_bit s = crc_bit t"
  have poly: "bit (0xEDB88320 :: 32 word) 31" by code_simp
  have low: "bit (crc_bit u) 31 = bit u 0" for u :: "32 word"
    using poly bit_imp_le_length [of u 32] by (auto simp: crc_bit_def bit_simps)
  have b0: "bit s 0 = bit t 0" using low [of s] low [of t] eq by simp
  have "drop_bit 1 s = drop_bit 1 t"
  proof (cases "bit s 0")
    case True
    then have "drop_bit 1 s XOR 0xEDB88320 = drop_bit 1 t XOR 0xEDB88320" using eq b0 by (simp add: crc_bit_def)
    then show ?thesis by (rule xor_cancel)
  next
    case False
    then show ?thesis using eq b0 by (simp add: crc_bit_def)
  qed
  then have "bit s (Suc n) = bit t (Suc n)" for n using bit_drop_bit_eq [of 1] by (metis comp_apply plus_1_eq_Suc)
  with b0 have "bit s n = bit t n" for n by (cases n) auto
  then show "s = t" by (simp add: bit_eq_iff)
qed

lemma crc_bits_inj: "(crc_bit ^^ n) s = (crc_bit ^^ n) t \<Longrightarrow> s = t"
  by (induction n) (auto dest: crc_bit_inj)

lemma crc_byte_inj_state: "crc_byte s c = crc_byte t c \<Longrightarrow> s = t"
  unfolding crc_byte_def by (drule crc_bits_inj) (rule xor_cancel)

lemma crc_byte_inj_char: "crc_byte s c = crc_byte s d \<Longrightarrow> c = d"
proof -
  assume "crc_byte s c = crc_byte s d"
  then have "s XOR of_nat (of_char c) = s XOR of_nat (of_char d)"
    unfolding crc_byte_def by (rule crc_bits_inj)
  then have "(of_nat (of_char c) :: 32 word) = of_nat (of_char d)" unfolding xor.commute [of s] by (rule xor_cancel)
  moreover have "unat (of_nat (of_char x) :: 32 word) = of_char x" for x :: char
  proof -
    have "(of_char x :: nat) mod 256 = of_char x" by (rule of_char_mod_256)
    then have "(of_char x :: nat) < 256" by (metis mod_less_divisor zero_less_numeral)
    then have "(of_char x :: nat) < 4294967296" by linarith
    then show ?thesis by (simp add: unat_of_nat)
  qed
  ultimately show "c = d" by (metis of_char_eq_iff)
qed

lemma crc_fold_inj: "foldl crc_byte s xs = foldl crc_byte t xs \<Longrightarrow> s = t"
  by (induction xs arbitrary: s t) (auto dest: crc_byte_inj_state)

lemma ChecksumIEEE_one_change:
  assumes "ChecksumIEEE (xs @ c # ys) = ChecksumIEEE (xs @ d # ys)"
  shows "c = d"
proof -
  from assms have "foldl crc_byte (NOT 0) (xs @ c # ys) = foldl crc_byte (NOT 0) (xs @ d # ys)"
    unfolding ChecksumIEEE_def by (metis bit.double_compl)
  then show ?thesis by (auto dest!: crc_fold_inj crc_byte_inj_char)
qed

lemma digit62_inj: "a < 62 \<Longrightarrow> b < 62 \<Longrightarrow> digit62 a = digit62 b \<Longrightarrow> a = b"
proof -
  have "distinct ''0123456789abcdefghijklmnopqrstuvwxyzABCDEFGHIJKLMNOPQRSTUVWXYZ''" by code_simp
  moreover have "length ''0123456789abcdefghijklmnopqrstuvwxyzABCDEFGHIJKLMNOPQRSTUVWXYZ'' = 62" by code_simp
  ultimately show "a < 62 \<Longrightarrow> b < 62 \<Longrightarrow> digit62 a = digit62 b \<Longrightarrow> a = b"
    unfolding digit62_def by (metis nth_eq_iff_index_eq)
qed

lemma text62_nonempty: "text62 n \<noteq> []"
  by (subst text62.simps) simp

lemma text62_inj: "text62 m = text62 n \<Longrightarrow> m = n"
proof (induction m arbitrary: n rule: text62.induct)
  case (1 m)
  show ?case
  proof (cases "m < 62 \<or> n < 62")
    case True
    then show ?thesis using "1.prems" text62_nonempty [of "m div 62"] text62_nonempty [of "n div 62"]
      by (subst (asm) (1 2) text62.simps) (auto split: if_splits dest: digit62_inj)
  next
    case False
    then have eq: "text62 (m div 62) = text62 (n div 62)" "digit62 (m mod 62) = digit62 (n mod 62)"
      using "1.prems" text62.simps [of m] text62.simps [of n] by simp_all
    have "m div 62 = n div 62" using False by (intro "1.IH" [OF _ eq(1)]) simp
    moreover have "m mod 62 = n mod 62" by (rule digit62_inj [OF _ _ eq(2)]) simp_all
    ultimately have "m div 62 = n div 62" "m mod 62 = n mod 62" by simp_all
    then show ?thesis by (metis div_mult_mod_eq)
  qed
qed

text \<open>No printed number has a leading zero but zero itself, so padding to a fixed length loses nothing.\<close>

lemma hd_text62: "0 < n \<Longrightarrow> hd (text62 n) \<noteq> CHR ''0''"
proof (induction n rule: text62.induct)
  case (1 n)
  have zero: "digit62 0 = CHR ''0''" by code_simp
  show ?case
  proof (cases "n < 62")
    case True
    then show ?thesis using "1.prems" digit62_inj [of n 0] zero by (subst text62.simps) auto
  next
    case False
    then have "0 < n div 62" by (simp add: div_greater_zero_iff)
    then have "hd (text62 (n div 62)) \<noteq> CHR ''0''" by (rule "1.IH" [OF False])
    then show ?thesis using False text62_nonempty [of "n div 62"] by (subst text62.simps) simp
  qed
qed

definition pad62 :: "string \<Rightarrow> string" where
  "pad62 s = (if length s < checkLen then replicate (checkLen - length s) (CHR ''0'') @ s else s)"

lemma strip_replicate: "P a \<Longrightarrow> dropWhile P (replicate n a @ xs) = dropWhile P xs"
  by (induction n) simp_all

lemma strip_pad: "0 < n \<Longrightarrow> dropWhile ((=) (CHR ''0'')) (pad62 (text62 n)) = text62 n"
  using hd_text62 [of n] text62_nonempty [of n] by (cases "text62 n") (auto simp: pad62_def strip_replicate)

lemma strip_zero: "dropWhile ((=) (CHR ''0'')) (pad62 (text62 0)) = []"
  by code_simp

lemma pad62_inj: "pad62 (text62 m) = pad62 (text62 n) \<Longrightarrow> m = n"
  using strip_pad [of m] strip_pad [of n] strip_zero text62_nonempty text62_inj
  by (metis neq0_conv)

lemma checksum_one_change:
  assumes "checksum (xs @ c # ys) = checksum (xs @ d # ys)"
  shows "c = d"
proof -
  have "unat (ChecksumIEEE (xs @ c # ys)) = unat (ChecksumIEEE (xs @ d # ys))"
    by (rule pad62_inj) (use assms in \<open>simp add: checksum_def pad62_def Let_def\<close>)
  then have "ChecksumIEEE (xs @ c # ys) = ChecksumIEEE (xs @ d # ys)" by (simp add: word_unat_eq_iff)
  then show ?thesis by (rule ChecksumIEEE_one_change)
qed

section \<open>Issuing and checking\<close>

lemma length_text62: "n < 62 ^ Suc k \<Longrightarrow> length (text62 n) \<le> Suc k"
proof (induction k arbitrary: n)
  case (Suc k)
  then have "n div 62 < 62 ^ Suc k" by (simp add: less_mult_imp_div_less mult.commute)
  then show ?case using Suc.IH [of "n div 62"] by (subst text62.simps) simp
qed (simp add: text62.simps)

lemma length_checksum: "length (checksum body) = checkLen"
proof -
  have "unat (ChecksumIEEE body) < 2 ^ 32" using unsigned_less [of "ChecksumIEEE body"] by simp
  then have "length (text62 (unat (ChecksumIEEE body))) \<le> Suc 5" by (intro length_text62) simp
  then show ?thesis by (simp add: checksum_def Let_def checkLen_def)
qed

lemma ValidKey_iff:
  "ValidKey key \<longleftrightarrow> (\<exists>body. key = Prefix @ body @ checksum body \<and> minBodyLen \<le> length body)"
proof
  assume v: "ValidKey key"
  then obtain rest where key: "key = Prefix @ rest" by (auto simp: ValidKey_def prefix_def split: if_splits)
  define body where "body = take (length rest - checkLen) rest"
  have "minBodyLen + checkLen \<le> length rest" "drop (length rest - checkLen) rest = checksum body"
    using v by (auto simp: ValidKey_def key body_def Let_def split: if_splits)
  then have "rest = body @ checksum body" "minBodyLen \<le> length body"
    by (metis append_take_drop_id body_def, simp add: body_def)
  then show "\<exists>body. key = Prefix @ body @ checksum body \<and> minBodyLen \<le> length body" using key by blast
next
  assume "\<exists>body. key = Prefix @ body @ checksum body \<and> minBodyLen \<le> length body"
  then show "ValidKey key" by (auto simp: ValidKey_def Let_def length_checksum)
qed

text \<open>
  C29. Every issued key passes the check that guards the lookup: a key is issued for every
  random body of at least eight digits -- that is for every number of \<open>62^7\<close> or more --
  and is then well formed.
\<close>

theorem issued_key_valid:
  "(case NewKey raw of Inr key \<Rightarrow> ValidKey key | Inl n \<Rightarrow> n < minBodyLen)"
  by (auto simp: NewKey_def Let_def ValidKey_iff)

text \<open>
  C28. A single wrong character is always caught before any lookup: changing one character
  of a well-formed key, anywhere in it, to any other character leaves a string the local
  check refuses.
\<close>

theorem mistyped_key_refused:
  assumes "ValidKey key" and "i < length key" and "c \<noteq> key ! i"
  shows "\<not> ValidKey (key[i := c])"
proof
  assume "ValidKey (key[i := c])"
  then obtain body' where b': "key[i := c] = Prefix @ body' @ checksum body'" by (auto simp: ValidKey_iff)
  obtain body where b: "key = Prefix @ body @ checksum body" using assms(1) by (auto simp: ValidKey_iff)
  have "length (key[i := c]) = length key" by simp
  then have len: "length body' = length body" unfolding b' by (simp add: b length_checksum)
  consider "i < length Prefix" | k where "i = length Prefix + k" "k < length body"
    | k where "i = length Prefix + length body + k" "k < checkLen"
    using assms(2) unfolding b by (simp add: length_checksum) (metis add.assoc add_less_cancel_left less_imp_add_positive not_less le_Suc_ex)
  then show False
  proof cases
    case 1
    then have "Prefix[i := c] = Prefix" using b' by (simp add: b list_update_append)
    then show False using 1 assms(3) by (metis b nth_append nth_list_update_eq)
  next
    case 2
    then have "body[k := c] @ checksum body = body' @ checksum body'" using b' by (simp add: b list_update_append)
    then have eq: "body' = body[k := c]" "checksum body = checksum (body[k := c])" using len by auto
    have "body = take k body @ body ! k # drop (Suc k) body" by (rule id_take_nth_drop [OF 2(2)])
    moreover have "body[k := c] = take k body @ c # drop (Suc k) body" by (rule upd_conv_take_nth_drop [OF 2(2)])
    ultimately have "body ! k = c" using eq(2) checksum_one_change by metis
    then show False using assms(3) 2 by (simp add: b nth_append)
  next
    case 3
    then have "body @ (checksum body)[k := c] = body' @ checksum body'" using b' by (simp add: b list_update_append)
    then have "(checksum body)[k := c] = checksum body" using len by auto
    then show False using assms(3) 3 by (simp add: b nth_append) (metis length_checksum nth_list_update_eq)
  qed
qed

definition sample_key :: string where
  "sample_key = Prefix @ ''12345678'' @ checksum ''12345678''"

theorem mistyped_key_refused_witness:
  "\<not> ValidKey (sample_key[12 := CHR ''x''])"
proof (rule mistyped_key_refused)
  have "minBodyLen \<le> length ''12345678''" by (simp add: minBodyLen_def)
  then show "ValidKey sample_key" unfolding ValidKey_iff sample_key_def by blast
qed (simp_all add: sample_key_def Prefix_def length_checksum checkLen_def)

end
