(* ===== verification/Auth.thy ===== *)
theory Auth
  imports Guard Classify KeyFormat
begin

text \<open>
  \<open>internal/gateway/proxy/auth.go\<close>: from request headers to the identity of the caller,
  through the snapshot cache of \<open>foundation/drivers/cache/memory.go\<close>.

  The LRU list under the in-process cache is a library the gateway only calls; it is a
  record of operations, and the locale \<open>lru_list\<close> states what its documentation promises.
  The hash of a credential is a parameter. A cached snapshot is the identity itself: its
  JSON form is written and read by the same type.
\<close>

section \<open>The snapshot cache\<close>

record 'v memEntry =
  me_value :: 'v
  me_expiresAt :: "instant option"

record ('c, 'v) lru =
  lru_Get :: "string \<Rightarrow> 'c \<Rightarrow> 'v memEntry option \<times> 'c"
  lru_Add :: "string \<Rightarrow> 'v memEntry \<Rightarrow> 'c \<Rightarrow> 'c"
  lru_Remove :: "string \<Rightarrow> 'c \<Rightarrow> 'c"

record ('c, 'v) CacheStore =
  ca_Get :: "instant \<Rightarrow> string \<Rightarrow> 'c \<Rightarrow> 'v option \<times> 'c"
  ca_Set :: "instant \<Rightarrow> string \<Rightarrow> 'v \<Rightarrow> duration \<Rightarrow> 'c \<Rightarrow> 'c"
  ca_Delete :: "string \<Rightarrow> 'c \<Rightarrow> 'c"

definition Cache_Get :: "('c, 'v) lru \<Rightarrow> instant \<Rightarrow> string \<Rightarrow> 'c \<Rightarrow> 'v option \<times> 'c" where
  "Cache_Get L now key c =
     (case lru_Get L key c of
        (None, c) \<Rightarrow> (None, c)
      | (Some e, c) \<Rightarrow>
          (case me_expiresAt e of
             Some t \<Rightarrow> if now > t then (None, c) else (Some (me_value e), c)
           | None \<Rightarrow> (Some (me_value e), c)))"

definition Cache_Set :: "('c, 'v) lru \<Rightarrow> instant \<Rightarrow> string \<Rightarrow> 'v \<Rightarrow> duration \<Rightarrow> 'c \<Rightarrow> 'c" where
  "Cache_Set L now key value ttl c =
     lru_Add L key \<lparr>me_value = value, me_expiresAt = (if ttl > 0 then Some (now + ttl) else None)\<rparr> c"

definition Cache_Delete :: "('c, 'v) lru \<Rightarrow> string \<Rightarrow> 'c \<Rightarrow> 'c" where
  "Cache_Delete L key c = lru_Remove L key c"

definition memory_cache :: "('c, 'v) lru \<Rightarrow> ('c, 'v) CacheStore" where
  "memory_cache L = \<lparr>ca_Get = Cache_Get L, ca_Set = Cache_Set L, ca_Delete = Cache_Delete L\<rparr>"

text \<open>
  What a client of the cache may rely on: a value read is one that was stored and has
  neither been replaced, nor deleted, nor outlived its time. It may be gone at any moment.
\<close>

locale snapshot_cache =
  fixes C :: "('c, 'v) CacheStore" and held :: "'c \<Rightarrow> string \<rightharpoonup> 'v \<times> instant option"
  assumes get_held: "ca_Get C now key c = (Some v, c') \<Longrightarrow>
      \<exists>d. held c key = Some (v, d) \<and> (case d of None \<Rightarrow> True | Some t \<Rightarrow> now \<le> t)"
    and get_keeps: "held (snd (ca_Get C now key c)) \<subseteq>\<^sub>m held c"
    and set_holds: "held (ca_Set C now key v ttl c) \<subseteq>\<^sub>m (held c)(key \<mapsto> (v, if ttl > 0 then Some (now + ttl) else None))"
    and delete_drops: "held (ca_Delete C key c) \<subseteq>\<^sub>m (held c)(key := None)"

locale lru_list =
  fixes L :: "('c, 'v) lru" and entries :: "'c \<Rightarrow> string \<rightharpoonup> 'v memEntry"
  assumes lru_get: "fst (lru_Get L key c) = entries c key"
    and lru_get_keeps: "entries (snd (lru_Get L key c)) \<subseteq>\<^sub>m entries c"
    and lru_add: "entries (lru_Add L key e c) \<subseteq>\<^sub>m (entries c)(key \<mapsto> e)"
    and lru_newest: "entries (lru_Add L key e c) key = Some e"
    and lru_remove: "entries (lru_Remove L key c) \<subseteq>\<^sub>m (entries c)(key := None)"

definition held_entry :: "'v memEntry \<Rightarrow> 'v \<times> instant option" where
  "held_entry e = (me_value e, me_expiresAt e)"

lemma map_option_comp_upd:
  "map_option f \<circ> m(k \<mapsto> v) = (map_option f \<circ> m)(k \<mapsto> f v)" "map_option f \<circ> m(k := None) = (map_option f \<circ> m)(k := None)"
  by (simp_all add: fun_eq_iff)

lemma map_le_held: "m \<subseteq>\<^sub>m m' \<Longrightarrow> map_option f \<circ> m \<subseteq>\<^sub>m map_option f \<circ> m'"
  by (force simp: map_le_def dom_def)

sublocale lru_list \<subseteq> mem: snapshot_cache "memory_cache L" "\<lambda>c. map_option held_entry \<circ> entries c"
proof
  fix now key c v c'
  assume "ca_Get (memory_cache L) now key c = (Some v, c')"
  then show "\<exists>d. (map_option held_entry \<circ> entries c) key = Some (v, d) \<and> (case d of None \<Rightarrow> True | Some t \<Rightarrow> now \<le> t)"
    using lru_get [of key c]
    by (auto simp: memory_cache_def Cache_Get_def held_entry_def split: prod.splits option.splits if_splits)
next
  fix now key c
  have "snd (Cache_Get L now key c) = snd (lru_Get L key c)"
    by (auto simp: Cache_Get_def split: prod.splits option.splits)
  then show "map_option held_entry \<circ> entries (snd (ca_Get (memory_cache L) now key c)) \<subseteq>\<^sub>m map_option held_entry \<circ> entries c"
    by (simp add: memory_cache_def map_le_held lru_get_keeps)
next
  fix now key v ttl c
  show "map_option held_entry \<circ> entries (ca_Set (memory_cache L) now key v ttl c) \<subseteq>\<^sub>m
    (map_option held_entry \<circ> entries c)(key \<mapsto> (v, if ttl > 0 then Some (now + ttl) else None))"
    using map_le_held [OF lru_add [of key "\<lparr>me_value = v, me_expiresAt = if ttl > 0 then Some (now + ttl) else None\<rparr>" c],
        of held_entry]
    by (simp add: memory_cache_def Cache_Set_def map_option_comp_upd held_entry_def)
next
  fix key c
  show "map_option held_entry \<circ> entries (ca_Delete (memory_cache L) key c) \<subseteq>\<^sub>m (map_option held_entry \<circ> entries c)(key := None)"
    using map_le_held [OF lru_remove [of key c], of held_entry]
    by (simp add: memory_cache_def Cache_Delete_def map_option_comp_upd)
qed

context lru_list
begin

lemma memory_keeps_contract: "snapshot_cache (memory_cache L) (\<lambda>c. map_option held_entry \<circ> entries c)"
  by (rule mem.snapshot_cache_axioms)

end

section \<open>Credentials\<close>

definition bearerToken :: "string \<Rightarrow> string \<times> bool" where
  "bearerToken header =
     (let n = length ''bearer ''
      in if length header \<le> n \<or> ascii_lower (take n header) \<noteq> ''bearer '' then ([], False)
         else let tok = trim_space (drop n header) in (tok, tok \<noteq> []))"

text \<open>The three headers in the order they are tried; an absent header reads as empty.\<close>

definition CredentialOf :: "string \<Rightarrow> string \<Rightarrow> string \<Rightarrow> string" where
  "CredentialOf authorization apiKey googApiKey =
     (let (tok, ok) = bearerToken authorization
      in if ok then tok
         else let k = trim_space apiKey in if k \<noteq> [] then k else trim_space googApiKey)"

section \<open>Stored keys\<close>

record KeyRecord =
  kr_ID :: uuid
  kr_OrgID :: uuid
  kr_Scopes :: "string list"
  kr_AllowAllModels :: bool
  kr_AllowedModels :: "string list"
  kr_SpendLimitNano :: "int option"
  kr_SpendLimitInterval :: "string option"
  kr_RateLimitRpm :: "int option"
  kr_RateLimitTpm :: "int option"
  kr_TotalSpentNano :: int
  kr_Status :: string
  kr_ExpiresAt :: "instant option"

record model_tier =
  mt_ID :: uuid
  mt_Status :: string
  mt_IsDefault :: bool

record org_gateway_settings =
  og_TierID :: uuid
  og_RateLimitRpm :: "int option"
  og_RateLimitTpm :: "int option"

record OrgSettings =
  os_TierID :: uuid
  os_TierStatus :: string
  os_RateLimitRpm :: "int option"
  os_RateLimitTpm :: "int option"

text \<open>
  The tables authentication reads. A lookup of a key answers an error, nothing, or the
  row; the other two fail when there is no row.
\<close>

record auth_db =
  ad_RecordByHash :: "string \<Rightarrow> unit + KeyRecord option"
  ad_Dataplane :: "uuid \<Rightarrow> (string \<times> string) option"
  ad_settings :: "uuid \<rightharpoonup> org_gateway_settings"
  ad_tiers :: "model_tier list"

text \<open>
  \<open>GetOrgSettingsForDataplane\<close>: the organization's own tier or else the default one. The
  status column is read into a plain string, so a row without any tier fails to scan.
\<close>

definition GetOrgSettingsForDataplane :: "auth_db \<Rightarrow> uuid \<Rightarrow> OrgSettings option" where
  "GetOrgSettingsForDataplane db orgID =
     (let s = ad_settings db orgID;
          t = (case s of None \<Rightarrow> None
               | Some s \<Rightarrow> if og_TierID s = None then None else find (\<lambda>t. mt_ID t = og_TierID s) (ad_tiers db));
          dt = find mt_IsDefault (ad_tiers db)
      in case (if t = None then dt else t) of
           None \<Rightarrow> None
         | Some tier \<Rightarrow> Some \<lparr>os_TierID = mt_ID tier, os_TierStatus = mt_Status tier,
             os_RateLimitRpm = (case s of None \<Rightarrow> None | Some s \<Rightarrow> og_RateLimitRpm s),
             os_RateLimitTpm = (case s of None \<Rightarrow> None | Some s \<Rightarrow> og_RateLimitTpm s)\<rparr>)"

definition or_zero :: "int option \<Rightarrow> int" where
  "or_zero v = (case v of None \<Rightarrow> 0 | Some x \<Rightarrow> x)"

definition textOrEmpty :: "string option \<Rightarrow> string" where
  "textOrEmpty v = (case v of None \<Rightarrow> [] | Some s \<Rightarrow> s)"

section \<open>Authentication\<close>

definition keyCacheTTL :: duration where "keyCacheTTL = seconds 60"

definition KeyCacheKey :: "string \<Rightarrow> string" where "KeyCacheKey keyHash = ''gw:key:'' @ keyHash"

definition checkExpiry :: "instant \<Rightarrow> Identity \<Rightarrow> Error option" where
  "checkExpiry now i =
     (case id_ExpiresAt i of
        Some t \<Rightarrow> if now > t then Some (NewError GatewayKeyExpired ''API key has expired'') else None
      | None \<Rightarrow> None)"

definition RequireScope :: "Identity \<Rightarrow> string \<Rightarrow> Error option" where
  "RequireScope i scope =
     (if scope \<in> set (id_Scopes i) then None
      else Some (NewError GatewayInsufficientScope (''API key lacks the '' @ scope @ '' scope'')))"

definition identity_of :: "string \<Rightarrow> KeyRecord \<Rightarrow> string \<Rightarrow> OrgSettings \<Rightarrow> Identity" where
  "identity_of hash row currency s =
     \<lparr>id_KeyID = kr_ID row, id_OrgID = kr_OrgID row, id_KeyHash = hash, id_Scopes = kr_Scopes row,
      id_ModelTierID = os_TierID s, id_ModelTierStatus = os_TierStatus s, id_ExpiresAt = kr_ExpiresAt row,
      id_AllowAllModels = kr_AllowAllModels row, id_AllowedModels = kr_AllowedModels row,
      id_SpendLimitNano = or_zero (kr_SpendLimitNano row), id_SpendLimitInterval = textOrEmpty (kr_SpendLimitInterval row),
      id_RateLimitRPM = or_zero (kr_RateLimitRpm row), id_RateLimitTPM = or_zero (kr_RateLimitTpm row),
      id_OrgRateLimitRPM = or_zero (os_RateLimitRpm s), id_OrgRateLimitTPM = or_zero (os_RateLimitTpm s),
      id_TotalSpentNano = kr_TotalSpentNano row, id_WalletCurrency = currency\<rparr>"

text \<open>The reads of a cache miss, up to the expiry check.\<close>

definition load_identity :: "auth_db \<Rightarrow> instant \<Rightarrow> string \<Rightarrow> Error + Identity" where
  "load_identity db now hash =
     (case ad_RecordByHash db hash of
        Inl _ \<Rightarrow> Inl (NewError GatewayInternal ''Authentication failed'')
      | Inr None \<Rightarrow> Inl (NewError GatewayInvalidApiKey ''Invalid API key'')
      | Inr (Some row) \<Rightarrow>
          if kr_Status row = ''revoked'' then Inl (NewError GatewayKeyRevoked ''API key has been revoked'')
          else case ad_Dataplane db (kr_OrgID row) of
                 None \<Rightarrow> Inl (NewError GatewayInternal ''Authentication failed'')
               | Some (status, currency) \<Rightarrow>
                   if status \<noteq> ''active'' then Inl (NewError GatewayOrgSuspended ''Organization is suspended'')
                   else case GetOrgSettingsForDataplane db (kr_OrgID row) of
                          None \<Rightarrow> Inl (NewError GatewayInternal ''Authentication failed'')
                        | Some s \<Rightarrow>
                            (let i = identity_of hash row currency s
                             in case checkExpiry now i of Some e \<Rightarrow> Inl e | None \<Rightarrow> Inr i))"

text \<open>The state: the cache, and the keys whose last use was recorded.\<close>

record 'c auth_state =
  au_cache :: 'c
  au_touched :: "uuid list"

definition lookup_key :: "('c, Identity) CacheStore option \<Rightarrow> auth_db \<Rightarrow> instant \<Rightarrow> string \<Rightarrow> 'c auth_state
    \<Rightarrow> (Error + Identity) \<times> 'c auth_state" where
  "lookup_key C db now hash st =
     (let (hit, st) = (case C of
            None \<Rightarrow> (None, st)
          | Some C \<Rightarrow> (let (hit, c) = ca_Get C now (KeyCacheKey hash) (au_cache st) in (hit, st\<lparr>au_cache := c\<rparr>)))
      in case hit of
           Some i \<Rightarrow> (case checkExpiry now i of Some e \<Rightarrow> (Inl e, st) | None \<Rightarrow> (Inr i, st))
         | None \<Rightarrow>
             (case load_identity db now hash of
                Inl e \<Rightarrow> (Inl e, st)
              | Inr i \<Rightarrow>
                  (let st = (case C of None \<Rightarrow> st
                       | Some C \<Rightarrow> st\<lparr>au_cache := ca_Set C now (KeyCacheKey hash) i keyCacheTTL (au_cache st)\<rparr>)
                   in (Inr i, st\<lparr>au_touched := au_touched st @ [id_KeyID i]\<rparr>))))"

definition Authenticate :: "(string \<Rightarrow> string) \<Rightarrow> ('c, Identity) CacheStore option \<Rightarrow> auth_db \<Rightarrow> instant \<Rightarrow> string
    \<Rightarrow> 'c auth_state \<Rightarrow> (Error + Identity) \<times> 'c auth_state" where
  "Authenticate HashToken C db now credential st =
     (if \<not> ValidKey credential then (Inl (NewError GatewayInvalidApiKey ''Missing or malformed API key''), st)
      else lookup_key C db now (HashToken credential) st)"

section \<open>Interleavings\<close>

text \<open>
  A cache miss is two moments: the rows are read, and some time later the snapshot made
  of them is stored. In between, other requests read and store, keys are revoked and their
  snapshots dropped. The database is a function of time.
\<close>

record 'c auth_world =
  aw_now :: instant
  aw_cache :: 'c
  aw_pending :: "(string \<times> Identity) list"

inductive auth_step :: "('c, Identity) CacheStore \<Rightarrow> (instant \<Rightarrow> auth_db) \<Rightarrow> 'c auth_world \<Rightarrow> 'c auth_world \<Rightarrow> bool"
  for C DB where
  tick: "aw_now w \<le> t \<Longrightarrow> auth_step C DB w (w\<lparr>aw_now := t\<rparr>)"
| read: "auth_step C DB w (w\<lparr>aw_cache := snd (ca_Get C (aw_now w) key (aw_cache w))\<rparr>)"
| load: "load_identity (DB (aw_now w)) (aw_now w) hash = Inr i \<Longrightarrow>
    auth_step C DB w (w\<lparr>aw_pending := (hash, i) # aw_pending w\<rparr>)"
| store: "(hash, i) \<in> set (aw_pending w) \<Longrightarrow>
    auth_step C DB w (w\<lparr>aw_cache := ca_Set C (aw_now w) (KeyCacheKey hash) i keyCacheTTL (aw_cache w)\<rparr>)"
| invalidate: "auth_step C DB w (w\<lparr>aw_cache := ca_Delete C (KeyCacheKey hash) (aw_cache w)\<rparr>)"

text \<open>A snapshot stems from a moment at which the tables said so, and carries the time it was stored.\<close>

definition snapshot_of :: "(instant \<Rightarrow> auth_db) \<Rightarrow> instant \<Rightarrow> string \<Rightarrow> Identity \<Rightarrow> bool" where
  "snapshot_of DB t hash i \<longleftrightarrow> (\<exists>t0 \<le> t. load_identity (DB t0) t0 hash = Inr i)"

lemma snapshot_of_mono: "snapshot_of DB t hash i \<Longrightarrow> t \<le> t' \<Longrightarrow> snapshot_of DB t' hash i"
  by (auto simp: snapshot_of_def intro: order_trans)

lemma KeyCacheKey_inj [simp]: "KeyCacheKey a = KeyCacheKey b \<longleftrightarrow> a = b"
  by (simp add: KeyCacheKey_def)

lemma keyCacheTTL_pos: "0 < keyCacheTTL"
  by (simp add: keyCacheTTL_def seconds_def)

definition timely :: "(instant \<Rightarrow> auth_db) \<Rightarrow> instant \<Rightarrow> (string \<rightharpoonup> Identity \<times> instant option) \<Rightarrow> bool" where
  "timely DB now m \<longleftrightarrow> (\<forall>h i d. m (KeyCacheKey h) = Some (i, d) \<longrightarrow>
     (\<exists>t \<le> now. d = Some (t + keyCacheTTL) \<and> snapshot_of DB t h i))"

lemma timely_le: "timely DB now m \<Longrightarrow> m' \<subseteq>\<^sub>m m \<Longrightarrow> timely DB now m'"
  by (fastforce simp: timely_def map_le_def dom_def)

lemma timely_later: "timely DB now m \<Longrightarrow> now \<le> now' \<Longrightarrow> timely DB now' m"
  by (fastforce simp: timely_def)

lemma timely_upd: "timely DB now m \<Longrightarrow> snapshot_of DB now h i \<Longrightarrow> timely DB now (m(KeyCacheKey h \<mapsto> (i, Some (now + keyCacheTTL))))"
  by (auto simp: timely_def)

lemma timely_drop: "timely DB now m \<Longrightarrow> timely DB now (m(key := None))"
  by (auto simp: timely_def)

text \<open>The authenticator as a client of any cache that keeps the contract.\<close>

locale identity_cache = snapshot_cache C held
  for C :: "('c, Identity) CacheStore" and held :: "'c \<Rightarrow> string \<rightharpoonup> Identity \<times> instant option"
begin

definition snap_inv :: "(instant \<Rightarrow> auth_db) \<Rightarrow> 'c auth_world \<Rightarrow> bool" where
  "snap_inv DB w \<longleftrightarrow> (\<forall>(h, i) \<in> set (aw_pending w). snapshot_of DB (aw_now w) h i) \<and>
     timely DB (aw_now w) (held (aw_cache w))"

lemma snap_inv_step: "auth_step C DB w w' \<Longrightarrow> snap_inv DB w \<Longrightarrow> snap_inv DB w'"
proof (induction rule: auth_step.induct)
  case (tick w t)
  then show ?case by (auto simp: snap_inv_def intro: timely_later snapshot_of_mono)
next
  case (read w key)
  then show ?case by (auto simp: snap_inv_def intro: timely_le [OF _ get_keeps])
next
  case (load w hash i)
  then show ?case by (auto simp: snap_inv_def snapshot_of_def)
next
  case (store hash i w)
  then have "snapshot_of DB (aw_now w) hash i" by (auto simp: snap_inv_def)
  then show ?case using store keyCacheTTL_pos timely_upd [of DB "aw_now w" "held (aw_cache w)" hash i]
      timely_le [OF _ set_holds [of "aw_now w" "KeyCacheKey hash" i keyCacheTTL "aw_cache w"]]
    by (simp add: snap_inv_def)
next
  case (invalidate w hash)
  then show ?case by (auto simp: snap_inv_def intro: timely_le [OF timely_drop delete_drops])
qed

lemma snap_inv_run: "(auth_step C DB)\<^sup>*\<^sup>* w w' \<Longrightarrow> snap_inv DB w \<Longrightarrow> snap_inv DB w'"
  by (induction rule: rtranclp_induct) (auto intro: snap_inv_step)

lemma lookup_timely:
  assumes "snap_inv DB w" and "au_cache st = aw_cache w"
    and "lookup_key (Some C) (DB (aw_now w)) (aw_now w) hash st = (Inr i, st')"
  shows "\<exists>t. t \<le> aw_now w \<and> aw_now w \<le> t + keyCacheTTL \<and> snapshot_of DB t hash i \<and> checkExpiry (aw_now w) i = None"
proof -
  obtain hit c where g: "ca_Get C (aw_now w) (KeyCacheKey hash) (aw_cache w) = (hit, c)" by (metis surj_pair)
  show ?thesis
  proof (cases hit)
    case (Some j)
    then obtain d where d: "held (aw_cache w) (KeyCacheKey hash) = Some (j, d)" "case d of None \<Rightarrow> True | Some t \<Rightarrow> aw_now w \<le> t"
      using get_held [of "aw_now w" "KeyCacheKey hash" "aw_cache w" j c] g by auto
    then obtain t where "t \<le> aw_now w" "d = Some (t + keyCacheTTL)" "snapshot_of DB t hash j"
      using assms(1) d(1) unfolding snap_inv_def timely_def by blast
    moreover have "j = i" "checkExpiry (aw_now w) i = None"
      using assms(2,3) g Some by (auto simp: lookup_key_def split: option.splits)
    ultimately show ?thesis using d(2) by auto
  next
    case None
    then have l: "load_identity (DB (aw_now w)) (aw_now w) hash = Inr i"
      using assms(2,3) g by (auto simp: lookup_key_def Let_def split: sum.splits)
    then have "checkExpiry (aw_now w) i = None"
      by (auto simp: load_identity_def Let_def split: sum.splits option.splits if_splits)
    then show ?thesis using l keyCacheTTL_pos by (intro exI [of _ "aw_now w"]) (auto simp: snapshot_of_def)
  qed
qed

end

text \<open>An LRU list of bounded length, the shape the library documents.\<close>

definition list_lru :: "nat \<Rightarrow> ((string \<times> 'v memEntry) list, 'v) lru" where
  "list_lru cap =
     \<lparr>lru_Get = \<lambda>key c. (map_of c key, case map_of c key of None \<Rightarrow> c | Some e \<Rightarrow> (key, e) # filter (\<lambda>p. fst p \<noteq> key) c),
      lru_Add = \<lambda>key e c. take (Suc cap) ((key, e) # filter (\<lambda>p. fst p \<noteq> key) c),
      lru_Remove = \<lambda>key c. filter (\<lambda>p. fst p \<noteq> key) c\<rparr>"

lemma map_of_filter_key: "map_of (filter (\<lambda>p. fst p \<noteq> key) c) k = (if k = key then None else map_of c k)"
  by (induction c) auto

lemma map_of_take: "map_of (take n c) \<subseteq>\<^sub>m map_of c"
  by (metis append_take_drop_id map_le_map_add map_of_append)

interpretation bounded: lru_list "list_lru cap" map_of for cap
proof
  fix key and c :: "(string \<times> 'v memEntry) list"
  show "map_of (snd (lru_Get (list_lru cap) key c)) \<subseteq>\<^sub>m map_of c"
    by (auto simp: list_lru_def map_le_def map_of_filter_key split: option.splits)
next
  fix key :: string and e :: "'v memEntry" and c
  have "map_of ((key, e) # filter (\<lambda>p. fst p \<noteq> key) c) = (map_of c)(key \<mapsto> e)"
    by (auto simp: map_of_filter_key fun_eq_iff)
  then show "map_of (lru_Add (list_lru cap) key e c) \<subseteq>\<^sub>m (map_of c)(key \<mapsto> e)"
    using map_of_take [of "Suc cap" "(key, e) # filter (\<lambda>p. fst p \<noteq> key) c"] by (simp add: list_lru_def)
qed (auto simp: list_lru_def map_le_def map_of_filter_key)

lemma memory_identity_cache:
  "lru_list L entries \<Longrightarrow> identity_cache (memory_cache L) (\<lambda>c. map_option held_entry \<circ> entries c)"
  unfolding identity_cache_def by (rule lru_list.memory_keeps_contract)


text \<open>
  Revoking a key and dropping its snapshot does not always cut through. A request
  that read the key's row before the revocation may store its snapshot after the
  invalidation; the key is then accepted from the cache for up to a minute, although
  nothing was lost and the tables refuse it.
\<close>

theorem revocation_can_be_overtaken:
  fixes L :: "('c, Identity) lru" and w :: "'c auth_world"
  assumes "lru_list L entries" and "load_identity (DB (aw_now w)) (aw_now w) hash = Inr i"
    and "aw_now w \<le> t1" and "t1 \<le> t2" and "t2 \<le> t3" and "t3 \<le> t2 + keyCacheTTL" and "checkExpiry t3 i = None"
  shows "let C = memory_cache L; k = KeyCacheKey hash;
      w' = w\<lparr>aw_now := t3, aw_pending := (hash, i) # aw_pending w,
             aw_cache := ca_Set C t2 k i keyCacheTTL (ca_Delete C k (aw_cache w))\<rparr>
    in (auth_step C DB)\<^sup>*\<^sup>* w w' \<and> fst (lookup_key (Some C) (DB t3) t3 hash \<lparr>au_cache = aw_cache w', au_touched = []\<rparr>) = Inr i"
proof -
  define C where "C = memory_cache L"
  define k where "k = KeyCacheKey hash"
  define c1 where "c1 = ca_Delete C k (aw_cache w)"
  define c2 where "c2 = ca_Set C t2 k i keyCacheTTL c1"
  define moment where "moment t c = \<lparr>aw_now = t, aw_cache = c, aw_pending = (hash, i) # aw_pending w\<rparr>" for t and c :: 'c
  have "auth_step C DB w (moment (aw_now w) (aw_cache w))"
    using auth_step.load [where C = C and DB = DB and w = w, OF assms(2)] by (cases w) (simp add: moment_def)
  moreover have "auth_step C DB (moment (aw_now w) (aw_cache w)) (moment t1 (aw_cache w))" "auth_step C DB (moment t1 c1) (moment t2 c1)"
    "auth_step C DB (moment t2 c2) (moment t3 c2)"
    using auth_step.tick [of "moment (aw_now w) (aw_cache w)" t1 C DB] auth_step.tick [of "moment t1 c1" t2 C DB]
      auth_step.tick [of "moment t2 c2" t3 C DB] assms(3-5) by (simp_all add: moment_def)
  moreover have "auth_step C DB (moment t1 (aw_cache w)) (moment t1 c1)"
    using auth_step.invalidate [of C DB "moment t1 (aw_cache w)" hash] by (simp add: moment_def c1_def k_def)
  moreover have "auth_step C DB (moment t2 c1) (moment t2 c2)"
    using auth_step.store [of hash i "moment t2 c1" C DB] by (simp add: moment_def c2_def k_def)
  ultimately have "(auth_step C DB)\<^sup>*\<^sup>* w (moment t3 c2)"
    by (meson converse_rtranclp_into_rtranclp rtranclp.rtrancl_refl)
  moreover have "moment t3 c2 = w\<lparr>aw_now := t3, aw_pending := (hash, i) # aw_pending w, aw_cache := c2\<rparr>" by (cases w) (simp add: moment_def)
  moreover have "fst (ca_Get C t3 k c2) = Some i"
    using lru_list.lru_get [OF assms(1), of k c2] lru_list.lru_newest [OF assms(1), of k] assms(6) keyCacheTTL_pos
    by (auto simp: C_def c2_def memory_cache_def Cache_Get_def Cache_Set_def split: prod.split)
  then have "fst (lookup_key (Some C) (DB t3) t3 hash \<lparr>au_cache = c2, au_touched = []\<rparr>) = Inr i"
    using assms(7) by (auto simp: lookup_key_def k_def split: prod.split option.split)
  ultimately show ?thesis by (simp add: Let_def C_def [symmetric] k_def [symmetric] c1_def [symmetric] c2_def [symmetric])
qed

definition stored_key :: KeyRecord where
  "stored_key = \<lparr>kr_ID = Some 7, kr_OrgID = Some 3, kr_Scopes = [''inference''], kr_AllowAllModels = True,
     kr_AllowedModels = [], kr_SpendLimitNano = None, kr_SpendLimitInterval = None, kr_RateLimitRpm = Some 60,
     kr_RateLimitTpm = None, kr_TotalSpentNano = 0, kr_Status = ''active'', kr_ExpiresAt = None\<rparr>"

text \<open>A key that is revoked ten nanoseconds in.\<close>

definition revoked_at_ten :: "instant \<Rightarrow> auth_db" where
  "revoked_at_ten t =
     \<lparr>ad_RecordByHash = \<lambda>h. Inr (Some (if t < 10 then stored_key else stored_key\<lparr>kr_Status := ''revoked''\<rparr>)),
      ad_Dataplane = \<lambda>_. Some (''active'', ''USD''), ad_settings = Map.empty,
      ad_tiers = [\<lparr>mt_ID = Some 1, mt_Status = ''active'', mt_IsDefault = True\<rparr>]\<rparr>"

definition stored_identity :: Identity where
  "stored_identity = identity_of ''h'' stored_key ''USD''
     \<lparr>os_TierID = Some 1, os_TierStatus = ''active'', os_RateLimitRpm = None, os_RateLimitTpm = None\<rparr>"

definition idle_world :: "(string \<times> Identity memEntry) list auth_world" where
  "idle_world = \<lparr>aw_now = 0, aw_cache = [], aw_pending = []\<rparr>"

lemma loads_before_revocation: "load_identity (revoked_at_ten 0) 0 ''h'' = Inr stored_identity"
  by code_simp

lemma refused_after_revocation: "load_identity (revoked_at_ten 30) 30 ''h'' = Inl (NewError GatewayKeyRevoked ''API key has been revoked'')"
  by code_simp

lemma identity_lru: "lru_list (list_lru 128 :: (_, Identity) lru) map_of"
  by (rule bounded.lru_list_axioms)

theorem revocation_can_be_overtaken_witness:
  "let C = memory_cache (list_lru 128); k = KeyCacheKey ''h''; c = ca_Set C 20 k stored_identity keyCacheTTL (ca_Delete C k [])
   in fst (lookup_key (Some C) (revoked_at_ten 30) 30 ''h'' \<lparr>au_cache = c, au_touched = []\<rparr>) = Inr stored_identity \<and>
      load_identity (revoked_at_ten 30) 30 ''h'' \<noteq> Inr stored_identity"
proof -
  have "checkExpiry 30 stored_identity = None" by code_simp
  then show ?thesis
    using revocation_can_be_overtaken [of "list_lru 128" map_of revoked_at_ten idle_world "''h''" stored_identity 10 20 30]
      identity_lru loads_before_revocation refused_after_revocation
    by (simp add: Let_def idle_world_def) (simp add: keyCacheTTL_def seconds_def)
qed


end
