(* ===== verification/Byok.thy ===== *)
theory Byok
  imports Rotation Auth "HOL-Library.AList" "HOL-Library.List_Lexorder" "HOL-Library.Char_ord"
begin

text \<open>
  One attempt at an upstream: \<open>attemptOnce\<close> and \<open>Executor.Execute\<close> of \<open>proxy/pipeline.go\<close>
  with the credentials an organization brings (\<open>proxy/byok.go\<close>). The credential is the
  organization's own at that vendor, or one of the gateway's pool, or the one a follow-up
  request is pinned to.

  Rewriting the body and making the call are parameters: what the call answers depends on
  the route, the address and the credential. The seal of a stored secret is a parameter.
\<close>

section \<open>The organization's credentials\<close>

record byokChoice =
  bc_KeyID :: uuid
  bc_Secret :: string
  bc_BaseURL :: string
  bc_Fallback :: bool

definition no_choice :: byokChoice where
  "no_choice = \<lparr>bc_KeyID = None, bc_Secret = [], bc_BaseURL = [], bc_Fallback = False\<rparr>"

text \<open>A map by vendor, as the list of its entries.\<close>

type_synonym byokChoices = "(string \<times> byokChoice) list"

definition active_choice :: "byokChoice \<Rightarrow> bool" where
  "active_choice c \<longleftrightarrow> bc_Secret c \<noteq> []"

definition forVendor :: "byokChoices \<Rightarrow> string \<Rightarrow> byokChoice option" where
  "forVendor c vendor =
     (case map_of c vendor of Some choice \<Rightarrow> if active_choice choice then Some choice else None | None \<Rightarrow> None)"

definition vendors :: "byokChoices \<Rightarrow> string list" where
  "vendors c = map fst (filter (\<lambda>(v, choice). active_choice choice) c)"

record OrgKeyRow =
  ok_ID :: uuid
  ok_OrgID :: uuid
  ok_Vendor :: string
  ok_BaseUrl :: "string option"
  ok_SecretEnc :: string
  ok_AllowFallback :: bool
  ok_Status :: string
  ok_CreatedAt :: instant

definition ListActiveBYOKForOrg :: "uuid \<Rightarrow> OrgKeyRow list \<Rightarrow> OrgKeyRow list" where
  "ListActiveBYOKForOrg orgID rows =
     sort_key ok_Vendor (sort_key ok_CreatedAt (filter (\<lambda>r. ok_OrgID r = orgID \<and> ok_Status r = ''active'') rows))"

definition GetActiveOrgProviderKeyByID :: "uuid \<Rightarrow> uuid \<Rightarrow> OrgKeyRow list \<Rightarrow> OrgKeyRow option" where
  "GetActiveOrgProviderKeyByID u orgID rows =
     find (\<lambda>r. ok_ID r = u \<and> ok_OrgID r = orgID \<and> ok_Status r = ''active'') rows"

definition SetOrgProviderKeyStatus :: "uuid \<Rightarrow> uuid \<Rightarrow> string \<Rightarrow> OrgKeyRow list \<Rightarrow> OrgKeyRow list" where
  "SetOrgProviderKeyStatus u orgID status rows =
     map (\<lambda>r. if ok_ID r = u \<and> ok_OrgID r = orgID then r\<lparr>ok_Status := status\<rparr> else r) rows"

fun resolve_rows :: "(string \<Rightarrow> uuid \<Rightarrow> string option) \<Rightarrow> OrgKeyRow list \<Rightarrow> byokChoices \<Rightarrow> byokChoices" where
  "resolve_rows box [] out = out"
| "resolve_rows box (row # rows) out =
     (if map_of out (ok_Vendor row) \<noteq> None then resolve_rows box rows out
      else case box (ok_SecretEnc row) (ok_ID row) of
             None \<Rightarrow> resolve_rows box rows out
           | Some plain \<Rightarrow> resolve_rows box rows (out @ [(ok_Vendor row,
               \<lparr>bc_KeyID = ok_ID row, bc_Secret = plain, bc_BaseURL = textOrEmpty (ok_BaseUrl row),
                bc_Fallback = ok_AllowFallback row\<rparr>)]))"

definition resolveBYOK :: "(string \<Rightarrow> uuid \<Rightarrow> string option) \<Rightarrow> uuid \<Rightarrow> OrgKeyRow list \<Rightarrow> byokChoices" where
  "resolveBYOK box orgID rows = resolve_rows box (ListActiveBYOKForOrg orgID rows) []"

definition byokRejected :: "int \<Rightarrow> bool" where
  "byokRejected status \<longleftrightarrow> status = 401 \<or> status = 403"

definition byokKeyIDIfUsed :: "bool \<Rightarrow> byokChoice \<Rightarrow> uuid" where
  "byokKeyIDIfUsed used choice = (if used then bc_KeyID choice else None)"

definition sharedKeyIfUsed :: "bool \<Rightarrow> uuid \<Rightarrow> uuid" where
  "sharedKeyIfUsed usedBYOK keyID = (if usedBYOK then None else keyID)"

section \<open>One attempt\<close>

datatype upstream_answer = NotBuilt string | NoAnswer transport_error | BrokenBody transport_error | TooLong
  | Answer int string string

record attempt_env =
  en_box :: "string \<Rightarrow> uuid \<Rightarrow> string option"
  en_stored :: "uuid \<Rightarrow> stored_key list option"
  en_providerKey :: "uuid \<Rightarrow> (uuid \<times> string) option"
  en_mark_ok :: bool
  en_notifier :: bool
  en_rewrite :: "Route \<Rightarrow> string option"
  en_call :: "Route \<Rightarrow> string \<Rightarrow> string \<Rightarrow> upstream_answer \<times> duration"

text \<open>The two credentials a follow-up request may be pinned to.\<close>

record request_pins =
  rq_PinnedProviderKeyID :: uuid
  rq_PinnedOrgProviderKeyID :: uuid

record upstreamResult =
  ur_status :: int
  ur_body :: string
  ur_keyID :: uuid
  ur_attempts :: nat
  ur_byok :: bool
  ur_byokKeyID :: uuid

definition no_upstream :: upstreamResult where
  "no_upstream = \<lparr>ur_status = 0, ur_body = [], ur_keyID = None, ur_attempts = 0, ur_byok = False, ur_byokKeyID = None\<rparr>"

text \<open>
  What attempts change besides the circuits: the clock, the credential cursors, the
  request's own copy of the organization's credentials, the stored ones with the
  notifications sent about them, and the result of the attempt that succeeded.
\<close>

record attempt_state =
  at_now :: instant
  at_cursors :: "string \<rightharpoonup> 64 word"
  at_byok :: byokChoices
  at_orgKeys :: "OrgKeyRow list"
  at_notified :: "(uuid \<times> uuid \<times> int) list"
  at_got :: upstreamResult

definition state_unavailable :: "string \<Rightarrow> Error" where
  "state_unavailable msg = NewError GatewayStateRouteUnavailable msg"

text \<open>Answers the pool key, the secret, the address and the organization's key.\<close>

definition pinnedCredentialFor :: "'s Breaker \<Rightarrow> attempt_env \<Rightarrow> instant \<Rightarrow> Route \<Rightarrow> uuid \<Rightarrow> request_pins \<Rightarrow> OrgKeyRow list
    \<Rightarrow> 's circuits \<Rightarrow> (Error + uuid \<times> string \<times> string \<times> uuid) \<times> 's circuits" where
  "pinnedCredentialFor b env now route orgID pins rows c =
     (let gone = Inl (state_unavailable ''The resource's original credential is unavailable'')
      in if uuid_valid (rq_PinnedOrgProviderKeyID pins) then
           (case GetActiveOrgProviderKeyByID (rq_PinnedOrgProviderKeyID pins) orgID rows of
              None \<Rightarrow> (gone, c)
            | Some row \<Rightarrow>
                if ok_Vendor row \<noteq> r_ProviderVendor route
                then (Inl (state_unavailable ''The resource's original route no longer matches its credential''), c)
                else case en_box env (ok_SecretEnc row) (ok_ID row) of
                       None \<Rightarrow> (gone, c)
                     | Some plain \<Rightarrow>
                         (Inr (None, plain,
                            if textOrEmpty (ok_BaseUrl row) \<noteq> [] then textOrEmpty (ok_BaseUrl row) else r_BaseURL route,
                            ok_ID row), c))
         else if \<not> uuid_valid (rq_PinnedProviderKeyID pins) then (gone, c)
         else case en_providerKey env (rq_PinnedProviderKeyID pins) of
                None \<Rightarrow> (gone, c)
              | Some (providerID, enc) \<Rightarrow>
                  if providerID \<noteq> r_ProviderID route then (gone, c)
                  else (let (ok, c) = KeyAvailable b now (rq_PinnedProviderKeyID pins) c
                        in if \<not> ok then (gone, c)
                           else case en_box env enc (rq_PinnedProviderKeyID pins) of
                                  None \<Rightarrow> (gone, c)
                                | Some plain \<Rightarrow> (Inr (rq_PinnedProviderKeyID pins, plain, r_BaseURL route, None), c)))"

definition credentialFor :: "'s Breaker \<Rightarrow> attempt_env \<Rightarrow> instant \<Rightarrow> Route \<Rightarrow> byokChoices \<Rightarrow> 's circuits
    \<Rightarrow> (string \<rightharpoonup> 64 word) \<Rightarrow> (Error + uuid \<times> string \<times> string \<times> uuid) \<times> 's circuits \<times> (string \<rightharpoonup> 64 word)" where
  "credentialFor b env now route byok c cursors =
     (case forVendor byok (r_ProviderVendor route) of
        Some choice \<Rightarrow>
          (Inr (None, bc_Secret choice, if bc_BaseURL choice \<noteq> [] then bc_BaseURL choice else r_BaseURL route, bc_KeyID choice),
           c, cursors)
      | None \<Rightarrow>
          (let (picked, c, cursors) = pickKey b (en_box env) now (en_stored env (r_ProviderID route)) route c cursors
           in (case picked of Inl e \<Rightarrow> Inl e | Inr (keyID, apiKey) \<Rightarrow> Inr (keyID, apiKey, r_BaseURL route, None), c, cursors)))"

text \<open>The credential of an attempt: the error or the key, secret and address; whether it is the organization's; its choice.\<close>

definition choose_credential :: "'s Breaker \<Rightarrow> attempt_env \<Rightarrow> Route \<Rightarrow> uuid \<Rightarrow> request_pins \<Rightarrow> 's circuits \<Rightarrow> attempt_state
    \<Rightarrow> (Error + uuid \<times> string \<times> string) \<times> bool \<times> byokChoice \<times> 's circuits \<times> attempt_state" where
  "choose_credential b env route orgID pins c x =
     (if uuid_valid (rq_PinnedProviderKeyID pins) \<or> uuid_valid (rq_PinnedOrgProviderKeyID pins) then
        (case pinnedCredentialFor b env (at_now x) route orgID pins (at_orgKeys x) c of
           (Inl e, c) \<Rightarrow> (Inl e, False, no_choice, c, x)
         | (Inr (keyID, apiKey, baseURL, byokKeyID), c) \<Rightarrow>
             (Inr (keyID, apiKey, baseURL), uuid_valid byokKeyID, no_choice\<lparr>bc_KeyID := byokKeyID, bc_Secret := apiKey\<rparr>, c, x))
      else case forVendor (at_byok x) (r_ProviderVendor route) of
             Some choice \<Rightarrow>
               (Inr (None, bc_Secret choice, if bc_BaseURL choice \<noteq> [] then bc_BaseURL choice else r_BaseURL route),
                True, choice, c, x)
           | None \<Rightarrow>
               (let (picked, c, cursors) =
                      pickKey b (en_box env) (at_now x) (en_stored env (r_ProviderID route)) route c (at_cursors x);
                    x = x\<lparr>at_cursors := cursors\<rparr>
                in case picked of
                     Inl e \<Rightarrow> (Inl e, False, no_choice, c, x)
                   | Inr (keyID, apiKey) \<Rightarrow> (Inr (keyID, apiKey, r_BaseURL route), False, no_choice, c, x)))"

definition markBYOKInvalid :: "attempt_env \<Rightarrow> uuid \<Rightarrow> uuid \<Rightarrow> int \<Rightarrow> attempt_state \<Rightarrow> attempt_state" where
  "markBYOKInvalid env orgID keyID status x =
     (if \<not> en_mark_ok env then x
      else x\<lparr>at_orgKeys := SetOrgProviderKeyStatus keyID orgID ''invalid'' (at_orgKeys x),
             at_notified := (if en_notifier env then at_notified x @ [(orgID, keyID, status)] else at_notified x)\<rparr>)"

definition provider_failure :: Classification where
  "provider_failure = no_classification\<lparr>c_Class := ClassProvider, c_CountsTowardHealth := True\<rparr>"

text \<open>The reaction to an error status.\<close>

definition refused_answer :: "attempt_env \<Rightarrow> Route \<Rightarrow> uuid \<Rightarrow> request_pins \<Rightarrow> uuid \<Rightarrow> bool \<Rightarrow> byokChoice \<Rightarrow> int \<Rightarrow> string \<Rightarrow> string
    \<Rightarrow> attempt_state \<Rightarrow> Classification \<times> attempt_state" where
  "refused_answer env route orgID pins keyID useBYOK choice status body retryAfter x =
     (let pinned = (uuid_valid (rq_PinnedProviderKeyID pins) \<or> uuid_valid (rq_PinnedOrgProviderKeyID pins));
          cls = (classifyUpstreamStatus pinned status body retryAfter)\<lparr>c_keyID := keyID\<rparr>;
          cls = (if useBYOK then cls\<lparr>c_CountsTowardHealth := False, c_keyID := None\<rparr> else cls);
          x = (if useBYOK \<and> byokRejected status
               then (let x = markBYOKInvalid env orgID (bc_KeyID choice) status x
                     in if bc_Fallback choice then x\<lparr>at_byok := AList.delete (r_ProviderVendor route) (at_byok x)\<rparr> else x)
               else x)
      in (cls, x))"

definition attemptOnce :: "'s Breaker \<Rightarrow> attempt_env \<Rightarrow> uuid \<Rightarrow> request_pins \<Rightarrow> Route \<Rightarrow> 's circuits \<Rightarrow> attempt_state
    \<Rightarrow> (upstreamResult \<times> Classification \<times> Error option) \<times> 's circuits \<times> attempt_state" where
  "attemptOnce b env orgID pins route c x =
     (let (cred, useBYOK, choice, c, x) = choose_credential b env route orgID pins c x;
          failed = no_upstream\<lparr>ur_byok := useBYOK\<rparr>
      in case cred of
           Inl e \<Rightarrow>
             ((failed, if e_Code e = GatewayStateRouteUnavailable then no_classification\<lparr>c_Class := ClassTerminal\<rparr>
                       else provider_failure, Some e), c, x)
         | Inr (keyID, apiKey, baseURL) \<Rightarrow>
             (case en_rewrite env route of
                Some msg \<Rightarrow>
                  ((failed, no_classification\<lparr>c_Class := ClassClient\<rparr>, Some (NewError GatewayInvalidRequest msg)), c, x)
              | None \<Rightarrow>
                  (let (answer, elapsed) = en_call env route baseURL apiKey;
                       x = x\<lparr>at_now := at_now x + elapsed\<rparr>
                   in case answer of
                        NotBuilt msg \<Rightarrow> ((failed, provider_failure, Some (NewError GatewayInternal msg)), c, x)
                      | NoAnswer te \<Rightarrow>
                          (let cls = (ClassifyTransportError te)\<lparr>c_keyID := keyID\<rparr>
                           in ((failed, cls, case c_Err cls of None \<Rightarrow> Some (NewError GatewayInternal ''Request was cancelled'')
                                                            | Some e \<Rightarrow> Some e), c, x))
                      | BrokenBody te \<Rightarrow>
                          ((failed, (ClassifyTransportError te)\<lparr>c_keyID := keyID\<rparr>,
                            Some (NewError GatewayUpstreamTimeout ''Reading the upstream response failed'')), c, x)
                      | TooLong \<Rightarrow>
                          ((failed, provider_failure,
                            Some (NewError GatewayAllProvidersFailed ''Upstream response exceeded the size limit'')), c, x)
                      | Answer status body retryAfter \<Rightarrow>
                          if status \<ge> 400
                          then (let (cls, x) = refused_answer env route orgID pins keyID useBYOK choice status body retryAfter x
                                in ((failed, cls, c_Err cls), c, x))
                          else ((\<lparr>ur_status = status, ur_body = body, ur_keyID = keyID, ur_attempts = 0, ur_byok = useBYOK,
                                 ur_byokKeyID = byokKeyIDIfUsed useBYOK choice\<rparr>, no_classification, None),
                                RecordSuccess b (at_now x) (r_ProviderID route) keyID c, x))))"

section \<open>The executor\<close>

definition execute_attempt :: "'s Breaker \<Rightarrow> attempt_env \<Rightarrow> uuid \<Rightarrow> request_pins \<Rightarrow> ('s, attempt_state) attempt" where
  "execute_attempt b env orgID pins route n c x =
     (let ((res, cls, gerr), c, x') = attemptOnce b env orgID pins route c x;
          elapsed = at_now x' - at_now x
      in case gerr of
           None \<Rightarrow> (\<lparr>ao_cls = no_classification, ao_err = None, ao_keyID = ur_keyID res, ao_byok = ur_byok res,
                    ao_committed = False, ao_budgetSpent = False, ao_elapsed = elapsed\<rparr>, c, x'\<lparr>at_got := res\<rparr>)
         | Some e \<Rightarrow> (\<lparr>ao_cls = cls, ao_err = Some e, ao_keyID = c_keyID cls, ao_byok = ur_byok res,
                    ao_committed = False, ao_budgetSpent = False, ao_elapsed = elapsed\<rparr>, c, x'))"

definition Execute :: "('s, 'l) pipeline_config \<Rightarrow> attempt_env \<Rightarrow> uuid \<Rightarrow> request_pins \<Rightarrow> string \<Rightarrow> int \<Rightarrow> instant \<Rightarrow> Route list
    \<Rightarrow> byokChoices \<Rightarrow> ('s, 'l, attempt_state) pipeline_state
    \<Rightarrow> (upstreamResult \<times> rotationResult) \<times> ('s, 'l, attempt_state) pipeline_state" where
  "Execute cfg env orgID pins endpoint est now candidates byok st =
     (let x = (ps_attempt st)\<lparr>at_now := now, at_byok := byok, at_got := no_upstream\<rparr>;
          (rot, st) = rotate cfg (execute_attempt (pc_breaker cfg) env orgID pins) endpoint est now candidates
                        (st\<lparr>ps_attempt := x\<rparr>)
      in if rr_err rot = None
         then (((at_got (ps_attempt st))\<lparr>ur_attempts := rr_attempts rot\<rparr>, rot), st)
         else ((no_upstream\<lparr>ur_attempts := rr_attempts rot, ur_keyID := rr_keyID rot\<rparr>, rot), st))"

section \<open>Which credential is offered\<close>

definition choice_of :: "(string \<Rightarrow> uuid \<Rightarrow> string option) \<Rightarrow> OrgKeyRow \<Rightarrow> byokChoice" where
  "choice_of box row = \<lparr>bc_KeyID = ok_ID row, bc_Secret = the (box (ok_SecretEnc row) (ok_ID row)),
     bc_BaseURL = textOrEmpty (ok_BaseUrl row), bc_Fallback = ok_AllowFallback row\<rparr>"

definition opens_for :: "(string \<Rightarrow> uuid \<Rightarrow> string option) \<Rightarrow> string \<Rightarrow> OrgKeyRow \<Rightarrow> bool" where
  "opens_for box vendor row \<longleftrightarrow> ok_Vendor row = vendor \<and> box (ok_SecretEnc row) (ok_ID row) \<noteq> None"

lemma map_of_resolve_rows:
  "map_of (resolve_rows box rows out) v =
     (case map_of out v of Some c \<Rightarrow> Some c | None \<Rightarrow> map_option (choice_of box) (find (opens_for box v) rows))"
proof (induction box rows out rule: resolve_rows.induct)
  case (2 box row rows out)
  have "opens_for box v row \<longleftrightarrow> ok_Vendor row = v \<and> box (ok_SecretEnc row) (ok_ID row) \<noteq> None"
    by (simp add: opens_for_def)
  with 2 show ?case
    by (cases "map_of out (ok_Vendor row)"; cases "box (ok_SecretEnc row) (ok_ID row)"; cases "map_of out v")
      (auto simp: choice_of_def [of _ row] map_add_def)
qed (simp split: option.split)

lemma map_of_resolveBYOK:
  "map_of (resolveBYOK box orgID rows) v = map_option (choice_of box) (find (opens_for box v) (ListActiveBYOKForOrg orgID rows))"
  by (simp add: resolveBYOK_def map_of_resolve_rows)

lemma set_ListActiveBYOKForOrg:
  "set (ListActiveBYOKForOrg orgID rows) = {r \<in> set rows. ok_OrgID r = orgID \<and> ok_Status r = ''active''}"
  by (auto simp: ListActiveBYOKForOrg_def)

lemma resolved_row:
  assumes "map_of (resolveBYOK box orgID rows) v = Some ch"
  obtains row where "row \<in> set rows" "ok_OrgID row = orgID" "ok_Status row = ''active''" "ok_Vendor row = v"
    "box (ok_SecretEnc row) (ok_ID row) = Some (bc_Secret ch)" "bc_KeyID ch = ok_ID row"
    "bc_BaseURL ch = textOrEmpty (ok_BaseUrl row)" "bc_Fallback ch = ok_AllowFallback row"
proof -
  from assms obtain row where f: "find (opens_for box v) (ListActiveBYOKForOrg orgID rows) = Some row" and ch: "ch = choice_of box row"
    by (auto simp: map_of_resolveBYOK)
  then have "row \<in> set (ListActiveBYOKForOrg orgID rows)" "opens_for box v row" by (auto simp: find_Some_iff)
  then show ?thesis using that [of row] unfolding ch set_ListActiveBYOKForOrg by (auto simp: opens_for_def choice_of_def)
qed

section \<open>Facts about one attempt\<close>

text \<open>Choosing the organization's credential touches no circuit, no cursor and names no key of the pool.\<close>

lemma choose_own:
  assumes "choose_credential b env route orgID pins c x = (cred, True, choice, c1, x1)"
  shows "c1 = c" and "x1 = x" and "\<exists>apiKey baseURL. cred = Inr (None, apiKey, baseURL)"
  using assms
  by (auto simp: choose_credential_def pinnedCredentialFor_def Let_def split: if_splits option.splits prod.splits sum.splits)

lemma choose_keeps:
  assumes "choose_credential b env route orgID pins c x = (cred, used, choice, c1, x1)"
  shows "at_byok x1 = at_byok x" and "at_orgKeys x1 = at_orgKeys x" and "at_notified x1 = at_notified x" and "at_now x1 = at_now x"
  using assms
  by (auto simp: choose_credential_def Let_def split: if_splits option.splits prod.splits sum.splits)

lemma classifyUpstreamStatus_fields:
  assumes "400 \<le> status"
  shows "c_Err (classifyUpstreamStatus pinned status body ra) \<noteq> None"
    and "byokRejected status \<Longrightarrow> c_Class (classifyUpstreamStatus pinned status body ra) = ClassKey"
  using assms
  by (auto simp: classifyUpstreamStatus_def ClassifyStatus_def withStatus_def no_classification_def byokRejected_def)

text \<open>An error status on the organization's credential: the whole attempt, spelled out.\<close>

lemma own_refusal:
  assumes ch: "choose_credential b env route orgID pins c x = (Inr (keyID, apiKey, baseURL), True, choice, c1, x1)"
    and "en_rewrite env route = None" and "en_call env route baseURL apiKey = (Answer status body ra, elapsed)" and "400 \<le> status"
    and ex: "execute_attempt b env orgID pins route n c x = (out, c', x')"
  shows "c' = c" and "ao_byok out" and "ao_err out \<noteq> None"
    and "c_keyID (ao_cls out) = None" and "\<not> c_CountsTowardHealth (ao_cls out)"
    and "c_Class (ao_cls out) = c_Class (classifyUpstreamStatus (uuid_valid (rq_PinnedProviderKeyID pins) \<or> uuid_valid (rq_PinnedOrgProviderKeyID pins)) status body ra)"
    and "x' = snd (refused_answer env route orgID pins keyID True choice status body ra (x\<lparr>at_now := at_now x + elapsed\<rparr>))"
proof -
  obtain e where e: "c_Err (classifyUpstreamStatus (uuid_valid (rq_PinnedProviderKeyID pins) \<or> uuid_valid (rq_PinnedOrgProviderKeyID pins))
      status body ra) = Some e" using classifyUpstreamStatus_fields(1) [OF assms(4)] by blast
  show "c' = c" and "ao_byok out" and "ao_err out \<noteq> None" and "c_keyID (ao_cls out) = None" and "\<not> c_CountsTowardHealth (ao_cls out)"
    and "c_Class (ao_cls out) = c_Class (classifyUpstreamStatus (uuid_valid (rq_PinnedProviderKeyID pins) \<or> uuid_valid (rq_PinnedOrgProviderKeyID pins)) status body ra)"
    and "x' = snd (refused_answer env route orgID pins keyID True choice status body ra (x\<lparr>at_now := at_now x + elapsed\<rparr>))"
    using assms(2-4) ch ex choose_own [OF ch] e
    by (auto simp: execute_attempt_def attemptOnce_def refused_answer_def no_upstream_def Let_def)
qed


definition own_row :: OrgKeyRow where
  "own_row = \<lparr>ok_ID = Some 31, ok_OrgID = Some 3, ok_Vendor = r_ProviderVendor sample_route, ok_BaseUrl = Some ''https://own'',
     ok_SecretEnc = ''sealed'', ok_AllowFallback = True, ok_Status = ''active'', ok_CreatedAt = 0\<rparr>"

definition no_pins :: request_pins where
  "no_pins = \<lparr>rq_PinnedProviderKeyID = None, rq_PinnedOrgProviderKeyID = None\<rparr>"

definition demo_env :: "upstream_answer \<Rightarrow> attempt_env" where
  "demo_env answer = \<lparr>en_box = open_box, en_stored = (\<lambda>_. Some two_keys), en_providerKey = (\<lambda>_. None), en_mark_ok = True,
     en_notifier = True, en_rewrite = (\<lambda>_. None), en_call = (\<lambda>route baseURL apiKey. (answer, seconds 2))\<rparr>"

lemma demo_env_fields [simp]:
  "en_box (demo_env answer) = open_box" "en_mark_ok (demo_env answer)" "en_notifier (demo_env answer)"
  "en_rewrite (demo_env answer) route = None" "en_call (demo_env answer) route baseURL apiKey = (answer, seconds 2)"
  by (simp_all add: demo_env_def)

definition demo_attempt :: attempt_state where
  "demo_attempt = \<lparr>at_now = seconds 10, at_cursors = Map.empty, at_byok = resolveBYOK open_box (Some 3) [own_row],
     at_orgKeys = [own_row], at_notified = [], at_got = no_upstream\<rparr>"

lemma demo_resolve: "resolveBYOK open_box (Some 3) [own_row] = [(r_ProviderVendor sample_route, choice_of open_box own_row)]"
  by (simp add: resolveBYOK_def ListActiveBYOKForOrg_def own_row_def open_box_def choice_of_def)

lemma own_choice: "choice_of open_box own_row =
  \<lparr>bc_KeyID = Some 31, bc_Secret = ''sealed'', bc_BaseURL = ''https://own'', bc_Fallback = True\<rparr>"
  by (simp add: choice_of_def own_row_def open_box_def textOrEmpty_def)

lemma demo_offer: "forVendor (at_byok demo_attempt) (r_ProviderVendor sample_route) = Some (choice_of open_box own_row)"
  by (simp add: demo_attempt_def demo_resolve forVendor_def active_choice_def own_choice)

lemma demo_choose:
  "choose_credential b (demo_env answer) sample_route (Some 3) no_pins c demo_attempt =
     (Inr (None, ''sealed'', ''https://own''), True, choice_of open_box own_row, c, demo_attempt)"
  by (simp add: choose_credential_def no_pins_def demo_offer own_choice)


lemma transport_provider:
  assumes "te \<noteq> Canceled"
  shows "c_Class (ClassifyTransportError te) = ClassProvider" and "c_CountsTowardHealth (ClassifyTransportError te)"
    and "c_Err (ClassifyTransportError te) \<noteq> None"
  using assms by (cases te; simp)+

text \<open>
  But silence on that account does. When an attempt on the organization's own
  credential fails in transport (no answer in time, an unreachable address, a body that
  breaks off or is too long), the failure is counted against the shared provider like
  any other: with four failures counted, the organization's next one opens the
  provider's circuit, and no request of any organization reaches it until the pause is over.
\<close>

theorem own_credential_silence_opens_provider:
  assumes "choose_credential (NewBreaker memory_store gw) env route orgID pins c x = (Inr (keyID, apiKey, baseURL), True, choice, c1, x1)"
    and "en_rewrite env route = None" and "en_call env route baseURL apiKey = (answer, elapsed)"
    and "answer \<in> {TooLong} \<union> (\<Union>te \<in> - {Canceled}. {NoAnswer te, BrokenBody te})"
    and "execute_attempt (NewBreaker memory_store gw) env orgID pins route n c x = (out, c', x')"
    and "counted (NewBreaker memory_store gw) (r_ProviderID route) t 4 c"
    and "t \<le> now" and "now \<le> t + seconds 30" and "now \<le> now'"
    and "pc_breaker cfg = NewBreaker memory_store gw" and "ps_circuits st = c'" and "ps_jitter st = [j]"
  shows "fst (ProviderAvailable (NewBreaker memory_store gw) now' (r_ProviderID route)
      (ps_circuits (applyBreaker cfg now route endpoint (ao_cls out) (ao_byok out) st))) \<longleftrightarrow>
    now + nextBackoff (NewBreaker memory_store gw) j 0 < now'"
proof -
  let ?b = "NewBreaker memory_store gw"
  have s: "br_store ?b = memory_store" by simp
  have o: "c' = c" "c_Class (ao_cls out) = ClassProvider" "c_CountsTowardHealth (ao_cls out)"
    using assms(1-5) choose_own [OF assms(1)]
    by (auto simp: execute_attempt_def attemptOnce_def provider_failure_def Let_def split: option.splits)
      (use transport_provider in blast)+
  then have "ps_circuits (applyBreaker cfg now route endpoint (ao_cls out) (ao_byok out) st) =
      RecordProviderFailure ?b now j (r_ProviderID route) ''upstream failure'' c"
    using assms(10-12) by (simp add: applyBreaker_def next_jitter_def)
  moreover have "now \<le> t + hd (br_ladder ?b)" using assms(8) by (simp add: backoffLadder_def)
  ultimately show ?thesis
    using memory.counted_opens [OF s assms(6,7) _ _ assms(9)] by (simp add: providerFailureThreshold_def)
qed

definition four_failures :: "Memory circuits" where
  "four_failures = record_failures (NewBreaker memory_store NoDatabase) (Some 1) five_failures fresh_circuits"

theorem own_credential_silence_opens_provider_witness:
  "let (out, c', x') = execute_attempt (NewBreaker memory_store NoDatabase) (demo_env (NoAnswer NetTimeout)) (Some 3) no_pins
         sample_route 1 four_failures demo_attempt
   in \<not> fst (ProviderAvailable (NewBreaker memory_store NoDatabase) (seconds 13) (r_ProviderID sample_route)
        (ps_circuits (applyBreaker sample_config (seconds 12) sample_route ''chat'' (ao_cls out) (ao_byok out)
           (sample_state\<lparr>ps_circuits := c', ps_jitter := [1 / 2]\<rparr>))))"
proof -
  let ?b = "NewBreaker memory_store NoDatabase"
  obtain out c' x' where ex: "execute_attempt ?b (demo_env (NoAnswer NetTimeout)) (Some 3) no_pins sample_route 1 four_failures demo_attempt =
      (out, c', x')" by (metis prod_cases3)
  have "within_window ?b (seconds 1) five_failures" by (simp add: five_failures_def seconds_def backoffLadder_def)
  from fresh_run [where gw = NoDatabase and u = "Some 1", OF _ this]
  have "counted ?b (r_ProviderID sample_route) (seconds 4) 4 four_failures"
    by (simp add: five_failures_def four_failures_def providerFailureThreshold_def sample_route_def)
  from own_credential_silence_opens_provider [OF demo_choose _ _ _ ex this, where now = "seconds 12" and now' = "seconds 13"
      and answer = "NoAnswer NetTimeout" and elapsed = "seconds 2" and cfg = sample_config and endpoint = "''chat''"
      and st = "sample_state\<lparr>ps_circuits := c', ps_jitter := [1 / 2]\<rparr>" and j = "1 / 2"]
  show ?thesis unfolding ex
    by (simp add: sample_config_def seconds_def nextBackoff_def backoffLadder_def truncate_rat_def Let_def)
qed

section \<open>A credential the vendor rejects\<close>

lemma row_after_status:
  assumes "r \<in> set (SetOrgProviderKeyStatus u orgID status rows)"
  shows "ok_ID r = u \<and> ok_OrgID r = orgID \<longrightarrow> ok_Status r = status"
proof -
  from assms obtain r' where "r = (if ok_ID r' = u \<and> ok_OrgID r' = orgID then r'\<lparr>ok_Status := status\<rparr> else r')"
    by (auto simp only: SetOrgProviderKeyStatus_def set_map)
  then show ?thesis by (cases "ok_ID r' = u \<and> ok_OrgID r' = orgID") auto
qed

lemma filter_after_status:
  assumes "\<And>r. P (r\<lparr>ok_Status := status\<rparr>) \<Longrightarrow> ok_OrgID r \<noteq> orgID" and "\<And>r. P r \<Longrightarrow> ok_OrgID r \<noteq> orgID"
  shows "filter P (SetOrgProviderKeyStatus u orgID status rows) = filter P rows"
  using assms by (induction rows) (auto simp: SetOrgProviderKeyStatus_def)

text \<open>
  C35. A rejected credential. When the vendor refuses the organization's credential with
  401 or 403 and the gateway can record it, no later request of the organization is
  offered that credential, the organization is told once, other organizations are offered
  exactly what they were, and within this request the other vendors' credentials stay.
  The rejected one is dropped, so that the pool takes over, only if the organization allows
  the fallback; otherwise the remaining candidates of that vendor get the same credential
  again. The request goes on to its next candidate either way.
\<close>

theorem rejected_own_credential:
  assumes "choose_credential b env route orgID pins c x = (Inr (keyID, apiKey, baseURL), True, choice, c1, x1)"
    and "en_rewrite env route = None" and "en_call env route baseURL apiKey = (Answer status body ra, elapsed)"
    and "byokRejected status" and "en_mark_ok env" and "en_notifier env"
    and "execute_attempt b env orgID pins route n c x = (out, c', x')"
  shows "(\<forall>v ch. map_of (resolveBYOK box orgID (at_orgKeys x')) v = Some ch \<longrightarrow> bc_KeyID ch \<noteq> bc_KeyID choice) \<and>
    (\<forall>other. other \<noteq> orgID \<longrightarrow> resolveBYOK box other (at_orgKeys x') = resolveBYOK box other (at_orgKeys x)) \<and>
    at_notified x' = at_notified x @ [(orgID, bc_KeyID choice, status)] \<and>
    (\<forall>v. forVendor (at_byok x') v =
       (if v = r_ProviderVendor route \<and> bc_Fallback choice then None else forVendor (at_byok x) v)) \<and>
    Retryable (ao_cls out)"
proof -
  have st: "400 \<le> status" using assms(4) by (auto simp: byokRejected_def)
  note o = own_refusal [OF assms(1-3) st assms(7)]
  have x': "at_orgKeys x' = SetOrgProviderKeyStatus (bc_KeyID choice) orgID ''invalid'' (at_orgKeys x)"
    "at_notified x' = at_notified x @ [(orgID, bc_KeyID choice, status)]"
    "at_byok x' = (if bc_Fallback choice then AList.delete (r_ProviderVendor route) (at_byok x) else at_byok x)"
    using assms(4-6) by (simp_all add: o(7) refused_answer_def markBYOKInvalid_def Let_def)
  have "bc_KeyID ch \<noteq> bc_KeyID choice" if m: "map_of (resolveBYOK box orgID (at_orgKeys x')) v = Some ch" for v ch
  proof -
    obtain row where "row \<in> set (at_orgKeys x')" "ok_OrgID row = orgID" "ok_Status row = ''active''" "bc_KeyID ch = ok_ID row"
      using resolved_row [OF m] by metis
    then show ?thesis using row_after_status [of row] unfolding x' by fastforce
  qed
  moreover have "resolveBYOK box other (at_orgKeys x') = resolveBYOK box other (at_orgKeys x)" if "other \<noteq> orgID" for other
    using that unfolding x' resolveBYOK_def ListActiveBYOKForOrg_def by (subst filter_after_status) auto
  moreover have "forVendor (at_byok x') v =
      (if v = r_ProviderVendor route \<and> bc_Fallback choice then None else forVendor (at_byok x) v)" for v
    by (simp add: x' forVendor_def delete_conv)
  moreover have "Retryable (ao_cls out)"
    using o(6) classifyUpstreamStatus_fields(2) [OF st assms(4)] by (simp add: Retryable_def)
  ultimately show ?thesis using x'(2) by blast
qed

theorem rejected_own_credential_witness:
  "let (out, c', x') = execute_attempt (NewBreaker memory_store NoDatabase) (demo_env (Answer 401 [] [])) (Some 3) no_pins
         sample_route 1 fresh_circuits demo_attempt
   in at_notified x' = [(Some 3, Some 31, 401)] \<and> forVendor (at_byok x') ''v'' = None \<and> Retryable (ao_cls out) \<and>
      resolveBYOK open_box (Some 4) (at_orgKeys x') = resolveBYOK open_box (Some 4) (at_orgKeys demo_attempt)"
proof -
  let ?b = "NewBreaker memory_store NoDatabase"
  obtain out c' x' where ex: "execute_attempt ?b (demo_env (Answer 401 [] [])) (Some 3) no_pins sample_route 1 fresh_circuits demo_attempt =
      (out, c', x')" by (metis prod_cases3)
  from rejected_own_credential [OF demo_choose _ _ _ _ _ ex, where status = 401 and body = "[]" and ra = "[]" and elapsed = "seconds 2"
      and box = open_box]
  show ?thesis unfolding ex by (simp add: byokRejected_def own_choice demo_attempt_def sample_route_def)
qed

section \<open>A credential is only sent where it belongs\<close>

text \<open>What the request holds is part of what the stored rows give.\<close>

definition offered :: "(string \<Rightarrow> uuid \<Rightarrow> string option) \<Rightarrow> uuid \<Rightarrow> OrgKeyRow list \<Rightarrow> byokChoices \<Rightarrow> bool" where
  "offered box orgID rows byok \<longleftrightarrow> map_of byok \<subseteq>\<^sub>m map_of (resolveBYOK box orgID rows)"

lemma attempt_byok:
  assumes "execute_attempt b env orgID pins route n c x = (out, c', x')"
  shows "map_of (at_byok x') \<subseteq>\<^sub>m map_of (at_byok x)"
proof -
  obtain cred used choice c1 x1 where ch: "choose_credential b env route orgID pins c x = (cred, used, choice, c1, x1)"
    by (metis prod_cases5)
  have r: "map_of (at_byok y') \<subseteq>\<^sub>m map_of (at_byok x)"
    if "refused_answer env route orgID pins keyID used choice status body ra y = (cls, y')" and "at_byok y = at_byok x"
    for keyID status body ra y cls y'
    using that by (auto simp: refused_answer_def markBYOKInvalid_def delete_conv map_le_def Let_def split: if_splits)
  have "at_byok x' = at_byok x \<or> (\<exists>keyID status body ra cls y y'. at_byok x' = at_byok y' \<and> at_byok y = at_byok x \<and>
      refused_answer env route orgID pins keyID used choice status body ra y = (cls, y'))"
  proof (cases "\<exists>keyID apiKey baseURL status body ra elapsed. cred = Inr (keyID, apiKey, baseURL) \<and> en_rewrite env route = None \<and>
      en_call env route baseURL apiKey = (Answer status body ra, elapsed) \<and> 400 \<le> status")
    case True
    then obtain keyID apiKey baseURL status body ra elapsed where
      a: "cred = Inr (keyID, apiKey, baseURL)" "en_rewrite env route = None"
      "en_call env route baseURL apiKey = (Answer status body ra, elapsed)" "400 \<le> status" by blast
    let ?y = "x1\<lparr>at_now := at_now x1 + elapsed\<rparr>"
    obtain cls y' where y: "refused_answer env route orgID pins keyID used choice status body ra ?y = (cls, y')" by (metis surj_pair)
    have "at_byok x' = at_byok y'" "at_byok ?y = at_byok x"
      using assms a y choose_keeps(1) [OF ch] by (auto simp: execute_attempt_def attemptOnce_def ch Let_def split: option.splits)
    with y show ?thesis by blast
  next
    case False
    then show ?thesis using assms choose_keeps(1) [OF ch]
      by (auto simp: execute_attempt_def attemptOnce_def ch Let_def
          split: sum.splits option.splits prod.splits upstream_answer.splits if_splits)
  qed
  then show ?thesis using r by auto
qed

text \<open>
  C36. A secret goes only where its owner has an account. The credential an attempt uses
  as the organization's own is the opened secret of an active credential of that very
  organization, at the vendor of the route it is sent to, at the address stored with it
  or else the route's; the request names no pool key beside it. It comes from the credentials the
  request began with or, for a pinned follow-up, from the stored ones. And whatever the
  attempt does, the request never gains a credential it was not offered at its start.
\<close>

theorem own_credential_goes_to_its_vendor:
  assumes "offered (en_box env) orgID rows (at_byok x)"
    and "choose_credential b env route orgID pins c x = (Inr (keyID, apiKey, baseURL), True, choice, c1, x1)"
    and "execute_attempt b env orgID pins route n c x = (out, c', x')"
  shows "(\<exists>row \<in> set rows \<union> set (at_orgKeys x). ok_OrgID row = orgID \<and> ok_Status row = ''active'' \<and>
      ok_Vendor row = r_ProviderVendor route \<and> en_box env (ok_SecretEnc row) (ok_ID row) = Some apiKey \<and>
      bc_KeyID choice = ok_ID row \<and> keyID = None \<and>
      baseURL = (if textOrEmpty (ok_BaseUrl row) \<noteq> [] then textOrEmpty (ok_BaseUrl row) else r_BaseURL route)) \<and>
    offered (en_box env) orgID rows (at_byok x')"
proof -
  have "\<exists>row \<in> set rows \<union> set (at_orgKeys x). ok_OrgID row = orgID \<and> ok_Status row = ''active'' \<and>
      ok_Vendor row = r_ProviderVendor route \<and> en_box env (ok_SecretEnc row) (ok_ID row) = Some apiKey \<and>
      bc_KeyID choice = ok_ID row \<and> keyID = None \<and>
      baseURL = (if textOrEmpty (ok_BaseUrl row) \<noteq> [] then textOrEmpty (ok_BaseUrl row) else r_BaseURL route)"
  proof (cases "uuid_valid (rq_PinnedProviderKeyID pins) \<or> uuid_valid (rq_PinnedOrgProviderKeyID pins)")
    case True
    with assms(2) obtain row where
      "GetActiveOrgProviderKeyByID (rq_PinnedOrgProviderKeyID pins) orgID (at_orgKeys x) = Some row"
      "ok_Vendor row = r_ProviderVendor route" "en_box env (ok_SecretEnc row) (ok_ID row) = Some apiKey"
      "bc_KeyID choice = ok_ID row" "keyID = None"
      "baseURL = (if textOrEmpty (ok_BaseUrl row) \<noteq> [] then textOrEmpty (ok_BaseUrl row) else r_BaseURL route)"
      by (auto simp: choose_credential_def pinnedCredentialFor_def Let_def
          split: if_splits option.splits prod.splits sum.splits)
    then show ?thesis by (auto simp: GetActiveOrgProviderKeyByID_def find_Some_iff)
  next
    case False
    with assms(2) have v: "forVendor (at_byok x) (r_ProviderVendor route) = Some choice"
      "apiKey = bc_Secret choice" "keyID = None" "baseURL = (if bc_BaseURL choice \<noteq> [] then bc_BaseURL choice else r_BaseURL route)"
      by (auto simp: choose_credential_def Let_def split: option.splits prod.splits sum.splits)
    then have "map_of (at_byok x) (r_ProviderVendor route) = Some choice"
      by (auto simp: forVendor_def split: option.splits if_splits)
    with assms(1) have "map_of (resolveBYOK (en_box env) orgID rows) (r_ProviderVendor route) = Some choice"
      by (auto simp: offered_def map_le_def dom_def)
    from resolved_row [OF this] v show ?thesis by (metis UnI1)
  qed
  moreover have "offered (en_box env) orgID rows (at_byok x')"
    using assms(1) attempt_byok [OF assms(3)] map_le_trans by (auto simp: offered_def)
  ultimately show ?thesis by blast
qed

theorem own_credential_goes_to_its_vendor_witness:
  "\<exists>row \<in> {own_row}. ok_OrgID row = Some 3 \<and> ok_Vendor row = r_ProviderVendor sample_route \<and>
     open_box (ok_SecretEnc row) (ok_ID row) = Some ''sealed'' \<and> ok_ID row = Some 31"
proof -
  let ?env = "demo_env (Answer 200 [] [])"
  obtain out c' x' where ex: "execute_attempt (NewBreaker memory_store NoDatabase) ?env (Some 3) no_pins sample_route 1 fresh_circuits
      demo_attempt = (out, c', x')" by (metis prod_cases3)
  have "offered (en_box ?env) (Some 3) [own_row] (at_byok demo_attempt)" by (simp add: offered_def demo_attempt_def)
  from own_credential_goes_to_its_vendor [OF this demo_choose ex] show ?thesis by (auto simp: demo_attempt_def own_choice)
qed

section \<open>What is reported is what served\<close>

text \<open>Everything a served attempt says, from the call that answered it.\<close>

lemma served_attempt:
  assumes "execute_attempt b env orgID pins route n c x = (out, c', x')" and "ao_err out = None"
  obtains keyID apiKey baseURL used choice c1 x1 status body ra elapsed where
    "choose_credential b env route orgID pins c x = (Inr (keyID, apiKey, baseURL), used, choice, c1, x1)"
    "en_call env route baseURL apiKey = (Answer status body ra, elapsed)" "status < 400"
    "at_got x' = \<lparr>ur_status = status, ur_body = body, ur_keyID = keyID, ur_attempts = 0, ur_byok = used,
       ur_byokKeyID = byokKeyIDIfUsed used choice\<rparr>"
    "ao_keyID out = keyID" "ao_byok out = used"
proof -
  obtain cred used choice c1 x1 where ch: "choose_credential b env route orgID pins c x = (cred, used, choice, c1, x1)"
    by (metis prod_cases5)
  obtain keyID apiKey baseURL where cred: "cred = Inr (keyID, apiKey, baseURL)" and rw: "en_rewrite env route = None"
    using assms by (cases cred) (auto simp: execute_attempt_def attemptOnce_def ch Let_def split: option.splits)
  obtain answer elapsed where call: "en_call env route baseURL apiKey = (answer, elapsed)" by (metis surj_pair)
  obtain status body ra where a: "answer = Answer status body ra"
    using assms by (cases answer) (auto simp: execute_attempt_def attemptOnce_def ch cred rw call Let_def split: option.splits)
  have lt: "status < 400"
  proof (rule ccontr)
    assume "\<not> status < 400"
    then have st: "400 \<le> status" by simp
    have "c_Err (fst (refused_answer env route orgID pins keyID used choice status body ra y)) \<noteq> None" for y
      using classifyUpstreamStatus_fields(1) [OF st] by (simp add: refused_answer_def Let_def)
    then show False using assms st
      by (auto simp: execute_attempt_def attemptOnce_def ch cred rw call a Let_def case_prod_beta split: option.splits)
        (metis option.distinct(1))
  qed
  show ?thesis
    by (rule that [OF ch [unfolded cred] call [unfolded a] lt])
      (use assms lt in \<open>auto simp: execute_attempt_def attemptOnce_def ch cred rw call a Let_def\<close>)
qed

text \<open>A served request, taken apart: the attempt that answered, its credential, and what is handed on.\<close>

lemma Execute_servedE:
  assumes "Execute cfg env orgID pins endpoint est now candidates byok st = ((res, rot), st')" and "rr_err rot = None"
  obtains route c x keyID apiKey baseURL choice c1 x1 ra elapsed where
    "choose_credential (pc_breaker cfg) env route orgID pins c x = (Inr (keyID, apiKey, baseURL), ur_byok res, choice, c1, x1)"
    "en_call env route baseURL apiKey = (Answer (ur_status res) (ur_body res) ra, elapsed)" "ur_status res < 400"
    "rr_route rot = Some route" "route \<in> set candidates" "rr_keyID rot = keyID" "rr_byok rot = ur_byok res"
    "ur_keyID res = keyID" "ur_byokKeyID res = byokKeyIDIfUsed (ur_byok res) choice" "ur_attempts res = rr_attempts rot"
    "ur_byok res \<Longrightarrow> keyID = None"
proof -
  let ?at = "execute_attempt (pc_breaker cfg) env orgID pins"
  let ?st = "st\<lparr>ps_attempt := (ps_attempt st)\<lparr>at_now := now, at_byok := byok, at_got := no_upstream\<rparr>\<rparr>"
  obtain rot' st2 where r: "rotate cfg ?at endpoint est now candidates ?st = (rot', st2)" by (metis surj_pair)
  have eq: "rot' = rot" "st2 = st'" "res = (at_got (ps_attempt st'))\<lparr>ur_attempts := rr_attempts rot\<rparr>"
    using assms r by (auto simp: Execute_def Let_def split: if_splits)
  obtain route n c x out c' where a: "?at route n c x = (out, c', ps_attempt st')" and e: "ao_err out = None"
    and rr: "rr_route rot = Some route" "rr_keyID rot = ao_keyID out" "rr_byok rot = ao_byok out"
    using rotate_served [OF r] assms(2) unfolding eq by metis
  obtain keyID apiKey baseURL used choice c1 x1 status body ra elapsed where
    ch: "choose_credential (pc_breaker cfg) env route orgID pins c x = (Inr (keyID, apiKey, baseURL), used, choice, c1, x1)" and
    call: "en_call env route baseURL apiKey = (Answer status body ra, elapsed)" "status < 400" and
    got: "at_got (ps_attempt st') = \<lparr>ur_status = status, ur_body = body, ur_keyID = keyID, ur_attempts = 0, ur_byok = used,
       ur_byokKeyID = byokKeyIDIfUsed used choice\<rparr>" "ao_keyID out = keyID" "ao_byok out = used"
    by (rule served_attempt [OF a e])
  have "used \<Longrightarrow> keyID = None" using choose_own(3) [of "pc_breaker cfg" env route orgID pins c x] ch by fastforce
  moreover have "route \<in> set candidates"
    using rotate_route [OF r] assms(2) rr(1) unfolding eq by simp
  ultimately show ?thesis using that ch call rr got unfolding eq(3) by simp
qed

text \<open>
  C26. The account that served is the account that is billed. When a request is served,
  the result handed to settlement is that of the one attempt that answered: the body and
  the status below 400 are what the call on that route with that credential returned,
  whether the credential was the organization's own and which one agree with what the
  rotation reports, whatever earlier candidates used; and exactly one of the two
  credential columns of the usage row can be filled.
\<close>

theorem served_hop_is_reported:
  assumes "Execute cfg env orgID pins endpoint est now candidates byok st = ((res, rot), st')" and "rr_err rot = None"
  shows "(\<exists>route baseURL apiKey ra elapsed. rr_route rot = Some route \<and>
      en_call env route baseURL apiKey = (Answer (ur_status res) (ur_body res) ra, elapsed)) \<and>
    ur_status res < 400 \<and> ur_byok res = rr_byok rot \<and> ur_keyID res = rr_keyID rot \<and> ur_attempts res = rr_attempts rot \<and>
    (if ur_byok res then ur_keyID res = None else ur_byokKeyID res = None)"
  using assms by (rule Execute_servedE) (auto simp: byokKeyIDIfUsed_def)

definition demo_state :: "(Memory, redis, attempt_state) pipeline_state" where
  "demo_state = \<lparr>ps_circuits = fresh_circuits, ps_budget = NewRetryBudget, ps_semaphores = Map.empty,
     ps_limiter = (\<lambda>_. None), ps_attempt = demo_attempt, ps_draws = [], ps_jitter = [], ps_probe_requests = []\<rparr>"

lemma demo_served:
  "let ((res, rot), st') = Execute sample_config (demo_env (Answer 200 ''hi'' [])) (Some 3) no_pins ''chat'' 10 0 [sample_route]
     (at_byok demo_attempt) demo_state
   in rr_err rot = None \<and> ur_byokKeyID res = Some 31"
  by code_simp

theorem served_hop_is_reported_witness:
  "let ((res, rot), st') = Execute sample_config (demo_env (Answer 200 ''hi'' [])) (Some 3) no_pins ''chat'' 10 0 [sample_route]
     (at_byok demo_attempt) demo_state
   in ur_status res < 400 \<and> ur_byok res = rr_byok rot \<and> ur_keyID res = rr_keyID rot \<and> ur_attempts res = rr_attempts rot"
proof -
  obtain res rot st' where ex: "Execute sample_config (demo_env (Answer 200 ''hi'' [])) (Some 3) no_pins ''chat'' 10 0 [sample_route]
     (at_byok demo_attempt) demo_state = ((res, rot), st')" by (metis surj_pair)
  with demo_served have "rr_err rot = None" by simp
  from served_hop_is_reported [OF ex this] show ?thesis unfolding ex by simp
qed

end
