(* ===== verification/PriceTable.thy ===== *)
theory PriceTable
  imports Prelude "HOL-Library.AList" "HOL-Library.List_Lexorder" "HOL-Library.Char_ord"
    "HOL-Library.Product_Lexorder"
begin

text \<open>
  \<open>internal/gateway/catalog/price_table.go\<close>: a rate is addressed by bucket,
  service tier and variant and, within those, by context length. The theory
  models building a table from the stored rows, the lookup with its fallback
  steps, the billing view and the ceiling a pre-authorization holds against.

  A Go map that the code ranges over is an association list with distinct keys,
  so that iterating it is executable; where the order of iteration could matter,
  a lemma shows that it does not.
\<close>

section \<open>Constants\<close>

definition BucketIn :: string where "BucketIn = ''in''"
definition BucketOut :: string where "BucketOut = ''out''"
definition BucketCacheRead :: string where "BucketCacheRead = ''cache_read''"
definition BucketCacheWrite :: string where "BucketCacheWrite = ''cache_write''"
definition BucketAudioIn :: string where "BucketAudioIn = ''audio_in''"
definition BucketAudioOut :: string where "BucketAudioOut = ''audio_out''"
definition BucketImageIn :: string where "BucketImageIn = ''image_in''"
definition BucketImageOut :: string where "BucketImageOut = ''image_out''"

definition TierStandard :: string where "TierStandard = ''standard''"
definition TierPriority :: string where "TierPriority = ''priority''"
definition TierBatch :: string where "TierBatch = ''batch''"

definition VariantNone :: string where "VariantNone = []"
definition VariantCache5m :: string where "VariantCache5m = ''5m''"
definition VariantCache1h :: string where "VariantCache1h = ''1h''"

lemmas bucket_defs = BucketIn_def BucketOut_def BucketCacheRead_def BucketCacheWrite_def
  BucketAudioIn_def BucketAudioOut_def BucketImageIn_def BucketImageOut_def
lemmas tier_defs = TierStandard_def TierPriority_def TierBatch_def
lemmas variant_defs = VariantNone_def VariantCache5m_def VariantCache1h_def

section \<open>Data\<close>

record Price =
  InNanoPerMTok :: int
  OutNanoPerMTok :: int
  CacheReadNanoPerMTok :: int
  CacheWriteNanoPerMTok :: int

definition zero_price :: Price where
  "zero_price = \<lparr>InNanoPerMTok = 0, OutNanoPerMTok = 0, CacheReadNanoPerMTok = 0, CacheWriteNanoPerMTok = 0\<rparr>"

type_synonym priceKey = "string \<times> string \<times> string"

record contextBand =
  minInputTokens :: int
  nanoPerMTok :: int

text \<open>A stored row of \<open>model_price_dimension_rates\<close> and of \<open>model_price_tool_rates\<close>.\<close>

record DimensionRate =
  dr_Bucket :: string
  dr_ServiceTier :: string
  dr_Variant :: string
  dr_MinInputTokens :: int
  dr_NanoPerMtok :: int

record ToolRate =
  tr_Tool :: string
  tr_NanoPerCall :: int

record PriceTable =
  pt_base :: Price
  pt_over :: "(priceKey \<times> contextBand list) list"
  pt_tools :: "(string \<times> int) list"
  pt_billingFree :: bool

section \<open>Building a table\<close>

definition Flat :: "Price \<Rightarrow> PriceTable" where
  "Flat p = \<lparr>pt_base = p, pt_over = [], pt_tools = [], pt_billingFree = False\<rparr>"

definition bands_at :: "(priceKey \<times> contextBand list) list \<Rightarrow> priceKey \<Rightarrow> contextBand list" where
  "bands_at over key = (case map_of over key of None \<Rightarrow> [] | Some bs \<Rightarrow> bs)"

definition rate_key :: "DimensionRate \<Rightarrow> priceKey" where
  "rate_key r = (dr_Bucket r, dr_ServiceTier r, dr_Variant r)"

definition rate_band :: "DimensionRate \<Rightarrow> contextBand" where
  "rate_band r = \<lparr>minInputTokens = dr_MinInputTokens r, nanoPerMTok = dr_NanoPerMtok r\<rparr>"

fun append_rows :: "(priceKey \<times> contextBand list) list \<Rightarrow> DimensionRate list
    \<Rightarrow> (priceKey \<times> contextBand list) list" where
  "append_rows over [] = over"
| "append_rows over (r # rs) =
     append_rows (AList.update (rate_key r) (bands_at over (rate_key r) @ [rate_band r]) over) rs"

definition sort_bands :: "contextBand list \<Rightarrow> contextBand list" where
  "sort_bands bs = sort_key (\<lambda>b. - minInputTokens b) bs"

definition NewPriceTable :: "Price \<Rightarrow> DimensionRate list \<Rightarrow> PriceTable" where
  "NewPriceTable base rows =
     (if rows = [] then Flat base
      else (Flat base)\<lparr>pt_over := map (\<lambda>(k, bs). (k, sort_bands bs)) (append_rows [] rows)\<rparr>)"

fun tool_prices :: "(string \<times> int) list \<Rightarrow> ToolRate list \<Rightarrow> (string \<times> int) list" where
  "tool_prices m [] = m"
| "tool_prices m (r # rs) = tool_prices (AList.update (tr_Tool r) (tr_NanoPerCall r) m) rs"

definition WithToolPrices :: "PriceTable \<Rightarrow> ToolRate list \<Rightarrow> PriceTable" where
  "WithToolPrices t rows = (if rows = [] then t else t\<lparr>pt_tools := tool_prices [] rows\<rparr>)"

definition ForBilling :: "PriceTable \<Rightarrow> bool \<Rightarrow> PriceTable" where
  "ForBilling t free = (if \<not> free then t else t\<lparr>pt_billingFree := True\<rparr>)"

definition HasOverrides :: "PriceTable \<Rightarrow> bool" where
  "HasOverrides t \<longleftrightarrow> length (pt_over t) > 0"

section \<open>Lookup\<close>

definition baseOf :: "PriceTable \<Rightarrow> string \<Rightarrow> int" where
  "baseOf t bucket =
     (if bucket = BucketIn \<or> bucket = BucketAudioIn \<or> bucket = BucketImageIn
      then InNanoPerMTok (pt_base t)
      else if bucket = BucketOut \<or> bucket = BucketAudioOut \<or> bucket = BucketImageOut
      then OutNanoPerMTok (pt_base t)
      else if bucket = BucketCacheRead then CacheReadNanoPerMTok (pt_base t)
      else if bucket = BucketCacheWrite then CacheWriteNanoPerMTok (pt_base t)
      else 0)"

text \<open>The closure \<open>band\<close>: the first band, in stored order, that the request reaches.\<close>

fun first_band :: "contextBand list \<Rightarrow> int \<Rightarrow> int option" where
  "first_band [] ctx = None"
| "first_band (b # bs) ctx = (if minInputTokens b \<le> ctx then Some (nanoPerMTok b) else first_band bs ctx)"

text \<open>The closure \<open>withinTier\<close>: the rate if one is found, and whether this tier prices the bucket at all.\<close>

definition withinTier ::
  "(priceKey \<times> contextBand list) list \<Rightarrow> string \<Rightarrow> string \<Rightarrow> int \<Rightarrow> string \<Rightarrow> int option \<times> bool" where
  "withinTier rates bucket variant ctx tier =
     (let exact = bands_at rates (bucket, tier, variant);
          priced = exact \<noteq> []
      in case first_band exact ctx of
           Some v \<Rightarrow> (Some v, True)
         | None \<Rightarrow>
             if variant \<noteq> VariantNone then
               (let plain = bands_at rates (bucket, tier, VariantNone);
                    priced' = (priced \<or> plain \<noteq> [])
                in case first_band plain ctx of Some v \<Rightarrow> (Some v, True) | None \<Rightarrow> (None, priced'))
             else (None, priced))"

definition lookupDimensionRate ::
  "(priceKey \<times> contextBand list) list \<Rightarrow> string \<Rightarrow> string \<Rightarrow> string \<Rightarrow> int \<Rightarrow> int option" where
  "lookupDimensionRate rates bucket tier variant ctx =
     (case withinTier rates bucket variant ctx tier of
        (Some rate, _) \<Rightarrow> Some rate
      | (None, priced) \<Rightarrow>
          if tier = TierStandard \<or> priced then None
          else fst (withinTier rates bucket variant ctx TierStandard))"

definition lookup :: "PriceTable \<Rightarrow> string \<Rightarrow> string \<Rightarrow> string \<Rightarrow> int \<Rightarrow> int" where
  "lookup t bucket tier variant ctx =
     (if pt_billingFree t then 0
      else case lookupDimensionRate (pt_over t) bucket tier variant ctx of
             Some v \<Rightarrow> v
           | None \<Rightarrow> baseOf t bucket)"

definition lookupToolPrice :: "PriceTable \<Rightarrow> string \<Rightarrow> int option" where
  "lookupToolPrice t tool = (if pt_billingFree t then Some 0 else map_of (pt_tools t) tool)"

section \<open>The ceiling a hold is taken against\<close>

definition raise_rate :: "int \<Rightarrow> int \<Rightarrow> int" where
  "raise_rate dst v = (if v > dst then v else dst)"

definition raise_bucket :: "string \<Rightarrow> Price \<Rightarrow> contextBand \<Rightarrow> Price" where
  "raise_bucket bucket out b =
     (if minInputTokens b \<le> 0 then out
      else if bucket = BucketIn
      then out\<lparr>InNanoPerMTok := raise_rate (InNanoPerMTok out) (nanoPerMTok b)\<rparr>
      else if bucket = BucketOut
      then out\<lparr>OutNanoPerMTok := raise_rate (OutNanoPerMTok out) (nanoPerMTok b)\<rparr>
      else if bucket = BucketCacheRead
      then out\<lparr>CacheReadNanoPerMTok := raise_rate (CacheReadNanoPerMTok out) (nanoPerMTok b)\<rparr>
      else if bucket = BucketCacheWrite
      then out\<lparr>CacheWriteNanoPerMTok := raise_rate (CacheWriteNanoPerMTok out) (nanoPerMTok b)\<rparr>
      else out)"

definition LongContextCeiling :: "PriceTable \<Rightarrow> Price" where
  "LongContextCeiling t =
     (if pt_billingFree t then zero_price
      else foldl (\<lambda>out (key, bands). foldl (raise_bucket (fst key)) out bands) zero_price (pt_over t))"

section \<open>The snapshot written beside a request\<close>

definition flatten_rows :: "(priceKey \<times> contextBand list) list \<Rightarrow> DimensionRate list" where
  "flatten_rows over =
     concat (map (\<lambda>((bucket, tier, variant), bands).
       map (\<lambda>b. \<lparr>dr_Bucket = bucket, dr_ServiceTier = tier, dr_Variant = variant,
                  dr_MinInputTokens = minInputTokens b, dr_NanoPerMtok = nanoPerMTok b\<rparr>) bands) over)"

text \<open>Go compares strings byte by byte, which is the lexicographic order on character lists.\<close>

definition snapshot_key :: "DimensionRate \<Rightarrow> string \<times> string \<times> string \<times> int" where
  "snapshot_key r = (dr_Bucket r, dr_ServiceTier r, dr_Variant r, dr_MinInputTokens r)"

record PriceTableSnapshot =
  pts_Base :: Price
  pts_DimensionRates :: "DimensionRate list"
  pts_ToolRates :: "(string \<times> int) list"

definition Snapshot :: "PriceTable \<Rightarrow> PriceTableSnapshot" where
  "Snapshot t =
     \<lparr>pts_Base = pt_base t,
      pts_DimensionRates = sort_key snapshot_key (flatten_rows (pt_over t)),
      pts_ToolRates = pt_tools t\<rparr>"

section \<open>What a built table holds\<close>

lemma bands_at_update [simp]:
  "bands_at (AList.update k bs over) k' = (if k' = k then bs else bands_at over k')"
  by (simp add: bands_at_def update_conv')

lemma bands_at_map_snd:
  "f [] = [] \<Longrightarrow> bands_at (map (\<lambda>(k, bs). (k, f bs)) over) key = f (bands_at over key)"
  by (induction over) (auto simp: bands_at_def)

lemma bands_at_append_rows:
  "bands_at (append_rows over rows) key =
     bands_at over key @ map rate_band (filter (\<lambda>r. rate_key r = key) rows)"
  by (induction rows arbitrary: over) auto

lemma distinct_append_rows:
  "distinct (map fst over) \<Longrightarrow> distinct (map fst (append_rows over rows))"
  by (induction rows arbitrary: over) (simp_all add: distinct_update)

lemma sort_bands_Nil [simp]: "sort_bands [] = []"
  by (simp add: sort_bands_def)

lemma set_sort_bands [simp]: "set (sort_bands bs) = set bs"
  by (simp add: sort_bands_def)

lemma sort_bands_eq_Nil [simp]: "sort_bands bs = [] \<longleftrightarrow> bs = []"
  by (metis set_empty set_sort_bands)

lemma sorted_sort_bands: "sorted (map (\<lambda>b. - minInputTokens b) (sort_bands bs))"
  by (simp add: sort_bands_def)

text \<open>The bands a table holds under a key are those of the key's rows, sorted.\<close>

definition row_bands :: "DimensionRate list \<Rightarrow> priceKey \<Rightarrow> contextBand list" where
  "row_bands rows key = sort_bands (map rate_band (filter (\<lambda>r. rate_key r = key) rows))"

lemma bands_at_NewPriceTable [simp]:
  "bands_at (pt_over (NewPriceTable base rows)) key = row_bands rows key"
  by (simp add: NewPriceTable_def Flat_def row_bands_def bands_at_map_snd bands_at_append_rows)
    (simp_all add: bands_at_def)

lemma NewPriceTable_fields [simp]:
  "pt_base (NewPriceTable base rows) = base" "pt_billingFree (NewPriceTable base rows) = False"
  "pt_tools (NewPriceTable base rows) = []"
  by (simp_all add: NewPriceTable_def Flat_def)

lemma row_bands_Nil_iff:
  "row_bands rows key = [] \<longleftrightarrow> (\<forall>r \<in> set rows. rate_key r \<noteq> key)"
  by (auto simp: row_bands_def filter_empty_conv)

lemma set_row_bands [simp]:
  "set (row_bands rows key) = rate_band ` {r \<in> set rows. rate_key r = key}"
  by (auto simp: row_bands_def)

lemma sorted_row_bands: "sorted (map (\<lambda>b. - minInputTokens b) (row_bands rows key))"
  by (simp add: row_bands_def sorted_sort_bands)

lemma first_band_None_iff:
  "first_band bs ctx = None \<longleftrightarrow> (\<forall>b \<in> set bs. ctx < minInputTokens b)"
  by (induction bs) auto

lemma first_band_Some_mem:
  "first_band bs ctx = Some v \<Longrightarrow> \<exists>b \<in> set bs. minInputTokens b \<le> ctx \<and> nanoPerMTok b = v"
  by (induction bs) (auto split: if_splits)

lemma first_band_Some_largest:
  assumes "sorted (map (\<lambda>b. - minInputTokens b) bs)" and "first_band bs ctx = Some v"
  shows "\<exists>b \<in> set bs. nanoPerMTok b = v \<and> minInputTokens b \<le> ctx \<and>
    (\<forall>b' \<in> set bs. minInputTokens b' \<le> ctx \<longrightarrow> minInputTokens b' \<le> minInputTokens b)"
  using assms
proof (induction bs)
  case Nil
  then show ?case by simp
next
  case (Cons b bs)
  show ?case
  proof (cases "minInputTokens b \<le> ctx")
    case True
    with Cons.prems show ?thesis by auto
  next
    case False
    with Cons show ?thesis by auto
  qed
qed

section \<open>The lookup of a built table, read off the stored rows\<close>

lemma withinTier_NewPriceTable:
  "withinTier (pt_over (NewPriceTable base rows)) bucket variant ctx tier =
     (let exact = row_bands rows (bucket, tier, variant);
          plain = row_bands rows (bucket, tier, VariantNone)
      in case first_band exact ctx of
           Some v \<Rightarrow> (Some v, True)
         | None \<Rightarrow> (if variant \<noteq> VariantNone
                    then (case first_band plain ctx of
                            Some v \<Rightarrow> (Some v, True) | None \<Rightarrow> (None, exact \<noteq> [] \<or> plain \<noteq> []))
                    else (None, exact \<noteq> [])))"
  by (simp add: withinTier_def Let_def split: option.split)

definition tier_rows :: "string \<Rightarrow> DimensionRate list \<Rightarrow> DimensionRate list" where
  "tier_rows tier rows = filter (\<lambda>r. dr_ServiceTier r = tier) rows"

text \<open>A tier prices a bucket when a row of it names the bucket, under the variant or under none.\<close>

definition tier_prices :: "DimensionRate list \<Rightarrow> string \<Rightarrow> string \<Rightarrow> string \<Rightarrow> bool" where
  "tier_prices rows bucket tier variant \<longleftrightarrow>
     (\<exists>r \<in> set rows. dr_Bucket r = bucket \<and> dr_ServiceTier r = tier \<and>
        (dr_Variant r = variant \<or> dr_Variant r = VariantNone))"

lemma row_bands_tier_rows [simp]:
  "row_bands (tier_rows tier rows) (bucket, tier', variant) =
     (if tier' = tier then row_bands rows (bucket, tier', variant) else [])"
proof -
  have "filter (\<lambda>r. rate_key r = (bucket, tier', variant)) (tier_rows tier rows) =
      (if tier' = tier then filter (\<lambda>r. rate_key r = (bucket, tier', variant)) rows else [])"
    by (auto simp: tier_rows_def rate_key_def filter_empty_conv intro: filter_cong)
  then show ?thesis by (simp add: row_bands_def)
qed

lemma withinTier_tier_rows:
  "withinTier (pt_over (NewPriceTable base (tier_rows tier rows))) bucket variant ctx tier =
   withinTier (pt_over (NewPriceTable base rows)) bucket variant ctx tier"
  by (simp add: withinTier_NewPriceTable)

lemma withinTier_unpriced:
  assumes "\<not> tier_prices rows bucket tier variant"
  shows "withinTier (pt_over (NewPriceTable base rows)) bucket variant ctx tier = (None, False)"
proof -
  have "row_bands rows (bucket, tier, variant) = []" "row_bands rows (bucket, tier, VariantNone) = []"
    using assms by (auto simp: tier_prices_def rate_key_def row_bands_Nil_iff)
  then show ?thesis by (simp add: withinTier_NewPriceTable Let_def)
qed

lemma withinTier_priced:
  assumes "tier_prices rows bucket tier variant"
  shows "snd (withinTier (pt_over (NewPriceTable base rows)) bucket variant ctx tier)"
proof -
  have "row_bands rows (bucket, tier, variant) \<noteq> [] \<or>
      (variant \<noteq> VariantNone \<and> row_bands rows (bucket, tier, VariantNone) \<noteq> [])"
    using assms by (auto simp: tier_prices_def rate_key_def row_bands_Nil_iff)
  then show ?thesis
    unfolding withinTier_NewPriceTable Let_def by (auto split: option.split)
qed

text \<open>
  C30. A tier the model prices is a tier the request stays in: when the stored rows
  price this bucket in the requested tier, the rate is the one a table holding only
  that tier's rows gives, so no rate of the standard tier can leak in, at any
  context length. A tier that does not price the bucket at all reads the standard
  tier's rate.
\<close>

theorem lookup_stays_in_tier:
  "lookup (NewPriceTable base rows) bucket tier variant ctx =
     (if tier_prices rows bucket tier variant
      then lookup (NewPriceTable base (tier_rows tier rows)) bucket tier variant ctx
      else lookup (NewPriceTable base rows) bucket TierStandard variant ctx)"
proof (cases "tier_prices rows bucket tier variant")
  case True
  obtain f p where w: "withinTier (pt_over (NewPriceTable base rows)) bucket variant ctx tier = (f, p)"
    by (cases "withinTier (pt_over (NewPriceTable base rows)) bucket variant ctx tier")
  from withinTier_priced [OF True, of base ctx] w have p by simp
  with w True show ?thesis
    by (cases f) (simp_all add: lookup_def lookupDimensionRate_def withinTier_tier_rows baseOf_def)
next
  case False
  show ?thesis
  proof (cases "tier = TierStandard")
    case True
    with False show ?thesis by simp
  next
    case neq: False
    obtain f p where w: "withinTier (pt_over (NewPriceTable base rows)) bucket variant ctx TierStandard = (f, p)"
      by (cases "withinTier (pt_over (NewPriceTable base rows)) bucket variant ctx TierStandard")
    with neq False withinTier_unpriced [OF False, of base ctx] show ?thesis
      by (cases f) (simp_all add: lookup_def lookupDimensionRate_def)
  qed
qed

text \<open>The rate found in a tier is the rate of the row with the largest lower bound the request reaches.\<close>

definition best_row :: "DimensionRate list \<Rightarrow> priceKey \<Rightarrow> int \<Rightarrow> DimensionRate \<Rightarrow> bool" where
  "best_row rows key ctx r \<longleftrightarrow>
     r \<in> set rows \<and> rate_key r = key \<and> dr_MinInputTokens r \<le> ctx \<and>
     (\<forall>r' \<in> set rows. rate_key r' = key \<and> dr_MinInputTokens r' \<le> ctx
        \<longrightarrow> dr_MinInputTokens r' \<le> dr_MinInputTokens r)"

lemma first_band_row_bands:
  "first_band (row_bands rows key) ctx = Some v \<Longrightarrow> \<exists>r. best_row rows key ctx r \<and> dr_NanoPerMtok r = v"
proof -
  assume "first_band (row_bands rows key) ctx = Some v"
  from first_band_Some_largest [OF sorted_row_bands this] obtain r where
    "r \<in> set rows" "rate_key r = key" "dr_NanoPerMtok r = v" "dr_MinInputTokens r \<le> ctx"
    "\<forall>r' \<in> set rows. rate_key r' = key \<longrightarrow> dr_MinInputTokens r' \<le> ctx
       \<longrightarrow> dr_MinInputTokens r' \<le> dr_MinInputTokens r"
    by (auto simp: rate_band_def)
  then show ?thesis by (auto simp: best_row_def)
qed

section \<open>A free model and a table without overrides\<close>

lemma lookup_ForBilling_free [simp]: "lookup (ForBilling t True) bucket tier variant ctx = 0"
  by (simp add: lookup_def ForBilling_def)

lemma lookupToolPrice_ForBilling_free [simp]: "lookupToolPrice (ForBilling t True) tool = Some 0"
  by (simp add: lookupToolPrice_def ForBilling_def)

lemma ForBilling_paid [simp]: "ForBilling t False = t"
  by (simp add: ForBilling_def)

lemma lookupDimensionRate_empty [simp]: "lookupDimensionRate [] bucket tier variant ctx = None"
  by (simp add: lookupDimensionRate_def withinTier_def bands_at_def Let_def)

lemma lookup_Flat [simp]: "lookup (Flat p) bucket tier variant ctx = baseOf (Flat p) bucket"
  by (simp add: lookup_def Flat_def)

section \<open>The ceiling dominates every context-length band\<close>

lemma baseOf_simps:
  "baseOf (Flat p) BucketIn = InNanoPerMTok p" "baseOf (Flat p) BucketOut = OutNanoPerMTok p"
  "baseOf (Flat p) BucketCacheRead = CacheReadNanoPerMTok p"
  "baseOf (Flat p) BucketCacheWrite = CacheWriteNanoPerMTok p"
  by (simp_all add: baseOf_def Flat_def bucket_defs)

definition base_buckets :: "string set" where
  "base_buckets = {BucketIn, BucketOut, BucketCacheRead, BucketCacheWrite}"

lemma raise_bucket_mono: "baseOf (Flat out) k \<le> baseOf (Flat (raise_bucket bucket out b)) k"
  by (simp add: raise_bucket_def baseOf_def Flat_def raise_rate_def)

lemma raise_bucket_dominates:
  assumes "bucket \<in> base_buckets" and "0 < minInputTokens b"
  shows "nanoPerMTok b \<le> baseOf (Flat (raise_bucket bucket out b)) bucket"
proof -
  from assms(1) consider "bucket = BucketIn" | "bucket = BucketOut" | "bucket = BucketCacheRead"
    | "bucket = BucketCacheWrite" by (auto simp: base_buckets_def)
  then show ?thesis
    using assms(2)
    by cases (simp_all add: raise_bucket_def raise_rate_def baseOf_simps, simp_all add: bucket_defs)
qed

lemma raise_bands_mono: "baseOf (Flat out) k \<le> baseOf (Flat (foldl (raise_bucket bucket) out bs)) k"
  by (induction bs arbitrary: out) (auto intro: order_trans [OF raise_bucket_mono])

lemma raise_bands_dominates:
  assumes "bucket \<in> base_buckets" and "b \<in> set bs" and "0 < minInputTokens b"
  shows "nanoPerMTok b \<le> baseOf (Flat (foldl (raise_bucket bucket) out bs)) bucket"
  using assms(2)
proof (induction bs arbitrary: out)
  case Nil
  then show ?case by simp
next
  case (Cons c bs)
  show ?case
  proof (cases "b = c")
    case True
    then show ?thesis
      using raise_bucket_dominates [OF assms(1,3), of out]
        raise_bands_mono [of "raise_bucket bucket out b" bucket bucket bs] by simp
  next
    case False
    with Cons show ?thesis by simp
  qed
qed

lemma raise_table_mono:
  "baseOf (Flat out) k \<le>
   baseOf (Flat (foldl (\<lambda>out (key, bands). foldl (raise_bucket (fst key)) out bands) out over)) k"
  by (induction over arbitrary: out) (auto intro: order_trans [OF raise_bands_mono])

lemma raise_table_dominates:
  assumes "bucket \<in> base_buckets" and "((bucket, tier, variant), bs) \<in> set over"
    and "b \<in> set bs" and "0 < minInputTokens b"
  shows "nanoPerMTok b \<le>
    baseOf (Flat (foldl (\<lambda>out (key, bands). foldl (raise_bucket (fst key)) out bands) out over)) bucket"
  using assms(2)
proof (induction over arbitrary: out)
  case Nil
  then show ?case by simp
next
  case (Cons e over)
  show ?case
  proof (cases "e = ((bucket, tier, variant), bs)")
    case True
    then show ?thesis
      using raise_bands_dominates [OF assms(1,3,4), of out]
        raise_table_mono [of "foldl (raise_bucket bucket) out bs" bucket over] by simp
  next
    case False
    with Cons show ?thesis by simp
  qed
qed

lemma bands_at_mem: "b \<in> set (bands_at over key) \<Longrightarrow> \<exists>bs. (key, bs) \<in> set over \<and> b \<in> set bs"
  by (cases "map_of over key") (auto simp: bands_at_def dest: map_of_SomeD)

lemma LongContextCeiling_dominates:
  assumes "\<not> pt_billingFree t" and "bucket \<in> base_buckets"
    and "b \<in> set (bands_at (pt_over t) (bucket, tier, variant))" and "0 < minInputTokens b"
  shows "nanoPerMTok b \<le> baseOf (Flat (LongContextCeiling t)) bucket"
  using bands_at_mem [OF assms(3)] assms raise_table_dominates
  unfolding LongContextCeiling_def by fastforce

lemma LongContextCeiling_nonneg: "0 \<le> baseOf (Flat (LongContextCeiling t)) bucket"
proof -
  have "0 \<le> baseOf (Flat zero_price) bucket" by (simp add: baseOf_def Flat_def zero_price_def)
  then show ?thesis
    unfolding LongContextCeiling_def using raise_table_mono [of zero_price bucket "pt_over t"] by auto
qed

lemma withinTier_mem:
  assumes "fst (withinTier over bucket variant ctx tier) = Some v"
  shows "\<exists>variant'. \<exists>b \<in> set (bands_at over (bucket, tier, variant')). nanoPerMTok b = v"
  using assms unfolding withinTier_def Let_def
  by (auto split: option.splits if_splits dest!: first_band_Some_mem)

lemma lookupDimensionRate_mem:
  assumes "lookupDimensionRate over bucket tier variant ctx = Some v"
  shows "\<exists>tier' variant'. \<exists>b \<in> set (bands_at over (bucket, tier', variant')). nanoPerMTok b = v"
proof -
  obtain f p where w: "withinTier over bucket variant ctx tier = (f, p)"
    by (cases "withinTier over bucket variant ctx tier")
  have "fst (withinTier over bucket variant ctx tier) = Some v \<or>
      fst (withinTier over bucket variant ctx TierStandard) = Some v"
    using assms w by (cases f) (auto simp: lookupDimensionRate_def split: if_splits)
  then show ?thesis using withinTier_mem by blast
qed

text \<open>
  When every override of the table is a long-context band, no rate a request can be
  charged exceeds the larger of the base rate and the ceiling.
\<close>

definition only_long_context :: "PriceTable \<Rightarrow> bool" where
  "only_long_context t \<longleftrightarrow> (\<forall>(key, bs) \<in> set (pt_over t). \<forall>b \<in> set bs. 0 < minInputTokens b)"

lemma lookup_le_ceiling:
  assumes "bucket \<in> base_buckets" and "only_long_context t"
  shows "lookup t bucket tier variant ctx \<le>
    max (baseOf t bucket) (baseOf (Flat (LongContextCeiling t)) bucket)"
proof (cases "pt_billingFree t")
  case True
  then show ?thesis using LongContextCeiling_nonneg [of t bucket] by (simp add: lookup_def)
next
  case False
  show ?thesis
  proof (cases "lookupDimensionRate (pt_over t) bucket tier variant ctx")
    case None
    with False show ?thesis by (simp add: lookup_def)
  next
    case (Some v)
    from lookupDimensionRate_mem [OF Some] obtain tier' variant' b
      where b: "b \<in> set (bands_at (pt_over t) (bucket, tier', variant'))" "nanoPerMTok b = v" by blast
    from bands_at_mem [OF b(1)] assms(2) have "0 < minInputTokens b"
      by (auto simp: only_long_context_def)
    from LongContextCeiling_dominates [OF False assms(1) b(1) this] b(2) Some False
    show ?thesis by (simp add: lookup_def)
  qed
qed

section \<open>The snapshot replays the resolution\<close>

lemma lookup_cong:
  assumes "\<And>key. bands_at (pt_over t) key = bands_at (pt_over u) key"
    and "pt_base t = pt_base u" and "pt_billingFree t = pt_billingFree u"
  shows "lookup t bucket tier variant ctx = lookup u bucket tier variant ctx"
proof -
  have w: "withinTier (pt_over t) bucket variant ctx tier = withinTier (pt_over u) bucket variant ctx tier" for tier
    unfolding withinTier_def assms(1) ..
  have b: "baseOf t bucket = baseOf u bucket" by (simp add: baseOf_def assms(2))
  show ?thesis unfolding lookup_def lookupDimensionRate_def w b assms(3) ..
qed

definition unband :: "priceKey \<Rightarrow> contextBand \<Rightarrow> DimensionRate" where
  "unband key b = \<lparr>dr_Bucket = fst key, dr_ServiceTier = fst (snd key), dr_Variant = snd (snd key),
     dr_MinInputTokens = minInputTokens b, dr_NanoPerMtok = nanoPerMTok b\<rparr>"

lemma unband_facts [simp]: "rate_key (unband key b) = key" "rate_band (unband key b) = b"
  "dr_MinInputTokens (unband key b) = minInputTokens b"
  by (simp_all add: unband_def rate_key_def rate_band_def)

lemma flatten_rows_unband: "flatten_rows over = concat (map (\<lambda>(key, bs). map (unband key) bs) over)"
  by (auto simp: flatten_rows_def unband_def intro!: arg_cong [where f = concat] map_cong)

lemma filter_flatten_rows:
  assumes "distinct (map fst over)"
  shows "filter (\<lambda>r. rate_key r = key) (flatten_rows over) = map (unband key) (bands_at over key)"
  using assms
proof (induction over)
  case Nil
  then show ?case by (simp add: flatten_rows_unband bands_at_def)
next
  case (Cons e over)
  obtain k bs where e: "e = (k, bs)" by (cases e)
  have "filter (\<lambda>r. rate_key r = key) (map (unband k) bs) = (if k = key then map (unband k) bs else [])"
    by (auto simp: filter_map comp_def)
  moreover have "k = key \<Longrightarrow> bands_at over key = []"
    using Cons.prems e by (auto simp: bands_at_def dest: map_of_SomeD split: option.splits)
      (metis fst_conv image_eqI map_of_SomeD)
  ultimately show ?case using Cons e by (auto simp: flatten_rows_unband bands_at_def)
qed

text \<open>Writing sorted bands out as rows in any order of the rows and sorting them again restores them.\<close>

lemma sort_bands_restored:
  fixes bs :: "contextBand list"
  assumes "sorted (map (\<lambda>b. - minInputTokens b) bs)"
  shows "sort_bands (map rate_band (sort_key snapshot_key (map (unband key) bs))) = bs"
  unfolding sort_bands_def
proof (rule properties_for_sort_key)
  let ?L = "map (unband key) bs"
  show "mset bs = mset (map rate_band (sort_key snapshot_key ?L))"
    by (simp add: image_mset.compositionality comp_def)
  show "sorted (map (\<lambda>b. - minInputTokens b) bs)" by (rule assms)
  fix b assume "b \<in> set bs"
  let ?P = "\<lambda>r. - minInputTokens b = - minInputTokens (rate_band r)"
  have "sorted (map snapshot_key (filter ?P ?L))"
    by (rule sorted_map_const [where c = "snapshot_key (unband key b)"])
      (auto simp: snapshot_key_def unband_def rate_band_def)
  then have "filter ?P (sort_key snapshot_key ?L) = filter ?P ?L"
    by (simp add: filter_sort sort_key_id_if_sorted)
  then show "filter (\<lambda>x. - minInputTokens b = - minInputTokens x) bs =
      filter (\<lambda>x. - minInputTokens b = - minInputTokens x) (map rate_band (sort_key snapshot_key ?L))"
    by (simp add: filter_map comp_def)
qed

lemma distinct_NewPriceTable: "distinct (map fst (pt_over (NewPriceTable base rows)))"
proof -
  have "map fst (pt_over (NewPriceTable base rows)) = map fst (append_rows [] rows)"
    by (auto simp: NewPriceTable_def Flat_def comp_def case_prod_beta)
  then show ?thesis using distinct_append_rows [of "[]" rows] by simp
qed

lemma row_bands_snapshot:
  "row_bands (pts_DimensionRates (Snapshot (NewPriceTable base rows))) key = row_bands rows key"
proof -
  let ?over = "pt_over (NewPriceTable base rows)"
  have "row_bands (sort_key snapshot_key (flatten_rows ?over)) key =
      sort_bands (map rate_band (sort_key snapshot_key (map (unband key) (bands_at ?over key))))"
    by (simp add: row_bands_def [of "sort_key _ _"] filter_sort filter_flatten_rows distinct_NewPriceTable)
  also have "\<dots> = row_bands rows key"
    using sort_bands_restored [OF sorted_row_bands] by simp
  finally show ?thesis by (simp add: Snapshot_def)
qed

text \<open>
  The price table written beside a request replays the resolution: a table
  rebuilt from the snapshot's base rates and dimension rows answers every lookup
  exactly as the table the request was priced with.
\<close>

theorem snapshot_replays_lookup:
  "lookup (NewPriceTable (pts_Base (Snapshot (NewPriceTable base rows)))
      (pts_DimensionRates (Snapshot (NewPriceTable base rows)))) bucket tier variant ctx =
   lookup (NewPriceTable base rows) bucket tier variant ctx"
  by (rule lookup_cong) (simp_all add: row_bands_snapshot, simp add: Snapshot_def)

end
