(* ===== verification/Pricing.thy ===== *)
theory Pricing
  imports Money PriceTable
begin

text \<open>
  \<open>internal/gateway/catalog/pricing.go\<close>: billing one request from its token usage,
  the published and the serving provider's price tables, the three multipliers and
  the exchange rate; the fee of a request on the organization's own credential; the
  unrounded per-bucket record; and the pre-authorization estimate.

  A \<open>big.Rat\<close> is a \<open>rat\<close>; the only step that leaves the rationals is
  \<open>ceilToInt64\<close>. Token counts are Go \<open>int64\<close> values, so the
  subtractions and sums the code performs on them are the wrapping ones.
  \<open>Tokens.ToolCalls\<close>, a Go map, is an association list.
\<close>

section \<open>Data\<close>

record Tokens =
  tk_In :: int
  tk_Out :: int
  tk_CachedRead :: int
  tk_CacheWrite :: int
  tk_AudioIn :: int
  tk_AudioOut :: int
  tk_ImageIn :: int
  tk_ImageOut :: int
  tk_CacheWrite5m :: int
  tk_CacheWrite1h :: int
  tk_ServiceTier :: string
  tk_ToolCalls :: "(string \<times> int) list"

definition no_tokens :: Tokens where
  "no_tokens = \<lparr>tk_In = 0, tk_Out = 0, tk_CachedRead = 0, tk_CacheWrite = 0, tk_AudioIn = 0,
     tk_AudioOut = 0, tk_ImageIn = 0, tk_ImageOut = 0, tk_CacheWrite5m = 0, tk_CacheWrite1h = 0,
     tk_ServiceTier = [], tk_ToolCalls = []\<rparr>"

definition ContextTokens :: "Tokens \<Rightarrow> int" where
  "ContextTokens t = add64 (add64 (tk_In t) (tk_CachedRead t)) (tk_CacheWrite t)"

definition tier_of :: "Tokens \<Rightarrow> string" where
  "tier_of t =
     (if tk_ServiceTier t = TierPriority \<or> tk_ServiceTier t = TierBatch then tk_ServiceTier t
      else TierStandard)"

record Quote =
  q_UpstreamUSDNano :: int
  q_ChargedNano :: int
  q_ModelMultiplierBps :: int
  q_PlanMultiplierBps :: int
  q_ProcurementMultiplierBps :: int
  q_FXRate :: string

record Rates =
  rt_ModelMultiplierBps :: int
  rt_PlanMultiplierBps :: int
  rt_ProcurementMultiplierBps :: int
  rt_FXRate :: string

datatype pricing_error =
    TokenCountImplausible int
  | AudioNotSubset
  | ImageNotSubset
  | CacheTTLAboveCacheWrite
  | ToolCallsImplausible string int
  | ModelMultiplierOutOfRange int
  | PlanMultiplierOutOfRange int
  | ProcurementMultiplierOutOfRange int
  | FXNotConfigured
  | FXInvalid string
  | ErrAdvancedPriceMissing string
  | UnitQuantityNegative string int
  | UnitNotBillable string
  | ErrUnitPriceMissing
  | ErrUnitAmbiguous
  | UpstreamCostOverflow
  | BilledAmountOverflow
  | BYOKFeeNegative
  | BYOKFeeOverflow
  | EstimateNegative

definition noDiscountBps :: int where "noDiscountBps = 10000"
definition maxMultiplierBps :: int where "maxMultiplierBps = 100000"
definition tokensPerMTok :: int where "tokensPerMTok = 1000000"
definition maxSaneTokens :: int where "maxSaneTokens = 2147483647"

section \<open>Normalizing and validating the factors\<close>

definition or_one_times :: "int \<Rightarrow> int" where
  "or_one_times bps = (if bps = 0 then noDiscountBps else bps)"

definition normalize :: "Rates \<Rightarrow> pricing_error + Rates" where
  "normalize r =
     (let r = r\<lparr>rt_ModelMultiplierBps := or_one_times (rt_ModelMultiplierBps r),
                rt_PlanMultiplierBps := or_one_times (rt_PlanMultiplierBps r),
                rt_ProcurementMultiplierBps := or_one_times (rt_ProcurementMultiplierBps r)\<rparr>
      in if rt_ModelMultiplierBps r < 1 \<or> rt_ModelMultiplierBps r > maxMultiplierBps
         then Inl (ModelMultiplierOutOfRange (rt_ModelMultiplierBps r))
         else if rt_PlanMultiplierBps r < 1 \<or> rt_PlanMultiplierBps r > maxMultiplierBps
         then Inl (PlanMultiplierOutOfRange (rt_PlanMultiplierBps r))
         else if rt_ProcurementMultiplierBps r < 1 \<or> rt_ProcurementMultiplierBps r > maxMultiplierBps
         then Inl (ProcurementMultiplierOutOfRange (rt_ProcurementMultiplierBps r))
         else if rt_FXRate r = [] then Inl FXNotConfigured
         else Inr r)"

text \<open>
  \<open>big.Rat.SetString\<close> on the literals an exchange rate is written in: an optional
  sign, decimal digits with at most one point, an optional decimal exponent. The
  quotient, underscore and base-prefixed forms the standard library also reads are
  outside the numeric column the setting is stored in, and are not read here.
\<close>

definition cut_sign :: "string \<Rightarrow> int \<times> string" where
  "cut_sign s =
     (case s of
        c # rest \<Rightarrow> if c = CHR ''-'' then (- 1, rest) else if c = CHR ''+'' then (1, rest) else (1, s)
      | [] \<Rightarrow> (1, []))"

definition cut_exponent :: "string \<Rightarrow> string \<times> string option" where
  "cut_exponent s =
     (let is_e = (\<lambda>c. c = CHR ''e'' \<or> c = CHR ''E'');
          mantissa = takeWhile (\<lambda>c. \<not> is_e c) s
      in (mantissa, case dropWhile (\<lambda>c. \<not> is_e c) s of [] \<Rightarrow> None | _ # e \<Rightarrow> Some e))"

definition scale10 :: "rat \<Rightarrow> int \<Rightarrow> rat" where
  "scale10 v e = (if 0 \<le> e then v * 10 ^ nat e else v / 10 ^ nat (- e))"

definition rat_SetString :: "string \<Rightarrow> rat option" where
  "rat_SetString s =
     (let (sign, body) = cut_sign s;
          (mantissa, expo) = cut_exponent body;
          (whole, fraction, _) = cut_dot mantissa;
          (esign, edigits) = cut_sign (case expo of None \<Rightarrow> ''0'' | Some e \<Rightarrow> e)
      in if allDigits whole \<and> allDigits fraction \<and> whole @ fraction \<noteq> []
            \<and> allDigits edigits \<and> edigits \<noteq> []
         then Some (scale10 (of_int sign * of_nat (val (whole @ fraction)) / 10 ^ length fraction)
                      (esign * int (val edigits)))
         else None)"

definition parse_fx :: "string \<Rightarrow> pricing_error + rat" where
  "parse_fx s =
     (case rat_SetString s of
        None \<Rightarrow> Inl (FXInvalid s)
      | Some fx \<Rightarrow> if fx \<le> 0 then Inl (FXInvalid s) else Inr fx)"

definition bps :: "int \<Rightarrow> rat" where
  "bps m = of_int m / of_int noDiscountBps"

section \<open>Summing the contribution buckets\<close>

definition exactInput :: nat where "exactInput = 0"
definition exactOutput :: nat where "exactOutput = 1"
definition exactCacheRead :: nat where "exactCacheRead = 2"
definition exactCacheWrite :: nat where "exactCacheWrite = 3"
definition exactTools :: nat where "exactTools = 4"
definition exactBucketCount :: nat where "exactBucketCount = 5"

lemmas exact_index_defs = exactInput_def exactOutput_def exactCacheRead_def exactCacheWrite_def
  exactTools_def exactBucketCount_def

type_synonym exactBuckets = "rat list"

definition newExactBuckets :: exactBuckets where
  "newExactBuckets = replicate exactBucketCount 0"

definition exact_total :: "exactBuckets \<Rightarrow> rat" where
  "exact_total b = foldl (+) 0 b"

definition nonNeg :: "int \<Rightarrow> int" where
  "nonNeg v = (if v < 0 then 0 else v)"

definition add_part :: "PriceTable \<Rightarrow> string \<Rightarrow> int \<Rightarrow> int \<Rightarrow> string \<Rightarrow> string \<Rightarrow> nat
    \<Rightarrow> exactBuckets \<Rightarrow> exactBuckets" where
  "add_part pt tier contextTokens tokens bucket variant i parts =
     (if tokens = 0 then parts
      else (let rate = lookup pt bucket tier variant contextTokens;
                amount = of_int (tokens * rate) / of_int tokensPerMTok
            in parts[i := parts ! i + amount]))"

fun add_tools :: "PriceTable \<Rightarrow> (string \<times> int) list \<Rightarrow> exactBuckets \<Rightarrow> pricing_error + exactBuckets" where
  "add_tools pt [] parts = Inr parts"
| "add_tools pt ((tool, calls) # rest) parts =
     (if calls \<le> 0 then add_tools pt rest parts
      else case lookupToolPrice pt tool of
             None \<Rightarrow> Inl (ErrAdvancedPriceMissing tool)
           | Some per \<Rightarrow>
               add_tools pt rest (parts[exactTools := parts ! exactTools + of_int (calls * per)]))"

definition token_parts :: "PriceTable \<Rightarrow> Tokens \<Rightarrow> exactBuckets" where
  "token_parts pt t =
     (let add = add_part pt (tier_of t) (ContextTokens t);
          parts = newExactBuckets;
          parts = add (nonNeg (sub64 (sub64 (tk_In t) (tk_AudioIn t)) (tk_ImageIn t)))
                    BucketIn VariantNone exactInput parts;
          parts = add (nonNeg (sub64 (sub64 (tk_Out t) (tk_AudioOut t)) (tk_ImageOut t)))
                    BucketOut VariantNone exactOutput parts;
          parts = add (tk_AudioIn t) BucketAudioIn VariantNone exactInput parts;
          parts = add (tk_ImageIn t) BucketImageIn VariantNone exactInput parts;
          parts = add (tk_AudioOut t) BucketAudioOut VariantNone exactOutput parts;
          parts = add (tk_ImageOut t) BucketImageOut VariantNone exactOutput parts;
          parts = add (tk_CachedRead t) BucketCacheRead VariantNone exactCacheRead parts
      in if tk_CacheWrite5m t > 0 \<or> tk_CacheWrite1h t > 0
         then add (nonNeg (sub64 (sub64 (tk_CacheWrite t) (tk_CacheWrite5m t)) (tk_CacheWrite1h t)))
                BucketCacheWrite VariantNone exactCacheWrite
                (add (tk_CacheWrite1h t) BucketCacheWrite VariantCache1h exactCacheWrite
                  (add (tk_CacheWrite5m t) BucketCacheWrite VariantCache5m exactCacheWrite parts))
         else add (tk_CacheWrite t) BucketCacheWrite VariantNone exactCacheWrite parts)"

definition upstreamCostBuckets :: "PriceTable \<Rightarrow> Tokens \<Rightarrow> pricing_error + exactBuckets" where
  "upstreamCostBuckets pt t = add_tools pt (tk_ToolCalls t) (token_parts pt t)"

definition upstreamCost :: "PriceTable \<Rightarrow> Tokens \<Rightarrow> pricing_error + rat" where
  "upstreamCost pt t = bind_result (upstreamCostBuckets pt t) (\<lambda>parts. Inr (exact_total parts))"

definition procurementCost :: "PriceTable \<Rightarrow> Tokens \<Rightarrow> int \<Rightarrow> pricing_error + rat" where
  "procurementCost pt t multiplierBps =
     bind_result (upstreamCost pt t) (\<lambda>total. Inr (total * bps multiplierBps))"

section \<open>Validating the usage\<close>

fun check_plausible :: "int list \<Rightarrow> pricing_error + unit" where
  "check_plausible [] = Inr ()"
| "check_plausible (v # vs) =
     (if v < 0 \<or> v > maxSaneTokens then Inl (TokenCountImplausible v) else check_plausible vs)"

fun check_tool_calls :: "(string \<times> int) list \<Rightarrow> pricing_error + unit" where
  "check_tool_calls [] = Inr ()"
| "check_tool_calls ((tool, calls) # rest) =
     (if calls < 0 \<or> calls > maxSaneTokens then Inl (ToolCallsImplausible tool calls)
      else check_tool_calls rest)"

definition ValidateTokens :: "Tokens \<Rightarrow> pricing_error + unit" where
  "ValidateTokens t =
     bind_result (check_plausible [tk_In t, tk_Out t, tk_CachedRead t, tk_CacheWrite t,
         tk_AudioIn t, tk_AudioOut t, tk_ImageIn t, tk_CacheWrite5m t, tk_CacheWrite1h t]) (\<lambda>_.
     bind_result (guard_result (\<not> (tk_AudioIn t > tk_In t \<or> tk_AudioOut t > tk_Out t)) AudioNotSubset) (\<lambda>_.
     bind_result (guard_result (\<not> tk_ImageIn t > tk_In t) ImageNotSubset) (\<lambda>_.
     bind_result (guard_result (\<not> add64 (tk_CacheWrite5m t) (tk_CacheWrite1h t) > tk_CacheWrite t)
         CacheTTLAboveCacheWrite) (\<lambda>_.
     check_tool_calls (tk_ToolCalls t)))))"

section \<open>Rounding\<close>

text \<open>\<open>q.IsInt64()\<close> failing is the error; the callers wrap it.\<close>

definition ceilToInt64 :: "rat \<Rightarrow> 'e \<Rightarrow> 'e + int" where
  "ceilToInt64 r overflow =
     (let (num, denom) = quotient_of r;
          q = quo num denom;
          rm = rem num denom;
          q = (if rm > 0 then q + 1 else q)
      in if \<not> is_int64 q then Inl overflow else Inr q)"

section \<open>Billing one request\<close>

definition quoteFrom :: "rat \<Rightarrow> rat \<Rightarrow> rat \<Rightarrow> Rates \<Rightarrow> pricing_error + Quote" where
  "quoteFrom upstream charged fx r =
     bind_result (ceilToInt64 upstream UpstreamCostOverflow) (\<lambda>upstreamNano.
     bind_result (ceilToInt64 (charged * bps (rt_ModelMultiplierBps r) * bps (rt_PlanMultiplierBps r) * fx)
         BilledAmountOverflow) (\<lambda>chargedNano.
     Inr \<lparr>q_UpstreamUSDNano = upstreamNano,
          q_ChargedNano = chargedNano,
          q_ModelMultiplierBps = rt_ModelMultiplierBps r,
          q_PlanMultiplierBps = rt_PlanMultiplierBps r,
          q_ProcurementMultiplierBps = rt_ProcurementMultiplierBps r,
          q_FXRate = rt_FXRate r\<rparr>))"

definition Compute :: "PriceTable \<Rightarrow> PriceTable \<Rightarrow> Tokens \<Rightarrow> Rates \<Rightarrow> pricing_error + Quote" where
  "Compute list cost t r =
     bind_result (ValidateTokens t) (\<lambda>_.
     bind_result (normalize r) (\<lambda>r.
     bind_result (parse_fx (rt_FXRate r)) (\<lambda>fx.
     bind_result (procurementCost cost t (rt_ProcurementMultiplierBps r)) (\<lambda>upstream.
     bind_result (upstreamCost list t) (\<lambda>charged.
     quoteFrom upstream charged fx r)))))"

definition ComputeBYOK :: "PriceTable \<Rightarrow> Tokens \<Rightarrow> int \<Rightarrow> Rates \<Rightarrow> pricing_error + Quote" where
  "ComputeBYOK p t feeBps r =
     bind_result (ValidateTokens t) (\<lambda>_.
     bind_result (guard_result (\<not> feeBps < 0) BYOKFeeNegative) (\<lambda>_.
     bind_result (normalize (r\<lparr>rt_ModelMultiplierBps := noDiscountBps\<rparr>)) (\<lambda>r.
     bind_result (parse_fx (rt_FXRate r)) (\<lambda>fx.
     bind_result (upstreamCost p t) (\<lambda>charged.
     bind_result (ceilToInt64 (charged * bps feeBps * bps (rt_PlanMultiplierBps r) * fx)
         BYOKFeeOverflow) (\<lambda>chargedNano.
     Inr \<lparr>q_UpstreamUSDNano = 0,
          q_ChargedNano = chargedNano,
          q_ModelMultiplierBps = noDiscountBps,
          q_PlanMultiplierBps = rt_PlanMultiplierBps r,
          q_ProcurementMultiplierBps = noDiscountBps,
          q_FXRate = rt_FXRate r\<rparr>))))))"

section \<open>The unrounded record\<close>

definition int_string :: "int \<Rightarrow> string" where
  "int_string n = (if n < 0 then ''-'' @ dec (nat (- n)) else dec (nat n))"

definition RatString :: "rat \<Rightarrow> string" where
  "RatString r =
     (let (num, denom) = quotient_of r
      in if denom = 1 then int_string num else int_string num @ ''/'' @ int_string denom)"

record ExactBucketAmounts =
  eb_Input :: string
  eb_Output :: string
  eb_CacheRead :: string
  eb_CacheWrite :: string
  eb_Tools :: string

record ExactQuoteContributions =
  eq_UpstreamCostUSDNano :: ExactBucketAmounts
  eq_ChargedNano :: ExactBucketAmounts

definition scaleExactBuckets :: "exactBuckets \<Rightarrow> rat list \<Rightarrow> exactBuckets" where
  "scaleExactBuckets b multipliers = map (\<lambda>amount. foldl (*) amount multipliers) b"

definition snapshotExactBuckets :: "exactBuckets \<Rightarrow> ExactBucketAmounts" where
  "snapshotExactBuckets b =
     \<lparr>eb_Input = RatString (b ! exactInput), eb_Output = RatString (b ! exactOutput),
      eb_CacheRead = RatString (b ! exactCacheRead), eb_CacheWrite = RatString (b ! exactCacheWrite),
      eb_Tools = RatString (b ! exactTools)\<rparr>"

definition ComputeExactContributions ::
  "PriceTable \<Rightarrow> PriceTable \<Rightarrow> Tokens \<Rightarrow> Rates \<Rightarrow> pricing_error + ExactQuoteContributions" where
  "ComputeExactContributions list cost t r =
     bind_result (ValidateTokens t) (\<lambda>_.
     bind_result (normalize r) (\<lambda>r.
     bind_result (parse_fx (rt_FXRate r)) (\<lambda>fx.
     bind_result (upstreamCostBuckets cost t) (\<lambda>costParts.
     bind_result (upstreamCostBuckets list t) (\<lambda>listParts.
     Inr \<lparr>eq_UpstreamCostUSDNano = snapshotExactBuckets
            (scaleExactBuckets costParts [bps (rt_ProcurementMultiplierBps r)]),
          eq_ChargedNano = snapshotExactBuckets
            (scaleExactBuckets listParts
               [bps (rt_ModelMultiplierBps r), bps (rt_PlanMultiplierBps r), fx])\<rparr>)))))"

definition ComputeBYOKExactContributions ::
  "PriceTable \<Rightarrow> Tokens \<Rightarrow> int \<Rightarrow> Rates \<Rightarrow> pricing_error + ExactQuoteContributions" where
  "ComputeBYOKExactContributions list t feeBps r =
     bind_result (ValidateTokens t) (\<lambda>_.
     bind_result (guard_result (\<not> feeBps < 0) BYOKFeeNegative) (\<lambda>_.
     bind_result (normalize (r\<lparr>rt_ModelMultiplierBps := noDiscountBps\<rparr>)) (\<lambda>r.
     bind_result (parse_fx (rt_FXRate r)) (\<lambda>fx.
     bind_result (upstreamCostBuckets list t) (\<lambda>listParts.
     Inr \<lparr>eq_UpstreamCostUSDNano = snapshotExactBuckets newExactBuckets,
          eq_ChargedNano = snapshotExactBuckets
            (scaleExactBuckets listParts [bps feeBps, bps (rt_PlanMultiplierBps r), fx])\<rparr>)))))"

section \<open>The pre-authorization estimate\<close>

record EstimateInput =
  ei_Price :: Price
  ei_LongContext :: Price
  ei_InputTokens :: int
  ei_MaxOutput :: int
  ei_DefaultMaxCap :: int
  ei_IgnoreRequestCap :: bool
  ei_Rates :: Rates

definition larger :: "int \<Rightarrow> int \<Rightarrow> int" where
  "larger a b = (if b > a then b else a)"

definition dearerOf :: "Price \<Rightarrow> Price \<Rightarrow> Price" where
  "dearerOf base ceil =
     \<lparr>InNanoPerMTok = larger (InNanoPerMTok base) (InNanoPerMTok ceil),
      OutNanoPerMTok = larger (OutNanoPerMTok base) (OutNanoPerMTok ceil),
      CacheReadNanoPerMTok = larger (CacheReadNanoPerMTok base) (CacheReadNanoPerMTok ceil),
      CacheWriteNanoPerMTok = larger (CacheWriteNanoPerMTok base) (CacheWriteNanoPerMTok ceil)\<rparr>"

definition estimate_output :: "EstimateInput \<Rightarrow> int" where
  "estimate_output ei =
     (let out = ei_MaxOutput ei;
          out = (if ei_IgnoreRequestCap ei then 0 else out);
          out = (if out \<le> 0 then ei_DefaultMaxCap ei else out)
      in if ei_DefaultMaxCap ei > 0 \<and> out > ei_DefaultMaxCap ei then ei_DefaultMaxCap ei else out)"

definition Estimate :: "EstimateInput \<Rightarrow> pricing_error + int" where
  "Estimate ei =
     (let out = estimate_output ei
      in if ei_InputTokens ei < 0 \<or> out < 0 then Inl EstimateNegative
         else (let price = dearerOf (ei_Price ei) (ei_LongContext ei)
               in bind_result (Compute (Flat price) (Flat price)
                      (no_tokens\<lparr>tk_In := ei_InputTokens ei, tk_Out := out\<rparr>) (ei_Rates ei)) (\<lambda>q.
                  if q_ChargedNano q \<le> 0 then Inr 1 else Inr (q_ChargedNano q))))"

section \<open>Rounding up\<close>

lemma ceilToInt64_ceiling:
  "ceilToInt64 r e = (if is_int64 \<lceil>r\<rceil> then Inr \<lceil>r\<rceil> else Inl e)"
proof -
  obtain n d where q: "quotient_of r = (n, d)" by (cases "quotient_of r")
  then have d: "0 < d" by (rule quotient_of_denom_pos)
  from q have "r = of_int n / of_int d" by (rule quotient_of_div)
  then have c: "\<lceil>r\<rceil> = - ((- n) div d)" using ceiling_of_fraction_pos [OF d] by simp
  have "(if rem n d > 0 then quo n d + 1 else quo n d) = - ((- n) div d)"
  proof (cases "0 \<le> n")
    case True
    moreover have "n mod d = 0 \<or> 0 < n mod d" using pos_mod_sign [OF d, of n] by linarith
    ultimately show ?thesis
      using d neg_div_pos_remainder [of d n] neg_div_no_remainder [of d n]
      by (auto simp: rem_nonneg quo_nonneg)
  next
    case False
    then have "rem n d \<le> 0" using pos_mod_sign [OF d, of "- n"] d by (simp add: rem_neg)
    with False d show ?thesis by (simp add: quo_neg)
  qed
  with c q show ?thesis by (simp add: ceilToInt64_def Let_def)
qed

lemma ceilToInt64_Inr_iff: "ceilToInt64 r e = Inr n \<longleftrightarrow> n = \<lceil>r\<rceil> \<and> is_int64 \<lceil>r\<rceil>"
  by (auto simp: ceilToInt64_ceiling)

lemma normalize_Inr:
  assumes "normalize r = Inr r'"
  shows "rt_ModelMultiplierBps r' = or_one_times (rt_ModelMultiplierBps r)"
    "rt_PlanMultiplierBps r' = or_one_times (rt_PlanMultiplierBps r)"
    "rt_ProcurementMultiplierBps r' = or_one_times (rt_ProcurementMultiplierBps r)"
    "rt_FXRate r' = rt_FXRate r"
    "0 < rt_ModelMultiplierBps r'" "0 < rt_PlanMultiplierBps r'" "0 < rt_ProcurementMultiplierBps r'"
  using assms by (auto simp: normalize_def Let_def split: if_splits)

lemma parse_fx_Inr_iff: "parse_fx s = Inr fx \<longleftrightarrow> rat_SetString s = Some fx \<and> 0 < fx"
  by (auto simp: parse_fx_def split: option.splits if_splits)

lemma bps_pos [simp]: "0 < bps m \<longleftrightarrow> 0 < m"
  by (simp add: bps_def noDiscountBps_def)

lemma bps_nonneg [simp]: "0 \<le> bps m \<longleftrightarrow> 0 \<le> m"
  by (simp add: bps_def noDiscountBps_def)

lemma bps_one [simp]: "bps noDiscountBps = 1"
  by (simp add: bps_def noDiscountBps_def)

section \<open>The chain both pricing families share\<close>

text \<open>
  The token path and the per-unit path differ only in how a usage is admitted and
  what it amounts to; the multipliers, the exchange rate and the rounding are one
  chain. The locale states that chain as a law and draws its consequences once.
\<close>

locale quote_chain =
  fixes admit :: "'u \<Rightarrow> pricing_error + unit"
    and amount :: "'t \<Rightarrow> 'u \<Rightarrow> pricing_error + rat"
    and quote :: "'t \<Rightarrow> 't \<Rightarrow> 'u \<Rightarrow> Rates \<Rightarrow> pricing_error + Quote"
  assumes chain: "quote list cost u r =
    bind_result (admit u) (\<lambda>_.
    bind_result (normalize r) (\<lambda>r'.
    bind_result (parse_fx (rt_FXRate r')) (\<lambda>fx.
    bind_result (amount cost u) (\<lambda>c.
    bind_result (amount list u) (\<lambda>l.
    quoteFrom (c * bps (rt_ProcurementMultiplierBps r')) l fx r')))))"
begin

lemma quote_exact:
  assumes "quote list cost u r = Inr q"
  obtains r' fx c l where "admit u = Inr ()" "normalize r = Inr r'" "rat_SetString (rt_FXRate r) = Some fx"
    "0 < fx" "amount cost u = Inr c" "amount list u = Inr l"
    "q_UpstreamUSDNano q = \<lceil>c * bps (rt_ProcurementMultiplierBps r')\<rceil>"
    "q_ChargedNano q = \<lceil>l * (bps (rt_ModelMultiplierBps r') * bps (rt_PlanMultiplierBps r') * fx)\<rceil>"
    "is_int64 (q_ChargedNano q)" "is_int64 (q_UpstreamUSDNano q)"
  using assms that normalize_Inr(4) [of r]
  unfolding chain quoteFrom_def
  by (auto simp: bind_result_Inr_iff ceilToInt64_Inr_iff parse_fx_Inr_iff mult.assoc)

lemma charge_factor_pos:
  assumes "normalize r = Inr r'" and "0 < fx"
  shows "0 < bps (rt_ModelMultiplierBps r') * bps (rt_PlanMultiplierBps r') * fx"
  using normalize_Inr(5,6) [OF assms(1)] assms(2) by simp

text \<open>The charge does not read the serving provider's table nor its procurement multiplier.\<close>

lemma quote_cost_independent:
  assumes "quote list cost u r = Inr q"
    and "quote list cost' u (r\<lparr>rt_ProcurementMultiplierBps := m\<rparr>) = Inr q'"
  shows "q_ChargedNano q = q_ChargedNano q'"
proof -
  obtain r1 fx l where 1: "normalize r = Inr r1" "rat_SetString (rt_FXRate r) = Some fx" "amount list u = Inr l"
    "q_ChargedNano q = \<lceil>l * (bps (rt_ModelMultiplierBps r1) * bps (rt_PlanMultiplierBps r1) * fx)\<rceil>"
    using assms(1) by (rule quote_exact)
  obtain r2 fx' l' where 2: "normalize (r\<lparr>rt_ProcurementMultiplierBps := m\<rparr>) = Inr r2"
    "rat_SetString (rt_FXRate (r\<lparr>rt_ProcurementMultiplierBps := m\<rparr>)) = Some fx'" "amount list u = Inr l'"
    "q_ChargedNano q' = \<lceil>l' * (bps (rt_ModelMultiplierBps r2) * bps (rt_PlanMultiplierBps r2) * fx')\<rceil>"
    using assms(2) by (rule quote_exact)
  from 1 2 show ?thesis using normalize_Inr(1,2) [OF 1(1)] normalize_Inr(1,2) [OF 2(1)] by simp
qed

text \<open>A dearer usage is never charged less at the same rates, whatever the procurement multiplier.\<close>

lemma quote_mono:
  assumes "quote list cost u (r\<lparr>rt_ProcurementMultiplierBps := m\<rparr>) = Inr q" and "quote list' cost' u' r = Inr q'"
    and "amount list u = Inr l" and "amount list' u' = Inr l'" and "l \<le> l'"
  shows "q_ChargedNano q \<le> q_ChargedNano q'"
proof -
  let ?r = "r\<lparr>rt_ProcurementMultiplierBps := m\<rparr>"
  obtain r1 fx l1 where 1: "normalize ?r = Inr r1" "rat_SetString (rt_FXRate ?r) = Some fx" "0 < fx"
    "amount list u = Inr l1"
    "q_ChargedNano q = \<lceil>l1 * (bps (rt_ModelMultiplierBps r1) * bps (rt_PlanMultiplierBps r1) * fx)\<rceil>"
    using assms(1) by (rule quote_exact)
  obtain r2 fx' l2 where 2: "normalize r = Inr r2" "rat_SetString (rt_FXRate r) = Some fx'"
    "amount list' u' = Inr l2"
    "q_ChargedNano q' = \<lceil>l2 * (bps (rt_ModelMultiplierBps r2) * bps (rt_PlanMultiplierBps r2) * fx')\<rceil>"
    using assms(2) by (rule quote_exact)
  from charge_factor_pos [OF 1(1) 1(3)] have "l * (bps (rt_ModelMultiplierBps r1) * bps (rt_PlanMultiplierBps r1) * fx)
      \<le> l' * (bps (rt_ModelMultiplierBps r1) * bps (rt_PlanMultiplierBps r1) * fx)"
    using assms(5) by (simp add: mult_right_mono)
  then show ?thesis using 1 2 assms(3,4) normalize_Inr(1,2) [OF 1(1)] normalize_Inr(1,2) [OF 2(1)] by (simp add: ceiling_mono)
qed

text \<open>Rounding is up, and by less than one nano: nothing is charged as zero by rounding.\<close>

lemma quote_rounds_up:
  assumes "quote list cost u r = Inr q" and "amount list u = Inr l"
  obtains exact :: rat where "of_int (q_ChargedNano q) - 1 < exact" "exact \<le> of_int (q_ChargedNano q)"
    "(0 < l) = (0 < exact)" "(0 \<le> l) = (0 \<le> exact)" "(0 < q_ChargedNano q) = (0 < l)"
proof -
  obtain r' fx where 1: "normalize r = Inr r'" "0 < fx"
    "q_ChargedNano q = \<lceil>l * (bps (rt_ModelMultiplierBps r') * bps (rt_PlanMultiplierBps r') * fx)\<rceil>"
    using assms(1) by (rule quote_exact) (use assms(2) in simp)
  define f where "f = bps (rt_ModelMultiplierBps r') * bps (rt_PlanMultiplierBps r') * fx"
  have f: "0 < f" unfolding f_def using charge_factor_pos [OF 1(1,2)] .
  have c: "q_ChargedNano q = \<lceil>l * f\<rceil>" using 1(3) by (simp add: f_def)
  show ?thesis
  proof (rule that [of "l * f"])
    show "of_int (q_ChargedNano q) - 1 < l * f" "l * f \<le> of_int (q_ChargedNano q)"
      using c ceiling_correct [of "l * f"] by auto
    show "(0 < l) = (0 < l * f)" "(0 \<le> l) = (0 \<le> l * f)" "(0 < q_ChargedNano q) = (0 < l)"
      using f c by (simp_all add: zero_less_mult_iff zero_le_mult_iff)
  qed
qed

end

interpretation tokens: quote_chain ValidateTokens upstreamCost Compute
  by unfold_locales (simp add: Compute_def procurementCost_def bind_result_assoc)

text \<open>The fee path has one chain too, with the fee rate in the place of the model multiplier.\<close>

locale fee_chain =
  fixes admit :: "'u \<Rightarrow> pricing_error + unit"
    and amount :: "'t \<Rightarrow> 'u \<Rightarrow> pricing_error + rat"
    and fee :: "'t \<Rightarrow> 'u \<Rightarrow> int \<Rightarrow> Rates \<Rightarrow> pricing_error + Quote"
  assumes fee_law: "fee p u feeBps r =
    bind_result (admit u) (\<lambda>_.
    bind_result (guard_result (\<not> feeBps < 0) BYOKFeeNegative) (\<lambda>_.
    bind_result (normalize (r\<lparr>rt_ModelMultiplierBps := noDiscountBps\<rparr>)) (\<lambda>r'.
    bind_result (parse_fx (rt_FXRate r')) (\<lambda>fx.
    bind_result (amount p u) (\<lambda>l.
    bind_result (ceilToInt64 (l * bps feeBps * bps (rt_PlanMultiplierBps r') * fx) BYOKFeeOverflow) (\<lambda>n.
    Inr \<lparr>q_UpstreamUSDNano = 0, q_ChargedNano = n, q_ModelMultiplierBps = noDiscountBps,
         q_PlanMultiplierBps = rt_PlanMultiplierBps r', q_ProcurementMultiplierBps = noDiscountBps,
         q_FXRate = rt_FXRate r'\<rparr>))))))"
begin

lemma fee_exact:
  assumes "fee p u feeBps r = Inr q"
  obtains fx l where "admit u = Inr ()" "0 \<le> feeBps" "rat_SetString (rt_FXRate r) = Some fx" "0 < fx"
    "amount p u = Inr l" "q_UpstreamUSDNano q = 0" "0 < q_PlanMultiplierBps q"
    "q_ChargedNano q = \<lceil>l * of_int feeBps * of_int (q_PlanMultiplierBps q) * fx / 100000000\<rceil>"
proof -
  from assms obtain r' fx l where *: "admit u = Inr ()" "0 \<le> feeBps"
    "normalize (r\<lparr>rt_ModelMultiplierBps := noDiscountBps\<rparr>) = Inr r'"
    "rat_SetString (rt_FXRate r') = Some fx" "0 < fx" "amount p u = Inr l" "q_UpstreamUSDNano q = 0"
    "q_PlanMultiplierBps q = rt_PlanMultiplierBps r'"
    "q_ChargedNano q = \<lceil>l * bps feeBps * bps (rt_PlanMultiplierBps r') * fx\<rceil>"
    unfolding fee_law
    by (auto simp: bind_result_Inr_iff ceilToInt64_Inr_iff parse_fx_Inr_iff not_less)
  show ?thesis
  proof (rule that [of fx l])
    show "rat_SetString (rt_FXRate r) = Some fx" using *(4) normalize_Inr(4) [OF *(3)] by simp
    show "0 < q_PlanMultiplierBps q" using *(8) normalize_Inr(6) [OF *(3)] by simp
    show "q_ChargedNano q = \<lceil>l * of_int feeBps * of_int (q_PlanMultiplierBps q) * fx / 100000000\<rceil>"
      unfolding *(8,9) by (simp add: bps_def noDiscountBps_def)
  qed (fact *)+
qed

lemma fee_ignores_model_multiplier: "fee p u feeBps (r\<lparr>rt_ModelMultiplierBps := m\<rparr>) = fee p u feeBps r"
  by (simp add: fee_law)

lemma fee_nonneg:
  assumes "fee p u feeBps r = Inr q" and "\<And>l. amount p u = Inr l \<Longrightarrow> 0 \<le> l"
  shows "0 \<le> q_ChargedNano q"
proof -
  obtain fx l where *: "0 \<le> feeBps" "0 < fx" "amount p u = Inr l" "0 < q_PlanMultiplierBps q"
    "q_ChargedNano q = \<lceil>l * of_int feeBps * of_int (q_PlanMultiplierBps q) * fx / 100000000\<rceil>"
    by (rule fee_exact [OF assms(1)])
  then have "0 \<le> l * of_int feeBps * of_int (q_PlanMultiplierBps q) * fx / 100000000"
    using assms(2) by simp
  from ceiling_mono [OF this] show ?thesis using *(5) by simp
qed

end

interpretation token_fee: fee_chain ValidateTokens upstreamCost ComputeBYOK
  by unfold_locales (simp add: ComputeBYOK_def)

section \<open>What a usage costs, as one sum\<close>

text \<open>The priced lines of a usage: how many tokens, of which bucket, under which variant.\<close>

definition usage_lines :: "Tokens \<Rightarrow> (int \<times> string \<times> string) list" where
  "usage_lines t =
     [(max 0 (tk_In t - tk_AudioIn t - tk_ImageIn t), BucketIn, VariantNone),
      (max 0 (tk_Out t - tk_AudioOut t - tk_ImageOut t), BucketOut, VariantNone),
      (tk_AudioIn t, BucketAudioIn, VariantNone),
      (tk_ImageIn t, BucketImageIn, VariantNone),
      (tk_AudioOut t, BucketAudioOut, VariantNone),
      (tk_ImageOut t, BucketImageOut, VariantNone),
      (tk_CachedRead t, BucketCacheRead, VariantNone),
      (tk_CacheWrite5m t, BucketCacheWrite, VariantCache5m),
      (tk_CacheWrite1h t, BucketCacheWrite, VariantCache1h),
      (tk_CacheWrite t - tk_CacheWrite5m t - tk_CacheWrite1h t, BucketCacheWrite, VariantNone)]"

definition line_cost :: "PriceTable \<Rightarrow> Tokens \<Rightarrow> int \<times> string \<times> string \<Rightarrow> rat" where
  "line_cost pt t = (\<lambda>(n, bucket, variant).
     of_int (n * lookup pt bucket (tier_of t) variant (tk_In t + tk_CachedRead t + tk_CacheWrite t))
     / of_int tokensPerMTok)"

definition tool_cost :: "PriceTable \<Rightarrow> (string \<times> int) list \<Rightarrow> rat" where
  "tool_cost pt calls =
     (\<Sum>(tool, n)\<leftarrow>calls. if n \<le> 0 then 0 else of_int (n * the (lookupToolPrice pt tool)))"

definition listed_cost :: "PriceTable \<Rightarrow> Tokens \<Rightarrow> rat" where
  "listed_cost pt t = sum_list (map (line_cost pt t) (usage_lines t)) + tool_cost pt (tk_ToolCalls t)"

definition tools_priced :: "PriceTable \<Rightarrow> Tokens \<Rightarrow> bool" where
  "tools_priced pt t \<longleftrightarrow>
     (\<forall>(tool, n) \<in> set (tk_ToolCalls t). 0 < n \<longrightarrow> lookupToolPrice pt tool \<noteq> None)"

text \<open>What the validation accepts, with the output image count it leaves unread also in range.\<close>

definition plausible :: "int \<Rightarrow> bool" where
  "plausible v \<longleftrightarrow> 0 \<le> v \<and> v \<le> maxSaneTokens"

definition sane_usage :: "Tokens \<Rightarrow> bool" where
  "sane_usage t \<longleftrightarrow> ValidateTokens t = Inr () \<and> plausible (tk_ImageOut t)"

lemma check_plausible_Inr: "check_plausible vs = Inr () \<longleftrightarrow> (\<forall>v \<in> set vs. plausible v)"
  by (induction vs) (auto simp: plausible_def split: if_splits)

lemma check_tool_calls_Inr: "check_tool_calls ts = Inr () \<longleftrightarrow> (\<forall>(tool, n) \<in> set ts. plausible n)"
  by (induction ts) (auto simp: plausible_def split: if_splits)

lemma plausible_int64:
  assumes "plausible a" and "plausible b" and "plausible c"
  shows "sub64 (sub64 a b) c = a - b - c" "add64 (add64 a b) c = a + b + c" "add64 a b = a + b"
  using assms by (simp_all add: plausible_def maxSaneTokens_def sub64_id add64_id is_int64_def)

lemma ValidateTokens_Inr:
  "ValidateTokens t = Inr () \<longleftrightarrow>
     (\<forall>v \<in> {tk_In t, tk_Out t, tk_CachedRead t, tk_CacheWrite t, tk_AudioIn t, tk_AudioOut t,
             tk_ImageIn t, tk_CacheWrite5m t, tk_CacheWrite1h t}. plausible v) \<and>
     tk_AudioIn t \<le> tk_In t \<and> tk_AudioOut t \<le> tk_Out t \<and> tk_ImageIn t \<le> tk_In t \<and>
     tk_CacheWrite5m t + tk_CacheWrite1h t \<le> tk_CacheWrite t \<and>
     (\<forall>(tool, n) \<in> set (tk_ToolCalls t). plausible n)"
proof -
  have "plausible (tk_CacheWrite5m t) \<Longrightarrow> plausible (tk_CacheWrite1h t) \<Longrightarrow>
      add64 (tk_CacheWrite5m t) (tk_CacheWrite1h t) = tk_CacheWrite5m t + tk_CacheWrite1h t"
    using plausible_int64(3) by blast
  then show ?thesis
    by (cases "plausible (tk_CacheWrite5m t) \<and> plausible (tk_CacheWrite1h t)")
      (simp_all add: ValidateTokens_def bind_result_Inr_iff check_plausible_Inr check_tool_calls_Inr
        not_less del: check_plausible.simps, blast)
qed

lemma exact_total_sum: "exact_total xs = sum_list xs"
proof -
  have "foldl (+) a xs = a + sum_list xs" for a :: rat
    by (induction xs arbitrary: a) (simp_all add: add.assoc)
  then show ?thesis by (simp add: exact_total_def)
qed

lemma add_part_facts:
  assumes "length parts = exactBucketCount" and "i < exactBucketCount"
  shows "length (add_part pt tier ctx n bucket variant i parts) = exactBucketCount"
    "sum_list (add_part pt tier ctx n bucket variant i parts) =
       sum_list parts + of_int (n * lookup pt bucket tier variant ctx) / of_int tokensPerMTok"
  using assms by (simp_all add: add_part_def Let_def sum_list_update_add)

lemma add_tools_total:
  assumes "\<forall>(tool, n) \<in> set calls. 0 < n \<longrightarrow> lookupToolPrice pt tool \<noteq> None"
    and "length parts = exactBucketCount"
  shows "\<exists>parts'. add_tools pt calls parts = Inr parts' \<and> length parts' = exactBucketCount \<and>
    sum_list parts' = sum_list parts + tool_cost pt calls"
  using assms
proof (induction calls arbitrary: parts)
  case Nil
  then show ?case by (simp add: tool_cost_def)
next
  case (Cons c calls)
  obtain tool n where c: "c = (tool, n)" by (cases c)
  show ?case
  proof (cases "n \<le> 0")
    case True
    with Cons c show ?thesis by (simp add: tool_cost_def)
  next
    case False
    with Cons.prems c obtain per where per: "lookupToolPrice pt tool = Some per" by auto
    let ?parts = "parts[exactTools := parts ! exactTools + of_int (n * per)]"
    from Cons.IH [of ?parts] Cons.prems obtain parts' where
      "add_tools pt calls ?parts = Inr parts'" "length parts' = exactBucketCount"
      "sum_list parts' = sum_list ?parts + tool_cost pt calls" by auto
    with False c per Cons.prems(2) show ?thesis
      by (simp add: tool_cost_def sum_list_update_add exact_index_defs)
  qed
qed

lemma upstreamCostBuckets_total:
  assumes "sane_usage t" and "tools_priced pt t"
  shows "\<exists>parts. upstreamCostBuckets pt t = Inr parts \<and> length parts = exactBucketCount \<and>
    sum_list parts = listed_cost pt t"
proof -
  note v = assms(1) [unfolded sane_usage_def ValidateTokens_Inr, simplified]
  have ctx: "ContextTokens t = tk_In t + tk_CachedRead t + tk_CacheWrite t"
    unfolding ContextTokens_def by (rule plausible_int64(2)) (use v in blast)+
  have subs: "sub64 (sub64 (tk_In t) (tk_AudioIn t)) (tk_ImageIn t) = tk_In t - tk_AudioIn t - tk_ImageIn t"
    "sub64 (sub64 (tk_Out t) (tk_AudioOut t)) (tk_ImageOut t) = tk_Out t - tk_AudioOut t - tk_ImageOut t"
    "sub64 (sub64 (tk_CacheWrite t) (tk_CacheWrite5m t)) (tk_CacheWrite1h t) =
       tk_CacheWrite t - tk_CacheWrite5m t - tk_CacheWrite1h t"
    by (rule plausible_int64(1); use v in blast)+
  have len: "length newExactBuckets = exactBucketCount" "sum_list newExactBuckets = 0"
    by (simp_all add: newExactBuckets_def exactBucketCount_def numeral_eq_Suc)
  have idx: "exactInput < exactBucketCount" "exactOutput < exactBucketCount" "exactCacheRead < exactBucketCount"
    "exactCacheWrite < exactBucketCount" by (simp_all add: exact_index_defs)
  have nn: "nonNeg x = max 0 x" for x by (simp add: nonNeg_def)
  have cw: "0 \<le> tk_CacheWrite5m t" "0 \<le> tk_CacheWrite1h t"
    "tk_CacheWrite5m t + tk_CacheWrite1h t \<le> tk_CacheWrite t"
    using v by (simp_all add: plausible_def)
  have parts: "length (token_parts pt t) = exactBucketCount"
    "sum_list (token_parts pt t) = sum_list (map (line_cost pt t) (usage_lines t))"
    using len idx cw
    by (simp_all add: token_parts_def Let_def add_part_facts usage_lines_def line_cost_def subs ctx nn)
  from add_tools_total [of "tk_ToolCalls t" pt "token_parts pt t"] assms(2) parts show ?thesis
    by (simp add: tools_priced_def listed_cost_def upstreamCostBuckets_def)
qed

lemma upstreamCost_listed:
  "sane_usage t \<Longrightarrow> tools_priced pt t \<Longrightarrow> upstreamCost pt t = Inr (listed_cost pt t)"
  using upstreamCostBuckets_total by (fastforce simp: upstreamCost_def exact_total_sum)

lemma add_tools_unpriced:
  assumes "\<exists>(tool, n) \<in> set calls. 0 < n \<and> lookupToolPrice pt tool = None"
  shows "\<exists>tool. add_tools pt calls parts = Inl (ErrAdvancedPriceMissing tool) \<and>
    lookupToolPrice pt tool = None"
  using assms
proof (induction calls arbitrary: parts)
  case (Cons c calls)
  then show ?case by (cases c) (auto split: option.split)
qed simp

lemma upstreamCost_unpriced:
  assumes "\<not> tools_priced pt t"
  shows "\<exists>tool. upstreamCost pt t = Inl (ErrAdvancedPriceMissing tool) \<and> lookupToolPrice pt tool = None"
proof -
  from assms have "\<exists>(tool, n) \<in> set (tk_ToolCalls t). 0 < n \<and> lookupToolPrice pt tool = None"
    by (auto simp: tools_priced_def)
  from add_tools_unpriced [OF this, of "token_parts pt t"] show ?thesis by (auto simp: upstreamCost_def upstreamCostBuckets_def)
qed

section \<open>Properties of the token bill\<close>

text \<open>The rates the examples below use: 2x the published rate, half of it for the customer, an exchange rate of 7.25.\<close>

definition sample_price :: Price where
  "sample_price = \<lparr>InNanoPerMTok = 3000000000, OutNanoPerMTok = 15000000000,
     CacheReadNanoPerMTok = 300000000, CacheWriteNanoPerMTok = 3000000000\<rparr>"

definition sample_rates :: Rates where
  "sample_rates = \<lparr>rt_ModelMultiplierBps = 20000, rt_PlanMultiplierBps = 5000,
     rt_ProcurementMultiplierBps = 0, rt_FXRate = ''7.25''\<rparr>"

definition sample_tokens :: Tokens where
  "sample_tokens = no_tokens\<lparr>tk_In := 11, tk_Out := 7\<rparr>"

definition sample_quote :: Quote where
  "sample_quote = \<lparr>q_UpstreamUSDNano = 138000, q_ChargedNano = 1000500, q_ModelMultiplierBps = 20000,
     q_PlanMultiplierBps = 5000, q_ProcurementMultiplierBps = 10000, q_FXRate = ''7.25''\<rparr>"

text \<open>
  C1. A token bill is exact until one final rounding. On a plausible usage whose
  tools are all priced, with multipliers and an exchange rate the code accepts, the
  charge is the published cost times the model multiplier, the plan multiplier and
  the exchange rate, rounded up once; the recorded cost is the serving table's cost
  times the procurement multiplier, rounded up once; and an amount outside 64 bits
  is an error, not a wrapped number. The cost of a usage is one sum: audio, image
  and cache-lifetime tokens at their own rates, the rest of each side at the text
  rate, all at the rates of the prompt's own context length, plus the tool calls.
\<close>

theorem Compute_exact:
  assumes "sane_usage t" and "tools_priced list t" and "tools_priced cost t"
    and "normalize r = Inr r'" and "rat_SetString (rt_FXRate r) = Some fx" and "0 < fx"
  shows "Compute list cost t r =
    (let upstream = \<lceil>listed_cost cost t * of_int (rt_ProcurementMultiplierBps r') / 10000\<rceil>;
         charged = \<lceil>listed_cost list t * of_int (rt_ModelMultiplierBps r')
                     * of_int (rt_PlanMultiplierBps r') * fx / 100000000\<rceil>
     in if \<not> is_int64 upstream then Inl UpstreamCostOverflow
        else if \<not> is_int64 charged then Inl BilledAmountOverflow
        else Inr \<lparr>q_UpstreamUSDNano = upstream, q_ChargedNano = charged,
                  q_ModelMultiplierBps = rt_ModelMultiplierBps r',
                  q_PlanMultiplierBps = rt_PlanMultiplierBps r',
                  q_ProcurementMultiplierBps = rt_ProcurementMultiplierBps r',
                  q_FXRate = rt_FXRate r\<rparr>)"
proof -
  have fx: "parse_fx (rt_FXRate r') = Inr fx"
    using assms(5,6) normalize_Inr(4) [OF assms(4)] by (simp add: parse_fx_Inr_iff)
  have v: "ValidateTokens t = Inr ()" using assms(1) by (simp add: sane_usage_def)
  have p: "listed_cost list t * bps (rt_ModelMultiplierBps r') * bps (rt_PlanMultiplierBps r') * fx =
      listed_cost list t * of_int (rt_ModelMultiplierBps r') * of_int (rt_PlanMultiplierBps r') * fx / 100000000"
    "listed_cost cost t * bps (rt_ProcurementMultiplierBps r') =
      listed_cost cost t * of_int (rt_ProcurementMultiplierBps r') / 10000"
    by (simp_all add: bps_def noDiscountBps_def)
  show ?thesis
    unfolding tokens.chain v assms(4) fx upstreamCost_listed [OF assms(1,2)]
      upstreamCost_listed [OF assms(1,3)] quoteFrom_def ceilToInt64_ceiling bind_result.simps p
    using normalize_Inr(4) [OF assms(4)] by (simp add: Let_def)
qed

lemma sample_facts:
  "sane_usage sample_tokens" "tools_priced pt sample_tokens"
  "normalize sample_rates = Inr (sample_rates\<lparr>rt_ProcurementMultiplierBps := 10000\<rparr>)"
  "rat_SetString ''7.25'' = Some (29 / 4)"
  by (simp_all add: sane_usage_def ValidateTokens_Inr sample_tokens_def no_tokens_def plausible_def
      maxSaneTokens_def tools_priced_def normalize_def sample_rates_def or_one_times_def
      noDiscountBps_def maxMultiplierBps_def Let_def)
    (simp add: rat_SetString_def cut_sign_def cut_exponent_def cut_dot_def allDigits_def is_digit_def
      val_def digit_val_def scale10_def Let_def)

lemma sample_cost: "listed_cost (Flat sample_price) sample_tokens = 138000"
  by (simp add: listed_cost_def usage_lines_def line_cost_def tool_cost_def sample_tokens_def no_tokens_def
      baseOf_simps sample_price_def tokensPerMTok_def)

text \<open>The bill of eleven input and seven output tokens at the sample rates.\<close>

theorem Compute_exact_witness:
  "Compute (Flat sample_price) (Flat sample_price) sample_tokens sample_rates = Inr sample_quote"
proof -
  have f: "rt_FXRate sample_rates = ''7.25''" by (simp add: sample_rates_def)
  show ?thesis
    using Compute_exact [of sample_tokens "Flat sample_price" "Flat sample_price" sample_rates
        "sample_rates\<lparr>rt_ProcurementMultiplierBps := 10000\<rparr>" "29 / 4"]
    by (simp add: sample_facts sample_cost f Let_def is_int64_def)
      (simp add: sample_rates_def sample_quote_def)
qed

text \<open>
  Which provider serves a request does not move the customer's bill: two quotes
  of one usage from one published table are the same charge whatever the serving
  provider's table and procurement multiplier, and neither exists when a tool the
  request really called has no price in one of the tables it reads.
\<close>

theorem Compute_independent_of_route:
  assumes "Compute list cost t r = Inr q"
    and "Compute list cost' t (r\<lparr>rt_ProcurementMultiplierBps := m\<rparr>) = Inr q'"
  shows "q_ChargedNano q = q_ChargedNano q' \<and>
    tools_priced list t \<and> tools_priced cost t \<and> tools_priced cost' t"
proof -
  have "tools_priced pt t" if "upstreamCost pt t = Inr c" for pt c
    using upstreamCost_unpriced [of pt t] that by auto
  then show ?thesis
    using tokens.quote_cost_independent [OF assms] tokens.quote_exact [OF assms(1)]
      tokens.quote_exact [OF assms(2)] by metis
qed

lemma sample_quotes:
  "Compute (Flat sample_price) (Flat sample_price) sample_tokens sample_rates = Inr sample_quote"
  "Compute (Flat sample_price) (Flat zero_price) sample_tokens
     (sample_rates\<lparr>rt_ProcurementMultiplierBps := 5000\<rparr>) =
   Inr (sample_quote\<lparr>q_UpstreamUSDNano := 0, q_ProcurementMultiplierBps := 5000\<rparr>)"
proof -
  have fx: "parse_fx ''7.25'' = Inr (29 / 4)" by (simp add: parse_fx_Inr_iff sample_facts)
  have v: "ValidateTokens sample_tokens = Inr ()" using sample_facts(1) by (simp add: sane_usage_def)
  have c: "upstreamCost (Flat sample_price) sample_tokens = Inr 138000"
    using upstreamCost_listed [OF sample_facts(1,2)] sample_cost by simp
  have "listed_cost (Flat zero_price) sample_tokens = 0"
    by (simp add: listed_cost_def usage_lines_def line_cost_def tool_cost_def sample_tokens_def no_tokens_def
        baseOf_simps zero_price_def)
  then have z: "upstreamCost (Flat zero_price) sample_tokens = Inr 0"
    using upstreamCost_listed [OF sample_facts(1,2)] by simp
  show "Compute (Flat sample_price) (Flat sample_price) sample_tokens sample_rates = Inr sample_quote"
    unfolding tokens.chain v sample_facts(3) c
    by (simp add: sample_rates_def fx quoteFrom_def ceilToInt64_ceiling bps_def noDiscountBps_def
        is_int64_def sample_quote_def)
  have n: "normalize (sample_rates\<lparr>rt_ProcurementMultiplierBps := 5000\<rparr>) =
      Inr (sample_rates\<lparr>rt_ProcurementMultiplierBps := 5000\<rparr>)"
    by (simp add: normalize_def sample_rates_def or_one_times_def maxMultiplierBps_def)
  show "Compute (Flat sample_price) (Flat zero_price) sample_tokens
      (sample_rates\<lparr>rt_ProcurementMultiplierBps := 5000\<rparr>) =
    Inr (sample_quote\<lparr>q_UpstreamUSDNano := 0, q_ProcurementMultiplierBps := 5000\<rparr>)"
    unfolding tokens.chain v n c z
    by (simp add: sample_rates_def fx quoteFrom_def ceilToInt64_ceiling bps_def noDiscountBps_def
        is_int64_def sample_quote_def)
qed

theorem Compute_independent_of_route_witness:
  "q_ChargedNano sample_quote = q_ChargedNano (sample_quote\<lparr>q_UpstreamUSDNano := 0, q_ProcurementMultiplierBps := 5000\<rparr>)
   \<and> tools_priced (Flat sample_price) sample_tokens \<and> tools_priced (Flat sample_price) sample_tokens
   \<and> tools_priced (Flat zero_price) sample_tokens"
  by (rule Compute_independent_of_route [OF sample_quotes])

section \<open>A free model\<close>

lemma upstreamCost_free:
  assumes "upstreamCost list t = Inr c"
  shows "upstreamCost (ForBilling list True) t = Inr 0"
proof -
  have part: "add_part (ForBilling list True) tier ctx n bucket variant i parts = parts"
    if "parts = newExactBuckets" for tier ctx n bucket variant i parts
    using that by (simp add: add_part_def Let_def newExactBuckets_def)
  have "token_parts (ForBilling list True) t = newExactBuckets"
    by (simp add: token_parts_def Let_def part)
  moreover have "add_tools (ForBilling list True) calls newExactBuckets = Inr newExactBuckets" for calls
    by (induction calls) (auto simp: newExactBuckets_def exact_index_defs numeral_eq_Suc)
  moreover have "exact_total newExactBuckets = 0"
    by (simp add: exact_total_sum newExactBuckets_def sum_list_replicate)
  ultimately show ?thesis by (simp add: upstreamCost_def upstreamCostBuckets_def)
qed

text \<open>
  Switching a model to free billing zeroes the charge and nothing else: the
  recorded upstream cost, the multipliers and the exchange rate stay what the paid
  quote says, so the cost of free traffic is never lost from the margin.
\<close>

theorem Compute_free_keeps_cost:
  assumes "Compute list cost t r = Inr q"
  shows "Compute (ForBilling list True) cost t r = Inr (q\<lparr>q_ChargedNano := 0\<rparr>)"
proof -
  from assms obtain r' fx c l where *: "ValidateTokens t = Inr ()" "normalize r = Inr r'"
    "parse_fx (rt_FXRate r') = Inr fx" "upstreamCost cost t = Inr c" "upstreamCost list t = Inr l"
    "quoteFrom (c * bps (rt_ProcurementMultiplierBps r')) l fx r' = Inr q"
    unfolding tokens.chain by (auto simp: bind_result_Inr_iff)
  from *(6) have "quoteFrom (c * bps (rt_ProcurementMultiplierBps r')) 0 fx r' = Inr (q\<lparr>q_ChargedNano := 0\<rparr>)"
    by (auto simp: quoteFrom_def bind_result_Inr_iff ceilToInt64_Inr_iff is_int64_def)
  then show ?thesis
    unfolding tokens.chain *(1,2,4) upstreamCost_free [OF *(5)] by (simp add: *(3))
qed

theorem Compute_free_keeps_cost_witness:
  "Compute (ForBilling (Flat sample_price) True) (Flat sample_price) sample_tokens sample_rates =
   Inr (sample_quote\<lparr>q_ChargedNano := 0\<rparr>)"
  by (rule Compute_free_keeps_cost [OF sample_quotes(1)])

section \<open>The unrounded record sums to the bill\<close>

lemma exact_total_scale:
  "exact_total (scaleExactBuckets b ms) = foldl (*) (exact_total b) ms"
proof -
  have f: "foldl (*) (x :: rat) ms = x * prod_list ms" for x
    by (induction ms arbitrary: x) (simp_all add: mult.assoc)
  show ?thesis
    unfolding exact_total_sum scaleExactBuckets_def f by (simp add: sum_list_mult_const)
qed



section \<open>The fee on the organization's own credential\<close>

text \<open>
  A request on the organization's own credential costs the platform nothing and
  is charged the service fee: the recorded cost is zero, the model multiplier has no
  effect, the charge is the published cost times the fee rate, the plan multiplier
  and the exchange rate, rounded up once, and it is never negative.
\<close>

theorem ComputeBYOK_charges_fee:
  assumes "ComputeBYOK p t feeBps r = Inr q" and "sane_usage t"
    and "\<And>bucket tier variant ctx. 0 \<le> lookup p bucket tier variant ctx"
    and "\<And>tool per. lookupToolPrice p tool = Some per \<Longrightarrow> 0 \<le> per"
  shows "q_UpstreamUSDNano q = 0 \<and> 0 \<le> q_ChargedNano q \<and>
    ComputeBYOK p t feeBps (r\<lparr>rt_ModelMultiplierBps := m\<rparr>) = Inr q \<and>
    (\<exists>fx. rat_SetString (rt_FXRate r) = Some fx \<and>
       q_ChargedNano q = \<lceil>listed_cost p t * of_int feeBps * of_int (q_PlanMultiplierBps q) * fx / 100000000\<rceil>)"
proof -
  have tp: "tools_priced p t" and l: "upstreamCost p t = Inr (listed_cost p t)"
    using upstreamCost_unpriced [of p t] upstreamCost_listed [OF assms(2)] token_fee.fee_exact [OF assms(1)]
    by (metis Inl_Inr_False)+
  have "0 \<le> line_cost p t line" if "line \<in> set (usage_lines t)" for line
    using that assms(2) unfolding sane_usage_def ValidateTokens_Inr
    by (auto simp: usage_lines_def line_cost_def plausible_def tokensPerMTok_def assms(3))
  moreover have "0 \<le> tool_cost p (tk_ToolCalls t)"
    unfolding tool_cost_def using tp assms(4)
    by (intro sum_list_nonneg) (fastforce simp: tools_priced_def)
  ultimately have "0 \<le> listed_cost p t"
    unfolding listed_cost_def by (intro add_nonneg_nonneg sum_list_nonneg) auto
  then have "0 \<le> q_ChargedNano q" using token_fee.fee_nonneg [OF assms(1)] l by simp
  moreover obtain fx where "rat_SetString (rt_FXRate r) = Some fx" "q_UpstreamUSDNano q = 0"
    "q_ChargedNano q = \<lceil>listed_cost p t * of_int feeBps * of_int (q_PlanMultiplierBps q) * fx / 100000000\<rceil>"
    by (rule token_fee.fee_exact [OF assms(1)]) (use l in simp)
  ultimately show ?thesis using assms(1) token_fee.fee_ignores_model_multiplier by auto
qed

definition sample_fee_quote :: Quote where
  "sample_fee_quote = \<lparr>q_UpstreamUSDNano = 0, q_ChargedNano = 25013, q_ModelMultiplierBps = 10000,
     q_PlanMultiplierBps = 5000, q_ProcurementMultiplierBps = 10000, q_FXRate = ''7.25''\<rparr>"

lemma sample_fee: "ComputeBYOK (Flat sample_price) sample_tokens 500 sample_rates = Inr sample_fee_quote"
proof -
  have v: "ValidateTokens sample_tokens = Inr ()" using sample_facts(1) by (simp add: sane_usage_def)
  have fx: "parse_fx ''7.25'' = Inr (29 / 4)" by (simp add: parse_fx_Inr_iff sample_facts)
  have c: "upstreamCost (Flat sample_price) sample_tokens = Inr 138000"
    using upstreamCost_listed [OF sample_facts(1,2)] sample_cost by simp
  have n: "normalize (sample_rates\<lparr>rt_ModelMultiplierBps := noDiscountBps\<rparr>) =
      Inr (sample_rates\<lparr>rt_ModelMultiplierBps := 10000, rt_ProcurementMultiplierBps := 10000\<rparr>)"
    by (simp add: normalize_def sample_rates_def or_one_times_def maxMultiplierBps_def noDiscountBps_def)
  have up: "\<lceil>50025 / (2 :: rat)\<rceil> = 25013" by (rule ceiling_unique) simp_all
  show ?thesis
    unfolding ComputeBYOK_def v n c
    by (simp add: up sample_rates_def fx ceilToInt64_ceiling bps_def noDiscountBps_def guard_result_def
        is_int64_def sample_fee_quote_def)
qed

theorem ComputeBYOK_charges_fee_witness:
  "q_UpstreamUSDNano sample_fee_quote = 0 \<and> 0 \<le> q_ChargedNano sample_fee_quote \<and>
    ComputeBYOK (Flat sample_price) sample_tokens 500 (sample_rates\<lparr>rt_ModelMultiplierBps := 1\<rparr>) = Inr sample_fee_quote \<and>
    (\<exists>fx. rat_SetString (rt_FXRate sample_rates) = Some fx \<and>
       q_ChargedNano sample_fee_quote = \<lceil>listed_cost (Flat sample_price) sample_tokens * of_int 500
         * of_int (q_PlanMultiplierBps sample_fee_quote) * fx / 100000000\<rceil>)"
  by (rule ComputeBYOK_charges_fee [OF sample_fee sample_facts(1)])
    (simp_all add: baseOf_def sample_price_def lookupToolPrice_def, simp_all add: Flat_def)

section \<open>The hold covers the bill\<close>

lemma estimate_output_bound:
  assumes "0 < ei_DefaultMaxCap ei"
  shows "estimate_output ei \<le> ei_DefaultMaxCap ei"
    "\<not> ei_IgnoreRequestCap ei \<Longrightarrow> 0 < ei_MaxOutput ei \<Longrightarrow>
       estimate_output ei = min (ei_MaxOutput ei) (ei_DefaultMaxCap ei)"
    "ei_IgnoreRequestCap ei \<Longrightarrow> estimate_output ei = ei_DefaultMaxCap ei"
  using assms by (auto simp: estimate_output_def Let_def)

lemma baseOf_dearerOf:
  "bucket \<in> base_buckets \<Longrightarrow>
     baseOf (Flat (dearerOf base ceil)) bucket = max (baseOf (Flat base) bucket) (baseOf (Flat ceil) bucket)"
  by (auto simp: base_buckets_def baseOf_simps dearerOf_def larger_def)

lemma baseOf_Flat_base: "baseOf (Flat (pt_base t)) bucket = baseOf t bucket"
  by (simp add: baseOf_def Flat_def)

lemma lookup_le_dearer:
  assumes "bucket \<in> base_buckets" and "only_long_context t"
  shows "lookup t bucket tier variant ctx \<le>
    baseOf (Flat (dearerOf (pt_base t) (LongContextCeiling t))) bucket"
  using lookup_le_ceiling [OF assms] by (simp add: baseOf_dearerOf [OF assms(1)] baseOf_Flat_base)

text \<open>A text request: no audio, image or tool usage, and consistent counts.\<close>

definition text_usage :: "Tokens \<Rightarrow> bool" where
  "text_usage t \<longleftrightarrow> tk_AudioIn t = 0 \<and> tk_AudioOut t = 0 \<and> tk_ImageIn t = 0 \<and> tk_ImageOut t = 0
     \<and> tk_ToolCalls t = []"

lemma mult_le_both:
  fixes n m a b :: int
  assumes "0 \<le> n" and "n \<le> m" and "a \<le> b" and "0 \<le> b"
  shows "n * a \<le> m * b"
  using assms by (meson mult_left_mono mult_right_mono order_trans)

lemma listed_cost_le_flat:
  assumes "sane_usage t" and "text_usage t" and "only_long_context list"
    and "p = dearerOf (pt_base list) (LongContextCeiling list)"
    and "CacheReadNanoPerMTok p \<le> InNanoPerMTok p" and "CacheWriteNanoPerMTok p \<le> InNanoPerMTok p"
    and "0 \<le> InNanoPerMTok p" and "0 \<le> OutNanoPerMTok p"
    and "tk_In t + tk_CachedRead t + tk_CacheWrite t \<le> n" and "tk_Out t \<le> out"
  shows "listed_cost list t \<le> of_int (n * InNanoPerMTok p + out * OutNanoPerMTok p) / of_int tokensPerMTok"
proof -
  let ?ctx = "tk_In t + tk_CachedRead t + tk_CacheWrite t"
  let ?l = "\<lambda>b v. lookup list b (tier_of t) v ?ctx"
  let ?w = "tk_CacheWrite t - tk_CacheWrite5m t - tk_CacheWrite1h t"
  note v = assms(1) [unfolded sane_usage_def ValidateTokens_Inr plausible_def, simplified]
  have le: "?l BucketIn va \<le> InNanoPerMTok p" "?l BucketOut va \<le> OutNanoPerMTok p"
    "?l BucketCacheRead va \<le> InNanoPerMTok p" "?l BucketCacheWrite va \<le> InNanoPerMTok p" for va
    using lookup_le_dearer [OF _ assms(3), of BucketIn "tier_of t" va ?ctx]
      lookup_le_dearer [OF _ assms(3), of BucketOut "tier_of t" va ?ctx]
      lookup_le_dearer [OF _ assms(3), of BucketCacheRead "tier_of t" va ?ctx]
      lookup_le_dearer [OF _ assms(3), of BucketCacheWrite "tier_of t" va ?ctx] assms(5,6)
    by (simp_all add: base_buckets_def baseOf_simps assms(4) [symmetric])
  have "tk_In t * ?l BucketIn VariantNone \<le> tk_In t * InNanoPerMTok p"
    "tk_CachedRead t * ?l BucketCacheRead VariantNone \<le> tk_CachedRead t * InNanoPerMTok p"
    "tk_CacheWrite5m t * ?l BucketCacheWrite VariantCache5m \<le> tk_CacheWrite5m t * InNanoPerMTok p"
    "tk_CacheWrite1h t * ?l BucketCacheWrite VariantCache1h \<le> tk_CacheWrite1h t * InNanoPerMTok p"
    "?w * ?l BucketCacheWrite VariantNone \<le> ?w * InNanoPerMTok p"
    using v le by (simp_all add: mult_left_mono)
  moreover have "?ctx * InNanoPerMTok p \<le> n * InNanoPerMTok p"
    using assms(7,9) by (simp add: mult_right_mono)
  moreover have "tk_Out t * ?l BucketOut VariantNone \<le> out * OutNanoPerMTok p"
    using mult_le_both v le(2) assms(8,10) by blast
  ultimately have "tk_In t * ?l BucketIn VariantNone + tk_Out t * ?l BucketOut VariantNone
      + tk_CachedRead t * ?l BucketCacheRead VariantNone
      + tk_CacheWrite5m t * ?l BucketCacheWrite VariantCache5m
      + tk_CacheWrite1h t * ?l BucketCacheWrite VariantCache1h + ?w * ?l BucketCacheWrite VariantNone
      \<le> n * InNanoPerMTok p + out * OutNanoPerMTok p" (is "?sum \<le> ?bound")
    by (simp add: algebra_simps)
  moreover have "listed_cost list t = of_int ?sum / of_int tokensPerMTok"
    using assms(2) v by (simp add: listed_cost_def usage_lines_def line_cost_def tool_cost_def text_usage_def
        add_divide_distrib)
  ultimately show ?thesis by (simp add: divide_right_mono tokensPerMTok_def del: of_int_add of_int_mult of_int_diff)
qed

lemma Estimate_Inr:
  assumes "Estimate ei = Inr h"
  obtains q where "0 \<le> ei_InputTokens ei" "0 \<le> estimate_output ei"
    "Compute (Flat (dearerOf (ei_Price ei) (ei_LongContext ei))) (Flat (dearerOf (ei_Price ei) (ei_LongContext ei)))
       (no_tokens\<lparr>tk_In := ei_InputTokens ei, tk_Out := estimate_output ei\<rparr>) (ei_Rates ei) = Inr q"
    "h = max 1 (q_ChargedNano q)"
  using assms unfolding Estimate_def Let_def
  by (auto simp: bind_result_Inr_iff not_less split: if_splits)

lemma listed_cost_flat_text:
  assumes "0 \<le> n" and "0 \<le> out"
  shows "listed_cost (Flat p) (no_tokens\<lparr>tk_In := n, tk_Out := out\<rparr>) =
    of_int (n * InNanoPerMTok p + out * OutNanoPerMTok p) / of_int tokensPerMTok"
  using assms by (simp add: listed_cost_def usage_lines_def line_cost_def tool_cost_def no_tokens_def
      baseOf_simps add_divide_distrib)

text \<open>
  The hold covers the bill. When the estimate uses the published base rates,
  the table's own long-context ceiling and the customer factors the settlement uses, a text
  request whose prompt is no longer than estimated and whose output stays within
  the estimated output settles at no more than the held amount -- whatever service
  tier the upstream reports and whichever context-length band the prompt lands in --
  provided the table overrides rates by context length only and no cache rate
  exceeds the input rate. The hold is always at least one nano.
\<close>

theorem Estimate_covers_settlement:
  assumes "Estimate ei = Inr h" and "Compute list cost t ((ei_Rates ei)\<lparr>rt_ProcurementMultiplierBps := m\<rparr>) = Inr q"
    and "ei_Price ei = pt_base list" and "ei_LongContext ei = LongContextCeiling list"
    and "p = dearerOf (pt_base list) (LongContextCeiling list)"
    and "only_long_context list" and "sane_usage t" and "text_usage t"
    and "CacheReadNanoPerMTok p \<le> InNanoPerMTok p" and "CacheWriteNanoPerMTok p \<le> InNanoPerMTok p"
    and "0 \<le> InNanoPerMTok p" and "0 \<le> OutNanoPerMTok p"
    and "tk_In t + tk_CachedRead t + tk_CacheWrite t \<le> ei_InputTokens ei"
    and "tk_Out t \<le> estimate_output ei"
  shows "q_ChargedNano q \<le> h \<and> 1 \<le> h"
proof -
  let ?u = "no_tokens\<lparr>tk_In := ei_InputTokens ei, tk_Out := estimate_output ei\<rparr>"
  obtain q0 where *: "0 \<le> ei_InputTokens ei" "0 \<le> estimate_output ei"
    "Compute (Flat p) (Flat p) ?u (ei_Rates ei) = Inr q0" "h = max 1 (q_ChargedNano q0)"
    using Estimate_Inr [OF assms(1)] assms(3-5) by metis
  have "ValidateTokens ?u = Inr ()" using tokens.quote_exact [OF *(3)] by blast
  then have sane: "sane_usage ?u"
    by (simp add: sane_usage_def no_tokens_def plausible_def maxSaneTokens_def)
  have priced: "tools_priced list t" "tools_priced (Flat p) ?u"
    using assms(8) by (simp_all add: tools_priced_def text_usage_def no_tokens_def)
  have "listed_cost list t \<le> listed_cost (Flat p) ?u"
    unfolding listed_cost_flat_text [OF *(1,2)]
    by (rule listed_cost_le_flat [OF assms(7,8,6,5,9-14)])
  from tokens.quote_mono [OF assms(2) *(3) upstreamCost_listed [OF assms(7) priced(1)]
      upstreamCost_listed [OF sane priced(2)] this] *(4)
  show ?thesis by simp
qed

text \<open>A model whose rate doubles above two hundred thousand prompt tokens.\<close>

definition banded_table :: PriceTable where
  "banded_table = NewPriceTable sample_price
     [\<lparr>dr_Bucket = BucketIn, dr_ServiceTier = TierStandard, dr_Variant = VariantNone,
       dr_MinInputTokens = 10, dr_NanoPerMtok = 6000000000\<rparr>]"

definition sample_estimate :: EstimateInput where
  "sample_estimate = \<lparr>ei_Price = pt_base banded_table, ei_LongContext = LongContextCeiling banded_table,
     ei_InputTokens = 12, ei_MaxOutput = 8, ei_DefaultMaxCap = 100, ei_IgnoreRequestCap = False,
     ei_Rates = sample_rates\<rparr>"

lemma banded_facts:
  "pt_base banded_table = sample_price" "only_long_context banded_table"
  "LongContextCeiling banded_table = zero_price\<lparr>InNanoPerMTok := 6000000000\<rparr>"
  "lookup banded_table BucketIn TierStandard VariantNone 11 = 6000000000"
  "lookup banded_table BucketOut TierStandard VariantNone 11 = 15000000000"
  by (simp_all add: banded_table_def only_long_context_def NewPriceTable_def Flat_def LongContextCeiling_def
      raise_bucket_def raise_rate_def zero_price_def rate_key_def rate_band_def sort_bands_def bands_at_def
      lookup_def lookupDimensionRate_def withinTier_def baseOf_def sample_price_def bucket_defs variant_defs)

lemma banded_quote:
  "Compute banded_table (Flat sample_price) sample_tokens sample_rates =
     Inr (sample_quote\<lparr>q_ChargedNano := 1239750\<rparr>)"
proof -
  have fx: "parse_fx ''7.25'' = Inr (29 / 4)" by (simp add: parse_fx_Inr_iff sample_facts)
  have v: "ValidateTokens sample_tokens = Inr ()" using sample_facts(1) by (simp add: sane_usage_def)
  have c: "upstreamCost (Flat sample_price) sample_tokens = Inr 138000"
    using upstreamCost_listed [OF sample_facts(1,2)] sample_cost by simp
  have "listed_cost banded_table sample_tokens = 171000"
    by (simp add: listed_cost_def usage_lines_def line_cost_def tool_cost_def sample_tokens_def no_tokens_def
        tier_of_def tier_defs banded_facts [unfolded tier_defs] tokensPerMTok_def)
  then have l: "upstreamCost banded_table sample_tokens = Inr 171000"
    using upstreamCost_listed [OF sample_facts(1,2)] by simp
  show ?thesis
    unfolding tokens.chain v sample_facts(3) c l
    by (simp add: sample_rates_def fx quoteFrom_def ceilToInt64_ceiling bps_def noDiscountBps_def
        is_int64_def sample_quote_def)
qed

lemma sample_estimate_value: "Estimate sample_estimate = Inr 1392000"
proof -
  let ?p = "dearerOf sample_price (zero_price\<lparr>InNanoPerMTok := 6000000000\<rparr>)"
  let ?u = "no_tokens\<lparr>tk_In := 12, tk_Out := 8\<rparr>"
  have fx: "parse_fx ''7.25'' = Inr (29 / 4)" by (simp add: parse_fx_Inr_iff sample_facts)
  have s: "sane_usage ?u" "tools_priced (Flat ?p) ?u"
    by (simp_all add: sane_usage_def ValidateTokens_Inr no_tokens_def plausible_def maxSaneTokens_def tools_priced_def)
  then have v: "ValidateTokens ?u = Inr ()" by (simp add: sane_usage_def)
  have c: "upstreamCost (Flat ?p) ?u = Inr 192000"
    unfolding upstreamCost_listed [OF s] listed_cost_flat_text [of 12 8, simplified]
    by (simp add: dearerOf_def larger_def sample_price_def zero_price_def tokensPerMTok_def)
  have "Compute (Flat ?p) (Flat ?p) ?u sample_rates =
      Inr (sample_quote\<lparr>q_UpstreamUSDNano := 192000, q_ChargedNano := 1392000\<rparr>)"
    unfolding tokens.chain v sample_facts(3) c
    by (simp add: sample_rates_def fx quoteFrom_def ceilToInt64_ceiling bps_def noDiscountBps_def
        is_int64_def sample_quote_def)
  then show ?thesis
    by (simp add: Estimate_def sample_estimate_def estimate_output_def banded_facts)
qed

lemma banded_settlement:
  "Compute banded_table (Flat sample_price) sample_tokens
     ((ei_Rates sample_estimate)\<lparr>rt_ProcurementMultiplierBps := rt_ProcurementMultiplierBps sample_rates\<rparr>) =
     Inr (sample_quote\<lparr>q_ChargedNano := 1239750\<rparr>)"
  by (simp add: sample_estimate_def banded_quote)

theorem Estimate_covers_settlement_witness:
  "q_ChargedNano (sample_quote\<lparr>q_ChargedNano := 1239750\<rparr>) \<le> 1392000 \<and> (1 :: int) \<le> 1392000"
  by (rule Estimate_covers_settlement [OF sample_estimate_value banded_settlement _ _ refl banded_facts(2)
        sample_facts(1)])
    (simp_all add: banded_facts sample_estimate_def text_usage_def sample_tokens_def
      no_tokens_def dearerOf_def larger_def sample_price_def zero_price_def estimate_output_def)

section \<open>The output image count is not validated\<close>

text \<open>A table that prices output image tokens above text output, as both upstreams that generate images do.\<close>

definition image_table :: PriceTable where
  "image_table = NewPriceTable sample_price
     [\<lparr>dr_Bucket = BucketImageOut, dr_ServiceTier = TierStandard, dr_Variant = VariantNone,
       dr_MinInputTokens = 0, dr_NanoPerMtok = 40000000000\<rparr>]"

definition negative_image_tokens :: Tokens where
  "negative_image_tokens = no_tokens\<lparr>tk_ImageOut := - 1000\<rparr>"

lemma newExactBuckets_value: "newExactBuckets = [0, 0, 0, 0, 0]"
  by (simp add: newExactBuckets_def exactBucketCount_def numeral_eq_Suc)

text \<open>
  The validation does not read the output image count: a usage that reports a
  negative one passes it, and its bill is negative as soon as output image tokens
  carry a rate of their own.
\<close>

theorem negative_image_count_bills_negative:
  "ValidateTokens negative_image_tokens = Inr () \<and>
   Compute image_table image_table negative_image_tokens sample_rates =
     Inr (sample_quote\<lparr>q_UpstreamUSDNano := - 25000000, q_ChargedNano := - 181250000\<rparr>)"
proof -
  have fx: "parse_fx ''7.25'' = Inr (29 / 4)" by (simp add: parse_fx_Inr_iff sample_facts)
  have v: "ValidateTokens negative_image_tokens = Inr ()"
    by (simp add: ValidateTokens_Inr negative_image_tokens_def no_tokens_def plausible_def maxSaneTokens_def)
  have l: "lookup image_table BucketImageOut TierStandard VariantNone 0 = 40000000000"
    "lookup image_table BucketOut TierStandard VariantNone 0 = 15000000000"
    by (simp_all add: image_table_def NewPriceTable_def Flat_def rate_key_def rate_band_def sort_bands_def
        bands_at_def lookup_def lookupDimensionRate_def withinTier_def baseOf_def sample_price_def
        bucket_defs variant_defs)
  have s: "sub64 0 (- 1000) = 1000" "sub64 0 0 = 0" "add64 0 0 = 0"
    by (simp_all add: sub64_id add64_id is_int64_def)
  have c: "upstreamCost image_table negative_image_tokens = Inr (- 25000000)"
    by (simp add: upstreamCost_def upstreamCostBuckets_def token_parts_def add_part_def negative_image_tokens_def
        no_tokens_def ContextTokens_def s nonNeg_def tier_of_def l tier_defs l [unfolded tier_defs]
        newExactBuckets_value exact_index_defs tokensPerMTok_def exact_total_def Let_def)
  show ?thesis
    unfolding tokens.chain v sample_facts(3) c
    by (simp add: sample_rates_def fx quoteFrom_def ceilToInt64_ceiling bps_def noDiscountBps_def
        is_int64_def sample_quote_def)
qed

end
