(* ===== verification/UnitPrice.thy ===== *)
theory UnitPrice
  imports Pricing
begin

text \<open>
  \<open>internal/gateway/catalog/unit_price.go\<close> and \<open>internal/gateway/video/price.go\<close>: models
  billed per second, per call or per image. A rate is addressed by unit, resolution,
  audio, variant and tier, and the lookup widens from the most specific key; a unit
  without a rate is an error. Both maps the code ranges over, the rate card and the
  quantity vector, are association lists.
\<close>

section \<open>Units and keys\<close>

definition UnitSecond :: string where "UnitSecond = ''second''"
definition UnitCall :: string where "UnitCall = ''call''"
definition UnitImage :: string where "UnitImage = ''image''"

lemmas unit_defs = UnitSecond_def UnitCall_def UnitImage_def

definition KnownUnits :: "string list" where
  "KnownUnits = [UnitSecond, UnitCall, UnitImage]"

record UnitKey =
  uk_Unit :: string
  uk_Resolution :: string
  uk_Audio :: string
  uk_Variant :: string
  uk_ServiceTier :: string

definition normalize_key :: "UnitKey \<Rightarrow> UnitKey" where
  "normalize_key k = (if uk_ServiceTier k = [] then k\<lparr>uk_ServiceTier := TierStandard\<rparr> else k)"

type_synonym Units = "(UnitKey \<times> int) list"

fun ValidateUnits :: "Units \<Rightarrow> pricing_error + unit" where
  "ValidateUnits [] = Inr ()"
| "ValidateUnits ((k, q) # rest) =
     (if q < 0 then Inl (UnitQuantityNegative (uk_Unit k) q)
      else if uk_Unit k \<notin> set KnownUnits then Inl (UnitNotBillable (uk_Unit k))
      else ValidateUnits rest)"

section \<open>The rate card\<close>

record ModelPriceUnitRate =
  ur_Unit :: string
  ur_Resolution :: string
  ur_Audio :: string
  ur_Variant :: string
  ur_ServiceTier :: string
  ur_NanoPerUnit :: int

record UnitPriceTable =
  ut_rates :: "(UnitKey \<times> int) list"
  ut_billingFree :: bool

definition row_key :: "ModelPriceUnitRate \<Rightarrow> UnitKey" where
  "row_key r = normalize_key \<lparr>uk_Unit = ur_Unit r, uk_Resolution = ur_Resolution r, uk_Audio = ur_Audio r,
     uk_Variant = ur_Variant r, uk_ServiceTier = ur_ServiceTier r\<rparr>"

fun unit_rates :: "(UnitKey \<times> int) list \<Rightarrow> ModelPriceUnitRate list \<Rightarrow> (UnitKey \<times> int) list" where
  "unit_rates m [] = m"
| "unit_rates m (r # rs) = unit_rates (AList.update (row_key r) (ur_NanoPerUnit r) m) rs"

definition NewUnitPriceTable :: "ModelPriceUnitRate list \<Rightarrow> UnitPriceTable" where
  "NewUnitPriceTable rows =
     (if rows = [] then \<lparr>ut_rates = [], ut_billingFree = False\<rparr>
      else \<lparr>ut_rates = unit_rates [] rows, ut_billingFree = False\<rparr>)"

definition UnitForBilling :: "UnitPriceTable \<Rightarrow> bool \<Rightarrow> UnitPriceTable" where
  "UnitForBilling t free = t\<lparr>ut_billingFree := free\<rparr>"

definition Empty :: "UnitPriceTable \<Rightarrow> bool" where
  "Empty t \<longleftrightarrow> length (ut_rates t) = 0"

text \<open>The loop of \<open>BillingUnit\<close>, with \<open>found\<close> starting at the empty string.\<close>

fun billing_unit_loop :: "(UnitKey \<times> int) list \<Rightarrow> string \<Rightarrow> pricing_error + string" where
  "billing_unit_loop [] found = Inr found"
| "billing_unit_loop ((k, _) # rest) found =
     (if found = [] then billing_unit_loop rest (uk_Unit k)
      else if uk_Unit k \<noteq> found then Inl ErrUnitAmbiguous
      else billing_unit_loop rest found)"

definition BillingUnit :: "UnitPriceTable \<Rightarrow> pricing_error + string" where
  "BillingUnit t =
     bind_result (billing_unit_loop (ut_rates t) []) (\<lambda>found.
       if found = [] then Inl ErrUnitPriceMissing else Inr found)"

definition widened_keys :: "UnitKey \<Rightarrow> UnitKey list" where
  "widened_keys k =
     [k,
      \<lparr>uk_Unit = uk_Unit k, uk_Resolution = uk_Resolution k, uk_Audio = uk_Audio k, uk_Variant = [],
       uk_ServiceTier = uk_ServiceTier k\<rparr>,
      \<lparr>uk_Unit = uk_Unit k, uk_Resolution = uk_Resolution k, uk_Audio = [], uk_Variant = [],
       uk_ServiceTier = uk_ServiceTier k\<rparr>,
      \<lparr>uk_Unit = uk_Unit k, uk_Resolution = [], uk_Audio = [], uk_Variant = [],
       uk_ServiceTier = uk_ServiceTier k\<rparr>]"

fun first_rate :: "(UnitKey \<times> int) list \<Rightarrow> UnitKey list \<Rightarrow> int option" where
  "first_rate rates [] = None"
| "first_rate rates (k # ks) = (case map_of rates k of Some v \<Rightarrow> Some v | None \<Rightarrow> first_rate rates ks)"

definition Lookup :: "UnitPriceTable \<Rightarrow> UnitKey \<Rightarrow> int option" where
  "Lookup t k = (if ut_billingFree t then Some 0 else first_rate (ut_rates t) (widened_keys (normalize_key k)))"

section \<open>The snapshot of a rate card\<close>

definition unit_snapshot_row :: "UnitKey \<times> int \<Rightarrow> ModelPriceUnitRate" where
  "unit_snapshot_row = (\<lambda>(k, rate). \<lparr>ur_Unit = uk_Unit k, ur_Resolution = uk_Resolution k, ur_Audio = uk_Audio k,
     ur_Variant = uk_Variant k, ur_ServiceTier = uk_ServiceTier k, ur_NanoPerUnit = rate\<rparr>)"

definition UnitSnapshot :: "UnitPriceTable \<Rightarrow> ModelPriceUnitRate list" where
  "UnitSnapshot t =
     sort_key (\<lambda>r. (ur_Unit r, ur_Resolution r, ur_Audio r, ur_ServiceTier r, ur_Variant r))
       (map unit_snapshot_row (ut_rates t))"

section \<open>Billing a job\<close>

fun unit_cost_loop :: "UnitPriceTable \<Rightarrow> Units \<Rightarrow> rat \<Rightarrow> pricing_error + rat" where
  "unit_cost_loop t [] acc = Inr acc"
| "unit_cost_loop t ((k, quantity) # rest) acc =
     (if quantity = 0 then unit_cost_loop t rest acc
      else case Lookup t k of
             None \<Rightarrow> Inl ErrUnitPriceMissing
           | Some rate \<Rightarrow> unit_cost_loop t rest (acc + of_int (quantity * rate) / 1))"

definition unitCost :: "UnitPriceTable \<Rightarrow> Units \<Rightarrow> pricing_error + rat" where
  "unitCost t u = unit_cost_loop t u 0"

definition ComputeUnits :: "UnitPriceTable \<Rightarrow> UnitPriceTable \<Rightarrow> Units \<Rightarrow> Rates \<Rightarrow> pricing_error + Quote" where
  "ComputeUnits list cost u r =
     bind_result (ValidateUnits u) (\<lambda>_.
     bind_result (normalize r) (\<lambda>r.
     bind_result (parse_fx (rt_FXRate r)) (\<lambda>fx.
     bind_result (unitCost cost u) (\<lambda>upstream.
     bind_result (unitCost list u) (\<lambda>charged.
     quoteFrom (upstream * bps (rt_ProcurementMultiplierBps r)) charged fx r)))))"

definition ComputeUnitsBYOK :: "UnitPriceTable \<Rightarrow> Units \<Rightarrow> int \<Rightarrow> Rates \<Rightarrow> pricing_error + Quote" where
  "ComputeUnitsBYOK list u feeBps r =
     bind_result (ValidateUnits u) (\<lambda>_.
     bind_result (guard_result (\<not> feeBps < 0) BYOKFeeNegative) (\<lambda>_.
     bind_result (normalize (r\<lparr>rt_ModelMultiplierBps := noDiscountBps\<rparr>)) (\<lambda>r.
     bind_result (parse_fx (rt_FXRate r)) (\<lambda>fx.
     bind_result (unitCost list u) (\<lambda>charged.
     bind_result (ceilToInt64 (charged * bps feeBps * bps (rt_PlanMultiplierBps r) * fx)
         BYOKFeeOverflow) (\<lambda>chargedNano.
     Inr \<lparr>q_UpstreamUSDNano = 0,
          q_ChargedNano = chargedNano,
          q_ModelMultiplierBps = noDiscountBps,
          q_PlanMultiplierBps = rt_PlanMultiplierBps r,
          q_ProcurementMultiplierBps = noDiscountBps,
          q_FXRate = rt_FXRate r\<rparr>))))))"

interpretation units: quote_chain ValidateUnits unitCost ComputeUnits
  by unfold_locales (simp add: ComputeUnits_def)

interpretation unit_fee: fee_chain ValidateUnits unitCost ComputeUnitsBYOK
  by unfold_locales (simp add: ComputeUnitsBYOK_def)

section \<open>The quantity vector of a video request\<close>

definition audioFlag :: "bool \<Rightarrow> string" where
  "audioFlag on = (if on then ''on'' else ''off'')"

definition BillingUnits :: "string \<Rightarrow> int \<Rightarrow> int \<Rightarrow> bool \<Rightarrow> string \<Rightarrow> Units" where
  "BillingUnits resolution duration_seconds n audioOn unit =
     (let key = \<lparr>uk_Unit = unit, uk_Resolution = resolution, uk_Audio = audioFlag audioOn, uk_Variant = [],
                 uk_ServiceTier = []\<rparr>;
          n = (if n < 1 then 1 else n);
          quantity = (if unit = UnitSecond then mul64 duration_seconds n else n)
      in [(key, quantity)])"

section \<open>What a lookup may return\<close>

lemma map_of_unit_rates:
  "map_of (unit_rates m rows) k =
     (case find (\<lambda>r. row_key r = k) (rev rows) of Some r \<Rightarrow> Some (ur_NanoPerUnit r) | None \<Rightarrow> map_of m k)"
proof (induction rows arbitrary: m)
  case (Cons r rows)
  have "find P (xs @ [r]) = (case find P xs of None \<Rightarrow> (if P r then Some r else None) | Some y \<Rightarrow> Some y)"
    for P and xs :: "ModelPriceUnitRate list"
    by (induction xs) auto
  then show ?case by (simp add: Cons.IH update_conv' split: option.split)
qed simp

lemma first_rate_Some:
  "first_rate rates ks = Some v \<Longrightarrow> \<exists>k \<in> set ks. map_of rates k = Some v"
  by (induction ks) (auto split: option.splits)

lemma first_rate_None: "first_rate rates ks = None \<longleftrightarrow> (\<forall>k \<in> set ks. map_of rates k = None)"
  by (induction ks) (auto split: option.splits)

text \<open>A row serves a request when it names the request's unit and tier and, on each axis, the request's value or none.\<close>

definition axis_ok :: "string \<Rightarrow> string \<Rightarrow> bool" where
  "axis_ok row req \<longleftrightarrow> row = req \<or> row = []"

definition row_serves :: "ModelPriceUnitRate \<Rightarrow> UnitKey \<Rightarrow> bool" where
  "row_serves r k \<longleftrightarrow>
     uk_Unit (row_key r) = uk_Unit k \<and> uk_ServiceTier (row_key r) = uk_ServiceTier (normalize_key k) \<and>
     axis_ok (ur_Resolution r) (uk_Resolution k) \<and> axis_ok (ur_Audio r) (uk_Audio k) \<and>
     axis_ok (ur_Variant r) (uk_Variant k)"

lemma widened_keys_serve:
  "k' \<in> set (widened_keys (normalize_key k)) \<Longrightarrow> row_key r = k' \<Longrightarrow> row_serves r k"
  by (cases k) (auto simp: widened_keys_def row_serves_def axis_ok_def row_key_def normalize_key_def split: if_splits)

text \<open>
  A per-unit rate is found only in a row of the model's own rate card that names
  the requested unit and service tier and, on resolution, audio and variant, either
  the requested value or no value; a row for exactly the requested key wins over any
  wider row, the last stored one first. Nothing is borrowed across units or tiers.
\<close>

theorem Lookup_reads_a_serving_row:
  assumes "Lookup (NewUnitPriceTable rows) k = Some v"
  shows "(\<exists>r \<in> set rows. ur_NanoPerUnit r = v \<and> row_serves r k) \<and>
    (\<forall>r. find (\<lambda>r. row_key r = normalize_key k) (rev rows) = Some r \<longrightarrow> v = ur_NanoPerUnit r)"
proof -
  have m: "map_of (ut_rates (NewUnitPriceTable rows)) k' =
      map_option ur_NanoPerUnit (find (\<lambda>r. row_key r = k') (rev rows))" for k'
    by (simp add: NewUnitPriceTable_def map_of_unit_rates split: option.split)
  from assms have f: "first_rate (ut_rates (NewUnitPriceTable rows)) (widened_keys (normalize_key k)) = Some v"
    by (simp add: Lookup_def NewUnitPriceTable_def split: if_splits)
  from first_rate_Some [OF f] obtain k' r where "k' \<in> set (widened_keys (normalize_key k))"
    "find (\<lambda>r. row_key r = k') (rev rows) = Some r" "ur_NanoPerUnit r = v"
    using m by auto
  moreover from this(2) have "r \<in> set rows" "row_key r = k'"
    by (auto simp: find_Some_iff) (metis nth_mem length_rev set_rev)
  moreover have "v = ur_NanoPerUnit r" if "find (\<lambda>r. row_key r = normalize_key k) (rev rows) = Some r" for r
    using f that by (simp add: widened_keys_def m)
  ultimately show ?thesis using widened_keys_serve by blast
qed

definition video_card :: "ModelPriceUnitRate list" where
  "video_card =
     [\<lparr>ur_Unit = UnitSecond, ur_Resolution = [], ur_Audio = [], ur_Variant = [], ur_ServiceTier = [],
       ur_NanoPerUnit = 100\<rparr>,
      \<lparr>ur_Unit = UnitSecond, ur_Resolution = ''1080p'', ur_Audio = ''on'', ur_Variant = [], ur_ServiceTier = [],
       ur_NanoPerUnit = 400\<rparr>]"

definition hd_key :: UnitKey where
  "hd_key = \<lparr>uk_Unit = UnitSecond, uk_Resolution = ''1080p'', uk_Audio = ''on'', uk_Variant = [],
     uk_ServiceTier = []\<rparr>"

lemma video_card_lookup: "Lookup (NewUnitPriceTable video_card) hd_key = Some 400"
  by (simp add: Lookup_def NewUnitPriceTable_def video_card_def hd_key_def widened_keys_def normalize_key_def
      row_key_def tier_defs unit_defs)

theorem Lookup_reads_a_serving_row_witness:
  "(\<exists>r \<in> set video_card. ur_NanoPerUnit r = 400 \<and> row_serves r hd_key) \<and>
    ur_NanoPerUnit (the (find (\<lambda>r. row_key r = normalize_key hd_key) (rev video_card))) = 400"
proof -
  have "find (\<lambda>r. row_key r = normalize_key hd_key) (rev video_card) \<noteq> None"
    by (simp add: video_card_def hd_key_def normalize_key_def row_key_def tier_defs unit_defs)
  then show ?thesis using Lookup_reads_a_serving_row [OF video_card_lookup] by auto
qed

section \<open>Billing a job fails closed\<close>

lemma unit_cost_loop_Inr:
  "unit_cost_loop t u acc = Inr c \<longleftrightarrow>
     (\<forall>(k, n) \<in> set u. n \<noteq> 0 \<longrightarrow> Lookup t k \<noteq> None) \<and>
     c = acc + (\<Sum>(k, n)\<leftarrow>u. of_int (n * (case Lookup t k of None \<Rightarrow> 0 | Some rate \<Rightarrow> rate)))"
  by (induction t u acc rule: unit_cost_loop.induct) (auto split: option.splits simp: add.assoc)

definition unit_price_sum :: "UnitPriceTable \<Rightarrow> Units \<Rightarrow> rat" where
  "unit_price_sum t u = (\<Sum>(k, n)\<leftarrow>u. of_int (n * (case Lookup t k of None \<Rightarrow> 0 | Some rate \<Rightarrow> rate)))"

lemma unitCost_Inr:
  "unitCost t u = Inr c \<longleftrightarrow> (\<forall>(k, n) \<in> set u. n \<noteq> 0 \<longrightarrow> Lookup t k \<noteq> None) \<and> c = unit_price_sum t u"
  by (simp add: unitCost_def unit_cost_loop_Inr unit_price_sum_def)

lemma ValidateUnits_Inr:
  "ValidateUnits u = Inr () \<longleftrightarrow> (\<forall>(k, n) \<in> set u. 0 \<le> n \<and> uk_Unit k \<in> set KnownUnits)"
  by (induction u rule: ValidateUnits.induct) (auto split: if_splits)

text \<open>
  C33. A job is billed only when everything it consumes is priced. Whenever a per-unit
  quote exists, every quantity is non-negative and in a known unit, both tables
  have a rate for each non-zero quantity, the charge is the published sum times the
  two customer multipliers and the exchange rate rounded up once, and a quote from
  any other serving table charges the same.
\<close>

theorem ComputeUnits_fails_closed:
  assumes "ComputeUnits list cost u r = Inr q"
  shows "(\<forall>(k, n) \<in> set u. 0 \<le> n \<and> uk_Unit k \<in> set KnownUnits \<and>
      (n \<noteq> 0 \<longrightarrow> Lookup list k \<noteq> None \<and> Lookup cost k \<noteq> None)) \<and>
    (\<exists>fx. rat_SetString (rt_FXRate r) = Some fx \<and>
       q_ChargedNano q = \<lceil>unit_price_sum list u * (bps (or_one_times (rt_ModelMultiplierBps r))
         * bps (or_one_times (rt_PlanMultiplierBps r)) * fx)\<rceil>) \<and>
    (\<forall>cost' m q'. ComputeUnits list cost' u (r\<lparr>rt_ProcurementMultiplierBps := m\<rparr>) = Inr q'
       \<longrightarrow> q_ChargedNano q' = q_ChargedNano q)"
proof -
  obtain r' fx c l where *: "ValidateUnits u = Inr ()" "normalize r = Inr r'"
    "rat_SetString (rt_FXRate r) = Some fx" "unitCost cost u = Inr c" "unitCost list u = Inr l"
    "q_ChargedNano q = \<lceil>l * (bps (rt_ModelMultiplierBps r') * bps (rt_PlanMultiplierBps r') * fx)\<rceil>"
    using assms by (rule units.quote_exact)
  have "\<forall>(k, n) \<in> set u. 0 \<le> n \<and> uk_Unit k \<in> set KnownUnits \<and>
      (n \<noteq> 0 \<longrightarrow> Lookup list k \<noteq> None \<and> Lookup cost k \<noteq> None)"
    using *(1,4,5) unfolding ValidateUnits_Inr unitCost_Inr by fast
  moreover have "q_ChargedNano q' = q_ChargedNano q"
    if "ComputeUnits list cost' u (r\<lparr>rt_ProcurementMultiplierBps := m\<rparr>) = Inr q'" for cost' m q'
    using units.quote_cost_independent [OF assms that] by simp
  ultimately show ?thesis
    using *(3,5,6) normalize_Inr(1,2) [OF *(2)] unfolding unitCost_Inr by auto
qed

definition video_quote :: Quote where
  "video_quote = \<lparr>q_UpstreamUSDNano = 3200, q_ChargedNano = 23200, q_ModelMultiplierBps = 20000,
     q_PlanMultiplierBps = 5000, q_ProcurementMultiplierBps = 10000, q_FXRate = ''7.25''\<rparr>"

lemma hd_units: "BillingUnits ''1080p'' 8 0 True UnitSecond = [(hd_key, 8)]"
  by (simp add: BillingUnits_def hd_key_def audioFlag_def mul64_id is_int64_def)

lemma video_bill:
  "ComputeUnits (NewUnitPriceTable video_card) (NewUnitPriceTable video_card)
     (BillingUnits ''1080p'' 8 0 True UnitSecond) sample_rates = Inr video_quote"
proof -
  have v: "ValidateUnits [(hd_key, 8)] = Inr ()" by (simp add: hd_key_def KnownUnits_def)
  have c: "unitCost (NewUnitPriceTable video_card) [(hd_key, 8)] = Inr 3200"
    by (simp add: unitCost_def video_card_lookup)
  have fx: "parse_fx ''7.25'' = Inr (29 / 4)" by (simp add: parse_fx_Inr_iff sample_facts)
  show ?thesis
    unfolding units.chain hd_units v sample_facts(3) c
    by (simp add: sample_rates_def fx quoteFrom_def ceilToInt64_ceiling bps_def noDiscountBps_def
        is_int64_def video_quote_def)
qed

theorem ComputeUnits_fails_closed_witness:
  "uk_Unit hd_key \<in> set KnownUnits \<and> Lookup (NewUnitPriceTable video_card) hd_key \<noteq> None \<and>
    (\<exists>fx. rat_SetString (rt_FXRate sample_rates) = Some fx \<and>
       q_ChargedNano video_quote = \<lceil>unit_price_sum (NewUnitPriceTable video_card) (BillingUnits ''1080p'' 8 0 True UnitSecond)
         * (bps (or_one_times (rt_ModelMultiplierBps sample_rates))
         * bps (or_one_times (rt_PlanMultiplierBps sample_rates)) * fx)\<rceil>)"
  using ComputeUnits_fails_closed [OF video_bill] unfolding hd_units by simp

section \<open>Replaying a rate card from its snapshot\<close>

lemma unit_rates_keys:
  assumes "distinct (map fst m)" and "\<forall>k \<in> fst ` set m. normalize_key k = k"
  shows "distinct (map fst (unit_rates m rows)) \<and> (\<forall>k \<in> fst ` set (unit_rates m rows). normalize_key k = k)"
  using assms
proof (induction rows arbitrary: m)
  case (Cons r rows)
  have "normalize_key (row_key r) = row_key r" by (simp add: row_key_def normalize_key_def TierStandard_def)
  then have "\<forall>k \<in> fst ` set (AList.update (row_key r) (ur_NanoPerUnit r) m). normalize_key k = k"
    using Cons.prems(2) by (simp add: dom_map_of_conv_image_fst [symmetric] update_conv')
  from Cons.IH [OF distinct_update [OF Cons.prems(1)] this] show ?case by simp
qed simp

lemma find_unique:
  assumes "distinct (map f xs)"
  shows "find (\<lambda>x. f x = k) (rev xs) = Some x \<longleftrightarrow> x \<in> set xs \<and> f x = k"
proof
  assume "find (\<lambda>x. f x = k) (rev xs) = Some x"
  then show "x \<in> set xs \<and> f x = k" by (auto simp: find_Some_iff) (metis nth_mem length_rev set_rev)
next
  assume x: "x \<in> set xs \<and> f x = k"
  then have "find (\<lambda>x. f x = k) (rev xs) \<noteq> None" by (auto simp: find_None_iff)
  then obtain y where y: "find (\<lambda>x. f x = k) (rev xs) = Some y" by blast
  then have "y \<in> set xs" "f y = k" by (auto simp: find_Some_iff) (metis nth_mem length_rev set_rev)
  with x y assms show "find (\<lambda>x. f x = k) (rev xs) = Some x" by (auto simp: distinct_map dest: inj_onD)
qed

lemma row_key_snapshot [simp]: "row_key (unit_snapshot_row (k, v)) = normalize_key k"
  by (cases k) (simp add: row_key_def unit_snapshot_row_def)

lemma ut_rates_NewUnitPriceTable: "ut_rates (NewUnitPriceTable rows) = unit_rates [] rows"
  by (simp add: NewUnitPriceTable_def)

text \<open>
  The rate card written beside a job replays its prices: a table rebuilt from the
  snapshot's rows answers every lookup as the table the job was priced with, so the
  bill of every quantity vector is recomputable from what was recorded.
\<close>

theorem unit_snapshot_replays_lookup:
  "Lookup (NewUnitPriceTable (UnitSnapshot (NewUnitPriceTable rows))) k = Lookup (NewUnitPriceTable rows) k"
proof -
  let ?m = "unit_rates [] rows"
  let ?s = "UnitSnapshot (NewUnitPriceTable rows)"
  have keys: "distinct (map fst ?m)" "\<forall>k \<in> fst ` set ?m. normalize_key k = k"
    using unit_rates_keys [of "[]" rows] by simp_all
  have "map (row_key \<circ> unit_snapshot_row) ?m = map fst ?m"
    using keys(2) by (intro map_cong refl) (auto simp: comp_def)
  moreover have "mset (map row_key ?s) = mset (map (row_key \<circ> unit_snapshot_row) ?m)"
    by (simp add: UnitSnapshot_def ut_rates_NewUnitPriceTable image_mset.compositionality)
  ultimately have "mset (map row_key ?s) = mset (map fst ?m)" by (simp only:)
  with keys(1) have d: "distinct (map row_key ?s)" using mset_eq_imp_distinct_iff by blast
  have s: "set ?s = unit_snapshot_row ` set ?m"
    by (simp add: UnitSnapshot_def ut_rates_NewUnitPriceTable)
  have "map_of (unit_rates [] ?s) k' = map_of ?m k'" for k'
  proof (cases "map_of ?m k'")
    case None
    then have "find (\<lambda>r. row_key r = k') (rev ?s) = None"
      using keys(2) s by (force simp: find_None_iff map_of_eq_None_iff)
    with None show ?thesis by (simp add: map_of_unit_rates)
  next
    case (Some v)
    then have "(k', v) \<in> set ?m" by (rule map_of_SomeD)
    then have "unit_snapshot_row (k', v) \<in> set ?s" "row_key (unit_snapshot_row (k', v)) = k'"
      using keys(2) s by force+
    then have "find (\<lambda>r. row_key r = k') (rev ?s) = Some (unit_snapshot_row (k', v))"
      using find_unique [OF d] by blast
    with Some show ?thesis by (simp add: map_of_unit_rates unit_snapshot_row_def)
  qed
  then have "first_rate (unit_rates [] ?s) ks = first_rate ?m ks" for ks
    by (induction ks) (simp_all split: option.split)
  then show ?thesis by (simp add: Lookup_def ut_rates_NewUnitPriceTable) (simp add: NewUnitPriceTable_def)
qed

text \<open>
  The lookup widens along one path only, so a stored rate that leaves an axis
  empty does not serve every value of that axis: a row for 8-second clips with sound
  at any resolution is invisible to a request that names its resolution, and the job
  is refused as unpriced although a row serving it is on the card.
\<close>

theorem serving_row_can_be_missed:
  "\<exists>rows k r. r \<in> set rows \<and> row_serves r k \<and> Lookup (NewUnitPriceTable rows) k = None \<and>
     unitCost (NewUnitPriceTable rows) [(k, 8)] = Inl ErrUnitPriceMissing"
proof -
  let ?r = "\<lparr>ur_Unit = UnitSecond, ur_Resolution = [], ur_Audio = ''on'', ur_Variant = [], ur_ServiceTier = [],
     ur_NanoPerUnit = 400\<rparr>"
  have "Lookup (NewUnitPriceTable [?r]) hd_key = None"
    by (simp add: Lookup_def NewUnitPriceTable_def hd_key_def widened_keys_def normalize_key_def row_key_def tier_defs)
  moreover have "row_serves ?r hd_key"
    by (simp add: row_serves_def hd_key_def axis_ok_def row_key_def normalize_key_def)
  ultimately show ?thesis by (intro exI [of _ "[?r]"] exI [of _ hd_key] exI [of _ ?r]) (simp add: unitCost_def)
qed

section \<open>The unit a model is billed by\<close>

lemma billing_unit_loop_Inr:
  assumes "billing_unit_loop rates found = Inr u" and "found \<noteq> []"
  shows "u = found \<and> (\<forall>k \<in> fst ` set rates. uk_Unit k = found)"
  using assms by (induction rates found rule: billing_unit_loop.induct) (auto split: if_splits)

lemma billing_unit_loop_const:
  assumes "\<forall>k \<in> fst ` set rates. uk_Unit k = u"
  shows "billing_unit_loop rates u = Inr u"
  using assms
proof (induction rates)
  case (Cons e rates)
  obtain k v where e: "e = (k, v)" by (cases e)
  have k: "uk_Unit k = u" using Cons.prems by (simp add: e)
  have "billing_unit_loop rates u = Inr u" using Cons.prems by (intro Cons.IH) simp
  then show ?case using k by (cases "u = []") (simp_all add: e)
qed simp

text \<open>
  A model has one billing unit or none: on a card whose rows all name a unit, the
  unit is found exactly when the card is not empty and every row names that same
  unit, whatever order the card is read in; an ambiguous or empty card is refused.
\<close>

theorem BillingUnit_unique:
  assumes "\<forall>k \<in> fst ` set (ut_rates t). uk_Unit k \<noteq> []"
  shows "BillingUnit t = Inr u \<longleftrightarrow>
    ut_rates t \<noteq> [] \<and> (\<forall>k \<in> fst ` set (ut_rates t). uk_Unit k = u)"
proof (cases "ut_rates t")
  case Nil
  then show ?thesis by (simp add: BillingUnit_def)
next
  case (Cons e rest)
  obtain k v where e: "e = (k, v)" by (cases e)
  have ne: "uk_Unit k \<noteq> []" using assms Cons e by auto
  have b: "BillingUnit t = bind_result (billing_unit_loop rest (uk_Unit k)) (\<lambda>found.
      if found = [] then Inl ErrUnitPriceMissing else Inr found)"
    by (simp add: BillingUnit_def Cons e)
  show ?thesis
  proof
    assume "BillingUnit t = Inr u"
    then have "billing_unit_loop rest (uk_Unit k) = Inr u"
      unfolding b bind_result_Inr_iff by (auto split: if_splits)
    from billing_unit_loop_Inr [OF this ne] show "ut_rates t \<noteq> [] \<and> (\<forall>k \<in> fst ` set (ut_rates t). uk_Unit k = u)"
      by (simp add: Cons e)
  next
    assume "ut_rates t \<noteq> [] \<and> (\<forall>k \<in> fst ` set (ut_rates t). uk_Unit k = u)"
    with Cons e have k: "uk_Unit k = u" and rest: "\<forall>k \<in> fst ` set rest. uk_Unit k = u" by simp_all
    show "BillingUnit t = Inr u" using ne k unfolding b by (simp add: billing_unit_loop_const [OF rest])
  qed
qed

theorem BillingUnit_unique_witness:
  "BillingUnit (NewUnitPriceTable video_card) = Inr UnitSecond \<longleftrightarrow>
    ut_rates (NewUnitPriceTable video_card) \<noteq> [] \<and>
    (\<forall>k \<in> fst ` set (ut_rates (NewUnitPriceTable video_card)). uk_Unit k = UnitSecond)"
  by (rule BillingUnit_unique)
    (simp add: NewUnitPriceTable_def video_card_def row_key_def normalize_key_def unit_defs)

end
