(* ===== verification/Replay.thy ===== *)
theory Replay
  imports PublicId Classify
begin

text \<open>
  \<open>internal/gateway/usage/replay_payload.go\<close>: the durable form in which a delivered
  request whose settlement failed waits to be replayed, its strict decoder, and the
  usage row both stand for (\<open>InsertUsageLogParams\<close> of \<open>internal/gateway/db/usage.sql.go\<close>).

  A payload is the JSON document it is stored as (a \<open>jsonb\<close> column), so keys are
  matched exactly. A nullable column is an option. The exchange rate is its decimal
  text; how the database driver reads a rendered id and a rendered decimal back are
  parameters. A column holding raw JSON is \<open>None\<close> when its bytes are not JSON.
\<close>

section \<open>JSON documents\<close>

datatype json = JNull | JBool bool | JNum int | JStr string | JArr "json list" | JObj "(string \<times> json) list"

definition is_int32 :: "int \<Rightarrow> bool" where
  "is_int32 x \<longleftrightarrow> - 2147483648 \<le> x \<and> x \<le> 2147483647"

section \<open>The usage row\<close>

record UsageLogParams =
  u_OrgID :: uuid
  u_ApiKeyID :: uuid
  u_RequestID :: string
  u_Surface :: string
  u_ModelSlug :: string
  u_ProviderID :: uuid
  u_ProviderKeyID :: uuid
  u_OrgProviderKeyID :: uuid
  u_Byok :: bool
  u_RouteAttempts :: int
  u_Stream :: bool
  u_Status :: string
  u_ErrorCode :: string
  u_HttpStatus :: int
  u_TokensIn :: int
  u_TokensOut :: int
  u_TokensCachedRead :: int
  u_TokensCacheWrite :: int
  u_TokensReasoning :: int
  u_UsageEstimated :: bool
  u_UpstreamCostUsdNano :: int
  u_ChargedNano :: int
  u_ChargedCurrency :: string
  u_FxRate :: "string option"
  u_HoldID :: uuid
  u_EndUserID :: string
  u_TtftMs :: int
  u_DurationMs :: int
  u_ToolCalls :: "json option"
  u_ServiceTier :: "string option"
  u_TokensAudioIn :: "int option"
  u_TokensAudioOut :: "int option"
  u_TokensImageIn :: "int option"
  u_BilledUnits :: "int option"
  u_BilledUnit :: string
  u_TokensCacheWrite5m :: "int option"
  u_TokensCacheWrite1h :: "int option"
  u_PricingSnapshot :: "json option"
  u_RouteID :: uuid
  u_Attempts :: "json option"
  u_TokensImageOut :: "int option"

section \<open>The durable record\<close>

definition usageReplayVersion :: int where "usageReplayVersion = 1"

record usageReplayRecord =
  rp_OrgID :: string
  rp_ApiKeyID :: string
  rp_RequestID :: string
  rp_Surface :: string
  rp_ModelSlug :: string
  rp_ProviderID :: string
  rp_ProviderKeyID :: "string option"
  rp_OrgProviderKeyID :: "string option"
  rp_Byok :: bool
  rp_RouteAttempts :: int
  rp_Stream :: bool
  rp_Status :: string
  rp_ErrorCode :: string
  rp_HttpStatus :: int
  rp_TokensIn :: int
  rp_TokensOut :: int
  rp_TokensCachedRead :: int
  rp_TokensCacheWrite :: int
  rp_TokensReasoning :: int
  rp_UsageEstimated :: bool
  rp_UpstreamCostUsdNano :: int
  rp_ChargedNano :: int
  rp_ChargedCurrency :: string
  rp_FxRate :: string
  rp_HoldID :: "string option"
  rp_EndUserID :: string
  rp_TtftMs :: int
  rp_DurationMs :: int
  rp_ToolCalls :: "json option"
  rp_ServiceTier :: string
  rp_TokensAudioIn :: int
  rp_TokensAudioOut :: int
  rp_TokensImageIn :: int
  rp_BilledUnits :: int
  rp_BilledUnit :: string
  rp_TokensCacheWrite5m :: int
  rp_TokensCacheWrite1h :: int
  rp_PricingSnapshot :: "json option"
  rp_RouteID :: "string option"
  rp_Attempts :: "json option"

datatype replay_error = FxRateMissing | DimensionsMissing | EmptyField | AttemptsNotPositive | BadShape string
  | BadSnapshotVersion | BadVersion int | NotAnObject | MissingField string | UnknownField string | BadField string

definition usageReplayFields :: "string list" where
  "usageReplayFields =
     [''org_id'', ''api_key_id'', ''request_id'', ''surface'', ''model_slug'', ''provider_id'',
      ''provider_key_id'', ''org_provider_key_id'', ''byok'', ''route_attempts'', ''stream'', ''status'',
      ''error_code'', ''http_status'', ''tokens_in'', ''tokens_out'', ''tokens_cached_read'',
      ''tokens_cache_write'', ''tokens_reasoning'', ''usage_estimated'', ''upstream_cost_usd_nano'',
      ''charged_nano'', ''charged_currency'', ''fx_rate'', ''hold_id'', ''end_user_id'', ''ttft_ms'',
      ''duration_ms'', ''tool_calls'', ''service_tier'', ''tokens_audio_in'', ''tokens_audio_out'',
      ''tokens_image_in'', ''tokens_cache_write_5m'', ''tokens_cache_write_1h'', ''pricing_snapshot'',
      ''route_id'', ''attempts'']"

text \<open>The keys of the record's JSON form, in the order of its fields.\<close>

definition replay_keys :: "string list" where
  "replay_keys =
     [''org_id'', ''api_key_id'', ''request_id'', ''surface'', ''model_slug'', ''provider_id'',
      ''provider_key_id'', ''org_provider_key_id'', ''byok'', ''route_attempts'', ''stream'', ''status'',
      ''error_code'', ''http_status'', ''tokens_in'', ''tokens_out'', ''tokens_cached_read'',
      ''tokens_cache_write'', ''tokens_reasoning'', ''usage_estimated'', ''upstream_cost_usd_nano'',
      ''charged_nano'', ''charged_currency'', ''fx_rate'', ''hold_id'', ''end_user_id'', ''ttft_ms'',
      ''duration_ms'', ''tool_calls'', ''service_tier'', ''tokens_audio_in'', ''tokens_audio_out'',
      ''tokens_image_in'', ''billed_units'', ''billed_unit'', ''tokens_cache_write_5m'',
      ''tokens_cache_write_1h'', ''pricing_snapshot'', ''route_id'', ''attempts'']"

section \<open>Encoding\<close>

definition optionalUUIDText :: "uuid \<Rightarrow> string option" where
  "optionalUUIDText u = (if \<not> uuid_valid u then None else Some (UUIDString u))"

definition text_string :: "string option \<Rightarrow> string" where
  "text_string t = (case t of None \<Rightarrow> [] | Some s \<Rightarrow> s)"

definition int4_value :: "int option \<Rightarrow> int" where
  "int4_value v = (case v of None \<Rightarrow> 0 | Some n \<Rightarrow> n)"

definition numericText :: "string option \<Rightarrow> replay_error + string" where
  "numericText n = (case n of None \<Rightarrow> Inl FxRateMissing | Some t \<Rightarrow> if t = [] then Inl FxRateMissing else Inr t)"

definition requireJSONType :: "string \<Rightarrow> json option \<Rightarrow> (json \<Rightarrow> bool) \<Rightarrow> replay_error + unit" where
  "requireJSONType name raw ok = (case raw of Some v \<Rightarrow> guard_result (ok v) (BadShape name) | None \<Rightarrow> Inl (BadShape name))"

fun is_object :: "json \<Rightarrow> bool" where "is_object (JObj _) = True" | "is_object _ = False"
fun is_array :: "json \<Rightarrow> bool" where "is_array (JArr _) = True" | "is_array _ = False"

text \<open>Reading \<open>schema_version\<close> out of a snapshot: absent or null reads as zero, a non-number is an error.\<close>

definition schema_version :: "json option \<Rightarrow> int option" where
  "schema_version raw =
     (case raw of
        Some (JObj fs) \<Rightarrow> (case map_of fs ''schema_version'' of
            None \<Rightarrow> Some 0 | Some JNull \<Rightarrow> Some 0 | Some (JNum n) \<Rightarrow> Some n | Some _ \<Rightarrow> None)
      | Some JNull \<Rightarrow> Some 0
      | _ \<Rightarrow> None)"

definition required_texts :: "usageReplayRecord \<Rightarrow> string list" where
  "required_texts r = [rp_OrgID r, rp_ApiKeyID r, rp_RequestID r, rp_Surface r, rp_ModelSlug r, rp_ProviderID r,
     rp_Status r, rp_ChargedCurrency r, rp_FxRate r]"

definition replay_validate :: "usageReplayRecord \<Rightarrow> replay_error + unit" where
  "replay_validate r =
     bind_result (guard_result (\<forall>v \<in> set (required_texts r). trim_space v \<noteq> []) EmptyField) (\<lambda>_.
     bind_result (guard_result (\<not> rp_RouteAttempts r < 1) AttemptsNotPositive) (\<lambda>_.
     bind_result (requireJSONType ''tool_calls'' (rp_ToolCalls r) is_object) (\<lambda>_.
     bind_result (requireJSONType ''attempts'' (rp_Attempts r) is_array) (\<lambda>_.
     bind_result (requireJSONType ''pricing_snapshot'' (rp_PricingSnapshot r) is_object) (\<lambda>_.
     guard_result (schema_version (rp_PricingSnapshot r) = Some 1) BadSnapshotVersion)))))"

definition json_of_optional :: "string option \<Rightarrow> json" where
  "json_of_optional v = (case v of None \<Rightarrow> JNull | Some s \<Rightarrow> JStr s)"

definition json_of_raw :: "json option \<Rightarrow> json" where
  "json_of_raw v = (case v of None \<Rightarrow> JNull | Some j \<Rightarrow> j)"

definition marshal_record :: "usageReplayRecord \<Rightarrow> (string \<times> json) list" where
  "marshal_record r =
     [(''org_id'', JStr (rp_OrgID r)),
      (''api_key_id'', JStr (rp_ApiKeyID r)),
      (''request_id'', JStr (rp_RequestID r)),
      (''surface'', JStr (rp_Surface r)),
      (''model_slug'', JStr (rp_ModelSlug r)),
      (''provider_id'', JStr (rp_ProviderID r)),
      (''provider_key_id'', json_of_optional (rp_ProviderKeyID r)),
      (''org_provider_key_id'', json_of_optional (rp_OrgProviderKeyID r)),
      (''byok'', JBool (rp_Byok r)),
      (''route_attempts'', JNum (rp_RouteAttempts r)),
      (''stream'', JBool (rp_Stream r)),
      (''status'', JStr (rp_Status r)),
      (''error_code'', JStr (rp_ErrorCode r)),
      (''http_status'', JNum (rp_HttpStatus r)),
      (''tokens_in'', JNum (rp_TokensIn r)),
      (''tokens_out'', JNum (rp_TokensOut r)),
      (''tokens_cached_read'', JNum (rp_TokensCachedRead r)),
      (''tokens_cache_write'', JNum (rp_TokensCacheWrite r)),
      (''tokens_reasoning'', JNum (rp_TokensReasoning r)),
      (''usage_estimated'', JBool (rp_UsageEstimated r)),
      (''upstream_cost_usd_nano'', JNum (rp_UpstreamCostUsdNano r)),
      (''charged_nano'', JNum (rp_ChargedNano r)),
      (''charged_currency'', JStr (rp_ChargedCurrency r)),
      (''fx_rate'', JStr (rp_FxRate r)),
      (''hold_id'', json_of_optional (rp_HoldID r)),
      (''end_user_id'', JStr (rp_EndUserID r)),
      (''ttft_ms'', JNum (rp_TtftMs r)),
      (''duration_ms'', JNum (rp_DurationMs r)),
      (''tool_calls'', json_of_raw (rp_ToolCalls r)),
      (''service_tier'', JStr (rp_ServiceTier r)),
      (''tokens_audio_in'', JNum (rp_TokensAudioIn r)),
      (''tokens_audio_out'', JNum (rp_TokensAudioOut r)),
      (''tokens_image_in'', JNum (rp_TokensImageIn r)),
      (''billed_units'', JNum (rp_BilledUnits r)),
      (''billed_unit'', JStr (rp_BilledUnit r)),
      (''tokens_cache_write_5m'', JNum (rp_TokensCacheWrite5m r)),
      (''tokens_cache_write_1h'', JNum (rp_TokensCacheWrite1h r)),
      (''pricing_snapshot'', json_of_raw (rp_PricingSnapshot r)),
      (''route_id'', json_of_optional (rp_RouteID r)),
      (''attempts'', json_of_raw (rp_Attempts r))]"

definition replay_record :: "UsageLogParams \<Rightarrow> string \<Rightarrow> usageReplayRecord" where
  "replay_record p fxRate =
     \<lparr>rp_OrgID = UUIDString (u_OrgID p),
          rp_ApiKeyID = UUIDString (u_ApiKeyID p),
          rp_RequestID = u_RequestID p,
          rp_Surface = u_Surface p,
          rp_ModelSlug = u_ModelSlug p,
          rp_ProviderID = UUIDString (u_ProviderID p),
          rp_ProviderKeyID = optionalUUIDText (u_ProviderKeyID p),
          rp_OrgProviderKeyID = optionalUUIDText (u_OrgProviderKeyID p),
          rp_Byok = u_Byok p,
          rp_RouteAttempts = u_RouteAttempts p,
          rp_Stream = u_Stream p,
          rp_Status = u_Status p,
          rp_ErrorCode = u_ErrorCode p,
          rp_HttpStatus = u_HttpStatus p,
          rp_TokensIn = u_TokensIn p,
          rp_TokensOut = u_TokensOut p,
          rp_TokensCachedRead = u_TokensCachedRead p,
          rp_TokensCacheWrite = u_TokensCacheWrite p,
          rp_TokensReasoning = u_TokensReasoning p,
          rp_UsageEstimated = u_UsageEstimated p,
          rp_UpstreamCostUsdNano = u_UpstreamCostUsdNano p,
          rp_ChargedNano = u_ChargedNano p,
          rp_ChargedCurrency = u_ChargedCurrency p,
          rp_FxRate = fxRate,
          rp_HoldID = optionalUUIDText (u_HoldID p),
          rp_EndUserID = u_EndUserID p,
          rp_TtftMs = u_TtftMs p,
          rp_DurationMs = u_DurationMs p,
          rp_ToolCalls = u_ToolCalls p,
          rp_ServiceTier = text_string (u_ServiceTier p),
          rp_TokensAudioIn = int4_value (u_TokensAudioIn p),
          rp_TokensAudioOut = int4_value (u_TokensAudioOut p),
          rp_TokensImageIn = int4_value (u_TokensImageIn p),
          rp_BilledUnits = int4_value (u_BilledUnits p),
          rp_BilledUnit = u_BilledUnit p,
          rp_TokensCacheWrite5m = int4_value (u_TokensCacheWrite5m p),
          rp_TokensCacheWrite1h = int4_value (u_TokensCacheWrite1h p),
          rp_PricingSnapshot = u_PricingSnapshot p,
          rp_RouteID = optionalUUIDText (u_RouteID p),
          rp_Attempts = u_Attempts p\<rparr>"

definition EncodeUsageReplayPayload :: "UsageLogParams \<Rightarrow> replay_error + json" where
  "EncodeUsageReplayPayload p =
     bind_result (numericText (u_FxRate p)) (\<lambda>fxRate.
     let r = replay_record p fxRate
     in bind_result (guard_result (u_TokensAudioIn p \<noteq> None \<and> u_TokensAudioOut p \<noteq> None \<and> u_TokensImageIn p \<noteq> None \<and>
            u_TokensCacheWrite5m p \<noteq> None \<and> u_TokensCacheWrite1h p \<noteq> None) DimensionsMissing) (\<lambda>_.
        bind_result (replay_validate r) (\<lambda>_.
        Inr (JObj [(''version'', JNum usageReplayVersion), (''usage'', JObj (marshal_record r))]))))"

section \<open>Decoding\<close>

text \<open>A field of a JSON object decoded into a Go field: absent or null leaves the zero value.\<close>

definition get_string :: "(string \<times> json) list \<Rightarrow> string \<Rightarrow> replay_error + string" where
  "get_string fs k = (case map_of fs k of None \<Rightarrow> Inr [] | Some JNull \<Rightarrow> Inr [] | Some (JStr s) \<Rightarrow> Inr s | Some _ \<Rightarrow> Inl (BadField k))"

definition get_optional :: "(string \<times> json) list \<Rightarrow> string \<Rightarrow> replay_error + string option" where
  "get_optional fs k = (case map_of fs k of None \<Rightarrow> Inr None | Some JNull \<Rightarrow> Inr None | Some (JStr s) \<Rightarrow> Inr (Some s) | Some _ \<Rightarrow> Inl (BadField k))"

definition get_bool :: "(string \<times> json) list \<Rightarrow> string \<Rightarrow> replay_error + bool" where
  "get_bool fs k = (case map_of fs k of None \<Rightarrow> Inr False | Some JNull \<Rightarrow> Inr False | Some (JBool b) \<Rightarrow> Inr b | Some _ \<Rightarrow> Inl (BadField k))"

definition get_number :: "(int \<Rightarrow> bool) \<Rightarrow> (string \<times> json) list \<Rightarrow> string \<Rightarrow> replay_error + int" where
  "get_number ok fs k = (case map_of fs k of None \<Rightarrow> Inr 0 | Some JNull \<Rightarrow> Inr 0
     | Some (JNum n) \<Rightarrow> if ok n then Inr n else Inl (BadField k) | Some _ \<Rightarrow> Inl (BadField k))"

abbreviation get_int32 :: "(string \<times> json) list \<Rightarrow> string \<Rightarrow> replay_error + int" where "get_int32 \<equiv> get_number is_int32"
abbreviation get_int64 :: "(string \<times> json) list \<Rightarrow> string \<Rightarrow> replay_error + int" where "get_int64 \<equiv> get_number is_int64"

definition get_raw :: "(string \<times> json) list \<Rightarrow> string \<Rightarrow> replay_error + json option" where
  "get_raw fs k = Inr (map_of fs k)"

fun reject_unknown :: "string list \<Rightarrow> (string \<times> json) list \<Rightarrow> replay_error + unit" where
  "reject_unknown known [] = Inr ()"
| "reject_unknown known ((k, v) # fs) = (if k \<in> set known then reject_unknown known fs else Inl (UnknownField k))"

fun require_fields :: "string list \<Rightarrow> (string \<times> json) list \<Rightarrow> replay_error + unit" where
  "require_fields [] fs = Inr ()"
| "require_fields (k # ks) fs = (if map_of fs k = None then Inl (MissingField k) else require_fields ks fs)"

definition unmarshal_record :: "(string \<times> json) list \<Rightarrow> replay_error + usageReplayRecord" where
  "unmarshal_record fs =
     bind_result (get_string fs ''org_id'') (\<lambda>v0.
     bind_result (get_string fs ''api_key_id'') (\<lambda>v1.
     bind_result (get_string fs ''request_id'') (\<lambda>v2.
     bind_result (get_string fs ''surface'') (\<lambda>v3.
     bind_result (get_string fs ''model_slug'') (\<lambda>v4.
     bind_result (get_string fs ''provider_id'') (\<lambda>v5.
     bind_result (get_optional fs ''provider_key_id'') (\<lambda>v6.
     bind_result (get_optional fs ''org_provider_key_id'') (\<lambda>v7.
     bind_result (get_bool fs ''byok'') (\<lambda>v8.
     bind_result (get_int32 fs ''route_attempts'') (\<lambda>v9.
     bind_result (get_bool fs ''stream'') (\<lambda>v10.
     bind_result (get_string fs ''status'') (\<lambda>v11.
     bind_result (get_string fs ''error_code'') (\<lambda>v12.
     bind_result (get_int32 fs ''http_status'') (\<lambda>v13.
     bind_result (get_int32 fs ''tokens_in'') (\<lambda>v14.
     bind_result (get_int32 fs ''tokens_out'') (\<lambda>v15.
     bind_result (get_int32 fs ''tokens_cached_read'') (\<lambda>v16.
     bind_result (get_int32 fs ''tokens_cache_write'') (\<lambda>v17.
     bind_result (get_int32 fs ''tokens_reasoning'') (\<lambda>v18.
     bind_result (get_bool fs ''usage_estimated'') (\<lambda>v19.
     bind_result (get_int64 fs ''upstream_cost_usd_nano'') (\<lambda>v20.
     bind_result (get_int64 fs ''charged_nano'') (\<lambda>v21.
     bind_result (get_string fs ''charged_currency'') (\<lambda>v22.
     bind_result (get_string fs ''fx_rate'') (\<lambda>v23.
     bind_result (get_optional fs ''hold_id'') (\<lambda>v24.
     bind_result (get_string fs ''end_user_id'') (\<lambda>v25.
     bind_result (get_int32 fs ''ttft_ms'') (\<lambda>v26.
     bind_result (get_int32 fs ''duration_ms'') (\<lambda>v27.
     bind_result (get_raw fs ''tool_calls'') (\<lambda>v28.
     bind_result (get_string fs ''service_tier'') (\<lambda>v29.
     bind_result (get_int32 fs ''tokens_audio_in'') (\<lambda>v30.
     bind_result (get_int32 fs ''tokens_audio_out'') (\<lambda>v31.
     bind_result (get_int32 fs ''tokens_image_in'') (\<lambda>v32.
     bind_result (get_int32 fs ''billed_units'') (\<lambda>v33.
     bind_result (get_string fs ''billed_unit'') (\<lambda>v34.
     bind_result (get_int32 fs ''tokens_cache_write_5m'') (\<lambda>v35.
     bind_result (get_int32 fs ''tokens_cache_write_1h'') (\<lambda>v36.
     bind_result (get_raw fs ''pricing_snapshot'') (\<lambda>v37.
     bind_result (get_optional fs ''route_id'') (\<lambda>v38.
     bind_result (get_raw fs ''attempts'') (\<lambda>v39.
     Inr \<lparr>rp_OrgID = v0,
          rp_ApiKeyID = v1,
          rp_RequestID = v2,
          rp_Surface = v3,
          rp_ModelSlug = v4,
          rp_ProviderID = v5,
          rp_ProviderKeyID = v6,
          rp_OrgProviderKeyID = v7,
          rp_Byok = v8,
          rp_RouteAttempts = v9,
          rp_Stream = v10,
          rp_Status = v11,
          rp_ErrorCode = v12,
          rp_HttpStatus = v13,
          rp_TokensIn = v14,
          rp_TokensOut = v15,
          rp_TokensCachedRead = v16,
          rp_TokensCacheWrite = v17,
          rp_TokensReasoning = v18,
          rp_UsageEstimated = v19,
          rp_UpstreamCostUsdNano = v20,
          rp_ChargedNano = v21,
          rp_ChargedCurrency = v22,
          rp_FxRate = v23,
          rp_HoldID = v24,
          rp_EndUserID = v25,
          rp_TtftMs = v26,
          rp_DurationMs = v27,
          rp_ToolCalls = v28,
          rp_ServiceTier = v29,
          rp_TokensAudioIn = v30,
          rp_TokensAudioOut = v31,
          rp_TokensImageIn = v32,
          rp_BilledUnits = v33,
          rp_BilledUnit = v34,
          rp_TokensCacheWrite5m = v35,
          rp_TokensCacheWrite1h = v36,
          rp_PricingSnapshot = v37,
          rp_RouteID = v38,
          rp_Attempts = v39\<rparr>))))))))))))))))))))))))))))))))))))))))"

definition parseReplayUUID :: "(string \<Rightarrow> uuid option) \<Rightarrow> string \<Rightarrow> string \<Rightarrow> replay_error + uuid" where
  "parseReplayUUID scan name v = (case scan v of None \<Rightarrow> Inl (BadField name) | Some u \<Rightarrow> Inr u)"

definition parseOptionalUUID :: "(string \<Rightarrow> uuid option) \<Rightarrow> string \<Rightarrow> string option \<Rightarrow> replay_error + uuid" where
  "parseOptionalUUID scan name v = (case v of None \<Rightarrow> Inr None | Some s \<Rightarrow> parseReplayUUID scan name s)"

definition replay_params :: "(string \<Rightarrow> uuid option) \<Rightarrow> (string \<Rightarrow> string option) \<Rightarrow> usageReplayRecord
    \<Rightarrow> replay_error + UsageLogParams" where
  "replay_params scan scan_num r =
     bind_result (parseReplayUUID scan ''org_id'' (rp_OrgID r)) (\<lambda>orgID.
     bind_result (parseReplayUUID scan ''api_key_id'' (rp_ApiKeyID r)) (\<lambda>apiKeyID.
     bind_result (parseReplayUUID scan ''provider_id'' (rp_ProviderID r)) (\<lambda>providerID.
     bind_result (case scan_num (rp_FxRate r) of None \<Rightarrow> Inl (BadField ''fx_rate'') | Some n \<Rightarrow> Inr n) (\<lambda>fx.
     bind_result (parseOptionalUUID scan ''provider_key_id'' (rp_ProviderKeyID r)) (\<lambda>providerKeyID.
     bind_result (parseOptionalUUID scan ''org_provider_key_id'' (rp_OrgProviderKeyID r)) (\<lambda>orgProviderKeyID.
     bind_result (parseOptionalUUID scan ''hold_id'' (rp_HoldID r)) (\<lambda>holdID.
     bind_result (parseOptionalUUID scan ''route_id'' (rp_RouteID r)) (\<lambda>routeID.
     Inr \<lparr>u_OrgID = orgID,
          u_ApiKeyID = apiKeyID,
          u_RequestID = rp_RequestID r,
          u_Surface = rp_Surface r,
          u_ModelSlug = rp_ModelSlug r,
          u_ProviderID = providerID,
          u_ProviderKeyID = providerKeyID,
          u_OrgProviderKeyID = orgProviderKeyID,
          u_Byok = rp_Byok r,
          u_RouteAttempts = rp_RouteAttempts r,
          u_Stream = rp_Stream r,
          u_Status = rp_Status r,
          u_ErrorCode = rp_ErrorCode r,
          u_HttpStatus = rp_HttpStatus r,
          u_TokensIn = rp_TokensIn r,
          u_TokensOut = rp_TokensOut r,
          u_TokensCachedRead = rp_TokensCachedRead r,
          u_TokensCacheWrite = rp_TokensCacheWrite r,
          u_TokensReasoning = rp_TokensReasoning r,
          u_UsageEstimated = rp_UsageEstimated r,
          u_UpstreamCostUsdNano = rp_UpstreamCostUsdNano r,
          u_ChargedNano = rp_ChargedNano r,
          u_ChargedCurrency = rp_ChargedCurrency r,
          u_FxRate = Some fx,
          u_HoldID = holdID,
          u_EndUserID = rp_EndUserID r,
          u_TtftMs = rp_TtftMs r,
          u_DurationMs = rp_DurationMs r,
          u_ToolCalls = rp_ToolCalls r,
          u_ServiceTier = Some (rp_ServiceTier r),
          u_TokensAudioIn = Some (rp_TokensAudioIn r),
          u_TokensAudioOut = Some (rp_TokensAudioOut r),
          u_TokensImageIn = Some (rp_TokensImageIn r),
          u_BilledUnits = (if rp_BilledUnit r \<noteq> [] then Some (rp_BilledUnits r) else None),
          u_BilledUnit = rp_BilledUnit r,
          u_TokensCacheWrite5m = Some (rp_TokensCacheWrite5m r),
          u_TokensCacheWrite1h = Some (rp_TokensCacheWrite1h r),
          u_PricingSnapshot = rp_PricingSnapshot r,
          u_RouteID = routeID,
          u_Attempts = rp_Attempts r,
          u_TokensImageOut = None\<rparr>))))))))"

definition DecodeUsageReplayPayload :: "(string \<Rightarrow> uuid option) \<Rightarrow> (string \<Rightarrow> string option) \<Rightarrow> json
    \<Rightarrow> replay_error + UsageLogParams" where
  "DecodeUsageReplayPayload scan scan_num doc =
     (case doc of
        JObj envelope \<Rightarrow>
          bind_result (reject_unknown [''version'', ''usage''] envelope) (\<lambda>_.
          bind_result (get_number is_int64 envelope ''version'') (\<lambda>version.
          bind_result (guard_result (version = usageReplayVersion) (BadVersion version)) (\<lambda>_.
          case map_of envelope ''usage'' of
            Some (JObj fs) \<Rightarrow>
              bind_result (require_fields usageReplayFields fs) (\<lambda>_.
              bind_result (reject_unknown replay_keys fs) (\<lambda>_.
              bind_result (unmarshal_record fs) (\<lambda>r.
              bind_result (replay_validate r) (\<lambda>_.
              replay_params scan scan_num r))))
          | _ \<Rightarrow> Inl NotAnObject)))
      | _ \<Rightarrow> Inl NotAnObject)"

section \<open>The round trip\<close>

definition record_in_range :: "usageReplayRecord \<Rightarrow> bool" where
  "record_in_range r \<longleftrightarrow>
     is_int32 (rp_RouteAttempts r) \<and>
     is_int32 (rp_HttpStatus r) \<and>
     is_int32 (rp_TokensIn r) \<and>
     is_int32 (rp_TokensOut r) \<and>
     is_int32 (rp_TokensCachedRead r) \<and>
     is_int32 (rp_TokensCacheWrite r) \<and>
     is_int32 (rp_TokensReasoning r) \<and>
     is_int32 (rp_TtftMs r) \<and>
     is_int32 (rp_DurationMs r) \<and>
     is_int32 (rp_TokensAudioIn r) \<and>
     is_int32 (rp_TokensAudioOut r) \<and>
     is_int32 (rp_TokensImageIn r) \<and>
     is_int32 (rp_BilledUnits r) \<and>
     is_int32 (rp_TokensCacheWrite5m r) \<and>
     is_int32 (rp_TokensCacheWrite1h r) \<and>
     is_int64 (rp_ChargedNano r) \<and>
     is_int64 (rp_UpstreamCostUsdNano r)"

lemma get_simps:
  "map_of fs k = Some (JStr s) \<Longrightarrow> get_string fs k = Inr s"
  "map_of fs k = Some (JBool b) \<Longrightarrow> get_bool fs k = Inr b"
  "map_of fs k = Some (JNum n) \<Longrightarrow> ok n \<Longrightarrow> get_number ok fs k = Inr n"
  "map_of fs k = Some (json_of_optional t) \<Longrightarrow> get_optional fs k = Inr t"
  "map_of fs k = Some j \<Longrightarrow> get_raw fs k = Inr (Some j)"
  by (simp_all add: get_string_def get_bool_def get_number_def get_optional_def get_raw_def json_of_optional_def
      split: option.split)

lemma unmarshal_marshal:
  assumes "record_in_range r" and "rp_ToolCalls r = Some tc" and "rp_Attempts r = Some att"
    and "rp_PricingSnapshot r = Some ps"
  shows "unmarshal_record (marshal_record r) = Inr r"
  using assms unfolding unmarshal_record_def marshal_record_def record_in_range_def
  by (simp add: get_simps json_of_raw_def)

lemma trim_empty: "trim_space [] = []"
  by (simp add: trim_space_def)

lemma UUIDString_nonempty: "trim_space (UUIDString u) \<noteq> [] \<Longrightarrow> u \<noteq> None"
  by (cases u) (simp_all add: UUIDString_def trim_empty)

lemma replay_validate_Inr:
  "replay_validate r = Inr () \<longleftrightarrow>
     (\<forall>v \<in> set (required_texts r). trim_space v \<noteq> []) \<and> 1 \<le> rp_RouteAttempts r \<and>
     (\<exists>v. rp_ToolCalls r = Some v \<and> is_object v) \<and> (\<exists>v. rp_Attempts r = Some v \<and> is_array v) \<and>
     (\<exists>v. rp_PricingSnapshot r = Some v \<and> is_object v) \<and> schema_version (rp_PricingSnapshot r) = Some 1"
  by (auto simp: replay_validate_def requireJSONType_def result_simps split: option.splits)

lemma marshal_keys: "map fst (marshal_record r) = replay_keys"
  by (simp add: marshal_record_def replay_keys_def)

lemma reject_unknown_known: "fst ` set fs \<subseteq> set known \<Longrightarrow> reject_unknown known fs = Inr ()"
  by (induction known fs rule: reject_unknown.induct) auto

lemma require_fields_present: "set ks \<subseteq> fst ` set fs \<Longrightarrow> require_fields ks fs = Inr ()"
  by (induction ks fs rule: require_fields.induct) (auto simp: map_of_eq_None_iff)

lemma required_subset: "set usageReplayFields \<subseteq> set replay_keys"
  by (simp add: usageReplayFields_def replay_keys_def)

lemma marshal_accepted:
  "require_fields usageReplayFields (marshal_record r) = Inr ()"
  "reject_unknown replay_keys (marshal_record r) = Inr ()"
  using marshal_keys [of r] required_subset
  by (metis list.set_map require_fields_present, metis list.set_map order_refl reject_unknown_known)

lemma parse_rendered:
  assumes "\<And>b. scan (UUIDString (Some b)) = Some (Some b)"
  shows "u \<noteq> None \<Longrightarrow> parseReplayUUID scan name (UUIDString u) = Inr u"
    and "parseOptionalUUID scan name (optionalUUIDText u) = Inr u"
  using assms by (auto simp: parseReplayUUID_def parseOptionalUUID_def optionalUUIDText_def)

lemma replay_decodes:
  assumes "EncodeUsageReplayPayload p = Inr doc"
    and "\<And>b. scan (UUIDString (Some b)) = Some (Some b)" and "scan_num (the (u_FxRate p)) = u_FxRate p"
    and "record_in_range (replay_record p (the (u_FxRate p)))" and "u_ServiceTier p \<noteq> None"
    and "u_BilledUnits p = None \<longleftrightarrow> u_BilledUnit p = []"
  shows "DecodeUsageReplayPayload scan scan_num doc = Inr (p\<lparr>u_TokensImageOut := None\<rparr>)"
proof -
  obtain fx where fx: "u_FxRate p = Some fx"
    using assms(1) by (auto simp: EncodeUsageReplayPayload_def numericText_def result_simps split: option.splits)
  define r where "r = replay_record p fx"
  have doc: "doc = JObj [(''version'', JNum 1), (''usage'', JObj (marshal_record r))]"
    and v: "replay_validate r = Inr ()"
    and dims: "u_TokensAudioIn p \<noteq> None" "u_TokensAudioOut p \<noteq> None" "u_TokensImageIn p \<noteq> None"
      "u_TokensCacheWrite5m p \<noteq> None" "u_TokensCacheWrite1h p \<noteq> None"
    using assms(1) by (auto simp: EncodeUsageReplayPayload_def numericText_def fx r_def usageReplayVersion_def
        Let_def result_simps split: if_splits)
  have ids: "u_OrgID p \<noteq> None" "u_ApiKeyID p \<noteq> None" "u_ProviderID p \<noteq> None"
    using v by (auto simp: replay_validate_Inr required_texts_def r_def replay_record_def dest: UUIDString_nonempty)
  have "unmarshal_record (marshal_record r) = Inr r"
    using v assms(4) by (auto simp: replay_validate_Inr fx r_def intro!: unmarshal_marshal)
  moreover have "replay_params scan scan_num r = Inr (p\<lparr>u_TokensImageOut := None\<rparr>)"
    using assms(3,5,6) ids dims
    by (auto simp: replay_params_def r_def replay_record_def parse_rendered [OF assms(2)] fx text_string_def
        int4_value_def)
  ultimately show ?thesis
    by (simp add: DecodeUsageReplayPayload_def doc marshal_accepted v get_number_def is_int64_def usageReplayVersion_def
        guard_result_def)
qed

text \<open>
  C40. What waits for replay is the row that could not be written. Whatever usage row
  is encoded, the strict decoder accepts the document and gives the same row back --
  every id, amount, token count, snapshot and the exchange rate -- except that the
  count of output image tokens is gone: the durable record has no place for it.
\<close>

theorem replay_roundtrip:
  assumes "EncodeUsageReplayPayload p = Inr doc"
    and "\<And>b. scan (UUIDString (Some b)) = Some (Some b)" and "scan_num (the (u_FxRate p)) = u_FxRate p"
    and "record_in_range (replay_record p (the (u_FxRate p)))" and "u_ServiceTier p \<noteq> None"
    and "u_BilledUnits p = None \<longleftrightarrow> u_BilledUnit p = []"
  shows "DecodeUsageReplayPayload scan scan_num doc = Inr (p\<lparr>u_TokensImageOut := None\<rparr>)"
  using assms by (intro replay_decodes) assumption+

definition sample_usage :: UsageLogParams where
  "sample_usage = \<lparr>u_OrgID = Some 3, u_ApiKeyID = Some 7, u_RequestID = ''req-1'', u_Surface = ''images'',
     u_ModelSlug = ''m'', u_ProviderID = Some 9, u_ProviderKeyID = None, u_OrgProviderKeyID = None, u_Byok = False,
     u_RouteAttempts = 1, u_Stream = False, u_Status = ''ok'', u_ErrorCode = [], u_HttpStatus = 200, u_TokensIn = 10,
     u_TokensOut = 20, u_TokensCachedRead = 0, u_TokensCacheWrite = 0, u_TokensReasoning = 0, u_UsageEstimated = False,
     u_UpstreamCostUsdNano = 5, u_ChargedNano = 8, u_ChargedCurrency = ''USD'', u_FxRate = Some ''1'', u_HoldID = None,
     u_EndUserID = [], u_TtftMs = 0, u_DurationMs = 30, u_ToolCalls = Some (JObj []), u_ServiceTier = Some [],
     u_TokensAudioIn = Some 0, u_TokensAudioOut = Some 0, u_TokensImageIn = Some 0, u_BilledUnits = None,
     u_BilledUnit = [], u_TokensCacheWrite5m = Some 0, u_TokensCacheWrite1h = Some 0,
     u_PricingSnapshot = Some (JObj [(''schema_version'', JNum 1)]), u_RouteID = Some 4,
     u_Attempts = Some (JArr []), u_TokensImageOut = Some 17\<rparr>"

lemma trim_nonempty:
  assumes "c \<in> set s" and "\<not> is_space c"
  shows "trim_space s \<noteq> []"
proof -
  have "c \<in> set (takeWhile is_space s) \<union> set (dropWhile is_space s)"
    using assms(1) unfolding set_append [symmetric] takeWhile_dropWhile_id .
  then have "c \<in> set (dropWhile is_space s)" using assms(2) by (blast dest: set_takeWhileD)
  then show ?thesis using assms(2) by (auto simp: trim_space_def dropWhile_eq_Nil_conv)
qed

lemma trim_UUIDString: "trim_space (UUIDString (Some b)) \<noteq> []"
  by (rule trim_nonempty [of "CHR ''-''"]) (simp_all add: UUIDString_def dashed_def is_space_def)

lemma sample_texts:
  "trim_space ''req-1'' \<noteq> []" "trim_space ''images'' \<noteq> []" "trim_space ''m'' \<noteq> []" "trim_space ''ok'' \<noteq> []"
  "trim_space ''USD'' \<noteq> []" "trim_space ''1'' \<noteq> []"
  by code_simp+

lemma sample_usage_encodes:
  "EncodeUsageReplayPayload sample_usage =
     Inr (JObj [(''version'', JNum 1), (''usage'', JObj (marshal_record (replay_record sample_usage ''1'')))])"
proof -
  have "replay_validate (replay_record sample_usage ''1'') = Inr ()"
    by (simp add: replay_validate_Inr required_texts_def replay_record_def sample_usage_def trim_UUIDString
        schema_version_def sample_texts)
  then show ?thesis
    by (simp add: EncodeUsageReplayPayload_def numericText_def usageReplayVersion_def guard_result_def Let_def)
      (simp add: sample_usage_def)
qed

theorem replay_roundtrip_witness:
  "DecodeUsageReplayPayload scan_rendered Some
     (JObj [(''version'', JNum 1), (''usage'', JObj (marshal_record (replay_record sample_usage ''1'')))]) =
   Inr (sample_usage\<lparr>u_TokensImageOut := None\<rparr>)"
  by (rule replay_roundtrip [OF sample_usage_encodes scan_rendered_back])
    (simp_all add: sample_usage_def record_in_range_def replay_record_def is_int32_def is_int64_def int4_value_def)

end
