(* ===== verification/Envelope.thy ===== *)
theory Envelope
  imports UnitPrice Replay Router "HOL-Library.List_Lexorder" "HOL-Library.Char_ord"
begin

text \<open>
  What a video model accepts: the normalised request (\<open>video/params.go\<close>), the capability
  envelope of one route and the union a model publishes (\<open>video/envelope.go\<close>), and the
  narrowing of the candidates by it (\<open>proxy/videos.go\<close>).

  Strings are byte strings, so \<open>length\<close> is Go's \<open>len\<close>. A body is the JSON value it parses
  to, or nothing when it does not parse; its keys are matched as \<open>encoding/json\<close> matches
  them, in any case of the ASCII letters. A stored envelope spells its keys as the struct
  tags do.
\<close>

section \<open>Requests\<close>

record ReferenceImage =
  ri_URL :: string
  ri_Type :: string

record VideoRequest =
  vr_Model :: string
  vr_Prompt :: string
  vr_NegativePrompt :: string
  vr_DurationSeconds :: int
  vr_Resolution :: string
  vr_AspectRatio :: string
  vr_Audio :: "bool option"
  vr_Image :: string
  vr_LastFrame :: string
  vr_ReferenceImages :: "ReferenceImage list"
  vr_Seed :: "int option"
  vr_N :: int

definition no_request :: VideoRequest where
  "no_request = \<lparr>vr_Model = [], vr_Prompt = [], vr_NegativePrompt = [], vr_DurationSeconds = 0, vr_Resolution = [],
     vr_AspectRatio = [], vr_Audio = None, vr_Image = [], vr_LastFrame = [], vr_ReferenceImages = [], vr_Seed = None,
     vr_N = 0\<rparr>"

definition ReferenceAsset :: string where "ReferenceAsset = ''asset''"
definition ReferenceStyle :: string where "ReferenceStyle = ''style''"

datatype decode_error = ErrUnknownParameter string | InvalidBody | TrailingContent

text \<open>A JSON null leaves the field as it is; a value of another kind is an error.\<close>

fun put_string :: "json \<Rightarrow> (string \<Rightarrow> 'r) \<Rightarrow> 'r \<Rightarrow> decode_error + 'r" where
  "put_string (JStr s) put r = Inr (put s)"
| "put_string JNull put r = Inr r"
| "put_string _ put r = Inl InvalidBody"

fun put_int :: "json \<Rightarrow> (int \<Rightarrow> 'r) \<Rightarrow> 'r \<Rightarrow> decode_error + 'r" where
  "put_int (JNum n) put r = (if is_int64 n then Inr (put n) else Inl InvalidBody)"
| "put_int JNull put r = Inr r"
| "put_int _ put r = Inl InvalidBody"

fun decode_reference :: "(string \<times> json) list \<Rightarrow> ReferenceImage \<Rightarrow> decode_error + ReferenceImage" where
  "decode_reference [] r = Inr r"
| "decode_reference ((k, v) # fs) r =
     bind_result (if ascii_lower k = ''url'' then put_string v (\<lambda>s. r\<lparr>ri_URL := s\<rparr>) r
                  else if ascii_lower k = ''type'' then put_string v (\<lambda>s. r\<lparr>ri_Type := s\<rparr>) r
                  else Inl (ErrUnknownParameter k)) (decode_reference fs)"

fun decode_references :: "json list \<Rightarrow> decode_error + ReferenceImage list" where
  "decode_references [] = Inr []"
| "decode_references (v # vs) =
     bind_result (case v of JObj fs \<Rightarrow> decode_reference fs \<lparr>ri_URL = [], ri_Type = []\<rparr>
                  | JNull \<Rightarrow> Inr \<lparr>ri_URL = [], ri_Type = []\<rparr> | _ \<Rightarrow> Inl InvalidBody) (\<lambda>r.
     bind_result (decode_references vs) (\<lambda>rs. Inr (r # rs)))"

definition decode_field :: "string \<Rightarrow> json \<Rightarrow> VideoRequest \<Rightarrow> decode_error + VideoRequest" where
  "decode_field k v r =
     (let f = ascii_lower k
      in if f = ''model'' then put_string v (\<lambda>s. r\<lparr>vr_Model := s\<rparr>) r
         else if f = ''prompt'' then put_string v (\<lambda>s. r\<lparr>vr_Prompt := s\<rparr>) r
         else if f = ''negative_prompt'' then put_string v (\<lambda>s. r\<lparr>vr_NegativePrompt := s\<rparr>) r
         else if f = ''duration_seconds'' then put_int v (\<lambda>n. r\<lparr>vr_DurationSeconds := n\<rparr>) r
         else if f = ''resolution'' then put_string v (\<lambda>s. r\<lparr>vr_Resolution := s\<rparr>) r
         else if f = ''aspect_ratio'' then put_string v (\<lambda>s. r\<lparr>vr_AspectRatio := s\<rparr>) r
         else if f = ''audio'' then
           (case v of JBool b \<Rightarrow> Inr (r\<lparr>vr_Audio := Some b\<rparr>) | JNull \<Rightarrow> Inr (r\<lparr>vr_Audio := None\<rparr>) | _ \<Rightarrow> Inl InvalidBody)
         else if f = ''image'' then put_string v (\<lambda>s. r\<lparr>vr_Image := s\<rparr>) r
         else if f = ''last_frame'' then put_string v (\<lambda>s. r\<lparr>vr_LastFrame := s\<rparr>) r
         else if f = ''reference_images'' then
           (case v of JArr vs \<Rightarrow> bind_result (decode_references vs) (\<lambda>refs. Inr (r\<lparr>vr_ReferenceImages := refs\<rparr>))
            | JNull \<Rightarrow> Inr (r\<lparr>vr_ReferenceImages := []\<rparr>) | _ \<Rightarrow> Inl InvalidBody)
         else if f = ''seed'' then
           (case v of JNum n \<Rightarrow> (if is_int64 n then Inr (r\<lparr>vr_Seed := Some n\<rparr>) else Inl InvalidBody)
            | JNull \<Rightarrow> Inr (r\<lparr>vr_Seed := None\<rparr>) | _ \<Rightarrow> Inl InvalidBody)
         else if f = ''n'' then put_int v (\<lambda>n. r\<lparr>vr_N := n\<rparr>) r
         else Inl (ErrUnknownParameter k))"

fun decode_fields :: "(string \<times> json) list \<Rightarrow> VideoRequest \<Rightarrow> decode_error + VideoRequest" where
  "decode_fields [] r = Inr r"
| "decode_fields ((k, v) # fs) r = bind_result (decode_field k v r) (decode_fields fs)"

definition Decode :: "json option \<Rightarrow> bool \<Rightarrow> decode_error + VideoRequest" where
  "Decode doc trailing =
     bind_result (case doc of Some (JObj fs) \<Rightarrow> decode_fields fs no_request | Some JNull \<Rightarrow> Inr no_request
                  | _ \<Rightarrow> Inl InvalidBody) (\<lambda>r.
     if trailing then Inl TrailingContent
     else Inr (r\<lparr>vr_N := (if vr_N r = 0 then 1 else vr_N r), vr_Model := trim_space (vr_Model r),
                 vr_Resolution := trim_space (vr_Resolution r), vr_AspectRatio := trim_space (vr_AspectRatio r)\<rparr>))"

section \<open>Envelopes\<close>

definition CancelNever :: string where "CancelNever = ''never''"
definition CancelQueuedOnly :: string where "CancelQueuedOnly = ''queued_only''"
definition CancelAnytime :: string where "CancelAnytime = ''anytime''"
definition AudioNever :: string where "AudioNever = ''never''"
definition AudioOptional :: string where "AudioOptional = ''optional''"
definition AudioAlways :: string where "AudioAlways = ''always''"

record Envelope =
  en_DurationsSeconds :: "int list"
  en_Resolutions :: "string list"
  en_AspectRatios :: "string list"
  en_Audio :: string
  en_MaxN :: int
  en_SupportsImageToVideo :: bool
  en_SupportsLastFrame :: bool
  en_MaxReferenceImages :: int
  en_SupportsNegativePrompt :: bool
  en_MaxPromptChars :: int
  en_Cancel :: string
  en_MaxJobSeconds :: int

definition no_envelope :: Envelope where
  "no_envelope = \<lparr>en_DurationsSeconds = [], en_Resolutions = [], en_AspectRatios = [], en_Audio = [], en_MaxN = 0,
     en_SupportsImageToVideo = False, en_SupportsLastFrame = False, en_MaxReferenceImages = 0,
     en_SupportsNegativePrompt = False, en_MaxPromptChars = 0, en_Cancel = [], en_MaxJobSeconds = 0\<rparr>"

definition Configured :: "Envelope \<Rightarrow> bool" where
  "Configured e \<longleftrightarrow> length (en_DurationsSeconds e) > 0 \<or> length (en_Resolutions e) > 0 \<or> length (en_AspectRatios e) > 0"

definition CancelModeOrDefault :: "Envelope \<Rightarrow> string" where
  "CancelModeOrDefault e = (if en_Cancel e = CancelQueuedOnly \<or> en_Cancel e = CancelAnytime then en_Cancel e else CancelNever)"

text \<open>\<open>mergeInts\<close> and \<open>mergeStrings\<close>: what is new is appended, and the list is sorted.\<close>

definition merge_values :: "'a :: linorder list \<Rightarrow> 'a list \<Rightarrow> 'a list" where
  "merge_values dst src = sort (foldl (\<lambda>dst v. if v \<in> set dst then dst else dst @ [v]) dst src)"

definition widerAudio :: "string \<Rightarrow> string \<Rightarrow> string" where
  "widerAudio a b = (if a = [] then b else if b = [] \<or> a = b then a else AudioOptional)"

definition cancel_rank :: "string \<Rightarrow> int" where
  "cancel_rank c = (if c = CancelQueuedOnly then 1 else if c = CancelAnytime then 2 else 0)"

definition widerCancel :: "string \<Rightarrow> string \<Rightarrow> string" where
  "widerCancel a b = (if cancel_rank b > cancel_rank a then b else if a = [] then CancelNever else a)"

definition union_one :: "Envelope \<Rightarrow> Envelope \<Rightarrow> Envelope" where
  "union_one u e =
     (if \<not> Configured e then u
      else u\<lparr>en_DurationsSeconds := merge_values (en_DurationsSeconds u) (en_DurationsSeconds e),
             en_Resolutions := merge_values (en_Resolutions u) (en_Resolutions e),
             en_AspectRatios := merge_values (en_AspectRatios u) (en_AspectRatios e),
             en_Audio := widerAudio (en_Audio u) (en_Audio e),
             en_Cancel := widerCancel (en_Cancel u) (CancelModeOrDefault e),
             en_SupportsImageToVideo := (en_SupportsImageToVideo u \<or> en_SupportsImageToVideo e),
             en_SupportsLastFrame := (en_SupportsLastFrame u \<or> en_SupportsLastFrame e),
             en_SupportsNegativePrompt := (en_SupportsNegativePrompt u \<or> en_SupportsNegativePrompt e),
             en_MaxReferenceImages := max (en_MaxReferenceImages u) (en_MaxReferenceImages e),
             en_MaxN := max (en_MaxN u) (en_MaxN e),
             en_MaxPromptChars := max (en_MaxPromptChars u) (en_MaxPromptChars e),
             en_MaxJobSeconds := max (en_MaxJobSeconds u) (en_MaxJobSeconds e)\<rparr>)"

definition EnvelopeUnion :: "Envelope list \<Rightarrow> Envelope" where
  "EnvelopeUnion es = foldl union_one no_envelope es"

text \<open>\<open>fmt.Sprint\<close> of an integer.\<close>

definition int_text :: "int \<Rightarrow> string" where
  "int_text n = (if n < 0 then ''-'' @ dec (nat (- n)) else dec (nat n))"

record ErrOutsideEnvelope =
  oe_Field :: string
  oe_Got :: string
  oe_Admissible :: "string list"

definition intsToStrings :: "int list \<Rightarrow> string list" where
  "intsToStrings v = map int_text v"

definition durationAdmissible :: "Envelope \<Rightarrow> string list" where
  "durationAdmissible e = (if length (en_DurationsSeconds e) > 0 then intsToStrings (en_DurationsSeconds e)
     else [''a positive number of seconds''])"

definition outside :: "string \<Rightarrow> string \<Rightarrow> string list \<Rightarrow> ErrOutsideEnvelope option" where
  "outside f got adm = Some \<lparr>oe_Field = f, oe_Got = got, oe_Admissible = adm\<rparr>"

definition max_n :: "Envelope \<Rightarrow> int" where
  "max_n e = (if en_MaxN e = 0 then 1 else en_MaxN e)"

definition Validate :: "Envelope \<Rightarrow> VideoRequest \<Rightarrow> bool \<Rightarrow> ErrOutsideEnvelope option" where
  "Validate e r audioOn =
     (if \<not> Configured e then outside ''model'' (vr_Model r) []
      else if vr_Prompt r = [] \<and> vr_Image r = [] then outside ''prompt'' ''(empty)'' []
      else if vr_NegativePrompt r \<noteq> [] \<and> \<not> en_SupportsNegativePrompt e then outside ''negative_prompt'' ''(set)'' []
      else if en_MaxPromptChars e > 0 \<and> int (length (vr_Prompt r)) > en_MaxPromptChars e
        then outside ''prompt'' (int_text (int (length (vr_Prompt r))) @ '' characters'')
               [''at most '' @ int_text (en_MaxPromptChars e)]
      else if vr_DurationSeconds r \<le> 0
        then outside ''duration_seconds'' (int_text (vr_DurationSeconds r)) (durationAdmissible e)
      else if length (en_DurationsSeconds e) > 0 \<and> vr_DurationSeconds r \<notin> set (en_DurationsSeconds e)
        then outside ''duration_seconds'' (int_text (vr_DurationSeconds r)) (intsToStrings (en_DurationsSeconds e))
      else if vr_Resolution r \<noteq> [] \<and> length (en_Resolutions e) > 0 \<and> vr_Resolution r \<notin> set (en_Resolutions e)
        then outside ''resolution'' (vr_Resolution r) (en_Resolutions e)
      else if vr_AspectRatio r \<noteq> [] \<and> length (en_AspectRatios e) > 0 \<and> vr_AspectRatio r \<notin> set (en_AspectRatios e)
        then outside ''aspect_ratio'' (vr_AspectRatio r) (en_AspectRatios e)
      else if audioOn \<and> en_Audio e = AudioNever then outside ''audio'' ''true'' [''false'']
      else if \<not> audioOn \<and> en_Audio e = AudioAlways then outside ''audio'' ''false'' [''true'']
      else if vr_Image r \<noteq> [] \<and> \<not> en_SupportsImageToVideo e then outside ''image'' ''(set)'' []
      else if vr_LastFrame r \<noteq> [] \<and> \<not> en_SupportsLastFrame e then outside ''last_frame'' ''(set)'' []
      else if int (length (vr_ReferenceImages r)) > en_MaxReferenceImages e
        then outside ''reference_images'' (int_text (int (length (vr_ReferenceImages r))))
               [''at most '' @ int_text (en_MaxReferenceImages e)]
      else case find (\<lambda>ref. ri_Type ref \<noteq> ReferenceAsset \<and> ri_Type ref \<noteq> ReferenceStyle) (vr_ReferenceImages r) of
        Some ref \<Rightarrow> outside ''reference_images.type'' (ri_Type ref) [ReferenceAsset, ReferenceStyle]
      | None \<Rightarrow>
          if vr_N r < 1 \<or> vr_N r > max_n e
          then outside ''n'' (int_text (vr_N r)) [''1 to '' @ int_text (max_n e)]
          else None)"

definition Covers :: "Envelope \<Rightarrow> VideoRequest \<Rightarrow> bool \<Rightarrow> bool" where
  "Covers e r audioOn \<longleftrightarrow> Validate e r audioOn = None"

definition ResolveAudio :: "Envelope \<Rightarrow> VideoRequest \<Rightarrow> bool" where
  "ResolveAudio e r = (case vr_Audio r of Some b \<Rightarrow> b | None \<Rightarrow> en_Audio e = AudioAlways)"

section \<open>Stored envelopes\<close>

fun int_values :: "json list \<Rightarrow> replay_error + int list" where
  "int_values [] = Inr []"
| "int_values (v # vs) =
     bind_result (case v of JNum n \<Rightarrow> (if is_int64 n then Inr n else Inl NotAnObject) | JNull \<Rightarrow> Inr 0 | _ \<Rightarrow> Inl NotAnObject)
       (\<lambda>n. bind_result (int_values vs) (\<lambda>ns. Inr (n # ns)))"

fun string_values :: "json list \<Rightarrow> replay_error + string list" where
  "string_values [] = Inr []"
| "string_values (v # vs) =
     bind_result (case v of JStr s \<Rightarrow> Inr s | JNull \<Rightarrow> Inr [] | _ \<Rightarrow> Inl NotAnObject)
       (\<lambda>s. bind_result (string_values vs) (\<lambda>ss. Inr (s # ss)))"

definition get_values :: "(json list \<Rightarrow> replay_error + 'a list) \<Rightarrow> (string \<times> json) list \<Rightarrow> string \<Rightarrow> replay_error + 'a list" where
  "get_values read fs k =
     (case map_of fs k of None \<Rightarrow> Inr [] | Some JNull \<Rightarrow> Inr [] | Some (JArr vs) \<Rightarrow> read vs | Some _ \<Rightarrow> Inl (BadField k))"

definition ParseEnvelope :: "json option \<Rightarrow> replay_error + Envelope" where
  "ParseEnvelope raw =
     (case raw of
        None \<Rightarrow> Inr no_envelope
      | Some JNull \<Rightarrow> Inr no_envelope
      | Some (JObj fs) \<Rightarrow>
          bind_result (get_values int_values fs ''durations_seconds'') (\<lambda>durations.
          bind_result (get_values string_values fs ''resolutions'') (\<lambda>resolutions.
          bind_result (get_values string_values fs ''aspect_ratios'') (\<lambda>ratios.
          bind_result (get_string fs ''audio'') (\<lambda>audio.
          bind_result (get_number is_int64 fs ''max_n'') (\<lambda>maxN.
          bind_result (get_bool fs ''supports_image_to_video'') (\<lambda>image.
          bind_result (get_bool fs ''supports_last_frame'') (\<lambda>last_frame.
          bind_result (get_number is_int64 fs ''max_reference_images'') (\<lambda>refs.
          bind_result (get_bool fs ''supports_negative_prompt'') (\<lambda>negative.
          bind_result (get_number is_int64 fs ''max_prompt_chars'') (\<lambda>chars.
          bind_result (get_string fs ''cancel'') (\<lambda>cancel.
          bind_result (get_number is_int64 fs ''max_job_seconds'') (\<lambda>job.
          bind_result (get_string fs ''source'') (\<lambda>_.
          Inr \<lparr>en_DurationsSeconds = durations, en_Resolutions = resolutions, en_AspectRatios = ratios, en_Audio = audio,
               en_MaxN = maxN, en_SupportsImageToVideo = image, en_SupportsLastFrame = last_frame,
               en_MaxReferenceImages = refs, en_SupportsNegativePrompt = negative, en_MaxPromptChars = chars,
               en_Cancel = cancel, en_MaxJobSeconds = job\<rparr>)))))))))))))
      | Some _ \<Rightarrow> Inl NotAnObject)"

text \<open>A candidate of a video model carries its stored envelope.\<close>

record VideoRoute = Route +
  r_VideoEnvelope :: "json option"

definition routeEnvelopes :: "VideoRoute list \<Rightarrow> Envelope list" where
  "routeEnvelopes routes = map (\<lambda>rt. case ParseEnvelope (r_VideoEnvelope rt) of Inr e \<Rightarrow> e | Inl _ \<Rightarrow> no_envelope) routes"

definition coveringRoutes :: "VideoRoute list \<Rightarrow> Envelope list \<Rightarrow> VideoRequest \<Rightarrow> bool \<Rightarrow> VideoRoute list" where
  "coveringRoutes routes envelopes r audioOn =
     map fst (filter (\<lambda>(rt, e). Covers e r audioOn) (zip routes envelopes))"

definition routesOfVendor :: "VideoRoute list \<Rightarrow> string \<Rightarrow> VideoRoute list" where
  "routesOfVendor routes vendor = filter (\<lambda>rt. r_ProviderVendor rt = vendor) routes"

definition envelopeJobSeconds :: "Envelope \<Rightarrow> int" where
  "envelopeJobSeconds e = (if en_MaxJobSeconds e > 0 then en_MaxJobSeconds e else 900)"

section \<open>What the union admits\<close>

lemma find_None_all: "find P xs = None \<longleftrightarrow> (\<forall>x \<in> set xs. \<not> P x)"
  by (auto simp: find_None_iff)

definition limits_ok :: "Envelope \<Rightarrow> VideoRequest \<Rightarrow> bool" where
  "limits_ok e r \<longleftrightarrow>
     (en_MaxPromptChars e > 0 \<longrightarrow> int (length (vr_Prompt r)) \<le> en_MaxPromptChars e) \<and> 0 < vr_DurationSeconds r \<and>
     (en_DurationsSeconds e \<noteq> [] \<longrightarrow> vr_DurationSeconds r \<in> set (en_DurationsSeconds e)) \<and>
     (vr_Resolution r \<noteq> [] \<longrightarrow> en_Resolutions e \<noteq> [] \<longrightarrow> vr_Resolution r \<in> set (en_Resolutions e)) \<and>
     (vr_AspectRatio r \<noteq> [] \<longrightarrow> en_AspectRatios e \<noteq> [] \<longrightarrow> vr_AspectRatio r \<in> set (en_AspectRatios e)) \<and>
     int (length (vr_ReferenceImages r)) \<le> en_MaxReferenceImages e \<and> 1 \<le> vr_N r \<and> vr_N r \<le> max_n e"

definition features_ok :: "Envelope \<Rightarrow> VideoRequest \<Rightarrow> bool \<Rightarrow> bool" where
  "features_ok e r audioOn \<longleftrightarrow>
     Configured e \<and> (vr_Prompt r \<noteq> [] \<or> vr_Image r \<noteq> []) \<and> (vr_NegativePrompt r \<noteq> [] \<longrightarrow> en_SupportsNegativePrompt e) \<and>
     (audioOn \<longrightarrow> en_Audio e \<noteq> AudioNever) \<and> (\<not> audioOn \<longrightarrow> en_Audio e \<noteq> AudioAlways) \<and>
     (vr_Image r \<noteq> [] \<longrightarrow> en_SupportsImageToVideo e) \<and> (vr_LastFrame r \<noteq> [] \<longrightarrow> en_SupportsLastFrame e) \<and>
     (\<forall>ref \<in> set (vr_ReferenceImages r). ri_Type ref = ReferenceAsset \<or> ri_Type ref = ReferenceStyle)"

lemma Covers_iff: "Covers e r audioOn \<longleftrightarrow> features_ok e r audioOn \<and> limits_ok e r"
proof (cases "find (\<lambda>ref. ri_Type ref \<noteq> ReferenceAsset \<and> ri_Type ref \<noteq> ReferenceStyle) (vr_ReferenceImages r)")
  case None
  then have "\<forall>ref \<in> set (vr_ReferenceImages r). ri_Type ref = ReferenceAsset \<or> ri_Type ref = ReferenceStyle"
    by (simp add: find_None_all)
  then show ?thesis
    by (simp add: Covers_def Validate_def None outside_def features_ok_def limits_ok_def not_less not_le)
next
  case (Some ref)
  then have "\<not> (\<forall>ref \<in> set (vr_ReferenceImages r). ri_Type ref = ReferenceAsset \<or> ri_Type ref = ReferenceStyle)"
    by (auto simp: find_Some_iff)
  then show ?thesis by (simp add: Covers_def Validate_def Some outside_def features_ok_def)
qed

text \<open>An envelope that claims at least what another one claims.\<close>

definition at_least :: "Envelope \<Rightarrow> Envelope \<Rightarrow> bool" where
  "at_least u e \<longleftrightarrow>
     set (en_DurationsSeconds e) \<subseteq> set (en_DurationsSeconds u) \<and> set (en_Resolutions e) \<subseteq> set (en_Resolutions u) \<and>
     set (en_AspectRatios e) \<subseteq> set (en_AspectRatios u) \<and> (en_Audio u = en_Audio e \<or> en_Audio u = AudioOptional) \<and>
     (en_SupportsImageToVideo e \<longrightarrow> en_SupportsImageToVideo u) \<and> (en_SupportsLastFrame e \<longrightarrow> en_SupportsLastFrame u) \<and>
     (en_SupportsNegativePrompt e \<longrightarrow> en_SupportsNegativePrompt u) \<and>
     en_MaxReferenceImages e \<le> en_MaxReferenceImages u \<and> en_MaxN e \<le> en_MaxN u \<and> 0 \<le> en_MaxN u \<and>
     en_MaxPromptChars e \<le> en_MaxPromptChars u"

text \<open>An envelope that leaves no dimension open.\<close>

definition declares_all :: "Envelope \<Rightarrow> bool" where
  "declares_all e \<longleftrightarrow> en_DurationsSeconds e \<noteq> [] \<and> en_Resolutions e \<noteq> [] \<and> en_AspectRatios e \<noteq> [] \<and>
     en_Audio e \<noteq> [] \<and> 0 < en_MaxPromptChars e"

lemma set_merge_values: "set (merge_values dst src) = set dst \<union> set src"
proof -
  have "set (foldl (\<lambda>dst v. if v \<in> set dst then dst else dst @ [v]) dst src) = set dst \<union> set src"
    by (induction src arbitrary: dst) auto
  then show ?thesis by (simp add: merge_values_def)
qed

lemma at_least_covers:
  assumes "at_least u e" and "declares_all e" and "Covers e r audioOn"
  shows "Covers u r audioOn"
proof -
  have "Configured u" using assms(1,2) by (auto simp: at_least_def declares_all_def Configured_def)
  moreover have "AudioOptional \<noteq> AudioNever" "AudioOptional \<noteq> AudioAlways"
    by (simp_all add: AudioOptional_def AudioNever_def AudioAlways_def)
  ultimately have "features_ok u r audioOn"
    using assms(1,3) unfolding Covers_iff features_ok_def at_least_def by (elim conjE disjE) simp_all
  moreover have "limits_ok u r"
    using assms unfolding Covers_iff limits_ok_def at_least_def declares_all_def max_n_def
    by (elim conjE, intro conjI impI) (auto split: if_splits)
  ultimately show ?thesis by (simp add: Covers_iff)
qed

lemma at_least_union_one: "at_least u e \<Longrightarrow> en_Audio e \<noteq> [] \<Longrightarrow> at_least (union_one u e') e"
  unfolding at_least_def
  by (elim conjE, intro conjI) (auto simp: union_one_def set_merge_values widerAudio_def AudioOptional_def)

lemma at_least_joined: "Configured e \<Longrightarrow> en_Audio e \<noteq> [] \<Longrightarrow> 0 \<le> en_MaxN u \<Longrightarrow> at_least (union_one u e) e"
  by (auto simp: at_least_def union_one_def set_merge_values widerAudio_def)

lemma at_least_fold: "at_least u e \<Longrightarrow> en_Audio e \<noteq> [] \<Longrightarrow> at_least (foldl union_one u es) e"
  by (induction es arbitrary: u) (simp_all add: at_least_union_one)

lemma max_n_fold: "0 \<le> en_MaxN u \<Longrightarrow> 0 \<le> en_MaxN (foldl union_one u es)"
  by (induction es arbitrary: u) (auto simp: union_one_def)

lemma union_at_least:
  assumes "e \<in> set es" and "declares_all e"
  shows "at_least (EnvelopeUnion es) e"
proof -
  obtain before after where es: "es = before @ e # after" using assms(1) by (auto dest: split_list)
  have "Configured e" "en_Audio e \<noteq> []" using assms(2) by (auto simp: declares_all_def Configured_def)
  then show ?thesis
    unfolding EnvelopeUnion_def es
    by (simp add: at_least_fold at_least_joined max_n_fold no_envelope_def)
qed

text \<open>
  The published union refuses nothing a route could serve, as far as routes say what
  they serve. A request covered by a route that declares its durations, resolutions,
  aspect ratios, prompt limit and audio is admitted by the union over any set of routes
  it is in, and that route is among the candidates that remain after narrowing.
\<close>

theorem union_admits_covered:
  assumes "i < length routes" and "e = routeEnvelopes routes ! i" and "declares_all e" and "Covers e r audioOn"
  shows "Validate (EnvelopeUnion (routeEnvelopes routes)) r audioOn = None \<and>
    routes ! i \<in> set (coveringRoutes routes (routeEnvelopes routes) r audioOn)"
proof
  have len: "length (routeEnvelopes routes) = length routes" by (simp add: routeEnvelopes_def)
  then have "e \<in> set (routeEnvelopes routes)" using assms(1,2) by simp
  then have "Covers (EnvelopeUnion (routeEnvelopes routes)) r audioOn"
    by (intro at_least_covers [OF union_at_least _ assms(4)] assms(3))
  then show "Validate (EnvelopeUnion (routeEnvelopes routes)) r audioOn = None" by (simp add: Covers_def)
  have "zip routes (routeEnvelopes routes) ! i = (routes ! i, e)" using assms(1,2) len by simp
  then have "(routes ! i, e) \<in> set (zip routes (routeEnvelopes routes))"
    using assms(1) len by (metis length_zip min.idem nth_mem)
  then show "routes ! i \<in> set (coveringRoutes routes (routeEnvelopes routes) r audioOn)"
    using assms(4) by (force simp: coveringRoutes_def)
qed

definition seconds_envelope :: Envelope where
  "seconds_envelope = no_envelope\<lparr>en_DurationsSeconds := [4, 8], en_Resolutions := [''720p''], en_AspectRatios := [''16:9''],
     en_Audio := AudioOptional, en_MaxPromptChars := 100\<rparr>"

definition seconds_route :: VideoRoute where
  "seconds_route = \<lparr>r_ID = Some 4, r_ProviderID = Some 9, r_ProviderSlug = ''p'', r_ProviderVendor = ''v'', r_BaseURL = ''b'', r_Priority = 1,
     r_Weight = 1, r_ProcurementMultiplierBps = 0, r_ContextWindow = 0, r_MaxOutputTokens = 0, r_MaxImages = 0,
     r_IgnoresMaxOutputTokens = False, r_Capacity = \<lparr>RateLimitRPM = 0, RateLimitTPM = 0, MaxConcurrency = 0\<rparr>,
     r_VideoEnvelope = Some (JObj [(''durations_seconds'', JArr [JNum 4, JNum 8]), (''resolutions'', JArr [JStr ''720p'']),
       (''aspect_ratios'', JArr [JStr ''16:9'']), (''audio'', JStr ''optional''), (''max_prompt_chars'', JNum 100)])\<rparr>"

definition cat_clip :: VideoRequest where
  "cat_clip = no_request\<lparr>vr_Model := ''m'', vr_Prompt := ''a cat'', vr_DurationSeconds := 8, vr_Resolution := ''720p'', vr_N := 1\<rparr>"

lemma seconds_route_envelope: "routeEnvelopes [seconds_route] = [seconds_envelope]"
  by code_simp

lemma cat_clip_covered: "Validate seconds_envelope cat_clip False = None"
  by code_simp

theorem union_admits_covered_witness:
  "Validate (EnvelopeUnion [seconds_envelope]) cat_clip False = None"
proof -
  have "declares_all seconds_envelope" by (simp add: declares_all_def seconds_envelope_def AudioOptional_def)
  moreover have "Covers seconds_envelope cat_clip False" by (simp add: Covers_def cat_clip_covered)
  ultimately show ?thesis
    using union_admits_covered [of 0 "[seconds_route]" seconds_envelope cat_clip False] by (simp add: seconds_route_envelope)
qed

text \<open>
  A route that leaves a dimension open loses its openness in the union. When one
  route lists its durations and another serves any length, a length only the second
  serves is refused before any candidate is looked at, although the second route would
  have covered it.
\<close>

theorem open_route_is_lost_in_union:
  assumes "Covers e r audioOn" and "en_DurationsSeconds e = []"
    and "en_DurationsSeconds listed \<noteq> []" and "vr_DurationSeconds r \<notin> set (en_DurationsSeconds listed)"
  shows "\<not> Covers (EnvelopeUnion [listed, e]) r audioOn \<and> \<not> Covers (EnvelopeUnion [e, listed]) r audioOn"
proof -
  have "Configured listed" "Configured e" using assms(1,3) by (auto simp: Configured_def Covers_iff features_ok_def)
  then have "set (en_DurationsSeconds (EnvelopeUnion [listed, e])) = set (en_DurationsSeconds listed)"
    "set (en_DurationsSeconds (EnvelopeUnion [e, listed])) = set (en_DurationsSeconds listed)"
    using assms(2) by (simp_all add: EnvelopeUnion_def union_one_def set_merge_values no_envelope_def)
  then show ?thesis using assms(3,4) by (fastforce simp: Covers_iff limits_ok_def)
qed

theorem open_route_is_lost_in_union_witness:
  "let e = seconds_envelope\<lparr>en_DurationsSeconds := []\<rparr>; r = cat_clip\<lparr>vr_DurationSeconds := 12\<rparr>
   in Covers e r False \<and> \<not> Covers (EnvelopeUnion [seconds_envelope, e]) r False"
proof -
  have "Covers (seconds_envelope\<lparr>en_DurationsSeconds := []\<rparr>) (cat_clip\<lparr>vr_DurationSeconds := 12\<rparr>) False" by code_simp
  then show ?thesis
    using open_route_is_lost_in_union [of "seconds_envelope\<lparr>en_DurationsSeconds := []\<rparr>" "cat_clip\<lparr>vr_DurationSeconds := 12\<rparr>"
        False seconds_envelope]
    by (simp add: Let_def seconds_envelope_def)
qed

text \<open>
  A video that was admitted is never billed at nothing: the quantity priced for an
  admitted request is at least one in every billing unit, as long as the product of
  length and count fits in 64 bits.
\<close>

theorem admitted_video_bills_positive:
  assumes "Validate e r audioOn = None" and "is_int64 (vr_DurationSeconds r * vr_N r)"
  shows "\<forall>(k, q) \<in> set (BillingUnits (vr_Resolution r) (vr_DurationSeconds r) (vr_N r) audioOn unit). 1 \<le> q"
proof -
  have pos: "1 \<le> vr_DurationSeconds r" "1 \<le> vr_N r"
    using assms(1) by (auto simp: Covers_def [symmetric] Covers_iff limits_ok_def)
  then have "1 \<le> vr_DurationSeconds r * vr_N r" by (metis mult_mono' mult_1 zero_le_one zle_iff_zadd)
  then have "1 \<le> mul64 (vr_DurationSeconds r) (vr_N r)" using assms(2) by (simp add: mul64_def to_int64_id)
  then show ?thesis using pos by (simp add: BillingUnits_def Let_def)
qed

theorem admitted_video_bills_positive_witness:
  "list_all (\<lambda>(k, q). 1 \<le> q) (BillingUnits ''720p'' 8 1 False UnitSecond)"
  using admitted_video_bills_positive [OF cat_clip_covered, of UnitSecond]
  by (simp add: list_all_iff cat_clip_def is_int64_def min_int64_def max_int64_def)

end
