(* ===== verification/Usage.thy ===== *)
theory Usage
  imports Envelope "HOL-Library.AList"
begin

text \<open>
  Reading and rewriting bodies: the usage an upstream reports, normalised into disjoint
  billing buckets (\<open>proxy/protocols.go\<close>, \<open>proxy/usage_wire.go\<close>, \<open>proxy/images.go\<close>), the fields
  admission reads from a request, the estimate that stands in for a missing report
  (\<open>proxy/estimate.go\<close>), and the one rewrite of a request body.

  A body is the JSON value it parses to, or nothing when it does not parse. Its numbers
  are integers; a tool count is read through a \<open>float64\<close> and is taken to be below
  \<open>2^53\<close>. A struct is decoded key by key in the order of the text, keys matched in any
  case of the ASCII letters, a later key over an earlier one. A decoded map is the list
  of its entries.
\<close>

section \<open>Surfaces\<close>

definition SurfaceChat :: string where "SurfaceChat = ''chat_completions''"
definition SurfaceMessages :: string where "SurfaceMessages = ''messages''"
definition SurfaceEmbeddings :: string where "SurfaceEmbeddings = ''embeddings''"
definition SurfaceImages :: string where "SurfaceImages = ''images''"
definition SurfaceImagesEdit :: string where "SurfaceImagesEdit = ''images_edits''"
definition SurfaceResponses :: string where "SurfaceResponses = ''responses''"
definition SurfaceResponsesCompact :: string where "SurfaceResponsesCompact = ''responses_compact''"
definition SurfaceResponsesResources :: string where "SurfaceResponsesResources = ''responses_resources''"
definition SurfaceResponsesInputTokens :: string where "SurfaceResponsesInputTokens = ''responses_input_tokens''"
definition SurfaceMessagesCountTokens :: string where "SurfaceMessagesCountTokens = ''messages_count_tokens''"
definition SurfaceGenerateContent :: string where "SurfaceGenerateContent = ''generate_content''"
definition SurfaceGeminiCountTokens :: string where "SurfaceGeminiCountTokens = ''gemini_count_tokens''"
definition SurfaceGeminiEmbedContent :: string where "SurfaceGeminiEmbedContent = ''gemini_embed_content''"
definition SurfaceGeminiBatchEmbedContents :: string where "SurfaceGeminiBatchEmbedContents = ''gemini_batch_embed_contents''"
definition SurfaceGeminiInteractions :: string where "SurfaceGeminiInteractions = ''gemini_interactions''"
definition SurfaceVideo :: string where "SurfaceVideo = ''video''"

lemmas surface_defs = SurfaceChat_def SurfaceMessages_def SurfaceEmbeddings_def SurfaceImages_def SurfaceImagesEdit_def
  SurfaceResponses_def SurfaceResponsesCompact_def SurfaceResponsesResources_def SurfaceResponsesInputTokens_def
  SurfaceMessagesCountTokens_def SurfaceGenerateContent_def SurfaceGeminiCountTokens_def SurfaceGeminiEmbedContent_def
  SurfaceGeminiBatchEmbedContents_def SurfaceGeminiInteractions_def SurfaceVideo_def

definition isImageSurface :: "string \<Rightarrow> bool" where
  "isImageSurface s \<longleftrightarrow> s = SurfaceImages \<or> s = SurfaceImagesEdit"

section \<open>Decoding\<close>

text \<open>What \<open>encoding/json\<close> does with the fields of a struct; the reader gets each key folded to lower case.\<close>

type_synonym 'r reader = "string \<Rightarrow> json \<Rightarrow> 'r \<Rightarrow> decode_error + 'r"

fun decode_with :: "'r reader \<Rightarrow> (string \<times> json) list \<Rightarrow> 'r \<Rightarrow> decode_error + 'r" where
  "decode_with f [] r = Inr r"
| "decode_with f ((k, v) # fs) r = bind_result (f (ascii_lower k) v r) (decode_with f fs)"

definition decode_body :: "'r reader \<Rightarrow> 'r \<Rightarrow> json option \<Rightarrow> decode_error + 'r" where
  "decode_body f zero doc =
     (case doc of Some (JObj fs) \<Rightarrow> decode_with f fs zero | Some JNull \<Rightarrow> Inr zero | _ \<Rightarrow> Inl InvalidBody)"

fun put_struct :: "'s reader \<Rightarrow> 's \<Rightarrow> json \<Rightarrow> ('s \<Rightarrow> 'r) \<Rightarrow> 'r \<Rightarrow> decode_error + 'r" where
  "put_struct f cur (JObj fs) put r = bind_result (decode_with f fs cur) (\<lambda>s. Inr (put s))"
| "put_struct f cur JNull put r = Inr r"
| "put_struct f cur _ put r = Inl InvalidBody"

fun put_pointer :: "'s reader \<Rightarrow> 's \<Rightarrow> 's option \<Rightarrow> json \<Rightarrow> ('s option \<Rightarrow> 'r) \<Rightarrow> decode_error + 'r" where
  "put_pointer f zero cur (JObj fs) put =
     bind_result (decode_with f fs (case cur of None \<Rightarrow> zero | Some s \<Rightarrow> s)) (\<lambda>s. Inr (put (Some s)))"
| "put_pointer f zero cur JNull put = Inr (put None)"
| "put_pointer f zero cur _ put = Inl InvalidBody"

fun decode_items :: "'s reader \<Rightarrow> 's \<Rightarrow> json list \<Rightarrow> decode_error + 's list" where
  "decode_items f zero [] = Inr []"
| "decode_items f zero (v # vs) =
     bind_result (put_struct f zero v id zero) (\<lambda>s. bind_result (decode_items f zero vs) (\<lambda>ss. Inr (s # ss)))"

fun put_slice :: "'s reader \<Rightarrow> 's \<Rightarrow> json \<Rightarrow> ('s list \<Rightarrow> 'r) \<Rightarrow> decode_error + 'r" where
  "put_slice f zero (JArr vs) put = bind_result (decode_items f zero vs) (\<lambda>ss. Inr (put ss))"
| "put_slice f zero JNull put = Inr (put [])"
| "put_slice f zero _ put = Inl InvalidBody"

definition merge_entries :: "(string \<times> 'v) list \<Rightarrow> (string \<times> 'v) list \<Rightarrow> (string \<times> 'v) list" where
  "merge_entries cur fs = fold (\<lambda>(k, v). AList.update k v) fs cur"

fun put_map :: "(string \<times> json) list \<Rightarrow> json \<Rightarrow> ((string \<times> json) list \<Rightarrow> 'r) \<Rightarrow> decode_error + 'r" where
  "put_map cur (JObj fs) put = Inr (put (merge_entries cur fs))"
| "put_map cur JNull put = Inr (put [])"
| "put_map cur _ put = Inl InvalidBody"

fun put_bool :: "json \<Rightarrow> (bool \<Rightarrow> 'r) \<Rightarrow> 'r \<Rightarrow> decode_error + 'r" where
  "put_bool (JBool b) put r = Inr (put b)"
| "put_bool JNull put r = Inr r"
| "put_bool _ put r = Inl InvalidBody"

section \<open>Usage\<close>

record Usage =
  us_In :: int
  us_Out :: int
  us_CachedRead :: int
  us_CacheWrite :: int
  us_Reasoning :: int
  us_AudioIn :: int
  us_AudioOut :: int
  us_ImageIn :: int
  us_ImageOut :: int
  us_CacheWrite5m :: int
  us_CacheWrite1h :: int
  us_ServiceTier :: string
  us_ToolCalls :: "(string \<times> int) list"
  us_Present :: bool

definition no_usage :: Usage where
  "no_usage = \<lparr>us_In = 0, us_Out = 0, us_CachedRead = 0, us_CacheWrite = 0, us_Reasoning = 0, us_AudioIn = 0, us_AudioOut = 0,
     us_ImageIn = 0, us_ImageOut = 0, us_CacheWrite5m = 0, us_CacheWrite1h = 0, us_ServiceTier = [], us_ToolCalls = [],
     us_Present = False\<rparr>"

definition BillingTokens :: "Usage \<Rightarrow> Tokens" where
  "BillingTokens u = \<lparr>tk_In = us_In u, tk_Out = us_Out u, tk_CachedRead = us_CachedRead u, tk_CacheWrite = us_CacheWrite u,
     tk_AudioIn = us_AudioIn u, tk_AudioOut = us_AudioOut u, tk_ImageIn = us_ImageIn u, tk_ImageOut = us_ImageOut u,
     tk_CacheWrite5m = us_CacheWrite5m u, tk_CacheWrite1h = us_CacheWrite1h u, tk_ServiceTier = us_ServiceTier u,
     tk_ToolCalls = us_ToolCalls u\<rparr>"

definition subsetIn :: "int \<Rightarrow> int \<Rightarrow> int \<Rightarrow> int" where
  "subsetIn parent cached cacheWrite =
     (let sub = add64 cached cacheWrite in if sub > parent then parent else sub64 parent sub)"

definition nonNegative :: "int \<Rightarrow> int" where "nonNegative v = (if v < 0 then 0 else v)"

definition tool_count :: "json \<Rightarrow> int option" where
  "tool_count v =
     (case v of
        JNum n \<Rightarrow> if n > 0 then Some n else None
      | JObj fs \<Rightarrow> (case map_of (rev fs) ''num_requests'' of Some (JNum n) \<Rightarrow> if n > 0 then Some n else None | _ \<Rightarrow> None)
      | _ \<Rightarrow> None)"

definition toolCallCounts :: "(string \<times> json) list \<Rightarrow> (string \<times> int) list" where
  "toolCallCounts raw = List.map_filter (\<lambda>(name, v). map_option (\<lambda>n. (name, n)) (tool_count v)) raw"

subsection \<open>The wire objects\<close>

text \<open>The four breakdown structs; each reader sets the fields its struct has.\<close>

record tokenDetails =
  td_CachedTokens :: int
  td_CacheWriteTokens :: int
  td_AudioTokens :: int
  td_ImageTokens :: int
  td_ReasoningTokens :: int

definition no_details :: tokenDetails where
  "no_details = \<lparr>td_CachedTokens = 0, td_CacheWriteTokens = 0, td_AudioTokens = 0, td_ImageTokens = 0, td_ReasoningTokens = 0\<rparr>"

definition read_input_details :: "bool \<Rightarrow> tokenDetails reader" where
  "read_input_details audio k v d =
     (if k = ''cached_tokens'' then put_int v (\<lambda>n. d\<lparr>td_CachedTokens := n\<rparr>) d
      else if k = ''cache_write_tokens'' then put_int v (\<lambda>n. d\<lparr>td_CacheWriteTokens := n\<rparr>) d
      else if audio \<and> k = ''audio_tokens'' then put_int v (\<lambda>n. d\<lparr>td_AudioTokens := n\<rparr>) d
      else if k = ''image_tokens'' then put_int v (\<lambda>n. d\<lparr>td_ImageTokens := n\<rparr>) d
      else Inr d)"

definition read_output_details :: "bool \<Rightarrow> tokenDetails reader" where
  "read_output_details audio k v d =
     (if k = ''reasoning_tokens'' then put_int v (\<lambda>n. d\<lparr>td_ReasoningTokens := n\<rparr>) d
      else if audio \<and> k = ''audio_tokens'' then put_int v (\<lambda>n. d\<lparr>td_AudioTokens := n\<rparr>) d
      else if k = ''image_tokens'' then put_int v (\<lambda>n. d\<lparr>td_ImageTokens := n\<rparr>) d
      else Inr d)"

record wireUsage =
  wu_InputTokens :: int
  wu_InputTokensDetails :: "tokenDetails option"
  wu_OutputTokens :: int
  wu_OutputTokensDetails :: "tokenDetails option"

definition no_wire :: wireUsage where
  "no_wire = \<lparr>wu_InputTokens = 0, wu_InputTokensDetails = None, wu_OutputTokens = 0, wu_OutputTokensDetails = None\<rparr>"

text \<open>The objects of the two OpenAI surfaces differ in the names of their keys and in the audio counts.\<close>

definition read_responsesUsage :: "wireUsage reader" where
  "read_responsesUsage k v w =
     (if k = ''input_tokens'' then put_int v (\<lambda>n. w\<lparr>wu_InputTokens := n\<rparr>) w
      else if k = ''input_tokens_details'' then
        put_pointer (read_input_details False) no_details (wu_InputTokensDetails w) v (\<lambda>d. w\<lparr>wu_InputTokensDetails := d\<rparr>)
      else if k = ''output_tokens'' then put_int v (\<lambda>n. w\<lparr>wu_OutputTokens := n\<rparr>) w
      else if k = ''output_tokens_details'' then
        put_pointer (read_output_details False) no_details (wu_OutputTokensDetails w) v (\<lambda>d. w\<lparr>wu_OutputTokensDetails := d\<rparr>)
      else Inr w)"

definition read_openAIUsage :: "wireUsage reader" where
  "read_openAIUsage k v w =
     (if k = ''prompt_tokens'' then put_int v (\<lambda>n. w\<lparr>wu_InputTokens := n\<rparr>) w
      else if k = ''completion_tokens'' then put_int v (\<lambda>n. w\<lparr>wu_OutputTokens := n\<rparr>) w
      else if k = ''prompt_tokens_details'' then
        put_pointer (read_input_details True) no_details (wu_InputTokensDetails w) v (\<lambda>d. w\<lparr>wu_InputTokensDetails := d\<rparr>)
      else if k = ''completion_tokens_details'' then
        put_pointer (read_output_details True) no_details (wu_OutputTokensDetails w) v (\<lambda>d. w\<lparr>wu_OutputTokensDetails := d\<rparr>)
      else Inr w)"

definition responsesUsage_usage :: "wireUsage \<Rightarrow> string \<Rightarrow> (string \<times> json) list \<Rightarrow> Usage" where
  "responsesUsage_usage w serviceTier tools =
     (let u = no_usage\<lparr>us_In := wu_InputTokens w, us_Out := wu_OutputTokens w, us_ServiceTier := serviceTier,
                us_ToolCalls := toolCallCounts tools, us_Present := True\<rparr>;
          u = (case wu_InputTokensDetails w of None \<Rightarrow> u | Some d \<Rightarrow>
                 let i = subsetIn (wu_InputTokens w) (td_CachedTokens d) (td_CacheWriteTokens d)
                 in u\<lparr>us_CachedRead := td_CachedTokens d, us_CacheWrite := td_CacheWriteTokens d, us_In := i,
                      us_ImageIn := min (nonNegative (td_ImageTokens d)) i\<rparr>)
      in case wu_OutputTokensDetails w of None \<Rightarrow> u | Some d \<Rightarrow>
           u\<lparr>us_Reasoning := td_ReasoningTokens d, us_ImageOut := min (nonNegative (td_ImageTokens d)) (us_Out u)\<rparr>)"

definition openAIUsage_usage :: "wireUsage \<Rightarrow> string \<Rightarrow> (string \<times> json) list \<Rightarrow> Usage" where
  "openAIUsage_usage w serviceTier tools =
     (let u = no_usage\<lparr>us_In := wu_InputTokens w, us_Out := wu_OutputTokens w, us_ServiceTier := serviceTier,
                us_ToolCalls := toolCallCounts tools, us_Present := True\<rparr>;
          u = (case wu_InputTokensDetails w of None \<Rightarrow> u | Some d \<Rightarrow>
                 let i = subsetIn (wu_InputTokens w) (td_CachedTokens d) (td_CacheWriteTokens d)
                 in u\<lparr>us_CachedRead := td_CachedTokens d, us_CacheWrite := td_CacheWriteTokens d,
                      us_AudioIn := td_AudioTokens d, us_In := i, us_ImageIn := min (nonNegative (td_ImageTokens d)) i\<rparr>)
      in case wu_OutputTokensDetails w of None \<Rightarrow> u | Some d \<Rightarrow>
           u\<lparr>us_Reasoning := td_ReasoningTokens d, us_AudioOut := td_AudioTokens d,
             us_ImageOut := min (nonNegative (td_ImageTokens d)) (us_Out u)\<rparr>)"

record anthropicUsage =
  au_InputTokens :: int
  au_OutputTokens :: int
  au_CacheReadInputTokens :: int
  au_CacheCreationInputTokens :: int
  au_CacheCreation :: "(int \<times> int) option"
  au_ServiceTier :: string
  au_ServerToolUse :: "(string \<times> json) list"

definition no_anthropic :: anthropicUsage where
  "no_anthropic = \<lparr>au_InputTokens = 0, au_OutputTokens = 0, au_CacheReadInputTokens = 0, au_CacheCreationInputTokens = 0,
     au_CacheCreation = None, au_ServiceTier = [], au_ServerToolUse = []\<rparr>"

definition read_ttl :: "(int \<times> int) reader" where
  "read_ttl k v d =
     (if k = ''ephemeral_5m_input_tokens'' then put_int v (\<lambda>n. (n, snd d)) d
      else if k = ''ephemeral_1h_input_tokens'' then put_int v (\<lambda>n. (fst d, n)) d else Inr d)"

definition read_anthropicUsage :: "anthropicUsage reader" where
  "read_anthropicUsage k v w =
     (if k = ''input_tokens'' then put_int v (\<lambda>n. w\<lparr>au_InputTokens := n\<rparr>) w
      else if k = ''output_tokens'' then put_int v (\<lambda>n. w\<lparr>au_OutputTokens := n\<rparr>) w
      else if k = ''cache_read_input_tokens'' then put_int v (\<lambda>n. w\<lparr>au_CacheReadInputTokens := n\<rparr>) w
      else if k = ''cache_creation_input_tokens'' then put_int v (\<lambda>n. w\<lparr>au_CacheCreationInputTokens := n\<rparr>) w
      else if k = ''cache_creation'' then put_pointer read_ttl (0, 0) (au_CacheCreation w) v (\<lambda>d. w\<lparr>au_CacheCreation := d\<rparr>)
      else if k = ''service_tier'' then put_string v (\<lambda>s. w\<lparr>au_ServiceTier := s\<rparr>) w
      else if k = ''server_tool_use'' then put_map (au_ServerToolUse w) v (\<lambda>m. w\<lparr>au_ServerToolUse := m\<rparr>)
      else Inr w)"

definition anthropicUsage_usage :: "anthropicUsage \<Rightarrow> Usage" where
  "anthropicUsage_usage w =
     (let u = no_usage\<lparr>us_In := au_InputTokens w, us_Out := au_OutputTokens w, us_CachedRead := au_CacheReadInputTokens w,
                us_CacheWrite := au_CacheCreationInputTokens w, us_ServiceTier := au_ServiceTier w,
                us_ToolCalls := toolCallCounts (au_ServerToolUse w), us_Present := True\<rparr>
      in case au_CacheCreation w of None \<Rightarrow> u | Some (m5, h1) \<Rightarrow> u\<lparr>us_CacheWrite5m := m5, us_CacheWrite1h := h1\<rparr>)"

subsection \<open>Gemini\<close>

type_synonym modality_counts = "(string \<times> int) list"

record geminiUsageMetadata =
  gm_PromptTokenCount :: int
  gm_TotalTokenCount :: int
  gm_CachedContentTokenCount :: int
  gm_CandidatesTokenCount :: int
  gm_ThoughtsTokenCount :: int
  gm_ToolUsePromptTokenCount :: int
  gm_PromptTokensDetails :: modality_counts
  gm_CandidatesTokensDetails :: modality_counts

definition no_gemini :: geminiUsageMetadata where
  "no_gemini = \<lparr>gm_PromptTokenCount = 0, gm_TotalTokenCount = 0, gm_CachedContentTokenCount = 0, gm_CandidatesTokenCount = 0,
     gm_ThoughtsTokenCount = 0, gm_ToolUsePromptTokenCount = 0, gm_PromptTokensDetails = [], gm_CandidatesTokensDetails = []\<rparr>"

text \<open>An entry of a breakdown; the name of its count differs between the two Gemini objects.\<close>

definition read_modality :: "string \<Rightarrow> (string \<times> int) reader" where
  "read_modality field k v d =
     (if k = ''modality'' then put_string v (\<lambda>s. (s, snd d)) d
      else if k = field then put_int v (\<lambda>n. (fst d, n)) d else Inr d)"

definition read_gemini :: "geminiUsageMetadata reader" where
  "read_gemini k v m =
     (if k = ''prompttokencount'' then put_int v (\<lambda>n. m\<lparr>gm_PromptTokenCount := n\<rparr>) m
      else if k = ''totaltokencount'' then put_int v (\<lambda>n. m\<lparr>gm_TotalTokenCount := n\<rparr>) m
      else if k = ''cachedcontenttokencount'' then put_int v (\<lambda>n. m\<lparr>gm_CachedContentTokenCount := n\<rparr>) m
      else if k = ''candidatestokencount'' then put_int v (\<lambda>n. m\<lparr>gm_CandidatesTokenCount := n\<rparr>) m
      else if k = ''thoughtstokencount'' then put_int v (\<lambda>n. m\<lparr>gm_ThoughtsTokenCount := n\<rparr>) m
      else if k = ''tooluseprompttokencount'' then put_int v (\<lambda>n. m\<lparr>gm_ToolUsePromptTokenCount := n\<rparr>) m
      else if k = ''prompttokensdetails'' then
        put_slice (read_modality ''tokencount'') ([], 0) v (\<lambda>ds. m\<lparr>gm_PromptTokensDetails := ds\<rparr>)
      else if k = ''candidatestokensdetails'' then
        put_slice (read_modality ''tokencount'') ([], 0) v (\<lambda>ds. m\<lparr>gm_CandidatesTokensDetails := ds\<rparr>)
      else Inr m)"

definition modalityTokens :: "modality_counts \<Rightarrow> string \<Rightarrow> int" where
  "modalityTokens details modality =
     foldl (\<lambda>n (m, c). if ascii_lower m = ascii_lower modality then add64 n c else n) 0 details"

definition gemini_usage :: "geminiUsageMetadata \<Rightarrow> Usage" where
  "gemini_usage m =
     (if gm_PromptTokenCount m = 0 \<and> gm_CandidatesTokenCount m = 0 \<and> gm_ThoughtsTokenCount m = 0 \<and>
         gm_ToolUsePromptTokenCount m = 0 \<and> gm_TotalTokenCount m > 0
      then no_usage\<lparr>us_In := subsetIn (gm_TotalTokenCount m) (gm_CachedContentTokenCount m) 0,
             us_CachedRead := gm_CachedContentTokenCount m,
             us_AudioIn := modalityTokens (gm_PromptTokensDetails m) ''AUDIO'',
             us_ImageIn := modalityTokens (gm_PromptTokensDetails m) ''IMAGE'', us_Present := True\<rparr>
      else no_usage\<lparr>us_In := add64 (subsetIn (gm_PromptTokenCount m) (gm_CachedContentTokenCount m) 0) (gm_ToolUsePromptTokenCount m),
             us_CachedRead := gm_CachedContentTokenCount m,
             us_Out := add64 (gm_CandidatesTokenCount m) (gm_ThoughtsTokenCount m),
             us_Reasoning := gm_ThoughtsTokenCount m,
             us_AudioIn := modalityTokens (gm_PromptTokensDetails m) ''AUDIO'',
             us_AudioOut := modalityTokens (gm_CandidatesTokensDetails m) ''AUDIO'',
             us_ImageIn := modalityTokens (gm_PromptTokensDetails m) ''IMAGE'',
             us_ImageOut := modalityTokens (gm_CandidatesTokensDetails m) ''IMAGE'', us_Present := True\<rparr>)"

text \<open>A body holding only a pointer to a usage object, as \<open>parseGeminiUsage\<close> and the messages surface read it.\<close>

definition read_only :: "string \<Rightarrow> 's reader \<Rightarrow> 's \<Rightarrow> 's option reader" where
  "read_only key f zero k v cur = (if k = key then put_pointer f zero cur v id else Inr cur)"

definition parseGeminiUsage :: "json option \<Rightarrow> Usage" where
  "parseGeminiUsage body =
     (case decode_body (read_only ''usagemetadata'' read_gemini no_gemini) None body of
        Inr (Some m) \<Rightarrow> gemini_usage m | _ \<Rightarrow> no_usage)"

definition add_count :: "(string \<times> int) list \<Rightarrow> string \<Rightarrow> int \<Rightarrow> (string \<times> int) list" where
  "add_count calls tool n = AList.update tool (add64 (case map_of calls tool of None \<Rightarrow> 0 | Some c \<Rightarrow> c) n) calls"

definition addUsage :: "Usage \<Rightarrow> Usage \<Rightarrow> Usage" where
  "addUsage a b =
     a\<lparr>us_In := add64 (us_In a) (us_In b), us_Out := add64 (us_Out a) (us_Out b),
       us_CachedRead := add64 (us_CachedRead a) (us_CachedRead b), us_CacheWrite := add64 (us_CacheWrite a) (us_CacheWrite b),
       us_Reasoning := add64 (us_Reasoning a) (us_Reasoning b), us_AudioIn := add64 (us_AudioIn a) (us_AudioIn b),
       us_AudioOut := add64 (us_AudioOut a) (us_AudioOut b), us_ImageIn := add64 (us_ImageIn a) (us_ImageIn b),
       us_CacheWrite5m := add64 (us_CacheWrite5m a) (us_CacheWrite5m b),
       us_CacheWrite1h := add64 (us_CacheWrite1h a) (us_CacheWrite1h b),
       us_Present := (us_Present a \<or> us_Present b),
       us_ServiceTier := (if us_ServiceTier a = [] then us_ServiceTier b
                          else if us_ServiceTier b \<noteq> [] \<and> us_ServiceTier a \<noteq> us_ServiceTier b then []
                          else us_ServiceTier a),
       us_ToolCalls := fold (\<lambda>(tool, n) calls. add_count calls tool n) (us_ToolCalls b) (us_ToolCalls a)\<rparr>"

record batchBody =
  ba_UsageMetadata :: "geminiUsageMetadata option"
  ba_Embeddings :: "geminiUsageMetadata option list"
  ba_Responses :: "geminiUsageMetadata option list"

definition read_batch :: "batchBody reader" where
  "read_batch k v b =
     (if k = ''usagemetadata'' then put_pointer read_gemini no_gemini (ba_UsageMetadata b) v (\<lambda>m. b\<lparr>ba_UsageMetadata := m\<rparr>)
      else if k = ''embeddings'' then
        put_slice (read_only ''usagemetadata'' read_gemini no_gemini) None v (\<lambda>ms. b\<lparr>ba_Embeddings := ms\<rparr>)
      else if k = ''responses'' then
        put_slice (read_only ''usagemetadata'' read_gemini no_gemini) None v (\<lambda>ms. b\<lparr>ba_Responses := ms\<rparr>)
      else Inr b)"

definition add_items :: "Usage \<Rightarrow> geminiUsageMetadata option list \<Rightarrow> Usage" where
  "add_items t items = foldl (\<lambda>t m. case m of None \<Rightarrow> t | Some m \<Rightarrow> addUsage t (gemini_usage m)) t items"

definition parseGeminiBatchUsage :: "json option \<Rightarrow> Usage" where
  "parseGeminiBatchUsage body =
     (case decode_body read_batch \<lparr>ba_UsageMetadata = None, ba_Embeddings = [], ba_Responses = []\<rparr> body of
        Inl _ \<Rightarrow> no_usage
      | Inr b \<Rightarrow> (case ba_UsageMetadata b of
            Some m \<Rightarrow> gemini_usage m
          | None \<Rightarrow> add_items (add_items no_usage (ba_Embeddings b)) (ba_Responses b)))"

record interactionUsage =
  iu_TotalInputTokens :: int
  iu_TotalOutputTokens :: int
  iu_TotalCachedTokens :: int
  iu_TotalThoughtTokens :: int
  iu_TotalToolUseTokens :: int
  iu_InputByModality :: modality_counts
  iu_OutputByModality :: modality_counts
  iu_ToolUseByModality :: modality_counts
  iu_GroundingToolCount :: "(string \<times> int) list"

definition no_interaction :: interactionUsage where
  "no_interaction = \<lparr>iu_TotalInputTokens = 0, iu_TotalOutputTokens = 0, iu_TotalCachedTokens = 0, iu_TotalThoughtTokens = 0,
     iu_TotalToolUseTokens = 0, iu_InputByModality = [], iu_OutputByModality = [], iu_ToolUseByModality = [],
     iu_GroundingToolCount = []\<rparr>"

definition read_tool_entry :: "(string \<times> int) reader" where
  "read_tool_entry k v d =
     (if k = ''type'' then put_string v (\<lambda>s. (s, snd d)) d
      else if k = ''count'' then put_int v (\<lambda>n. (fst d, n)) d else Inr d)"

definition read_interaction :: "interactionUsage reader" where
  "read_interaction k v u =
     (if k = ''total_input_tokens'' then put_int v (\<lambda>n. u\<lparr>iu_TotalInputTokens := n\<rparr>) u
      else if k = ''total_output_tokens'' then put_int v (\<lambda>n. u\<lparr>iu_TotalOutputTokens := n\<rparr>) u
      else if k = ''total_cached_tokens'' then put_int v (\<lambda>n. u\<lparr>iu_TotalCachedTokens := n\<rparr>) u
      else if k = ''total_thought_tokens'' then put_int v (\<lambda>n. u\<lparr>iu_TotalThoughtTokens := n\<rparr>) u
      else if k = ''total_tool_use_tokens'' then put_int v (\<lambda>n. u\<lparr>iu_TotalToolUseTokens := n\<rparr>) u
      else if k = ''input_tokens_by_modality'' then
        put_slice (read_modality ''tokens'') ([], 0) v (\<lambda>ds. u\<lparr>iu_InputByModality := ds\<rparr>)
      else if k = ''output_tokens_by_modality'' then
        put_slice (read_modality ''tokens'') ([], 0) v (\<lambda>ds. u\<lparr>iu_OutputByModality := ds\<rparr>)
      else if k = ''tool_use_tokens_by_modality'' then
        put_slice (read_modality ''tokens'') ([], 0) v (\<lambda>ds. u\<lparr>iu_ToolUseByModality := ds\<rparr>)
      else if k = ''grounding_tool_count'' then
        put_slice read_tool_entry ([], 0) v (\<lambda>ds. u\<lparr>iu_GroundingToolCount := ds\<rparr>)
      else Inr u)"

definition interaction_usage :: "interactionUsage \<Rightarrow> string \<Rightarrow> Usage" where
  "interaction_usage u serviceTier =
     no_usage\<lparr>us_In := add64 (subsetIn (iu_TotalInputTokens u) (iu_TotalCachedTokens u) 0) (iu_TotalToolUseTokens u),
       us_Out := add64 (iu_TotalOutputTokens u) (iu_TotalThoughtTokens u),
       us_CachedRead := iu_TotalCachedTokens u, us_Reasoning := iu_TotalThoughtTokens u,
       us_AudioIn := add64 (modalityTokens (iu_InputByModality u) ''audio'') (modalityTokens (iu_ToolUseByModality u) ''audio''),
       us_AudioOut := modalityTokens (iu_OutputByModality u) ''audio'',
       us_ImageIn := add64 (modalityTokens (iu_InputByModality u) ''image'') (modalityTokens (iu_ToolUseByModality u) ''image''),
       us_ImageOut := modalityTokens (iu_OutputByModality u) ''image'',
       us_ServiceTier := serviceTier,
       us_ToolCalls := foldl (\<lambda>calls (tool, n). if tool \<noteq> [] \<and> n > 0 then add_count calls tool n else calls) []
                         (iu_GroundingToolCount u),
       us_Present := True\<rparr>"

definition parseGeminiInteractionUsage :: "json option \<Rightarrow> Usage" where
  "parseGeminiInteractionUsage body =
     (case decode_body (\<lambda>k v (u, tier). if k = ''usage'' then put_pointer read_interaction no_interaction u v (\<lambda>u. (u, tier))
                          else if k = ''service_tier'' then put_string v (\<lambda>s. (u, s)) (u, tier) else Inr (u, tier))
             (None, []) body of
        Inr (Some u, tier) \<Rightarrow> interaction_usage u tier | _ \<Rightarrow> no_usage)"

subsection \<open>Images\<close>

definition read_image_details :: "int reader" where
  "read_image_details k v d = (if k = ''image_tokens'' then put_int v id d else if k = ''text_tokens'' then put_int v (\<lambda>_. d) d else Inr d)"

definition read_imageUsage :: "(int \<times> int \<times> int option \<times> int option) reader" where
  "read_imageUsage k v w =
     (case w of (i, out, din, dout) \<Rightarrow>
        if k = ''input_tokens'' then put_int v (\<lambda>n. (n, out, din, dout)) w
        else if k = ''output_tokens'' then put_int v (\<lambda>n. (i, n, din, dout)) w
        else if k = ''total_tokens'' then put_int v (\<lambda>n. w) w
        else if k = ''input_tokens_details'' then put_pointer read_image_details 0 din v (\<lambda>d. (i, out, d, dout))
        else if k = ''output_tokens_details'' then put_pointer read_image_details 0 dout v (\<lambda>d. (i, out, din, d))
        else Inr w)"

definition ParseImageUsage :: "json option \<Rightarrow> Usage" where
  "ParseImageUsage body =
     (case decode_body (read_only ''usage'' read_imageUsage (0, 0, None, None)) None body of
        Inr (Some (i, out, din, dout)) \<Rightarrow>
          (let u = no_usage\<lparr>us_In := i, us_Out := out, us_Present := True\<rparr>;
               u = (case din of None \<Rightarrow> u | Some n \<Rightarrow> u\<lparr>us_ImageIn := min (nonNegative n) (us_In u)\<rparr>)
           in case dout of None \<Rightarrow> u | Some n \<Rightarrow> u\<lparr>us_ImageOut := min (nonNegative n) (us_Out u)\<rparr>)
      | _ \<Rightarrow> no_usage)"

definition imageGenerationTool :: string where "imageGenerationTool = ''image_generation''"

definition countGeneratedImages :: "string list \<Rightarrow> int" where
  "countGeneratedImages types = int (length (filter (\<lambda>t. t = imageGenerationTool @ ''_call'') types))"

definition addGeneratedImages :: "Usage \<Rightarrow> int \<Rightarrow> Usage" where
  "addGeneratedImages u images =
     (if images \<le> 0 then u
      else if images > (case map_of (us_ToolCalls u) imageGenerationTool of None \<Rightarrow> 0 | Some n \<Rightarrow> n)
      then u\<lparr>us_ToolCalls := AList.update imageGenerationTool images (us_ToolCalls u)\<rparr> else u)"

subsection \<open>By surface\<close>

record wireBody =
  wb_Usage :: "wireUsage option"
  wb_ServiceTier :: string
  wb_ToolUsage :: "(string \<times> json) list"
  wb_Output :: "string list"

definition no_wireBody :: wireBody where
  "no_wireBody = \<lparr>wb_Usage = None, wb_ServiceTier = [], wb_ToolUsage = [], wb_Output = []\<rparr>"

text \<open>The envelopes of chat and responses; only the latter has output items, read for their type.\<close>

definition read_wireBody :: "wireUsage reader \<Rightarrow> bool \<Rightarrow> wireBody reader" where
  "read_wireBody f output k v b =
     (if k = ''usage'' then put_pointer f no_wire (wb_Usage b) v (\<lambda>w. b\<lparr>wb_Usage := w\<rparr>)
      else if k = ''service_tier'' then put_string v (\<lambda>s. b\<lparr>wb_ServiceTier := s\<rparr>) b
      else if k = ''tool_usage'' then put_map (wb_ToolUsage b) v (\<lambda>m. b\<lparr>wb_ToolUsage := m\<rparr>)
      else if output \<and> k = ''output'' then
        put_slice (\<lambda>k v s. if k = ''type'' then put_string v id s else Inr s) [] v (\<lambda>ts. b\<lparr>wb_Output := ts\<rparr>)
      else Inr b)"

definition ParseUsage :: "string \<Rightarrow> json option \<Rightarrow> Usage" where
  "ParseUsage surface body =
     (if surface = SurfaceVideo then no_usage
      else if surface = SurfaceImages \<or> surface = SurfaceImagesEdit then ParseImageUsage body
      else if surface = SurfaceResponses \<or> surface = SurfaceResponsesCompact then
        (case decode_body (read_wireBody read_responsesUsage True) no_wireBody body of
           Inl _ \<Rightarrow> no_usage
         | Inr r \<Rightarrow>
             (let images = countGeneratedImages (wb_Output r)
              in case wb_Usage r of
                   None \<Rightarrow> if images = 0 then no_usage else addGeneratedImages no_usage images
                 | Some w \<Rightarrow> addGeneratedImages (responsesUsage_usage w (wb_ServiceTier r) (wb_ToolUsage r)) images))
      else if surface = SurfaceGenerateContent \<or> surface = SurfaceGeminiEmbedContent then parseGeminiUsage body
      else if surface = SurfaceGeminiBatchEmbedContents then parseGeminiBatchUsage body
      else if surface = SurfaceGeminiInteractions then parseGeminiInteractionUsage body
      else if surface = SurfaceMessages then
        (case decode_body (read_only ''usage'' read_anthropicUsage no_anthropic) None body of
           Inr (Some w) \<Rightarrow> anthropicUsage_usage w | _ \<Rightarrow> no_usage)
      else
        (case decode_body (read_wireBody read_openAIUsage False) no_wireBody body of
           Inr r \<Rightarrow> (case wb_Usage r of None \<Rightarrow> no_usage | Some w \<Rightarrow> openAIUsage_usage w (wb_ServiceTier r) (wb_ToolUsage r))
         | Inl _ \<Rightarrow> no_usage))"

definition parseUtilityUsage :: "string \<Rightarrow> json option \<Rightarrow> Usage" where
  "parseUtilityUsage surface body =
     (if surface = SurfaceMessagesCountTokens \<or> surface = SurfaceResponsesInputTokens then
        (case decode_body (\<lambda>k v n. if k = ''input_tokens'' then put_int v id n else Inr n) 0 body of
           Inr n \<Rightarrow> no_usage\<lparr>us_In := n, us_Present := True\<rparr> | Inl _ \<Rightarrow> no_usage)
      else if surface = SurfaceGeminiCountTokens then
        (case decode_body (\<lambda>k v (t, c). if k = ''totaltokens'' then put_int v (\<lambda>n. (n, c)) (t, c)
                             else if k = ''cachedcontenttokencount'' then put_int v (\<lambda>n. (t, n)) (t, c) else Inr (t, c)) (0, 0) body of
           Inr (t, c) \<Rightarrow> no_usage\<lparr>us_In := subsetIn t c 0, us_CachedRead := c, us_Present := True\<rparr>
         | Inl _ \<Rightarrow> no_usage)
      else no_usage)"

section \<open>What admission reads from a request\<close>

datatype body_error = BadJSON | MissingModel

definition ModelOf :: "json option \<Rightarrow> body_error + string" where
  "ModelOf body =
     (case decode_body (\<lambda>k v m. if k = ''model'' then put_string v id m else Inr m) [] body of
        Inl _ \<Rightarrow> Inl BadJSON
      | Inr m \<Rightarrow> if m = [] then Inl MissingModel else Inr m)"

text \<open>
  The probes whose error is ignored. A type mismatch makes \<open>encoding/json\<close> skip
  that value and go on; a body that does not parse leaves the zero value.
\<close>

definition skipping :: "'r reader \<Rightarrow> 'r reader" where
  "skipping f k v r = (case f k v r of Inl _ \<Rightarrow> Inr r | Inr r' \<Rightarrow> Inr r')"

definition probe_body :: "'r reader \<Rightarrow> 'r \<Rightarrow> json option \<Rightarrow> 'r" where
  "probe_body f zero body = (case decode_body (skipping f) zero body of Inr r \<Rightarrow> r | Inl _ \<Rightarrow> zero)"

definition StreamOf :: "json option \<Rightarrow> bool" where
  "StreamOf body = probe_body (\<lambda>k v b. if k = ''stream'' then put_bool v id b else Inr b) False body"

record output_caps =
  oc_MaxTokens :: int
  oc_MaxCompletionTokens :: int
  oc_MaxOutputTokens :: int
  oc_GenerationConfig :: int

definition read_caps :: "output_caps reader" where
  "read_caps k v p =
     (if k = ''max_tokens'' then put_int v (\<lambda>n. p\<lparr>oc_MaxTokens := n\<rparr>) p
      else if k = ''max_completion_tokens'' then put_int v (\<lambda>n. p\<lparr>oc_MaxCompletionTokens := n\<rparr>) p
      else if k = ''max_output_tokens'' then put_int v (\<lambda>n. p\<lparr>oc_MaxOutputTokens := n\<rparr>) p
      else if k = ''generationconfig'' then
        put_struct (skipping (\<lambda>k v n. if k = ''maxoutputtokens'' then put_int v id n else Inr n)) (oc_GenerationConfig p) v
          (\<lambda>n. p\<lparr>oc_GenerationConfig := n\<rparr>) p
      else Inr p)"

definition MaxTokensOf :: "json option \<Rightarrow> int" where
  "MaxTokensOf body =
     (let p = probe_body read_caps \<lparr>oc_MaxTokens = 0, oc_MaxCompletionTokens = 0, oc_MaxOutputTokens = 0, oc_GenerationConfig = 0\<rparr> body
      in if oc_GenerationConfig p > 0 then oc_GenerationConfig p
         else if oc_MaxOutputTokens p > 0 then oc_MaxOutputTokens p
         else if oc_MaxCompletionTokens p > 0 then oc_MaxCompletionTokens p
         else oc_MaxTokens p)"

definition ProtocolOpenAI :: string where "ProtocolOpenAI = ''openai''"
definition ProtocolAnthropic :: string where "ProtocolAnthropic = ''anthropic''"
definition ProtocolGemini :: string where "ProtocolGemini = ''gemini''"
definition ProtocolVideo :: string where "ProtocolVideo = ''video''"

definition EndUserOf :: "string \<Rightarrow> json option \<Rightarrow> string" where
  "EndUserOf protocol body =
     (if protocol = ProtocolAnthropic
      then probe_body (\<lambda>k v s. if k = ''metadata''
             then put_struct (skipping (\<lambda>k v s. if k = ''user_id'' then put_string v id s else Inr s)) s v id s else Inr s) [] body
      else probe_body (\<lambda>k v s. if k = ''user'' then put_string v id s else Inr s) [] body)"

section \<open>Estimating\<close>

text \<open>\<open>utf8.RuneCountInString\<close>: the length of the encoding at the head of a byte string, one for an invalid byte.\<close>

definition in_range :: "nat \<Rightarrow> nat \<Rightarrow> string \<Rightarrow> nat \<Rightarrow> bool" where
  "in_range lo hi s i \<longleftrightarrow> i < length s \<and> lo \<le> of_char (s ! i) \<and> of_char (s ! i) \<le> hi"

definition rune_width :: "string \<Rightarrow> nat" where
  "rune_width s =
     (let cont = in_range 128 191 s
      in if in_range 194 223 s 0 \<and> cont 1 then 2
         else if (in_range 224 224 s 0 \<and> in_range 160 191 s 1 \<or> in_range 225 236 s 0 \<and> cont 1 \<or>
                  in_range 237 237 s 0 \<and> in_range 128 159 s 1 \<or> in_range 238 239 s 0 \<and> cont 1) \<and> cont 2 then 3
         else if (in_range 240 240 s 0 \<and> in_range 144 191 s 1 \<or> in_range 241 243 s 0 \<and> cont 1 \<or>
                  in_range 244 244 s 0 \<and> in_range 128 143 s 1) \<and> cont 2 \<and> cont 3 then 4
         else 1)"

lemma rune_width_pos: "0 < rune_width s"
  by (simp add: rune_width_def Let_def)

function rune_count :: "string \<Rightarrow> nat" where
  "rune_count s = (if s = [] then 0 else Suc (rune_count (drop (rune_width s) s)))"
  by auto
termination by (relation "measure length") (auto simp: rune_width_pos)

declare rune_count.simps [simp del]

definition bytesPerToken :: int where "bytesPerToken = 4"
definition runesPerToken :: int where "runesPerToken = 2"

definition EstimateTokens :: "string \<Rightarrow> int" where
  "EstimateTokens s =
     (if s = [] then 0
      else (let n = max (quo (int (length s)) bytesPerToken) (quo (int (rune_count s)) runesPerToken)
            in if n < 1 then 1 else n))"

definition EstimateRequestTokens :: "string \<Rightarrow> int" where
  "EstimateRequestTokens body = EstimateTokens body"

text \<open>The text fields of the items of an array, in order.\<close>

definition read_text :: "string \<Rightarrow> string reader" where
  "read_text key k v s = (if k = key then put_string v id s else Inr s)"

definition read_texts :: "string \<Rightarrow> string \<Rightarrow> string list reader" where
  "read_texts arr key k v ss = (if k = arr then put_slice (read_text key) [] v id else Inr ss)"

definition ResponseTextOf :: "string \<Rightarrow> json option \<Rightarrow> string" where
  "ResponseTextOf surface body =
     (let text = (\<lambda>r. case r of Inl _ \<Rightarrow> [] | Inr ss \<Rightarrow> concat ss)
      in if surface = SurfaceMessages then text (decode_body (read_texts ''content'' ''text'') [] body)
         else if surface = SurfaceGenerateContent then
           text (decode_body (\<lambda>k v ss. if k = ''candidates''
                   then put_slice (\<lambda>k v ts. if k = ''content'' then put_struct (read_texts ''parts'' ''text'') ts v id ts else Inr ts) [] v concat
                   else Inr ss) [] body)
         else if surface = SurfaceResponses then
           text (decode_body (\<lambda>k v ss. if k = ''output'' then put_slice (read_texts ''content'' ''text'') [] v concat else Inr ss) [] body)
         else
           text (decode_body (\<lambda>k v ss. if k = ''choices''
                   then put_slice (\<lambda>k v s. if k = ''message'' then put_struct (read_text ''content'') s v id s else Inr s) [] v id
                   else Inr ss) [] body))"

section \<open>Per-image quantities\<close>

definition imageParamsOf :: "json option \<Rightarrow> string \<times> string" where
  "imageParamsOf body =
     (case decode_body (\<lambda>k v (sz, q). if k = ''size'' then put_string v (\<lambda>s. (s, q)) (sz, q)
                          else if k = ''quality'' then put_string v (\<lambda>s. (sz, s)) (sz, q) else Inr (sz, q)) ([], []) body of
        Inl _ \<Rightarrow> ([], []) | Inr p \<Rightarrow> p)"

text \<open>The items of \<open>data\<close> are decoded into empty structs: an object or null each.\<close>

definition imagesInResponse :: "json option \<Rightarrow> int option" where
  "imagesInResponse body =
     (case decode_body (\<lambda>k v d. if k = ''data''
             then (case v of JNull \<Rightarrow> Inr None
                   | _ \<Rightarrow> put_slice (\<lambda>k v u. Inr u) () v (\<lambda>us. Some (int (length us)))) else Inr d) None body of
        Inl _ \<Rightarrow> None | Inr d \<Rightarrow> d)"

definition imageUnits :: "UnitKey \<Rightarrow> int \<Rightarrow> Units" where
  "imageUnits key images = [(key, if uk_Unit key = UnitImage \<and> images > 1 then images else 1)]"

definition heldRateKey :: "Units \<Rightarrow> UnitKey option" where
  "heldRateKey held = (if length held \<noteq> 1 then None else Some (fst (hd held)))"

definition maxImagesOf :: "Route list \<Rightarrow> int" where
  "maxImagesOf routes = foldl (\<lambda>most r. if r_MaxImages r > most then r_MaxImages r else most) 1 routes"

definition settledUnits :: "Units \<Rightarrow> string \<Rightarrow> json option \<Rightarrow> Units" where
  "settledUnits held surface respBody =
     (if \<not> isImageSurface surface then held
      else case heldRateKey held of
             None \<Rightarrow> held
           | Some key \<Rightarrow> (case imagesInResponse respBody of None \<Rightarrow> held | Some images \<Rightarrow> imageUnits key images))"

section \<open>Rewriting a request\<close>

record Transport =
  tp_Envelope :: string
  tp_AnthropicVersion :: string

definition EnvelopeNone :: string where "EnvelopeNone = []"
definition EnvelopeBedrock :: string where "EnvelopeBedrock = ''bedrock''"
definition EnvelopeVertex :: string where "EnvelopeVertex = ''vertex''"

definition BodyEnvelope :: "Transport \<Rightarrow> string" where
  "BodyEnvelope t = (if tp_Envelope t = EnvelopeBedrock \<or> tp_Envelope t = EnvelopeVertex then tp_Envelope t else EnvelopeNone)"

definition EnvelopeAnthropicVersion :: "Transport \<Rightarrow> string" where
  "EnvelopeAnthropicVersion t =
     (let env = BodyEnvelope t
      in if env = EnvelopeNone then []
         else if tp_AnthropicVersion t \<noteq> [] then tp_AnthropicVersion t
         else if env = EnvelopeBedrock then ''bedrock-2023-05-31'' else ''vertex-2023-10-16'')"

definition geminiPathModelSurface :: "string \<Rightarrow> bool" where
  "geminiPathModelSurface s \<longleftrightarrow> s = SurfaceGenerateContent \<or> s = SurfaceGeminiCountTokens \<or> s = SurfaceGeminiEmbedContent \<or>
     s = SurfaceGeminiBatchEmbedContents"

definition geminiModelName :: "string \<Rightarrow> string" where
  "geminiModelName model = (if take 7 model = ''models/'' then model else ''models/'' @ model)"

fun set_child_model :: "string \<Rightarrow> json \<Rightarrow> json" where
  "set_child_model m (JObj fs) = JObj (AList.update ''model'' (JStr (geminiModelName m)) (merge_entries [] fs))"
| "set_child_model m v = v"

definition applyEnvelope :: "(string \<times> json) list \<Rightarrow> Transport \<Rightarrow> bool \<Rightarrow> (string \<times> json) list" where
  "applyEnvelope doc tp stream =
     (let env = BodyEnvelope tp
      in if env = EnvelopeNone then doc
         else (let doc = AList.update ''anthropic_version'' (JStr (EnvelopeAnthropicVersion tp)) (AList.delete ''model'' doc)
               in if env = EnvelopeBedrock then AList.delete ''stream'' doc else AList.update ''stream'' (JBool stream) doc))"

datatype rewrite_error = InvalidJSON | NilMap

text \<open>A document \<open>null\<close> decodes to the nil map: deleting from it is nothing, writing to it panics.\<close>

definition RewriteRequest :: "string \<Rightarrow> json option \<Rightarrow> string \<Rightarrow> bool \<Rightarrow> Transport \<Rightarrow> rewrite_error + json" where
  "RewriteRequest surface body upstreamModel stream tp =
     (case body of
        Some (JObj fs) \<Rightarrow>
          (let doc = merge_entries [] fs;
               doc = (if \<not> geminiPathModelSurface surface then AList.update ''model'' (JStr upstreamModel) doc
                      else (let doc = AList.delete ''model'' doc
                            in if surface = SurfaceGeminiBatchEmbedContents
                               then (case map_of doc ''requests'' of
                                       Some (JArr rs) \<Rightarrow> AList.update ''requests'' (JArr (map (set_child_model upstreamModel) rs)) doc
                                     | _ \<Rightarrow> doc)
                               else doc));
               doc = (if surface = SurfaceChat \<and> stream
                      then AList.update ''stream_options'' (JObj [(''include_usage'', JBool True)]) doc else doc)
           in Inr (JObj (applyEnvelope doc tp stream)))
      | Some JNull \<Rightarrow> if geminiPathModelSurface surface \<and> BodyEnvelope tp = EnvelopeNone then Inr JNull else Inl NilMap
      | _ \<Rightarrow> Inl InvalidJSON)"

definition AnnotateUsage :: "json option \<Rightarrow> bool \<Rightarrow> int \<Rightarrow> string \<Rightarrow> json option" where
  "AnnotateUsage body estimated costNano currency =
     (case body of
        Some (JObj fs) \<Rightarrow>
          (let doc = merge_entries [] fs
           in case map_of doc ''usage'' of
                Some (JObj us) \<Rightarrow>
                  Some (JObj (AList.update ''usage'' (JObj (AList.update ''fairlb''
                    (JObj [(''estimated'', JBool estimated), (''cost'', JStr (FormatNanoExact costNano)), (''currency'', JStr currency)])
                    (merge_entries [] us))) doc))
              | _ \<Rightarrow> body)
      | _ \<Rightarrow> body)"

section \<open>The dialects agree\<close>

text \<open>One answer in the spelling of each protocol: \<open>p\<close> uncached, \<open>r\<close> read from and \<open>w\<close> written to the cache, \<open>out\<close> produced.\<close>

definition chat_answer :: "int \<Rightarrow> int \<Rightarrow> int \<Rightarrow> int \<Rightarrow> json" where
  "chat_answer p r w out = JObj [(''usage'', JObj [(''prompt_tokens'', JNum (p + r + w)), (''completion_tokens'', JNum out),
     (''prompt_tokens_details'', JObj [(''cached_tokens'', JNum r), (''cache_write_tokens'', JNum w)])])]"

definition responses_answer :: "int \<Rightarrow> int \<Rightarrow> int \<Rightarrow> int \<Rightarrow> json" where
  "responses_answer p r w out = JObj [(''usage'', JObj [(''input_tokens'', JNum (p + r + w)),
     (''input_tokens_details'', JObj [(''cached_tokens'', JNum r), (''cache_write_tokens'', JNum w)]), (''output_tokens'', JNum out)])]"

definition messages_answer :: "int \<Rightarrow> int \<Rightarrow> int \<Rightarrow> int \<Rightarrow> json" where
  "messages_answer p r w out = JObj [(''usage'', JObj [(''input_tokens'', JNum p), (''cache_read_input_tokens'', JNum r),
     (''cache_creation_input_tokens'', JNum w), (''output_tokens'', JNum out)])]"

definition gemini_answer :: "int \<Rightarrow> int \<Rightarrow> int \<Rightarrow> json" where
  "gemini_answer p r out = JObj [(''usageMetadata'', JObj [(''promptTokenCount'', JNum (p + r)),
     (''cachedContentTokenCount'', JNum r), (''candidatesTokenCount'', JNum out)])]"

definition interactions_answer :: "int \<Rightarrow> int \<Rightarrow> int \<Rightarrow> json" where
  "interactions_answer p r out = JObj [(''usage'', JObj [(''total_input_tokens'', JNum (p + r)),
     (''total_cached_tokens'', JNum r), (''total_output_tokens'', JNum out)])]"

lemmas answer_defs = chat_answer_def responses_answer_def messages_answer_def gemini_answer_def interactions_answer_def

lemmas reader_defs = decode_body_def read_wireBody_def read_only_def read_openAIUsage_def read_responsesUsage_def
  read_input_details_def read_output_details_def read_anthropicUsage_def read_gemini_def read_interaction_def
  no_wireBody_def no_wire_def no_details_def no_anthropic_def no_gemini_def no_interaction_def

lemma lower_keys:
  "ascii_lower ''usageMetadata'' = ''usagemetadata''" "ascii_lower ''promptTokenCount'' = ''prompttokencount''"
  "ascii_lower ''cachedContentTokenCount'' = ''cachedcontenttokencount''"
  "ascii_lower ''candidatesTokenCount'' = ''candidatestokencount''"
  by code_simp+

lemma subsetIn_split:
  assumes "0 \<le> p" "0 \<le> r" "0 \<le> w" "p + r + w \<le> maxSaneTokens"
  shows "subsetIn (p + r + w) r w = p"
proof -
  have "is_int64 (r + w)" and "is_int64 p" using assms by (simp_all add: is_int64_def maxSaneTokens_def)
  then show ?thesis using assms by (simp add: subsetIn_def add64_id sub64_def to_int64_id)
qed



section \<open>A cached audio prompt cannot be priced\<close>

text \<open>
  A consistent report that cannot be billed. On the chat surface the audio tokens
  are a part of the whole prompt, cached part included, but they are checked against
  the uncached part alone, and unlike the image tokens they are not clamped to it. So a
  prompt whose audio is mostly cached, every count of it consistent, fails to price
  under any price table and any rates, on the gateway's credential and on the organization's.
\<close>

theorem cached_audio_cannot_be_priced:
  assumes "wu_InputTokens w = prompt" and "wu_InputTokensDetails w = Some d"
    and "0 \<le> td_CachedTokens d" and "0 \<le> td_CacheWriteTokens d" and "td_CachedTokens d + td_CacheWriteTokens d \<le> prompt"
    and "td_AudioTokens d \<le> prompt" and "prompt < td_AudioTokens d + td_CachedTokens d + td_CacheWriteTokens d"
    and "prompt \<le> maxSaneTokens"
  shows "(\<exists>e. Compute list cost (BillingTokens (openAIUsage_usage w tier tools)) rates = Inl e \<and> e \<noteq> ErrAdvancedPriceMissing m) \<and>
    (\<exists>e. ComputeBYOK list (BillingTokens (openAIUsage_usage w tier tools)) fee rates = Inl e \<and> e \<noteq> ErrAdvancedPriceMissing m)"
proof -
  let ?t = "BillingTokens (openAIUsage_usage w tier tools)"
  have "subsetIn prompt (td_CachedTokens d) (td_CacheWriteTokens d) = prompt - td_CachedTokens d - td_CacheWriteTokens d"
    using subsetIn_split [of "prompt - td_CachedTokens d - td_CacheWriteTokens d" "td_CachedTokens d" "td_CacheWriteTokens d"] assms(3-5,8)
    by simp
  then have "tk_In ?t < tk_AudioIn ?t"
    using assms(1,2,7) by (simp add: BillingTokens_def openAIUsage_usage_def no_usage_def Let_def split: option.split)
  moreover have "\<exists>v. check_plausible vs = Inl (TokenCountImplausible v)" if "check_plausible vs \<noteq> Inr ()" for vs
    using that by (induction vs) auto
  ultimately have "\<exists>e. ValidateTokens ?t = Inl e \<and> e \<noteq> ErrAdvancedPriceMissing m"
    unfolding ValidateTokens_def
    by (cases "check_plausible [tk_In ?t, tk_Out ?t, tk_CachedRead ?t, tk_CacheWrite ?t, tk_AudioIn ?t, tk_AudioOut ?t, tk_ImageIn ?t,
          tk_CacheWrite5m ?t, tk_CacheWrite1h ?t]") (auto simp: guard_result_def, metis Inl_inject Inl_not_Inr pricing_error.distinct)
  then show ?thesis by (auto simp: Compute_def ComputeBYOK_def)
qed

definition spoken_prompt :: wireUsage where
  "spoken_prompt = no_wire\<lparr>wu_InputTokens := 100, wu_OutputTokens := 10,
     wu_InputTokensDetails := Some (no_details\<lparr>td_CachedTokens := 80, td_AudioTokens := 50\<rparr>)\<rparr>"

theorem cached_audio_cannot_be_priced_witness:
  "\<exists>e. Compute (Flat sample_price) (Flat sample_price) (BillingTokens (openAIUsage_usage spoken_prompt [] [])) sample_rates = Inl e \<and>
     e \<noteq> ErrAdvancedPriceMissing []"
  using cached_audio_cannot_be_priced [of spoken_prompt 100 "no_details\<lparr>td_CachedTokens := 80, td_AudioTokens := 50\<rparr>"
      "Flat sample_price" "Flat sample_price" "[]" "[]" sample_rates "[]" 0]
  by (simp add: spoken_prompt_def no_details_def no_wire_def maxSaneTokens_def)

section \<open>Counting images\<close>

text \<open>
  A per-image model is charged for what came back. Whatever number of images was held
  for, the request is settled on the rate row it was admitted on, with the number of
  images the response carries, even above the held number; a per-call model is charged
  one call; and a response whose images cannot be counted is charged what was held. An
  empty list of images, though, is charged as one image.
\<close>

theorem images_charged_as_returned:
  assumes "isImageSurface surface"
  shows "settledUnits (imageUnits key held) surface (Some (JObj [(''data'', JArr (replicate n (JObj fs)))])) =
      [(key, if uk_Unit key = UnitImage then max 1 (int n) else 1)] \<and>
    settledUnits (imageUnits key held) surface None = imageUnits key held \<and>
    settledUnits (imageUnits key held) surface (Some (JObj [(''error'', v)])) = imageUnits key held"
proof -
  have "decode_with (\<lambda>k v u. Inr u) fs () = Inr ()" by (induction fs) auto
  then have "decode_items (\<lambda>k v u. Inr u) () (replicate n (JObj fs)) = Inr (replicate n ())"
    by (induction n) auto
  then show ?thesis using assms
    by (simp add: settledUnits_def heldRateKey_def imageUnits_def imagesInResponse_def decode_body_def ascii_lower_def)
qed

definition flat_image :: UnitKey where
  "flat_image = \<lparr>uk_Unit = UnitImage, uk_Resolution = [], uk_Audio = [], uk_Variant = [], uk_ServiceTier = []\<rparr>"

theorem images_charged_as_returned_witness:
  "settledUnits (imageUnits flat_image 4)
     SurfaceImages (Some (JObj [(''data'', JArr (replicate 15 (JObj [])))])) =
     [(flat_image, 15)]"
proof -
  have "isImageSurface SurfaceImages" by (simp add: isImageSurface_def)
  from images_charged_as_returned [OF this, of "flat_image"
      4 15 "[]" JNull]
  show ?thesis by (simp add: flat_image_def)
qed

section \<open>The estimate\<close>

lemma rune_count_le: "rune_count s \<le> length s"
proof (induction s rule: rune_count.induct)
  case (1 s)
  show ?case
  proof (cases "s = []")
    case False
    then have "rune_count s = Suc (rune_count (drop (rune_width s) s))" by (simp add: rune_count.simps [of s])
    also have "\<dots> \<le> Suc (length s - rune_width s)" using 1 False by simp
    also have "\<dots> \<le> length s" using rune_width_pos [of s] False by (cases s) simp_all
    finally show ?thesis .
  qed (simp add: rune_count.simps)
qed

text \<open>
  The estimate that stands in for a missing report. It is zero for no text only,
  at least a quarter of the bytes, and at most half of them (or one): a request body or
  an answer can be mispriced by at most that band.
\<close>

theorem estimate_bounds:
  "(EstimateTokens s = 0 \<longleftrightarrow> s = []) \<and> int (length s) div 4 \<le> EstimateTokens s \<and>
   EstimateTokens s \<le> max 1 (int (length s) div 2)"
proof (cases "s = []")
  case False
  have "int (rune_count s) div 2 \<le> int (length s) div 2" using rune_count_le [of s] by (simp add: zdiv_mono1)
  moreover have "int (length s) div 4 \<le> int (length s) div 2" by simp
  moreover have "quo (int (length s)) 4 = int (length s) div 4" and "quo (int (rune_count s)) 2 = int (rune_count s) div 2"
    by (simp_all add: quo_nonneg)
  ultimately show ?thesis using False
    by (auto simp: EstimateTokens_def bytesPerToken_def runesPerToken_def Let_def)
qed (simp add: EstimateTokens_def)

section \<open>The body passes through\<close>

lemma map_of_merge_entries: "map_of (merge_entries cur fs) = map_of cur ++ map_of (rev fs)"
proof (induction fs arbitrary: cur)
  case (Cons e fs)
  obtain k v where e: "e = (k, v)" by (cases e)
  show ?case using Cons [of "AList.update k v cur"]
    by (simp add: e merge_entries_def update_conv' map_add_upd_left fun_upd_def)
       (auto simp: map_add_def fun_eq_iff split: option.split)
qed (simp add: merge_entries_def)

lemma map_of_applyEnvelope:
  "map_of (applyEnvelope doc tp stream) k =
     (if BodyEnvelope tp = EnvelopeNone then map_of doc k
      else if k = ''anthropic_version'' then Some (JStr (EnvelopeAnthropicVersion tp))
      else if k = ''model'' then None
      else if k = ''stream'' then (if BodyEnvelope tp = EnvelopeBedrock then None else Some (JBool stream))
      else map_of doc k)"
  by (auto simp: applyEnvelope_def update_conv' delete_conv' Let_def)

text \<open>
  The caller's body reaches the upstream as written. Whatever fields a request
  carries, known to the gateway or not, each keeps its value (a repeated key its last).
  What may differ is named: the model becomes the upstream's name, or leaves the body
  where the protocol puts it in the address; a streamed chat asks for its usage; the
  children of a batch repeat the model; and a hosted platform's envelope moves the
  version in and fixes the stream flag. A body that parses to an object is never refused.
\<close>

theorem rewrite_passes_through:
  "\<exists>out. RewriteRequest surface (Some (JObj fs)) m stream tp = Inr (JObj out) \<and>
    (\<forall>k. k \<notin> {''model'', ''stream_options'', ''stream'', ''anthropic_version'', ''requests''} \<longrightarrow> map_of out k = map_of (rev fs) k) \<and>
    map_of out ''model'' = (if geminiPathModelSurface surface \<or> BodyEnvelope tp \<noteq> EnvelopeNone then None else Some (JStr m)) \<and>
    map_of out ''stream_options'' = (if surface = SurfaceChat \<and> stream then Some (JObj [(''include_usage'', JBool True)])
       else map_of (rev fs) ''stream_options'') \<and>
    (BodyEnvelope tp = EnvelopeNone \<longrightarrow> map_of out ''stream'' = map_of (rev fs) ''stream'' \<and>
       map_of out ''anthropic_version'' = map_of (rev fs) ''anthropic_version'') \<and>
    (surface \<noteq> SurfaceGeminiBatchEmbedContents \<longrightarrow> map_of out ''requests'' = map_of (rev fs) ''requests'')"
  by (auto simp: RewriteRequest_def map_of_applyEnvelope update_conv' delete_conv' map_of_merge_entries Let_def
      geminiPathModelSurface_def surface_defs split: option.split json.split)

theorem rewrite_passes_through_witness:
  "\<exists>out. RewriteRequest SurfaceChat (Some (JObj [(''seed'', JNum 7), (''model'', JStr ''a'')])) ''b'' True
      \<lparr>tp_Envelope = [], tp_AnthropicVersion = []\<rparr> = Inr (JObj out) \<and>
    map_of out ''seed'' = Some (JNum 7) \<and> map_of out ''model'' = Some (JStr ''b'')"
proof -
  obtain out where "RewriteRequest SurfaceChat (Some (JObj [(''seed'', JNum 7), (''model'', JStr ''a'')])) ''b'' True
      \<lparr>tp_Envelope = [], tp_AnthropicVersion = []\<rparr> = Inr (JObj out)"
    "\<forall>k. k \<notin> {''model'', ''stream_options'', ''stream'', ''anthropic_version'', ''requests''} \<longrightarrow>
       map_of out k = map_of (rev [(''seed'', JNum 7), (''model'', JStr ''a'')]) k"
    "map_of out ''model'' = (if geminiPathModelSurface SurfaceChat \<or> BodyEnvelope \<lparr>tp_Envelope = [], tp_AnthropicVersion = []\<rparr> \<noteq> EnvelopeNone
       then None else Some (JStr ''b''))"
    using rewrite_passes_through [of SurfaceChat "[(''seed'', JNum 7), (''model'', JStr ''a'')]" "''b''" True
        "\<lparr>tp_Envelope = [], tp_AnthropicVersion = []\<rparr>"] by blast
  then show ?thesis
    by (auto simp: geminiPathModelSurface_def surface_defs BodyEnvelope_def EnvelopeNone_def EnvelopeBedrock_def EnvelopeVertex_def)
qed

section \<open>Every count fits its type\<close>

definition yields :: "('r \<Rightarrow> bool) \<Rightarrow> 'e + 'r \<Rightarrow> bool" where
  "yields P x \<longleftrightarrow> (case x of Inl _ \<Rightarrow> True | Inr r \<Rightarrow> P r)"

definition keeps :: "('r \<Rightarrow> bool) \<Rightarrow> 'r reader \<Rightarrow> bool" where
  "keeps P f \<longleftrightarrow> (\<forall>k v r. P r \<longrightarrow> yields P (f k v r))"

lemma yields_Inr [simp]: "yields P (Inr r) = P r" "yields P (Inl e)"
  by (simp_all add: yields_def)

lemma yields_if: "yields P a \<Longrightarrow> yields P b \<Longrightarrow> yields P (if c then a else b)"
  by simp

lemma yields_bind: "yields Q m \<Longrightarrow> (\<And>a. Q a \<Longrightarrow> yields P (f a)) \<Longrightarrow> yields P (bind_result m f)"
  by (cases m) auto

lemma yields_decode_with: "keeps P f \<Longrightarrow> P r \<Longrightarrow> yields P (decode_with f fs r)"
proof (induction fs arbitrary: r)
  case (Cons e fs)
  obtain k v where "e = (k, v)" by (cases e)
  then show ?case using Cons by (auto simp: keeps_def intro!: yields_bind [where Q = P])
qed simp

lemma yields_decode_body: "keeps P f \<Longrightarrow> P zero \<Longrightarrow> yields P (decode_body f zero doc)"
  by (auto simp: decode_body_def yields_decode_with split: option.split json.split)

lemma yields_int: "P r \<Longrightarrow> (\<And>n. is_int64 n \<Longrightarrow> P (f n)) \<Longrightarrow> yields P (put_int v f r)"
  by (cases v) auto

lemma yields_string: "P r \<Longrightarrow> (\<And>s. P (f s)) \<Longrightarrow> yields P (put_string v f r)"
  by (cases v) auto

lemma yields_map: "(\<And>m. P (f m)) \<Longrightarrow> yields P (put_map cur v f)"
  by (cases v) auto

lemma yields_pointer:
  "keeps Q g \<Longrightarrow> Q zero \<Longrightarrow> pred_option Q cur \<Longrightarrow> (\<And>d. pred_option Q d \<Longrightarrow> P (f d)) \<Longrightarrow> yields P (put_pointer g zero cur v f)"
  by (cases v; cases cur) (auto intro!: yields_bind [OF yields_decode_with])

lemma yields_items: "keeps Q g \<Longrightarrow> Q zero \<Longrightarrow> yields (list_all Q) (decode_items g zero vs)"
proof (induction vs)
  case (Cons v vs)
  have "yields Q (put_struct g zero v id zero)"
    using Cons.prems by (cases v) (auto intro!: yields_bind [OF yields_decode_with])
  then show ?case using Cons by (auto intro!: yields_bind)
qed simp

lemma yields_slice: "keeps Q g \<Longrightarrow> Q zero \<Longrightarrow> (\<And>ds. list_all Q ds \<Longrightarrow> P (f ds)) \<Longrightarrow> yields P (put_slice g zero v f)"
  by (cases v) (auto intro!: yields_bind [OF yields_items])

lemmas yields_rules = yields_if yields_int yields_string yields_map

definition details_ok :: "tokenDetails \<Rightarrow> bool" where
  "details_ok d \<longleftrightarrow> list_all is_int64 [td_CachedTokens d, td_CacheWriteTokens d, td_AudioTokens d, td_ImageTokens d, td_ReasoningTokens d]"

definition wire_ok :: "wireUsage \<Rightarrow> bool" where
  "wire_ok w \<longleftrightarrow> is_int64 (wu_InputTokens w) \<and> is_int64 (wu_OutputTokens w) \<and>
     pred_option details_ok (wu_InputTokensDetails w) \<and> pred_option details_ok (wu_OutputTokensDetails w)"

definition anthropic_ok :: "anthropicUsage \<Rightarrow> bool" where
  "anthropic_ok w \<longleftrightarrow> list_all is_int64 [au_InputTokens w, au_OutputTokens w, au_CacheReadInputTokens w, au_CacheCreationInputTokens w] \<and>
     pred_option (pred_prod is_int64 is_int64) (au_CacheCreation w)"

definition gemini_ok :: "geminiUsageMetadata \<Rightarrow> bool" where
  "gemini_ok m \<longleftrightarrow> list_all is_int64 [gm_PromptTokenCount m, gm_TotalTokenCount m, gm_CachedContentTokenCount m,
     gm_CandidatesTokenCount m, gm_ThoughtsTokenCount m, gm_ToolUsePromptTokenCount m]"

definition interaction_ok :: "interactionUsage \<Rightarrow> bool" where
  "interaction_ok u \<longleftrightarrow> list_all is_int64 [iu_TotalInputTokens u, iu_TotalOutputTokens u, iu_TotalCachedTokens u,
     iu_TotalThoughtTokens u, iu_TotalToolUseTokens u]"

definition usage_int64 :: "Usage \<Rightarrow> bool" where
  "usage_int64 u \<longleftrightarrow> list_all is_int64 [us_In u, us_Out u, us_CachedRead u, us_CacheWrite u, us_Reasoning u, us_AudioIn u,
     us_AudioOut u, us_ImageIn u, us_ImageOut u, us_CacheWrite5m u, us_CacheWrite1h u]"

lemmas ok_defs = details_ok_def wire_ok_def anthropic_ok_def gemini_ok_def interaction_ok_def usage_int64_def

lemma is_int64_zero [simp]: "is_int64 0" by (simp add: is_int64_def)

lemma zero_ok [simp]: "details_ok no_details" "wire_ok no_wire" "anthropic_ok no_anthropic" "gemini_ok no_gemini"
  "interaction_ok no_interaction" "usage_int64 no_usage"
  by (simp_all add: ok_defs no_details_def no_wire_def no_anthropic_def no_gemini_def no_interaction_def no_usage_def)

lemma keeps_details [simp]: "keeps details_ok (read_input_details a)" "keeps details_ok (read_output_details a)"
  unfolding keeps_def read_input_details_def read_output_details_def
  by (intro allI impI yields_rules; simp add: details_ok_def)+

lemma keeps_wire [simp]: "keeps wire_ok read_responsesUsage" "keeps wire_ok read_openAIUsage"
  unfolding keeps_def read_responsesUsage_def read_openAIUsage_def
  by (intro allI impI yields_rules yields_pointer [where Q = details_ok]; simp add: wire_ok_def)+

lemma keeps_ttl: "keeps (pred_prod is_int64 is_int64) read_ttl"
  unfolding keeps_def read_ttl_def by (intro allI impI yields_rules; simp add: pred_prod_beta)

lemma keeps_anthropic [simp]: "keeps anthropic_ok read_anthropicUsage"
  unfolding keeps_def read_anthropicUsage_def
  by (intro allI impI yields_rules yields_pointer [OF keeps_ttl]; simp add: anthropic_ok_def)

lemma keeps_True [simp]: "keeps (\<lambda>_. True) f"
  by (simp add: keeps_def yields_def split: sum.split)

lemma keeps_gemini [simp]: "keeps gemini_ok read_gemini"
  unfolding keeps_def read_gemini_def
  by (intro allI impI yields_rules yields_slice [where Q = "\<lambda>_. True"]; simp add: gemini_ok_def)

lemma keeps_interaction [simp]: "keeps interaction_ok read_interaction"
  unfolding keeps_def read_interaction_def
  by (intro allI impI yields_rules yields_slice [where Q = "\<lambda>_. True"]; simp add: interaction_ok_def)

lemma subsetIn_int64 [simp]: "is_int64 a \<Longrightarrow> is_int64 (subsetIn a b c)"
  by (simp add: subsetIn_def sub64_def Let_def)

lemma add64_int64 [simp]: "is_int64 (add64 a b)"
  by (simp add: add64_def)

lemma modalityTokens_int64 [simp]: "is_int64 (modalityTokens ds m)"
proof -
  have "is_int64 n \<Longrightarrow> is_int64 (foldl (\<lambda>n (m', c). if ascii_lower m' = ascii_lower m then add64 n c else n) n ds)" for n
    by (induction ds arbitrary: n) (auto split: prod.split)
  then show ?thesis by (simp add: modalityTokens_def)
qed

lemma clamp_int64: "is_int64 a \<Longrightarrow> is_int64 b \<Longrightarrow> is_int64 (min (nonNegative a) b)"
  by (simp add: nonNegative_def min_def)

lemma wire_usage_int64: "wire_ok w \<Longrightarrow> usage_int64 (openAIUsage_usage w tier tools)" "wire_ok w \<Longrightarrow> usage_int64 (responsesUsage_usage w tier tools)"
  by (cases "wu_InputTokensDetails w"; cases "wu_OutputTokensDetails w";
      simp add: ok_defs openAIUsage_usage_def responsesUsage_usage_def no_usage_def clamp_int64 Let_def)+

lemma anthropic_usage_int64: "anthropic_ok w \<Longrightarrow> usage_int64 (anthropicUsage_usage w)"
  by (auto simp: ok_defs anthropicUsage_usage_def no_usage_def Let_def split: option.split)

lemma gemini_usage_int64: "gemini_ok m \<Longrightarrow> usage_int64 (gemini_usage m)"
  by (simp add: ok_defs gemini_usage_def no_usage_def)

lemma interaction_usage_int64: "interaction_ok u \<Longrightarrow> usage_int64 (interaction_usage u tier)"
  by (simp add: ok_defs interaction_usage_def no_usage_def)

lemma images_usage_int64: "usage_int64 u \<Longrightarrow> usage_int64 (addGeneratedImages u n)"
  by (simp add: addGeneratedImages_def usage_int64_def)

lemma addUsage_int64: "usage_int64 a \<Longrightarrow> usage_int64 (addUsage a b)"
  by (simp add: usage_int64_def addUsage_def)

lemma add_items_int64: "usage_int64 u \<Longrightarrow> list_all (pred_option gemini_ok) ms \<Longrightarrow> usage_int64 (add_items u ms)"
proof (induction ms arbitrary: u)
  case (Cons m ms)
  have "usage_int64 (case m of None \<Rightarrow> u | Some m \<Rightarrow> addUsage u (gemini_usage m))"
    using Cons.prems(1) by (simp add: addUsage_int64 split: option.split)
  from Cons.IH [OF this] Cons.prems(2) show ?case by (simp add: add_items_def)
qed (simp add: add_items_def)

lemma keeps_only: "keeps Q f \<Longrightarrow> Q zero \<Longrightarrow> keeps (pred_option Q) (read_only key f zero)"
  unfolding keeps_def [of "pred_option Q"] read_only_def
  by (intro allI impI yields_if yields_pointer [where Q = Q]) simp_all

lemma keeps_wireBody: "keeps wire_ok f \<Longrightarrow> keeps (\<lambda>b. pred_option wire_ok (wb_Usage b)) (read_wireBody f output)"
  unfolding keeps_def [of "\<lambda>b. pred_option wire_ok (wb_Usage b)"] read_wireBody_def
  by (intro allI impI yields_rules yields_pointer [where Q = wire_ok] yields_slice [where Q = "\<lambda>_. True"]) simp_all

lemma keeps_batch: "keeps (\<lambda>b. pred_option gemini_ok (ba_UsageMetadata b) \<and> list_all (pred_option gemini_ok) (ba_Embeddings b) \<and>
    list_all (pred_option gemini_ok) (ba_Responses b)) read_batch"
  unfolding keeps_def [of "\<lambda>b. pred_option gemini_ok (ba_UsageMetadata b) \<and> _ b"] read_batch_def
  by (intro allI impI yields_rules yields_pointer [where Q = gemini_ok] yields_slice [where Q = "pred_option gemini_ok"] keeps_only)
     simp_all

lemma keeps_image: "keeps (\<lambda>(i, out, din, dout). is_int64 i \<and> is_int64 out \<and> pred_option is_int64 din \<and> pred_option is_int64 dout)
    read_imageUsage"
proof -
  have "keeps is_int64 read_image_details"
    unfolding keeps_def read_image_details_def by (intro allI impI yields_rules) simp_all
  then show ?thesis
    unfolding keeps_def [of "\<lambda>(i, out, din, dout). _ i out din dout"] read_imageUsage_def
    by (auto simp del: yields_if split: prod.split intro!: yields_rules yields_pointer [where Q = is_int64])
qed

lemma keeps_interaction_body: "keeps (\<lambda>(u, tier :: string). pred_option interaction_ok u)
    (\<lambda>k v (u, tier). if k = ''usage'' then put_pointer read_interaction no_interaction u v (\<lambda>u. (u, tier))
       else if k = ''service_tier'' then put_string v (\<lambda>s. (u, s)) (u, tier) else Inr (u, tier))"
  unfolding keeps_def [of "\<lambda>(u, tier). _ u"]
  by (auto split: prod.split intro!: yields_string yields_pointer [where Q = interaction_ok])

lemma ParseImageUsage_int64: "usage_int64 (ParseImageUsage body)"
  using yields_decode_body [OF keeps_only [OF keeps_image], of "(0, 0, None, None)" None "''usage''" body]
  by (auto simp: ParseImageUsage_def usage_int64_def no_usage_def clamp_int64 Let_def split: sum.split option.split)

lemma parseGeminiBatchUsage_int64: "usage_int64 (parseGeminiBatchUsage body)"
  using yields_decode_body [OF keeps_batch, of "\<lparr>ba_UsageMetadata = None, ba_Embeddings = [], ba_Responses = []\<rparr>" body]
  by (auto simp: parseGeminiBatchUsage_def gemini_usage_int64 add_items_int64 split: sum.split option.split)


end
