(* ===== verification/Catalog.thy ===== *)
theory Catalog
  imports Usage Auth
begin

text \<open>
  Resolving a model for a request (\<open>internal/gateway/catalog\<close>): the tables that tie
  surfaces, protocols and endpoints together, the admission of a model by visibility, tier
  and price, the candidate routes, and the reads that lock a request's prices
  (\<open>catalog.go\<close>, \<open>settings.go\<close>, the statements of \<open>db/*.sql.go\<close> they use).

  A request reads these tables in one repeatable-read transaction that bypasses the
  caches, so they are one value here; a statement is taken to succeed. Validating a
  provider's stored transport profile is a parameter.
\<close>

section \<open>Surfaces, protocols and endpoints\<close>

definition surface_protocol :: "string \<Rightarrow> string option" where
  "surface_protocol s =
     (if s \<in> {SurfaceChat, SurfaceResponses, SurfaceResponsesCompact, SurfaceResponsesResources, SurfaceResponsesInputTokens,
              SurfaceEmbeddings, SurfaceImages, SurfaceImagesEdit} then Some ProtocolOpenAI
      else if s \<in> {SurfaceGenerateContent, SurfaceGeminiCountTokens, SurfaceGeminiEmbedContent, SurfaceGeminiBatchEmbedContents,
              SurfaceGeminiInteractions} then Some ProtocolGemini
      else if s \<in> {SurfaceMessages, SurfaceMessagesCountTokens} then Some ProtocolAnthropic
      else if s = SurfaceVideo then Some ProtocolVideo
      else None)"

definition surface_endpoint :: "string \<Rightarrow> string option" where
  "surface_endpoint s =
     (if s = SurfaceChat then Some ''chat''
      else if s = SurfaceMessages then Some ''messages''
      else if s = SurfaceEmbeddings then Some ''embeddings''
      else if s = SurfaceImages then Some ''images''
      else if s = SurfaceImagesEdit then Some ''images_edits''
      else if s = SurfaceResponses then Some ''responses''
      else if s = SurfaceResponsesCompact then Some ''responses_compact''
      else if s = SurfaceResponsesResources then Some ''responses_resources''
      else if s = SurfaceResponsesInputTokens then Some ''responses_input_tokens''
      else if s = SurfaceGenerateContent then Some ''generate_content''
      else if s = SurfaceMessagesCountTokens then Some ''messages_count_tokens''
      else if s = SurfaceGeminiCountTokens then Some ''gemini_count_tokens''
      else if s = SurfaceGeminiEmbedContent then Some ''gemini_embed_content''
      else if s = SurfaceGeminiBatchEmbedContents then Some ''gemini_batch_embed_contents''
      else if s = SurfaceGeminiInteractions then Some ''gemini_interactions''
      else if s = SurfaceVideo then Some ''video''
      else None)"

definition allSurfaces :: "string list" where
  "allSurfaces = [SurfaceChat, SurfaceMessages, SurfaceMessagesCountTokens, SurfaceResponses, SurfaceResponsesCompact,
     SurfaceResponsesResources, SurfaceResponsesInputTokens, SurfaceEmbeddings, SurfaceImages, SurfaceImagesEdit,
     SurfaceGenerateContent, SurfaceGeminiCountTokens, SurfaceGeminiEmbedContent, SurfaceGeminiBatchEmbedContents,
     SurfaceGeminiInteractions, SurfaceVideo]"

definition FamilyTokens :: string where "FamilyTokens = ''tokens''"
definition FamilyUnits :: string where "FamilyUnits = ''units''"

definition billingFamilies :: "string \<Rightarrow> string list" where
  "billingFamilies s =
     (if s = SurfaceVideo then [FamilyUnits]
      else if s = SurfaceImages \<or> s = SurfaceImagesEdit then [FamilyTokens, FamilyUnits]
      else [FamilyTokens])"

definition ServesFamily :: "string \<Rightarrow> string \<Rightarrow> bool" where
  "ServesFamily s f \<longleftrightarrow> f \<in> set (billingFamilies s)"

datatype ProbeMode = ProbeAuto | ProbeManual | ProbeDerived

definition probeMode :: "string \<Rightarrow> ProbeMode" where
  "probeMode s =
     (if s = SurfaceImages \<or> s = SurfaceImagesEdit \<or> s = SurfaceVideo then ProbeManual
      else if s = SurfaceResponsesResources then ProbeDerived
      else ProbeAuto)"

definition SurfaceForEndpoint :: "string \<Rightarrow> string option" where
  "SurfaceForEndpoint endpoint = find (\<lambda>s. surface_endpoint s = Some endpoint) allSurfaces"

definition ProtocolForEndpoint :: "string \<Rightarrow> string option" where
  "ProtocolForEndpoint endpoint =
     (case find (\<lambda>s. surface_endpoint s = Some endpoint) allSurfaces of None \<Rightarrow> None | Some s \<Rightarrow> surface_protocol s)"

definition ProbeModeForEndpoint :: "string \<Rightarrow> ProbeMode option" where
  "ProbeModeForEndpoint endpoint = map_option probeMode (SurfaceForEndpoint endpoint)"

definition EndpointsForProtocols :: "string list \<Rightarrow> string list" where
  "EndpointsForProtocols protocols =
     List.map_filter surface_endpoint
       (filter (\<lambda>s. case surface_protocol s of None \<Rightarrow> False | Some p \<Rightarrow> p \<in> set protocols) allSurfaces)"

definition ProtocolEndpoints :: "string \<Rightarrow> string list" where
  "ProtocolEndpoints protocol =
     List.map_filter surface_endpoint (filter (\<lambda>s. surface_protocol s = Some protocol) allSurfaces)"

definition PublishedEndpoints :: "string list \<Rightarrow> string list" where
  "PublishedEndpoints verified =
     (if ''responses'' \<in> set verified \<and> ''responses_resources'' \<notin> set verified
      then sort (verified @ [''responses_resources'']) else verified)"

definition KnownProtocols :: "string list" where
  "KnownProtocols = rev (remdups (rev (List.map_filter surface_protocol allSurfaces)))"

definition WireProtocols :: "string list" where
  "WireProtocols = filter (\<lambda>p. p \<noteq> ProtocolVideo) KnownProtocols"

section \<open>Prices\<close>

record ModelRow =
  m_ID :: uuid
  m_Slug :: string
  m_MaxOutputTokens :: int
  m_Visibility :: string
  m_Enabled :: bool

record ModelPricingRow =
  mp_ModelID :: uuid
  mp_BillingMode :: string
  mp_PricingFamily :: string
  mp_UpstreamIn :: "int option"
  mp_UpstreamOut :: "int option"
  mp_UpstreamCacheRead :: "int option"
  mp_UpstreamCacheWrite :: "int option"
  mp_MultiplierBps :: int

record ModelPricingSnapshot =
  ms_Priced :: bool
  ms_BillingMode :: string
  ms_Family :: string
  ms_Upstream :: Price
  ms_MultiplierBps :: int

definition no_pricing :: ModelPricingSnapshot where
  "no_pricing = \<lparr>ms_Priced = False, ms_BillingMode = [], ms_Family = [], ms_Upstream = zero_price, ms_MultiplierBps = 0\<rparr>"

datatype catalog_error = ErrModelUnavailable | ErrModelUnpriced | InvalidTransport string

definition modelPricingSnapshot :: "ModelPricingRow \<Rightarrow> catalog_error + ModelPricingSnapshot" where
  "modelPricingSnapshot v =
     (case (mp_UpstreamIn v, mp_UpstreamOut v, mp_UpstreamCacheRead v, mp_UpstreamCacheWrite v) of
        (Some i, Some out, Some r, Some w) \<Rightarrow>
          Inr \<lparr>ms_Priced = True, ms_BillingMode = mp_BillingMode v, ms_Family = mp_PricingFamily v,
               ms_Upstream = \<lparr>InNanoPerMTok = i, OutNanoPerMTok = out, CacheReadNanoPerMTok = r, CacheWriteNanoPerMTok = w\<rparr>,
               ms_MultiplierBps = mp_MultiplierBps v\<rparr>
      | _ \<Rightarrow> Inl ErrModelUnpriced)"

definition IsFree :: "ModelPricingSnapshot \<Rightarrow> bool" where
  "IsFree p \<longleftrightarrow> ms_BillingMode p = ''free''"

definition PriceOf :: "ModelPricingSnapshot \<Rightarrow> Price" where "PriceOf p = ms_Upstream p"

definition BillablePriceOf :: "ModelPricingSnapshot \<Rightarrow> Price" where
  "BillablePriceOf p = (if IsFree p then zero_price else PriceOf p)"

definition checkPriced :: "ModelPricingSnapshot \<Rightarrow> string \<Rightarrow> catalog_error option" where
  "checkPriced p surface =
     (if \<not> ms_Priced p then Some ErrModelUnpriced
      else if \<not> ServesFamily surface (ms_Family p) then Some ErrModelUnavailable
      else if ms_BillingMode p = ''free'' then None
      else if ms_Family p = FamilyUnits then None
      else if InNanoPerMTok (ms_Upstream p) = 0 \<and> OutNanoPerMTok (ms_Upstream p) = 0 \<and>
              CacheReadNanoPerMTok (ms_Upstream p) = 0 \<and> CacheWriteNanoPerMTok (ms_Upstream p) = 0 then Some ErrModelUnpriced
      else None)"

section \<open>The tables\<close>

record ProviderRow =
  pv_ID :: uuid
  pv_Slug :: string
  pv_Vendor :: string
  pv_BaseUrl :: string
  pv_Protocols :: "string list"
  pv_Enabled :: bool
  pv_Headers :: "json option"
  pv_Transport :: "json option"
  pv_RateLimitRpm :: "int option"
  pv_RateLimitTpm :: "int option"
  pv_MaxConcurrency :: int
  pv_CostMultiplierBps :: int

record RouteRow =
  mr_ID :: uuid
  mr_ModelID :: uuid
  mr_ProviderID :: uuid
  mr_ProviderModelID :: string
  mr_Priority :: int
  mr_Weight :: int
  mr_Enabled :: bool
  mr_Headers :: "json option"
  mr_ContextWindow :: "int option"
  mr_MaxOutputTokens :: "int option"
  mr_MaxImages :: "int option"
  mr_Quirks :: "json option"
  mr_VideoEnvelope :: "json option"

record ProbeRow =
  pb_RouteID :: uuid
  pb_Endpoint :: string
  pb_Status :: string

record PlanRow =
  pl_ID :: uuid
  pl_Status :: string
  pl_IsDefault :: bool
  pl_DefaultMultiplierBps :: int

text \<open>Tiers carry whether they admit every model; an assignment carries its plan and whether it inherits the default.\<close>

record catalog_db =
  ct_models :: "ModelRow list"
  ct_pricing :: "ModelPricingRow list"
  ct_tiers :: "(uuid \<times> bool) list"
  ct_tierModels :: "(uuid \<times> uuid) list"
  ct_providers :: "ProviderRow list"
  ct_routes :: "RouteRow list"
  ct_probes :: "ProbeRow list"
  ct_plans :: "PlanRow list"
  ct_assignments :: "(uuid \<times> uuid \<times> bool) list"
  ct_overrides :: "((uuid \<times> uuid) \<times> int) list"
  ct_dimensionRates :: "uuid \<Rightarrow> DimensionRate list"
  ct_toolRates :: "uuid \<Rightarrow> ToolRate list"
  ct_unitRates :: "uuid \<Rightarrow> ModelPriceUnitRate list"

definition GetModelBySlug :: "catalog_db \<Rightarrow> string \<Rightarrow> ModelRow option" where
  "GetModelBySlug db slug = find (\<lambda>m. m_Slug m = slug \<and> m_Enabled m) (ct_models db)"

definition GetModelPricing :: "catalog_db \<Rightarrow> uuid \<Rightarrow> ModelPricingRow option" where
  "GetModelPricing db modelID = find (\<lambda>r. mp_ModelID r = modelID) (ct_pricing db)"

definition TierAllowsModel :: "catalog_db \<Rightarrow> uuid \<Rightarrow> uuid \<Rightarrow> bool option" where
  "TierAllowsModel db tierID modelID =
     map_option (\<lambda>allow_all. allow_all \<or> (tierID, modelID) \<in> set (ct_tierModels db)) (map_of (ct_tiers db) tierID)"

definition verdict :: "catalog_db \<Rightarrow> uuid \<Rightarrow> string \<Rightarrow> string \<Rightarrow> bool" where
  "verdict db routeID endpoint status \<longleftrightarrow>
     (\<exists>pr \<in> set (ct_probes db). pb_RouteID pr = routeID \<and> pb_Endpoint pr = endpoint \<and> pb_Status pr = status)"

definition uuid_order :: "uuid \<Rightarrow> nat" where
  "uuid_order u = (case u of None \<Rightarrow> 0 | Some w \<Rightarrow> unat w)"

definition ListRoutesForModel :: "catalog_db \<Rightarrow> uuid \<Rightarrow> string \<Rightarrow> string \<Rightarrow> string list \<Rightarrow> bool \<Rightarrow> (RouteRow \<times> ProviderRow) list" where
  "ListRoutesForModel db modelID protocol endpoint byokVendors requiresVerdict =
     sort_key (\<lambda>(r, p). mr_Priority r) (sort_key (\<lambda>(r, p). uuid_order (mr_ID r))
       (filter (\<lambda>(r, p). mr_ModelID r = modelID \<and> mr_Enabled r \<and> pv_Enabled p \<and> protocol \<in> set (pv_Protocols p) \<and>
            \<not> (verdict db (mr_ID r) endpoint ''unsupported'' \<and> pv_Vendor p \<notin> set byokVendors) \<and>
            (\<not> requiresVerdict \<or> verdict db (mr_ID r) endpoint ''ok''))
          (List.map_filter (\<lambda>r. map_option (\<lambda>p. (r, p)) (find (\<lambda>p. pv_ID p = mr_ProviderID r) (ct_providers db))) (ct_routes db))))"

record UsagePricingRow =
  up_ModelID :: uuid
  up_ModelSlug :: string
  up_ModelMultiplierBps :: int
  up_PricingPlanID :: uuid
  up_PlanMultiplierBps :: int
  up_PlanModelOverride :: bool

definition selected_plan :: "catalog_db \<Rightarrow> uuid \<Rightarrow> PlanRow option" where
  "selected_plan db orgID =
     (case find (\<lambda>(org, plan, inherit). org = orgID \<and> \<not> inherit) (ct_assignments db) of
        Some (_, plan, _) \<Rightarrow> find (\<lambda>p. pl_ID p = plan \<and> pl_Status p = ''active'') (ct_plans db)
      | None \<Rightarrow> find (\<lambda>p. pl_IsDefault p \<and> pl_Status p = ''active'') (ct_plans db))"

definition ResolveUsagePricing :: "catalog_db \<Rightarrow> string \<Rightarrow> uuid \<Rightarrow> UsagePricingRow option" where
  "ResolveUsagePricing db slug orgID =
     (case GetModelBySlug db slug of None \<Rightarrow> None | Some m \<Rightarrow>
        case GetModelPricing db (m_ID m) of None \<Rightarrow> None | Some mp \<Rightarrow>
        case selected_plan db orgID of None \<Rightarrow> None | Some pl \<Rightarrow>
          (let po = map_of (ct_overrides db) (pl_ID pl, m_ID m)
           in Some \<lparr>up_ModelID = m_ID m, up_ModelSlug = m_Slug m, up_ModelMultiplierBps = mp_MultiplierBps mp,
                up_PricingPlanID = pl_ID pl,
                up_PlanMultiplierBps = (case po of Some b \<Rightarrow> b | None \<Rightarrow> pl_DefaultMultiplierBps pl),
                up_PlanModelOverride = (po \<noteq> None)\<rparr>))"

definition LockedPriceTable :: "catalog_db \<Rightarrow> uuid \<Rightarrow> ModelPricingSnapshot \<Rightarrow> PriceTable" where
  "LockedPriceTable db modelID pricing =
     WithToolPrices (NewPriceTable (ms_Upstream pricing) (ct_dimensionRates db modelID)) (ct_toolRates db modelID)"

definition LockedUnitPriceTable :: "catalog_db \<Rightarrow> uuid \<Rightarrow> UnitPriceTable" where
  "LockedUnitPriceTable db modelID = NewUnitPriceTable (ct_unitRates db modelID)"

section \<open>Settings\<close>

text \<open>A read answers an error, nothing, or the stored value; decoding it into the wrong type is an error.\<close>

type_synonym settings_store = "string \<Rightarrow> unit + json option"

definition hours :: "int \<Rightarrow> duration" where "hours n = n * 3600000000000"

definition get_int_setting :: "settings_store \<Rightarrow> string \<Rightarrow> int option" where
  "get_int_setting st key = (case st key of Inr (Some (JNum n)) \<Rightarrow> if is_int64 n then Some n else None | _ \<Rightarrow> None)"

definition BYOKFeeBps :: "settings_store \<Rightarrow> int" where
  "BYOKFeeBps st = (case get_int_setting st ''gateway.byok_fee_bps'' of None \<Rightarrow> 500 | Some v \<Rightarrow> if v < 0 then 500 else v)"

definition ResourceAffinityTTL :: "settings_store \<Rightarrow> duration" where
  "ResourceAffinityTTL st =
     (case get_int_setting st ''gateway.resource_affinity_ttl_days'' of
        None \<Rightarrow> hours (60 * 24) | Some d \<Rightarrow> if d < 1 \<or> d > 90 then hours (60 * 24) else hours (d * 24))"

definition VideoRetention :: "settings_store \<Rightarrow> duration" where
  "VideoRetention st =
     (case get_int_setting st ''gateway.video_retention_hours'' of
        None \<Rightarrow> hours 168 | Some h \<Rightarrow> if h < 1 \<or> h > 720 then hours 168 else hours h)"

definition FXRate :: "settings_store \<Rightarrow> string \<Rightarrow> string" where
  "FXRate st currency =
     (if currency = [] \<or> currency = ''USD'' then ''1''
      else if currency \<noteq> ''CNY'' then []
      else case st ''gateway.fx_usd_cny'' of
             Inr (Some (JStr v)) \<Rightarrow> if v = [] \<or> v = ''0'' then [] else v
           | _ \<Rightarrow> [])"

definition KillSwitch :: "settings_store \<Rightarrow> bool" where
  "KillSwitch st = (case st ''gateway.kill_switch'' of Inr (Some (JBool b)) \<Rightarrow> b | _ \<Rightarrow> False)"

section \<open>Resolution\<close>

record CatalogRoute = VideoRoute +
  r_Protocol :: string
  r_ProviderModelID :: string
  r_ProviderHeaders :: "(string \<times> string) list"
  r_RouteHeaders :: "(string \<times> string) list"
  r_Transport :: Transport

record Resolution =
  re_Model :: ModelRow
  re_ModelPricing :: ModelPricingSnapshot
  re_Routes :: "CatalogRoute list"

definition quirkBool :: "json option \<Rightarrow> string \<Rightarrow> bool" where
  "quirkBool raw key =
     (case raw of Some (JObj fs) \<Rightarrow> (case map_of (rev fs) key of Some (JBool b) \<Rightarrow> b | _ \<Rightarrow> False) | _ \<Rightarrow> False)"

fun header_fields :: "(string \<times> json) list \<Rightarrow> (string \<times> string) list option" where
  "header_fields [] = Some []"
| "header_fields ((k, JStr v) # fs) = map_option ((#) (k, v)) (header_fields fs)"
| "header_fields ((k, JNull) # fs) = map_option ((#) (k, [])) (header_fields fs)"
| "header_fields ((k, _) # fs) = None"

definition decodeHeaders :: "json option \<Rightarrow> (string \<times> string) list" where
  "decodeHeaders raw = (case raw of Some (JObj fs) \<Rightarrow> (case header_fields fs of Some hs \<Rightarrow> hs | None \<Rightarrow> []) | _ \<Rightarrow> [])"

type_synonym known_transports = "uuid \<rightharpoonup> Transport"

definition transportFor :: "(json option \<Rightarrow> Transport option) \<Rightarrow> uuid \<Rightarrow> string \<Rightarrow> json option \<Rightarrow> known_transports
    \<Rightarrow> (catalog_error + Transport) \<times> known_transports" where
  "transportFor ValidateTransport u slug raw known =
     (case ValidateTransport raw of
        Some t \<Rightarrow> (Inr t, if uuid_valid u then known(u \<mapsto> t) else known)
      | None \<Rightarrow> (case (if uuid_valid u then known u else None) of
            Some t \<Rightarrow> (Inr t, known)
          | None \<Rightarrow> (Inl (InvalidTransport slug), known)))"

definition route_of :: "string \<Rightarrow> RouteRow \<Rightarrow> ProviderRow \<Rightarrow> Transport \<Rightarrow> CatalogRoute" where
  "route_of protocol r p t =
     \<lparr>r_ID = mr_ID r, r_ProviderID = mr_ProviderID r, r_ProviderSlug = pv_Slug p, r_ProviderVendor = pv_Vendor p,
      r_BaseURL = pv_BaseUrl p, r_Priority = mr_Priority r, r_Weight = mr_Weight r,
      r_ProcurementMultiplierBps = pv_CostMultiplierBps p, r_ContextWindow = or_zero (mr_ContextWindow r),
      r_MaxOutputTokens = or_zero (mr_MaxOutputTokens r), r_MaxImages = or_zero (mr_MaxImages r),
      r_IgnoresMaxOutputTokens = quirkBool (mr_Quirks r) ''ignores_max_output_tokens'',
      r_Capacity = \<lparr>RateLimitRPM = or_zero (pv_RateLimitRpm p), RateLimitTPM = or_zero (pv_RateLimitTpm p),
        MaxConcurrency = pv_MaxConcurrency p\<rparr>,
      r_VideoEnvelope = mr_VideoEnvelope r, r_Protocol = protocol, r_ProviderModelID = mr_ProviderModelID r,
      r_ProviderHeaders = decodeHeaders (pv_Headers p), r_RouteHeaders = decodeHeaders (mr_Headers r), r_Transport = t\<rparr>"

fun build_routes :: "(json option \<Rightarrow> Transport option) \<Rightarrow> string \<Rightarrow> (RouteRow \<times> ProviderRow) list \<Rightarrow> known_transports
    \<Rightarrow> (catalog_error + CatalogRoute list) \<times> known_transports" where
  "build_routes vt protocol [] known = (Inr [], known)"
| "build_routes vt protocol ((r, p) # rows) known =
     (case transportFor vt (mr_ProviderID r) (pv_Slug p) (pv_Transport p) known of
        (Inl e, known) \<Rightarrow> (Inl e, known)
      | (Inr t, known) \<Rightarrow>
          (case build_routes vt protocol rows known of
             (Inl e, known) \<Rightarrow> (Inl e, known)
           | (Inr rs, known) \<Rightarrow> (Inr (route_of protocol r p t # rs), known)))"

text \<open>The checks before the candidates are listed.\<close>

definition admit_model :: "catalog_db \<Rightarrow> string \<Rightarrow> string \<Rightarrow> uuid \<Rightarrow> catalog_error + ModelRow \<times> ModelPricingSnapshot" where
  "admit_model db slug surface tierID =
     (case GetModelBySlug db slug of
        None \<Rightarrow> Inl ErrModelUnavailable
      | Some model \<Rightarrow>
          if m_Visibility model \<noteq> ''public'' then Inl ErrModelUnavailable
          else bind_result (case GetModelPricing db (m_ID model) of None \<Rightarrow> Inr no_pricing | Some row \<Rightarrow> modelPricingSnapshot row)
            (\<lambda>pricing.
              if uuid_valid tierID \<and> TierAllowsModel db tierID (m_ID model) \<noteq> Some True then Inl ErrModelUnavailable
              else case checkPriced pricing surface of Some e \<Rightarrow> Inl e | None \<Rightarrow> Inr (model, pricing)))"

definition ResolveFor :: "(json option \<Rightarrow> Transport option) \<Rightarrow> catalog_db \<Rightarrow> string \<Rightarrow> string \<Rightarrow> uuid \<Rightarrow> string list
    \<Rightarrow> known_transports \<Rightarrow> (catalog_error + Resolution) \<times> known_transports" where
  "ResolveFor vt db slug surface tierID byokVendors known =
     (case surface_protocol surface of
        None \<Rightarrow> (Inl ErrModelUnavailable, known)
      | Some protocol \<Rightarrow>
          (case admit_model db slug surface tierID of
             Inl e \<Rightarrow> (Inl e, known)
           | Inr (model, pricing) \<Rightarrow>
               (let rows = ListRoutesForModel db (m_ID model) protocol
                      (case surface_endpoint surface of None \<Rightarrow> [] | Some e \<Rightarrow> e) byokVendors (probeMode surface = ProbeManual)
                in if rows = [] then (Inl ErrModelUnavailable, known)
                   else case build_routes vt protocol rows known of
                          (Inl e, known) \<Rightarrow> (Inl e, known)
                        | (Inr routes, known) \<Rightarrow>
                            (Inr \<lparr>re_Model = model, re_ModelPricing = pricing, re_Routes = routes\<rparr>, known))))"

definition HoldCap :: "ModelRow \<Rightarrow> CatalogRoute list \<Rightarrow> int \<times> bool" where
  "HoldCap m routes =
     foldl (\<lambda>(cap, ignore) r. (if r_MaxOutputTokens r > cap then r_MaxOutputTokens r else cap, ignore \<or> r_IgnoresMaxOutputTokens r))
       (m_MaxOutputTokens m, False) routes"

section \<open>Lemmas\<close>

lemmas surface_names = SurfaceChat_def SurfaceMessages_def SurfaceMessagesCountTokens_def SurfaceResponses_def
  SurfaceResponsesCompact_def SurfaceResponsesResources_def SurfaceResponsesInputTokens_def SurfaceEmbeddings_def SurfaceImages_def
  SurfaceImagesEdit_def SurfaceGenerateContent_def SurfaceGeminiCountTokens_def SurfaceGeminiEmbedContent_def
  SurfaceGeminiBatchEmbedContents_def SurfaceGeminiInteractions_def SurfaceVideo_def

text \<open>A surface has an endpoint exactly when it is in the table, and no two surfaces share one.\<close>

lemma surface_endpoint_domain: "surface_endpoint s = Some e \<Longrightarrow> s \<in> set allSurfaces"
  by (auto simp: surface_endpoint_def allSurfaces_def split: if_splits)

lemma surface_endpoint_total: "list_all (\<lambda>s. surface_endpoint s \<noteq> None \<and> surface_protocol s \<noteq> None) allSurfaces"
  by code_simp

lemma surface_endpoint_distinct: "distinct (map surface_endpoint allSurfaces)"
  by code_simp

lemma surface_endpoint_inject:
  assumes "surface_endpoint s = Some e" and "surface_endpoint s' = Some e"
  shows "s = s'"
proof -
  have "inj_on surface_endpoint (set allSurfaces)" using surface_endpoint_distinct by (simp add: distinct_map)
  then show ?thesis using assms surface_endpoint_domain by (metis inj_onD)
qed

lemma SurfaceForEndpoint_iff: "SurfaceForEndpoint e = Some s \<longleftrightarrow> surface_endpoint s = Some e"
proof
  assume "SurfaceForEndpoint e = Some s"
  then show "surface_endpoint s = Some e" by (auto simp: SurfaceForEndpoint_def find_Some_iff)
next
  assume s: "surface_endpoint s = Some e"
  then show "SurfaceForEndpoint e = Some s"
    unfolding SurfaceForEndpoint_def
    using surface_endpoint_domain[OF s] surface_endpoint_inject[OF _ s] by (blast intro: find_only)
qed

lemma ProtocolForEndpoint_alt: "ProtocolForEndpoint e = Option.bind (SurfaceForEndpoint e) surface_protocol"
  by (auto simp: ProtocolForEndpoint_def SurfaceForEndpoint_def split: option.splits)

lemma set_map_filter_Some: "y \<in> set (List.map_filter f xs) \<longleftrightarrow> (\<exists>x \<in> set xs. f x = Some y)"
  by (induction xs) (auto simp: List.map_filter_simps split: option.splits)

lemma ProtocolEndpoints_iff: "e \<in> set (ProtocolEndpoints p) \<longleftrightarrow> ProtocolForEndpoint e = Some p"
  by (auto simp: ProtocolEndpoints_def set_map_filter_Some ProtocolForEndpoint_alt bind_eq_Some_conv SurfaceForEndpoint_iff
      dest: surface_endpoint_domain)

lemma EndpointsForProtocols_iff: "e \<in> set (EndpointsForProtocols ps) \<longleftrightarrow> (\<exists>p \<in> set ps. ProtocolForEndpoint e = Some p)"
  by (auto simp: EndpointsForProtocols_def set_map_filter_Some ProtocolForEndpoint_alt bind_eq_Some_conv SurfaceForEndpoint_iff
      split: option.splits dest: surface_endpoint_domain)

text \<open>Admission, and the candidate rows.\<close>

lemma admit_modelD:
  assumes "admit_model db slug surface tierID = Inr (m, pricing)"
  shows "GetModelBySlug db slug = Some m" and "m_Visibility m = ''public''"
    and "uuid_valid tierID \<Longrightarrow> TierAllowsModel db tierID (m_ID m) = Some True"
    and "checkPriced pricing surface = None"
    and "\<exists>row. GetModelPricing db (m_ID m) = Some row \<and> modelPricingSnapshot row = Inr pricing"
proof -
  have refused: "checkPriced no_pricing surface \<noteq> None" by (simp add: no_pricing_def checkPriced_def)
  show "GetModelBySlug db slug = Some m" and "m_Visibility m = ''public''"
    and "uuid_valid tierID \<Longrightarrow> TierAllowsModel db tierID (m_ID m) = Some True"
    and "checkPriced pricing surface = None"
    and "\<exists>row. GetModelPricing db (m_ID m) = Some row \<and> modelPricingSnapshot row = Inr pricing"
    using assms refused
    by (auto simp: admit_model_def bind_result_Inr_iff split: option.splits if_splits)
qed

definition provider_of :: "catalog_db \<Rightarrow> RouteRow \<Rightarrow> ProviderRow option" where
  "provider_of db r = find (\<lambda>p. pv_ID p = mr_ProviderID r) (ct_providers db)"

text \<open>What makes a route a candidate for a surface, stated over the tables.\<close>

definition candidate :: "catalog_db \<Rightarrow> uuid \<Rightarrow> string \<Rightarrow> string list \<Rightarrow> RouteRow \<Rightarrow> ProviderRow \<Rightarrow> bool" where
  "candidate db modelID surface byokVendors r p \<longleftrightarrow>
     (case (surface_protocol surface, surface_endpoint surface) of
        (Some protocol, Some endpoint) \<Rightarrow>
          r \<in> set (ct_routes db) \<and> mr_ModelID r = modelID \<and> mr_Enabled r \<and>
          provider_of db r = Some p \<and> pv_Enabled p \<and> protocol \<in> set (pv_Protocols p) \<and>
          (verdict db (mr_ID r) endpoint ''unsupported'' \<longrightarrow> pv_Vendor p \<in> set byokVendors) \<and>
          (probeMode surface = ProbeManual \<longrightarrow> verdict db (mr_ID r) endpoint ''ok'')
      | _ \<Rightarrow> False)"

lemma ListRoutesForModel_iff:
  assumes "surface_protocol surface = Some protocol" and "surface_endpoint surface = Some endpoint"
  shows "(r, p) \<in> set (ListRoutesForModel db modelID protocol endpoint byok (probeMode surface = ProbeManual))
           \<longleftrightarrow> candidate db modelID surface byok r p"
  using assms by (auto simp: ListRoutesForModel_def candidate_def set_map_filter_Some provider_of_def)

lemma surface_has_endpoint: "surface_protocol s = Some p \<Longrightarrow> \<exists>e. surface_endpoint s = Some e"
  by (auto simp: surface_protocol_def surface_endpoint_def split: if_splits)

lemma ListRoutesForModel_sorted: "sorted (map (\<lambda>(r, p). mr_Priority r) (ListRoutesForModel db m pr e byok v))"
  by (simp add: ListRoutesForModel_def)

lemma build_routes_rows:
  "fst (build_routes vt protocol rows known) = Inr rs \<Longrightarrow>
   list_all2 (\<lambda>rp route. \<exists>t. route = route_of protocol (fst rp) (snd rp) t) rows rs"
  by (induction vt protocol rows known arbitrary: rs rule: build_routes.induct)
    (auto split: prod.splits sum.splits)

text \<open>One resolution, taken apart.\<close>

lemma ResolveForE:
  assumes "ResolveFor vt db slug surface tierID byok known = (Inr res, known')"
  obtains protocol endpoint where "surface_protocol surface = Some protocol" and "surface_endpoint surface = Some endpoint"
    and "admit_model db slug surface tierID = Inr (re_Model res, re_ModelPricing res)"
    and "ListRoutesForModel db (m_ID (re_Model res)) protocol endpoint byok (probeMode surface = ProbeManual) \<noteq> []"
    and "build_routes vt protocol
           (ListRoutesForModel db (m_ID (re_Model res)) protocol endpoint byok (probeMode surface = ProbeManual)) known
         = (Inr (re_Routes res), known')"
  using assms surface_has_endpoint[of surface]
  by (fastforce simp: ResolveFor_def Let_def split: option.splits sum.splits prod.splits if_splits)

lemma route_of_simps [simp]:
  "r_ID (route_of pr r p t) = mr_ID r" "r_Priority (route_of pr r p t) = mr_Priority r"
  "r_Protocol (route_of pr r p t) = pr"
  by (simp_all add: route_of_def)

lemma transportFor_keeps:
  assumes "transportFor vt u slug raw known = (Inr t, known')" and "uuid_valid u"
  shows "dom known \<subseteq> dom known'" and "u \<in> dom known'"
  using assms by (auto simp: transportFor_def split: option.splits if_splits)

lemma transportFor_known:
  assumes "uuid_valid u" and "u \<in> dom known"
  shows "\<exists>t known'. transportFor vt u slug raw known = (Inr t, known')"
  using assms by (auto simp: transportFor_def split: option.splits)

lemma build_routes_ConsD:
  assumes "build_routes vt protocol ((r, p) # rows) known = (Inr rs, known')"
  obtains t known1 rs' where "transportFor vt (mr_ProviderID r) (pv_Slug p) (pv_Transport p) known = (Inr t, known1)"
    and "build_routes vt protocol rows known1 = (Inr rs', known')"
  using assms by (auto split: prod.splits sum.splits)

lemma build_routes_keeps:
  assumes "build_routes vt protocol rows known = (Inr rs, known')" and "\<forall>x \<in> set rows. uuid_valid (mr_ProviderID (fst x))"
  shows "dom known \<subseteq> dom known' \<and> (\<forall>x \<in> set rows. mr_ProviderID (fst x) \<in> dom known')"
  using assms
proof (induction rows arbitrary: known rs)
  case (Cons x rows)
  obtain r p where x: "x = (r, p)" by (cases x)
  obtain t known1 rs' where
    step: "transportFor vt (mr_ProviderID r) (pv_Slug p) (pv_Transport p) known = (Inr t, known1)"
    and rest: "build_routes vt protocol rows known1 = (Inr rs', known')"
    using Cons.prems(1) unfolding x by (rule build_routes_ConsD)
  have "uuid_valid (mr_ProviderID r)" using Cons.prems(2) x by simp
  note keeps = transportFor_keeps[OF step this]
  have "dom known1 \<subseteq> dom known' \<and> (\<forall>x \<in> set rows. mr_ProviderID (fst x) \<in> dom known')"
    using Cons.IH[OF rest] Cons.prems(2) by simp
  then show ?case using keeps x by auto
qed simp

lemma build_routes_known:
  assumes "\<forall>x \<in> set rows. uuid_valid (mr_ProviderID (fst x)) \<and> mr_ProviderID (fst x) \<in> dom known"
  shows "\<exists>rs known'. build_routes vt protocol rows known = (Inr rs, known')"
  using assms
proof (induction rows arbitrary: known)
  case (Cons x rows)
  obtain r p where x: "x = (r, p)" by (cases x)
  have v: "uuid_valid (mr_ProviderID r)" and k: "mr_ProviderID r \<in> dom known" using Cons.prems x by simp_all
  obtain t known1 where step: "transportFor vt (mr_ProviderID r) (pv_Slug p) (pv_Transport p) known = (Inr t, known1)"
    using transportFor_known[OF v k] by blast
  have "\<exists>rs known'. build_routes vt protocol rows known1 = (Inr rs, known')"
    using transportFor_keeps(1)[OF step v] Cons.prems by (intro Cons.IH) (meson list.set_intros(2) subsetD)
  then show ?case using step x by auto
qed simp

text \<open>A catalog of one public model with two routes, the second serving first; its tier lists the model.\<close>

definition demo_model :: ModelRow where
  "demo_model = \<lparr>m_ID = Some 1, m_Slug = ''m'', m_MaxOutputTokens = 4096, m_Visibility = ''public'', m_Enabled = True\<rparr>"

definition demo_provider :: ProviderRow where
  "demo_provider = \<lparr>pv_ID = Some 5, pv_Slug = ''p'', pv_Vendor = ''v'', pv_BaseUrl = ''https://up'', pv_Protocols = [ProtocolOpenAI],
     pv_Enabled = True, pv_Headers = None, pv_Transport = None, pv_RateLimitRpm = None, pv_RateLimitTpm = None, pv_MaxConcurrency = 0,
     pv_CostMultiplierBps = 9000\<rparr>"

definition demo_row :: "128 word \<Rightarrow> int \<Rightarrow> RouteRow" where
  "demo_row u prio = \<lparr>mr_ID = Some u, mr_ModelID = Some 1, mr_ProviderID = Some 5, mr_ProviderModelID = ''m-upstream'',
     mr_Priority = prio, mr_Weight = 1, mr_Enabled = True, mr_Headers = None, mr_ContextWindow = None, mr_MaxOutputTokens = Some 8192,
     mr_MaxImages = None, mr_Quirks = None, mr_VideoEnvelope = None\<rparr>"

definition demo_catalog :: catalog_db where
  "demo_catalog = \<lparr>ct_models = [demo_model],
     ct_pricing = [\<lparr>mp_ModelID = Some 1, mp_BillingMode = ''paid'', mp_PricingFamily = ''tokens'', mp_UpstreamIn = Some 3000000000,
       mp_UpstreamOut = Some 15000000000, mp_UpstreamCacheRead = Some 0, mp_UpstreamCacheWrite = Some 0, mp_MultiplierBps = 10000\<rparr>],
     ct_tiers = [(Some 9, False)], ct_tierModels = [(Some 9, Some 1)],
     ct_providers = [demo_provider], ct_routes = [demo_row 21 2, demo_row 22 1],
     ct_probes = [\<lparr>pb_RouteID = Some 21, pb_Endpoint = ''chat'', pb_Status = ''ok''\<rparr>],
     ct_plans = [\<lparr>pl_ID = Some 7, pl_Status = ''active'', pl_IsDefault = True, pl_DefaultMultiplierBps = 10000\<rparr>],
     ct_assignments = [], ct_overrides = [], ct_dimensionRates = (\<lambda>_. []), ct_toolRates = (\<lambda>_. []), ct_unitRates = (\<lambda>_. [])\<rparr>"

definition plain_transport :: Transport where
  "plain_transport = \<lparr>tp_Envelope = [], tp_AnthropicVersion = []\<rparr>"

definition demo_resolution :: Resolution where
  "demo_resolution = \<lparr>re_Model = demo_model,
     re_ModelPricing = \<lparr>ms_Priced = True, ms_BillingMode = ''paid'', ms_Family = ''tokens'',
       ms_Upstream = \<lparr>InNanoPerMTok = 3000000000, OutNanoPerMTok = 15000000000, CacheReadNanoPerMTok = 0, CacheWriteNanoPerMTok = 0\<rparr>,
       ms_MultiplierBps = 10000\<rparr>,
     re_Routes = [route_of ProtocolOpenAI (demo_row 22 1) demo_provider plain_transport,
                  route_of ProtocolOpenAI (demo_row 21 2) demo_provider plain_transport]\<rparr>"

lemma demo_rows:
  "ListRoutesForModel demo_catalog (Some 1) ProtocolOpenAI ''chat'' [] False = [(demo_row 22 1, demo_provider), (demo_row 21 2, demo_provider)]"
  by (simp add: ListRoutesForModel_def demo_catalog_def demo_row_def demo_provider_def List.map_filter_simps verdict_def uuid_order_def
      sort_key_def)

lemma demo_resolves:
  "ResolveFor (\<lambda>_. Some plain_transport) demo_catalog ''m'' SurfaceChat (Some 9) [] Map.empty =
     (Inr demo_resolution, [Some 5 \<mapsto> plain_transport])"
proof -
  have "admit_model demo_catalog ''m'' SurfaceChat (Some 9) = Inr (demo_model, re_ModelPricing demo_resolution)"
    by (simp add: admit_model_def GetModelBySlug_def GetModelPricing_def demo_catalog_def demo_model_def modelPricingSnapshot_def
        TierAllowsModel_def checkPriced_def ServesFamily_def billingFamilies_def surface_names FamilyTokens_def FamilyUnits_def
        demo_resolution_def)
  moreover have "m_ID demo_model = Some 1" by (simp add: demo_model_def)
  ultimately show ?thesis
    by (simp add: ResolveFor_def surface_protocol_def surface_endpoint_def surface_names probeMode_def Let_def demo_rows transportFor_def
        demo_row_def demo_resolution_def)
qed

section \<open>What resolution promises\<close>



text \<open>
  The three readings of the surface table agree: the surface an endpoint name denotes is the one
  that carries it, and the endpoints of a protocol are exactly those whose protocol it is.
\<close>

theorem endpoint_tables_agree:
  "(SurfaceForEndpoint e = Some s \<longleftrightarrow> surface_endpoint s = Some e) \<and>
   (e \<in> set (ProtocolEndpoints p) \<longleftrightarrow> ProtocolForEndpoint e = Some p) \<and>
   (e \<in> set (EndpointsForProtocols ps) \<longleftrightarrow> (\<exists>q \<in> set ps. e \<in> set (ProtocolEndpoints q)))"
  by (auto simp: SurfaceForEndpoint_iff ProtocolEndpoints_iff EndpointsForProtocols_iff)



text \<open>
  A transport profile edited into something invalid does not take a served model down: once a
  model has resolved, it resolves again under any validator, with the profiles last known to be good.
\<close>

theorem broken_profile_keeps_serving:
  assumes "ResolveFor vt db slug surface tierID byokVendors known = (Inr res, known')"
    and "\<forall>r \<in> set (ct_routes db). uuid_valid (mr_ProviderID r)"
  shows "\<exists>res' known''. ResolveFor vt' db slug surface tierID byokVendors known' = (Inr res', known'')"
proof -
  from assms(1) obtain protocol endpoint
    where sp: "surface_protocol surface = Some protocol" and se: "surface_endpoint surface = Some endpoint"
      and adm: "admit_model db slug surface tierID = Inr (re_Model res, re_ModelPricing res)"
      and ne: "ListRoutesForModel db (m_ID (re_Model res)) protocol endpoint byokVendors (probeMode surface = ProbeManual) \<noteq> []"
      and br: "build_routes vt protocol
                 (ListRoutesForModel db (m_ID (re_Model res)) protocol endpoint byokVendors (probeMode surface = ProbeManual)) known
               = (Inr (re_Routes res), known')"
    by (rule ResolveForE)
  let ?rows = "ListRoutesForModel db (m_ID (re_Model res)) protocol endpoint byokVendors (probeMode surface = ProbeManual)"
  have valid: "\<forall>x \<in> set ?rows. uuid_valid (mr_ProviderID (fst x))"
    using assms(2) by (auto simp: ListRoutesForModel_def set_map_filter_Some)
  have "\<forall>x \<in> set ?rows. uuid_valid (mr_ProviderID (fst x)) \<and> mr_ProviderID (fst x) \<in> dom known'"
    using valid build_routes_keeps[OF br valid] by blast
  then obtain rs known'' where "build_routes vt' protocol ?rows known' = (Inr rs, known'')"
    using build_routes_known by blast
  then show ?thesis using sp se adm ne by (auto simp: ResolveFor_def Let_def)
qed

theorem broken_profile_keeps_serving_witness:
  "\<exists>res known. ResolveFor (\<lambda>_. None) demo_catalog ''m'' SurfaceChat (Some 9) [] [Some 5 \<mapsto> plain_transport] = (Inr res, known)"
  using broken_profile_keeps_serving [OF demo_resolves] by (simp add: demo_catalog_def demo_row_def)

text \<open>
  The output cap a hold is estimated with bounds what the model and every candidate may produce,
  and the caller's own cap is trusted only when no candidate ignores it.
\<close>

theorem HoldCap_covers_candidates:
  "fst (HoldCap m routes) = Max (insert (m_MaxOutputTokens m) (r_MaxOutputTokens ` set routes)) \<and>
   (snd (HoldCap m routes) \<longleftrightarrow> (\<exists>r \<in> set routes. r_IgnoresMaxOutputTokens r))"
proof -
  have "foldl (\<lambda>(cap, ignore) r. (if r_MaxOutputTokens r > cap then r_MaxOutputTokens r else cap, ignore \<or> r_IgnoresMaxOutputTokens r))
          (c, b) rs
        = (Max (insert c (r_MaxOutputTokens ` set rs)), b \<or> (\<exists>r \<in> set rs. r_IgnoresMaxOutputTokens r))" for c b and rs :: "CatalogRoute list"
  proof (induction rs arbitrary: c b)
    case (Cons r rs)
    have "Max (insert (if r_MaxOutputTokens r > c then r_MaxOutputTokens r else c) S)
        = Max (insert c (insert (r_MaxOutputTokens r) S))" if "finite S" for S
      using that by (cases "S = {}") (auto simp: max_def)
    then show ?case by (simp add: Cons.IH disj_ac del: Max_insert)
  qed simp
  then show ?thesis by (simp add: HoldCap_def)
qed

end
