(* ===== verification/Unsettled.thy ===== *)
theory Unsettled
  imports Ledger Replay
begin

text \<open>
  \<open>internal/gateway/usage/unsettled.go\<close>: the queue of delivered requests whose
  settlement failed and the worker that replays them, with the statements on
  \<open>gateway_unsettled\<close> it uses (\<open>internal/gateway/db/usage.sql.go\<close>) and the recording of
  a new entry (\<open>RecordUnsettled\<close> of \<open>proxy/pipeline.go\<close>).

  A statement that may fail on its own is guarded by a flag of the environment; the
  settlement and the usage row are one transaction and commit or roll back together.
\<close>

section \<open>The books\<close>

record UnsettledRow =
  un_RequestID :: string
  un_OrgID :: uuid
  un_ChargedNano :: int
  un_Currency :: string
  un_Attempts :: int
  un_Payload :: json
  un_CreatedAt :: instant
  un_ResolvedAt :: "instant option"
  un_AbandonedAt :: "instant option"

text \<open>The ledger, the usage rows, the queue, and the requests a human was alerted about.\<close>

record 'l books =
  bo_ledger :: 'l
  bo_usage :: "UsageLogParams list"
  bo_unsettled :: "UnsettledRow list"
  bo_alerts :: "string list"

record replay_env =
  re_scan :: "string \<Rightarrow> uuid option"
  re_scan_num :: "string \<Rightarrow> string option"
  re_insert_ok :: "UsageLogParams \<Rightarrow> bool"
  re_mark_ok :: bool
  re_bump_ok :: bool
  re_abandon_ok :: bool
  re_alerter :: bool

definition unsettledBatch :: nat where "unsettledBatch = 50"
definition unsettledMaxAttempts :: int where "unsettledMaxAttempts = 8"

section \<open>Statements\<close>

definition set_where :: "('r \<Rightarrow> bool) \<Rightarrow> ('r \<Rightarrow> 'r) \<Rightarrow> 'r list \<Rightarrow> 'r list" where
  "set_where P f rows = map (\<lambda>r. if P r then f r else r) rows"

definition unsettled_pending :: "UnsettledRow \<Rightarrow> bool" where
  "unsettled_pending r \<longleftrightarrow> un_ResolvedAt r = None \<and> un_AbandonedAt r = None"

definition ListUnsettledPending :: "nat \<Rightarrow> UnsettledRow list \<Rightarrow> UnsettledRow list" where
  "ListUnsettledPending n rows = take n (sort_key un_CreatedAt (filter unsettled_pending rows))"

definition MarkUnsettledResolved :: "instant \<Rightarrow> string \<Rightarrow> UnsettledRow list \<Rightarrow> UnsettledRow list" where
  "MarkUnsettledResolved now req = set_where (\<lambda>r. un_RequestID r = req) (\<lambda>r. r\<lparr>un_ResolvedAt := Some now\<rparr>)"

definition BumpUnsettledAttempt :: "string \<Rightarrow> UnsettledRow list \<Rightarrow> UnsettledRow list" where
  "BumpUnsettledAttempt req = set_where (\<lambda>r. un_RequestID r = req) (\<lambda>r. r\<lparr>un_Attempts := un_Attempts r + 1\<rparr>)"

definition AbandonUnsettled :: "instant \<Rightarrow> string \<Rightarrow> UnsettledRow list \<Rightarrow> UnsettledRow list" where
  "AbandonUnsettled now req = set_where (\<lambda>r. un_RequestID r = req) (\<lambda>r. r\<lparr>un_AbandonedAt := Some now\<rparr>)"

text \<open>The insert that records a failure: a request already queued gets one more attempt counted.\<close>

definition insert_unsettled :: "UnsettledRow \<Rightarrow> UnsettledRow list \<Rightarrow> UnsettledRow list" where
  "insert_unsettled row rows =
     (if \<exists>r \<in> set rows. un_RequestID r = un_RequestID row
      then BumpUnsettledAttempt (un_RequestID row) rows else rows @ [row])"

definition RecordUnsettled :: "instant \<Rightarrow> string \<Rightarrow> uuid \<Rightarrow> string \<Rightarrow> int \<Rightarrow> UsageLogParams \<Rightarrow> 'l books \<Rightarrow> 'l books" where
  "RecordUnsettled now requestID orgID currency chargedNano params b =
     (case EncodeUsageReplayPayload params of
        Inl _ \<Rightarrow> b
      | Inr payload \<Rightarrow> b\<lparr>bo_unsettled := insert_unsettled
          \<lparr>un_RequestID = requestID, un_OrgID = orgID, un_ChargedNano = chargedNano, un_Currency = currency,
           un_Attempts = 0, un_Payload = payload, un_CreatedAt = now, un_ResolvedAt = None, un_AbandonedAt = None\<rparr>
          (bo_unsettled b)\<rparr>)"

section \<open>The worker\<close>

datatype retryOutcome = outcomeRetryLater | outcomeResolved | outcomeAbandoned

definition abandon :: "replay_env \<Rightarrow> instant \<Rightarrow> UnsettledRow \<Rightarrow> 'l books \<Rightarrow> 'l books" where
  "abandon e now r b =
     b\<lparr>bo_unsettled := (if re_abandon_ok e then AbandonUnsettled now (un_RequestID r) (bo_unsettled b) else bo_unsettled b),
       bo_alerts := (if re_alerter e then bo_alerts b @ [un_RequestID r] else bo_alerts b)\<rparr>"

text \<open>The transaction that settles and writes the usage row: both or neither.\<close>

definition settle_and_log :: "'l Settler \<Rightarrow> (UsageLogParams \<Rightarrow> bool) \<Rightarrow> instant \<Rightarrow> SettleInput \<Rightarrow> UsageLogParams
    \<Rightarrow> 'l books \<Rightarrow> unit + 'l books" where
  "settle_and_log S insert_ok now si params b =
     bind_result (st_SettleTx S now si (bo_ledger b)) (\<lambda>l.
     if insert_ok params then Inr (b\<lparr>bo_ledger := l, bo_usage := bo_usage b @ [params]\<rparr>) else Inl ())"

definition retry :: "'l Settler \<Rightarrow> replay_env \<Rightarrow> instant \<Rightarrow> UnsettledRow \<Rightarrow> 'l books \<Rightarrow> retryOutcome \<times> 'l books" where
  "retry S e now r b =
     (case DecodeUsageReplayPayload (re_scan e) (re_scan_num e) (un_Payload r) of
        Inl _ \<Rightarrow> (outcomeAbandoned, abandon e now r b)
      | Inr params \<Rightarrow>
          (case settle_and_log S (re_insert_ok e) now
                  \<lparr>si_OrgID = un_OrgID r, si_RequestID = un_RequestID r, si_ActualNano = un_ChargedNano r,
                   si_APIKeyID = u_ApiKeyID params\<rparr> params b of
             Inr b \<Rightarrow> (outcomeResolved,
               if re_mark_ok e then b\<lparr>bo_unsettled := MarkUnsettledResolved now (un_RequestID r) (bo_unsettled b)\<rparr> else b)
           | Inl _ \<Rightarrow>
               if un_Attempts r + 1 \<ge> unsettledMaxAttempts then (outcomeAbandoned, abandon e now r b)
               else (outcomeRetryLater,
                 if re_bump_ok e then b\<lparr>bo_unsettled := BumpUnsettledAttempt (un_RequestID r) (bo_unsettled b)\<rparr> else b)))"

fun retry_rows :: "'l Settler \<Rightarrow> replay_env \<Rightarrow> instant \<Rightarrow> UnsettledRow list \<Rightarrow> 'l books \<Rightarrow> 'l books" where
  "retry_rows S e now [] b = b"
| "retry_rows S e now (r # rs) b = retry_rows S e now rs (snd (retry S e now r b))"

definition Unsettled_Work :: "'l Settler \<Rightarrow> replay_env \<Rightarrow> instant \<Rightarrow> 'l books \<Rightarrow> 'l books" where
  "Unsettled_Work S e now b = retry_rows S e now (ListUnsettledPending unsettledBatch (bo_unsettled b)) b"

section \<open>The queue drains\<close>

definition statements_ok :: "replay_env \<Rightarrow> bool" where
  "statements_ok e \<longleftrightarrow> re_mark_ok e \<and> re_bump_ok e \<and> re_abandon_ok e \<and> re_alerter e"

lemma settle_and_log_queue: "settle_and_log S ok now si params b = Inr b' \<Longrightarrow> bo_unsettled b' = bo_unsettled b"
  by (auto simp: settle_and_log_def result_simps split: if_splits)

lemma retry_cases:
  assumes "statements_ok e"
  shows "bo_unsettled (snd (retry S e now r b)) = MarkUnsettledResolved now (un_RequestID r) (bo_unsettled b) \<or>
    bo_unsettled (snd (retry S e now r b)) = BumpUnsettledAttempt (un_RequestID r) (bo_unsettled b) \<and>
      un_Attempts r + 1 < unsettledMaxAttempts \<or>
    bo_unsettled (snd (retry S e now r b)) = AbandonUnsettled now (un_RequestID r) (bo_unsettled b)"
  using assms by (auto simp: retry_def abandon_def statements_ok_def settle_and_log_queue split: sum.split)

lemma retry_table:
  assumes "statements_ok e"
  obtains g where "bo_unsettled (snd (retry S e now r b)) =
      set_where (\<lambda>x. un_RequestID x = un_RequestID r) g (bo_unsettled b)"
    and "\<And>x. un_RequestID (g x) = un_RequestID x"
    and "\<And>x. unsettled_pending (g x) \<Longrightarrow>
      unsettled_pending x \<and> un_Attempts (g x) = un_Attempts x + 1 \<and> un_Attempts r + 1 < unsettledMaxAttempts"
proof -
  consider (resolved) "bo_unsettled (snd (retry S e now r b)) = MarkUnsettledResolved now (un_RequestID r) (bo_unsettled b)"
    | (bumped) "bo_unsettled (snd (retry S e now r b)) = BumpUnsettledAttempt (un_RequestID r) (bo_unsettled b)"
        "un_Attempts r + 1 < unsettledMaxAttempts"
    | (abandoned) "bo_unsettled (snd (retry S e now r b)) = AbandonUnsettled now (un_RequestID r) (bo_unsettled b)"
    using retry_cases [OF assms] by blast
  then show ?thesis
  proof cases
    case resolved
    then show ?thesis by (intro that [of "\<lambda>x. x\<lparr>un_ResolvedAt := Some now\<rparr>"])
        (auto simp: MarkUnsettledResolved_def unsettled_pending_def)
  next
    case bumped
    then show ?thesis by (intro that [of "\<lambda>x. x\<lparr>un_Attempts := un_Attempts x + 1\<rparr>"])
        (auto simp: BumpUnsettledAttempt_def unsettled_pending_def)
  next
    case abandoned
    then show ?thesis by (intro that [of "\<lambda>x. x\<lparr>un_AbandonedAt := Some now\<rparr>"])
        (auto simp: AbandonUnsettled_def unsettled_pending_def)
  qed
qed

lemma map_set_where: "(\<And>x. h (g x) = h x) \<Longrightarrow> map h (set_where P g rows) = map h rows"
  by (simp add: set_where_def)

lemma filter_set_where_le:
  assumes "\<And>x. Q (g x) \<Longrightarrow> Q x"
  shows "length (filter Q (set_where P g rows)) \<le> length (filter Q rows)"
proof (induction rows)
  case (Cons x rows)
  then show ?case using assms [of x] by (auto simp: set_where_def)
qed (simp add: set_where_def)

text \<open>One round keeps the queue's keys, never grows the pending set, and costs every pending row an attempt.\<close>

lemma retry_rows_round:
  assumes "statements_ok e" and "distinct (map un_RequestID rs)" and "\<forall>r \<in> set rs. k \<le> un_Attempts r"
    and "\<forall>x \<in> set (bo_unsettled b). un_RequestID x \<in> un_RequestID ` set rs \<longrightarrow> x \<in> set rs"
    and "\<forall>x \<in> set (bo_unsettled b). unsettled_pending x \<longrightarrow>
           x \<in> set rs \<or> (k + 1 \<le> un_Attempts x \<and> un_Attempts x < unsettledMaxAttempts)"
  shows "map un_RequestID (bo_unsettled (retry_rows S e now rs b)) = map un_RequestID (bo_unsettled b) \<and>
    length (filter unsettled_pending (bo_unsettled (retry_rows S e now rs b)))
      \<le> length (filter unsettled_pending (bo_unsettled b)) \<and>
    (\<forall>x \<in> set (bo_unsettled (retry_rows S e now rs b)). unsettled_pending x \<longrightarrow>
       k + 1 \<le> un_Attempts x \<and> un_Attempts x < unsettledMaxAttempts)"
  using assms(2-)
proof (induction rs arbitrary: b)
  case (Cons r rs)
  obtain g where T: "bo_unsettled (snd (retry S e now r b)) =
      set_where (\<lambda>x. un_RequestID x = un_RequestID r) g (bo_unsettled b)"
    and g: "\<And>x. un_RequestID (g x) = un_RequestID x"
    and p: "\<And>x. unsettled_pending (g x) \<Longrightarrow>
      unsettled_pending x \<and> un_Attempts (g x) = un_Attempts x + 1 \<and> un_Attempts r + 1 < unsettledMaxAttempts"
    by (rule retry_table [OF assms(1), of S now r b]) blast
  let ?b = "snd (retry S e now r b)"
  have same: "x = r" if "x \<in> set (bo_unsettled b)" "un_RequestID x = un_RequestID r" for x
    using Cons.prems(1,3) that by (auto simp: image_iff) metis
  have "un_RequestID x \<in> un_RequestID ` set rs \<longrightarrow> x \<in> set rs" if "x \<in> set (bo_unsettled ?b)" for x
    using that Cons.prems(1,3) by (auto simp: T set_where_def g image_iff)
  moreover have "unsettled_pending x \<longrightarrow> x \<in> set rs \<or> (k + 1 \<le> un_Attempts x \<and> un_Attempts x < unsettledMaxAttempts)"
    if "x \<in> set (bo_unsettled ?b)" for x
  proof
    assume pend: "unsettled_pending x"
    from that obtain y where y: "y \<in> set (bo_unsettled b)" "x = (if un_RequestID y = un_RequestID r then g y else y)"
      by (auto simp: T set_where_def)
    show "x \<in> set rs \<or> (k + 1 \<le> un_Attempts x \<and> un_Attempts x < unsettledMaxAttempts)"
    proof (cases "un_RequestID y = un_RequestID r")
      case True
      then have "y = r" by (rule same [OF y(1)])
      then show ?thesis using p [of y] pend y(2) Cons.prems(2) True by auto
    next
      case False
      then show ?thesis using Cons.prems(4) y pend by auto
    qed
  qed
  ultimately have "map un_RequestID (bo_unsettled (retry_rows S e now rs ?b)) = map un_RequestID (bo_unsettled ?b) \<and>
    length (filter unsettled_pending (bo_unsettled (retry_rows S e now rs ?b)))
      \<le> length (filter unsettled_pending (bo_unsettled ?b)) \<and>
    (\<forall>x \<in> set (bo_unsettled (retry_rows S e now rs ?b)). unsettled_pending x \<longrightarrow>
       k + 1 \<le> un_Attempts x \<and> un_Attempts x < unsettledMaxAttempts)"
    using Cons.prems(1,2) by (intro Cons.IH) auto
  moreover have "map un_RequestID (bo_unsettled ?b) = map un_RequestID (bo_unsettled b)"
    unfolding T by (rule map_set_where) (rule g)
  moreover have "length (filter unsettled_pending (bo_unsettled ?b)) \<le> length (filter unsettled_pending (bo_unsettled b))"
    unfolding T by (rule filter_set_where_le) (use p in blast)
  ultimately show ?case by simp
qed auto

definition queue_ok :: "int \<Rightarrow> UnsettledRow list \<Rightarrow> bool" where
  "queue_ok k rows \<longleftrightarrow> distinct (map un_RequestID rows) \<and> length (filter unsettled_pending rows) \<le> unsettledBatch \<and>
     (\<forall>x \<in> set rows. unsettled_pending x \<longrightarrow> k \<le> un_Attempts x)"

lemma distinct_ids_eq: "distinct (map f xs) \<Longrightarrow> x \<in> set xs \<Longrightarrow> y \<in> set xs \<Longrightarrow> f x = f y \<Longrightarrow> x = y"
  by (auto simp: distinct_map dest: inj_onD)

lemma Work_round:
  assumes "statements_ok e" and "queue_ok k (bo_unsettled b)"
  shows "queue_ok (k + 1) (bo_unsettled (Unsettled_Work S e now b)) \<and>
    (\<forall>x \<in> set (bo_unsettled (Unsettled_Work S e now b)). unsettled_pending x \<longrightarrow> un_Attempts x < unsettledMaxAttempts)"
proof -
  define rs where "rs = sort_key un_CreatedAt (filter unsettled_pending (bo_unsettled b))"
  have set: "set rs = {x \<in> set (bo_unsettled b). unsettled_pending x}" by (auto simp: rs_def)
  have "mset (map un_RequestID rs) = mset (map un_RequestID (filter unsettled_pending (bo_unsettled b)))"
    by (simp add: rs_def)
  then have d: "distinct (map un_RequestID rs)"
    using assms(2) by (metis distinct_map_filter mset_eq_imp_distinct_iff queue_ok_def)
  have all: "ListUnsettledPending unsettledBatch (bo_unsettled b) = rs"
    using assms(2) by (simp add: ListUnsettledPending_def rs_def queue_ok_def)
  have mem: "x \<in> set rs" if "x \<in> set (bo_unsettled b)" "un_RequestID x \<in> un_RequestID ` set rs" for x
    using that set assms(2) distinct_ids_eq [of un_RequestID "bo_unsettled b" x] by (auto simp: queue_ok_def)
  have "map un_RequestID (bo_unsettled (retry_rows S e now rs b)) = map un_RequestID (bo_unsettled b) \<and>
    length (filter unsettled_pending (bo_unsettled (retry_rows S e now rs b)))
      \<le> length (filter unsettled_pending (bo_unsettled b)) \<and>
    (\<forall>x \<in> set (bo_unsettled (retry_rows S e now rs b)). unsettled_pending x \<longrightarrow>
       k + 1 \<le> un_Attempts x \<and> un_Attempts x < unsettledMaxAttempts)"
    using assms d mem set by (intro retry_rows_round) (auto simp: queue_ok_def)
  then show ?thesis using assms(2) unfolding Unsettled_Work_def all queue_ok_def by auto
qed

fun work_rounds :: "'l Settler \<Rightarrow> replay_env \<Rightarrow> instant list \<Rightarrow> 'l books \<Rightarrow> 'l books" where
  "work_rounds S e [] b = b"
| "work_rounds S e (t # ts) b = work_rounds S e ts (Unsettled_Work S e t b)"

lemma work_rounds_bound:
  assumes "statements_ok e" and "queue_ok k (bo_unsettled b)" and "ts \<noteq> []"
  shows "\<forall>x \<in> set (bo_unsettled (work_rounds S e ts b)). unsettled_pending x \<longrightarrow>
    k + int (length ts) \<le> un_Attempts x \<and> un_Attempts x < unsettledMaxAttempts"
  using assms(2,3)
proof (induction ts arbitrary: k b)
  case (Cons t ts)
  have round: "queue_ok (k + 1) (bo_unsettled (Unsettled_Work S e t b))"
    "\<forall>x \<in> set (bo_unsettled (Unsettled_Work S e t b)). unsettled_pending x \<longrightarrow> un_Attempts x < unsettledMaxAttempts"
    using Work_round [OF assms(1) Cons.prems(1)] by auto
  show ?case
  proof (cases "ts = []")
    case True
    then show ?thesis using round by (auto simp: queue_ok_def)
  next
    case False
    then show ?thesis using Cons.IH [OF round(1) False] by (auto simp: add.assoc add.commute)
  qed
qed simp

text \<open>
  C21. No charge waits forever. A queue of at most one batch, whatever the ledger and
  the payloads do, has nothing pending after eight rounds of the worker: every entry
  has been settled or has been abandoned, because each round costs a failing entry
  one of its eight attempts and a payload that does not decode is given up at once.
\<close>

theorem queue_drains_in_eight_rounds:
  assumes "statements_ok e" and "queue_ok 0 (bo_unsettled b)" and "8 \<le> length ts"
  shows "\<forall>x \<in> set (bo_unsettled (work_rounds S e ts b)). un_ResolvedAt x \<noteq> None \<or> un_AbandonedAt x \<noteq> None"
  using work_rounds_bound [OF assms(1,2), of ts S] assms(3)
  by (fastforce simp: unsettled_pending_def unsettledMaxAttempts_def)

definition queued_row :: UnsettledRow where
  "queued_row = \<lparr>un_RequestID = ''req-1'', un_OrgID = Some 3, un_ChargedNano = 8, un_Currency = ''USD'', un_Attempts = 0,
     un_Payload = JObj [(''version'', JNum 1), (''usage'', JObj (marshal_record (replay_record sample_usage ''1'')))],
     un_CreatedAt = 0, un_ResolvedAt = None, un_AbandonedAt = None\<rparr>"

definition sample_env :: replay_env where
  "sample_env = \<lparr>re_scan = scan_rendered, re_scan_num = Some, re_insert_ok = \<lambda>_. True, re_mark_ok = True,
     re_bump_ok = True, re_abandon_ok = True, re_alerter = True\<rparr>"

definition sample_books :: "key_spend books" where
  "sample_books = \<lparr>bo_ledger = \<lparr>ks_daily = [], ks_total = [Some 7 \<mapsto> 0]\<rparr>, bo_usage = [], bo_unsettled = [queued_row],
     bo_alerts = []\<rparr>"

theorem queue_drains_in_eight_rounds_witness:
  "list_all (\<lambda>x. un_ResolvedAt x \<noteq> None \<or> un_AbandonedAt x \<noteq> None)
     (bo_unsettled (work_rounds Recorder sample_env [1, 2, 3, 4, 5, 6, 7, 8] sample_books))"
  unfolding list_all_iff
  by (rule queue_drains_in_eight_rounds)
    (simp_all add: statements_ok_def sample_env_def queue_ok_def sample_books_def queued_row_def unsettledBatch_def)

section \<open>What a replay charges\<close>

context settlement
begin

lemma retry_spend:
  assumes "retry S e now r b = (out, b')" and "0 \<le> un_ChargedNano r"
  shows "if out = outcomeResolved
    then \<exists>params. DecodeUsageReplayPayload (re_scan e) (re_scan_num e) (un_Payload r) = Inr params \<and>
      bo_usage b' = bo_usage b @ [params] \<and>
      spent (bo_ledger b') = (if u_ApiKeyID params = None then spent (bo_ledger b)
        else (spent (bo_ledger b))(u_ApiKeyID params := spent (bo_ledger b) (u_ApiKeyID params) + un_ChargedNano r))
    else bo_ledger b' = bo_ledger b \<and> bo_usage b' = bo_usage b"
  using assms settle_adds
  by (auto simp: retry_def abandon_def settle_and_log_def result_simps split: sum.splits if_splits)

end

text \<open>
  The replay worker counts on a settlement being idempotent: a charge that settled
  but could not be marked is replayed, and nobody is said to be charged twice. The
  self-hosted ledger is not: when the mark fails, the next round adds the charge to
  the key's spend a second time and writes a second usage row for the same request.
\<close>

theorem unmarked_replay_charges_twice:
  assumes "\<not> re_mark_ok e" and "re_insert_ok e params"
    and "DecodeUsageReplayPayload (re_scan e) (re_scan_num e) (un_Payload r) = Inr params"
    and "u_ApiKeyID params = Some k" and "0 < un_ChargedNano r"
    and "ks_total (bo_ledger b) (Some k) = Some t" and "is_int64 (t + 2 * un_ChargedNano r)" and "0 \<le> t"
    and "daily_of (bo_ledger b) (Some k) (day_of now) = d" and "is_int64 (d + 2 * un_ChargedNano r)" and "0 \<le> d"
    and "bo_unsettled b = [r]" and "unsettled_pending r"
  shows "let b' = work_rounds Recorder e [now, now] b
    in total_spent (bo_ledger b') (Some k) = t + 2 * un_ChargedNano r \<and> bo_usage b' = bo_usage b @ [params, params]"
proof -
  have sort: "ListUnsettledPending unsettledBatch [r] = [r]"
    using assms(13) by (simp add: ListUnsettledPending_def unsettledBatch_def)
  have nz: "\<not> un_ChargedNano r \<le> 0" using assms(5) by simp
  have i64: "is_int64 (t + un_ChargedNano r)" "is_int64 (d + un_ChargedNano r)"
    using assms(5,7,8,10,11) by (auto simp: is_int64_def)
  define l1 where "l1 = (bo_ledger b)\<lparr>ks_daily := AList.update (Some k, day_of now) (d + un_ChargedNano r) (ks_daily (bo_ledger b)),
    ks_total := (ks_total (bo_ledger b))(Some k \<mapsto> t + un_ChargedNano r)\<rparr>"
  have one: "Unsettled_Work Recorder e now b = b\<lparr>bo_ledger := l1, bo_usage := bo_usage b @ [params]\<rparr>"
    using assms(1-6,9,12) i64 nz
    by (simp add: Unsettled_Work_def sort retry_def settle_and_log_def Recorder_def Recorder_SettleTx_def AddSpend_def l1_def)
  have l1: "ks_total l1 (Some k) = Some (t + un_ChargedNano r)" "daily_of l1 (Some k) (day_of now) = d + un_ChargedNano r"
    by (simp_all add: l1_def daily_of_def update_conv')
  have i64': "is_int64 (t + un_ChargedNano r + un_ChargedNano r)" "is_int64 (d + un_ChargedNano r + un_ChargedNano r)"
    using assms(7,10) by (simp_all add: algebra_simps)
  have two: "\<exists>l2. Unsettled_Work Recorder e now (b\<lparr>bo_ledger := l1, bo_usage := bo_usage b @ [params]\<rparr>) =
      b\<lparr>bo_ledger := l2, bo_usage := bo_usage b @ [params, params]\<rparr> \<and>
      total_spent l2 (Some k) = t + un_ChargedNano r + un_ChargedNano r"
    using assms(1-5,12) i64' nz l1
    by (auto simp: Unsettled_Work_def sort retry_def settle_and_log_def Recorder_def Recorder_SettleTx_def AddSpend_def total_spent_def)
  then show ?thesis by (auto simp: one Let_def)
qed

lemma queued_row_decodes:
  "DecodeUsageReplayPayload scan_rendered Some (un_Payload queued_row) = Inr (sample_usage\<lparr>u_TokensImageOut := None\<rparr>)"
  unfolding queued_row_def UnsettledRow.select_convs
  by (rule replay_decodes [OF sample_usage_encodes scan_rendered_back])
    (simp_all add: sample_usage_def record_in_range_def replay_record_def is_int32_def is_int64_def int4_value_def)

theorem unmarked_replay_charges_twice_witness:
  "total_spent (bo_ledger (work_rounds Recorder (sample_env\<lparr>re_mark_ok := False\<rparr>) [5, 5] sample_books)) (Some 7) = 16"
proof -
  have "let b' = work_rounds Recorder (sample_env\<lparr>re_mark_ok := False\<rparr>) [5, 5] sample_books
    in total_spent (bo_ledger b') (Some 7) = 0 + 2 * un_ChargedNano queued_row \<and>
       bo_usage b' = bo_usage sample_books @ [sample_usage\<lparr>u_TokensImageOut := None\<rparr>, sample_usage\<lparr>u_TokensImageOut := None\<rparr>]"
    by (rule unmarked_replay_charges_twice [where d = 0])
      (simp_all add: sample_env_def sample_books_def queued_row_decodes,
       simp_all add: queued_row_def sample_usage_def daily_of_def is_int64_def unsettled_pending_def)
  then show ?thesis by (simp add: Let_def queued_row_def)
qed

end
