(* ===== verification/Admission.thy ===== *)
theory Admission
  imports Byok Catalog Unsettled
begin

text \<open>
  Admission of one call (\<open>proxy/pipeline.go\<close>, \<open>proxy/affinity.go\<close>): authentication and the
  gates in the order the code runs them, the resolution of the model, the lock on its prices,
  the amount to hold, and the pinning of a follow-up to the route and credential that
  created its resource. The calls compose the definitions of the other theories; the clock stands
  still during admission.
\<close>

section \<open>The request and what admission learns\<close>

record Request = request_pins +
  rq_Surface :: string
  rq_Protocol :: string
  rq_UpstreamPath :: string
  rq_Method :: string
  rq_Resource :: string
  rq_Body :: string
  rq_Credential :: string
  rq_EndUserID :: string
  rq_RequestID :: string
  rq_Model :: string
  rq_UpstreamQuery :: "(string \<times> string) list"
  rq_Stream :: bool
  rq_Utility :: bool

record ResourceAffinity =
  ra_OrgID :: uuid
  ra_Protocol :: string
  ra_ResourceType :: string
  ra_UpstreamID :: string
  ra_ModelID :: uuid
  ra_RouteID :: uuid
  ra_ProviderID :: uuid
  ra_ProviderKeyID :: uuid
  ra_OrgProviderKeyID :: uuid
  ra_ExpiresAt :: instant

record pricingInputs =
  pi_rates :: Rates
  pi_byokFeeBps :: int
  pi_pricingPlanID :: uuid
  pi_planModelOverride :: bool
  pi_fxVersion :: string

definition ratesForRoute :: "pricingInputs \<Rightarrow> 'z Route_scheme \<Rightarrow> Rates" where
  "ratesForRoute p route = (pi_rates p)\<lparr>rt_ProcurementMultiplierBps := r_ProcurementMultiplierBps route\<rparr>"

definition holdInputs :: "pricingInputs \<Rightarrow> ModelPricingSnapshot \<Rightarrow> PriceTable \<Rightarrow> Price \<times> Price \<times> Rates" where
  "holdInputs p pricing table =
     (BillablePriceOf pricing, LongContextCeiling (ForBilling table (IsFree pricing)), pi_rates p)"

record prepared =
  pr_id :: Identity
  pr_modelSlug :: string
  pr_affinity :: "(ResourceAffinity \<times> string) option"
  pr_byok :: byokChoices
  pr_res :: Resolution
  pr_pricing :: pricingInputs
  pr_inputTokens :: int
  pr_estNano :: int
  pr_priceTable :: PriceTable
  pr_unitPriceTable :: UnitPriceTable
  pr_units :: Units

text \<open>The zero values of Go.\<close>

definition no_rates :: Rates where
  "no_rates = \<lparr>rt_ModelMultiplierBps = 0, rt_PlanMultiplierBps = 0, rt_ProcurementMultiplierBps = 0, rt_FXRate = []\<rparr>"

definition no_prepared :: prepared where
  "no_prepared = \<lparr>pr_id = no_identity, pr_modelSlug = [], pr_affinity = None, pr_byok = [],
     pr_res = \<lparr>re_Model = \<lparr>m_ID = None, m_Slug = [], m_MaxOutputTokens = 0, m_Visibility = [], m_Enabled = False\<rparr>,
               re_ModelPricing = no_pricing, re_Routes = []\<rparr>,
     pr_pricing = \<lparr>pi_rates = no_rates, pi_byokFeeBps = 0, pi_pricingPlanID = None, pi_planModelOverride = False, pi_fxVersion = []\<rparr>,
     pr_inputTokens = 0, pr_estNano = 0, pr_priceTable = Flat zero_price, pr_unitPriceTable = NewUnitPriceTable [], pr_units = []\<rparr>"

definition unitBilled :: "prepared \<Rightarrow> bool" where
  "unitBilled p \<longleftrightarrow> ms_Family (re_ModelPricing (pr_res p)) = FamilyUnits"

definition billingUnitPrices :: "prepared \<Rightarrow> UnitPriceTable \<times> UnitPriceTable" where
  "billingUnitPrices p =
     (UnitForBilling (pr_unitPriceTable p) (IsFree (re_ModelPricing (pr_res p))), pr_unitPriceTable p)"

section \<open>The gateway\<close>

text \<open>
  What a call reads and does not change: the pool's view of the catalog and the snapshot of the pricing
  transaction, when it could be opened. The flags say whether a statement of the pricing transaction
  succeeds; \<open>ge_json\<close> is \<open>encoding/json\<close>'s reading of a body, and the digest names an exchange rate.
\<close>

record ('c, 's, 'l, 'b) gateway_env =
  ge_hash :: "string \<Rightarrow> string"
  ge_cache :: "('c, Identity) CacheStore option"
  ge_authDB :: auth_db
  ge_settings :: settings_store
  ge_txSettings :: settings_store
  ge_pool :: catalog_db
  ge_snapshot :: "unit + catalog_db"
  ge_validate :: "json option \<Rightarrow> Transport option"
  ge_json :: "string \<Rightarrow> json option"
  ge_sha256 :: "string \<Rightarrow> string"
  ge_config :: "('s, 'l) pipeline_config"
  ge_attempt :: attempt_env
  ge_keySpend :: "'b \<Rightarrow> key_spend"
  ge_alerter :: bool
  ge_affinity_ok :: bool
  ge_planRow_ok :: bool
  ge_priceRows_ok :: bool
  ge_unitRows_ok :: bool
  ge_commit_ok :: bool

text \<open>The queue of served requests whose price an operator has to complete.\<close>

record pricing_missing =
  pm_RequestID :: string
  pm_OrgID :: uuid
  pm_ReservedNano :: int
  pm_Currency :: string
  pm_Payload :: json

record ('c, 's, 'l, 'b) gateway =
  gw_auth :: "'c auth_state"
  gw_pipe :: "('s, 'l, attempt_state) pipeline_state"
  gw_known :: known_transports
  gw_affinities :: "ResourceAffinity list"
  gw_unpricedSeen :: "string \<rightharpoonup> instant"
  gw_alerts :: "string list"
  gw_books :: "'b books"
  gw_pricingMissing :: "pricing_missing list"

definition unpricedAlertInterval :: duration where "unpricedAlertInterval = minutes 60"

definition alertUnpriced :: "('c, 's, 'l, 'b) gateway_env \<Rightarrow> instant \<Rightarrow> string \<Rightarrow> ('c, 's, 'l, 'b) gateway \<Rightarrow> ('c, 's, 'l, 'b) gateway" where
  "alertUnpriced env now slug g =
     (if \<not> ge_alerter env then g
      else case gw_unpricedSeen g slug of
             Some t \<Rightarrow> if now - t < unpricedAlertInterval then g
                       else g\<lparr>gw_unpricedSeen := (gw_unpricedSeen g)(slug \<mapsto> now), gw_alerts := gw_alerts g @ [slug]\<rparr>
           | None \<Rightarrow> g\<lparr>gw_unpricedSeen := (gw_unpricedSeen g)(slug \<mapsto> now), gw_alerts := gw_alerts g @ [slug]\<rparr>)"

section \<open>Stateful resources\<close>

definition resourceResponse :: string where "resourceResponse = ''response''"
definition resourceInteraction :: string where "resourceInteraction = ''interaction''"

text \<open>The row a lookup joins with its model's slug; an expired one is not there.\<close>

definition GetResourceAffinity :: "catalog_db \<Rightarrow> instant \<Rightarrow> uuid \<Rightarrow> string \<Rightarrow> string \<Rightarrow> string \<Rightarrow> ResourceAffinity list
    \<Rightarrow> (ResourceAffinity \<times> string) option" where
  "GetResourceAffinity db now orgID protocol resourceType upstreamID rows =
     (case find (\<lambda>a. ra_OrgID a = orgID \<and> orgID \<noteq> None \<and> ra_Protocol a = protocol \<and> ra_ResourceType a = resourceType \<and>
                     ra_UpstreamID a = upstreamID \<and> ra_ExpiresAt a > now) rows of
        None \<Rightarrow> None
      | Some a \<Rightarrow> (case find (\<lambda>m. m_ID m = ra_ModelID a) (ct_models db) of None \<Rightarrow> None | Some m \<Rightarrow> Some (a, m_Slug m)))"

definition affinity_key :: "ResourceAffinity \<Rightarrow> uuid \<times> string \<times> string \<times> string" where
  "affinity_key a = (ra_OrgID a, ra_Protocol a, ra_ResourceType a, ra_UpstreamID a)"

definition UpsertResourceAffinity :: "ResourceAffinity \<Rightarrow> ResourceAffinity list \<Rightarrow> ResourceAffinity list" where
  "UpsertResourceAffinity a rows =
     (if \<exists>b \<in> set rows. affinity_key b = affinity_key a
      then map (\<lambda>b. if affinity_key b = affinity_key a then a else b) rows else rows @ [a])"

definition DeleteResourceAffinity :: "uuid \<Rightarrow> string \<Rightarrow> string \<Rightarrow> string \<Rightarrow> ResourceAffinity list \<Rightarrow> ResourceAffinity list" where
  "DeleteResourceAffinity orgID protocol resourceType upstreamID rows =
     filter (\<lambda>b. affinity_key b \<noteq> (orgID, protocol, resourceType, upstreamID)) rows"

definition read_previous :: "(string \<times> string) reader" where
  "read_previous k v pr =
     (if k = ''previous_response_id'' then put_string v (\<lambda>s. (s, snd pr)) pr
      else if k = ''previous_interaction_id'' then put_string v (\<lambda>s. (fst pr, s)) pr else Inr pr)"

definition affinityReference :: "(string \<Rightarrow> json option) \<Rightarrow> Request \<Rightarrow> string \<times> string" where
  "affinityReference parse rq =
     (if rq_Resource rq \<noteq> [] \<and> rq_Surface rq = SurfaceResponsesResources then (resourceResponse, rq_Resource rq)
      else if rq_Resource rq \<noteq> [] \<and> rq_Surface rq = SurfaceGeminiInteractions then (resourceInteraction, rq_Resource rq)
      else case decode_body read_previous ([], []) (parse (rq_Body rq)) of
             Inl _ \<Rightarrow> ([], [])
           | Inr (response, interaction) \<Rightarrow>
               if rq_Surface rq \<in> {SurfaceResponses, SurfaceResponsesCompact, SurfaceResponsesInputTokens} then (resourceResponse, response)
               else if rq_Surface rq = SurfaceGeminiInteractions then (resourceInteraction, interaction)
               else ([], []))"

definition modelForRequest :: "(string \<Rightarrow> json option) \<Rightarrow> Request \<Rightarrow> body_error + string" where
  "modelForRequest parse rq = (if rq_Model rq \<noteq> [] then Inr (rq_Model rq) else ModelOf (parse (rq_Body rq)))"

fun body_error_text :: "body_error \<Rightarrow> string" where
  "body_error_text BadJSON = ''proxy: invalid JSON in request body''"
| "body_error_text MissingModel = ''proxy: missing model field''"

definition resource_gone :: Error where
  "resource_gone = NewError GatewayResourceNotFound ''Resource not found or expired''"

definition lookup_failed :: Error where
  "lookup_failed = NewError GatewayInternal ''Resource lookup failed''"

definition route_gone :: Error where
  "route_gone = state_unavailable ''The resource's original route is unavailable''"

definition modelForAdmission :: "('c, 's, 'l, 'b) gateway_env \<Rightarrow> instant \<Rightarrow> Identity \<Rightarrow> Request \<Rightarrow> ResourceAffinity list
    \<Rightarrow> Error + string \<times> (ResourceAffinity \<times> string) option" where
  "modelForAdmission env now i rq rows =
     (case modelForRequest (ge_json env) rq of
        Inr model \<Rightarrow> Inr (model, None)
      | Inl e \<Rightarrow>
          (let (resourceType, upstreamID) = affinityReference (ge_json env) rq
           in if upstreamID = [] then Inl (NewError GatewayInvalidRequest (body_error_text e))
              else if \<not> ge_affinity_ok env then Inl lookup_failed
              else case GetResourceAffinity (ge_pool env) now (id_OrgID i) (rq_Protocol rq) resourceType upstreamID rows of
                     Some a \<Rightarrow> Inr (snd a, Some a)
                   | None \<Rightarrow> Inl resource_gone))"

definition affinityResolutionError :: "('c, 's, 'l, 'b) gateway_env \<Rightarrow> catalog_db \<Rightarrow> instant \<Rightarrow> Identity \<Rightarrow> Request
    \<Rightarrow> (ResourceAffinity \<times> string) option \<Rightarrow> ResourceAffinity list \<Rightarrow> Error option" where
  "affinityResolutionError env db now i rq cached rows =
     (let (resourceType, upstreamID) = affinityReference (ge_json env) rq
      in if upstreamID = [] then None
         else if cached \<noteq> None then Some route_gone
         else if \<not> ge_affinity_ok env then Some lookup_failed
         else case GetResourceAffinity db now (id_OrgID i) (rq_Protocol rq) resourceType upstreamID rows of
                Some _ \<Rightarrow> Some route_gone
              | None \<Rightarrow> Some resource_gone)"

text \<open>
  Pinning keeps the one route that created the resource and hands its credential on. The breaker may
  let a half-open circuit through, so its state is returned.
\<close>

definition pinAffinity :: "('c, 's, 'l, 'b) gateway_env \<Rightarrow> instant \<Rightarrow> prepared \<Rightarrow> Request \<Rightarrow> ('c, 's, 'l, 'b) gateway
    \<Rightarrow> (Error + prepared \<times> Request) \<times> ('c, 's, 'l, 'b) gateway" where
  "pinAffinity env now prep rq g =
     (let (resourceType, upstreamID) = affinityReference (ge_json env) rq
      in if upstreamID = [] then (Inr (prep, rq), g)
         else case (case pr_affinity prep of
                      Some a \<Rightarrow> Inr a
                    | None \<Rightarrow>
                        if \<not> ge_affinity_ok env then Inl lookup_failed
                        else case GetResourceAffinity (ge_pool env) now (id_OrgID (pr_id prep)) (rq_Protocol rq) resourceType upstreamID
                                    (gw_affinities g) of
                               None \<Rightarrow> Inl resource_gone
                             | Some a \<Rightarrow> Inr a) of
                Inl e \<Rightarrow> (Inl e, g)
              | Inr (a, _) \<Rightarrow>
                  if ra_ModelID a \<noteq> m_ID (re_Model (pr_res prep)) \<or> \<not> uuid_valid (ra_RouteID a) \<or> \<not> uuid_valid (ra_ProviderID a)
                  then (Inl route_gone, g)
                  else (case find (\<lambda>r. r_ID r = ra_RouteID a \<and> r_ProviderID r = ra_ProviderID a) (re_Routes (pr_res prep)) of
                     None \<Rightarrow> (Inl route_gone, g)
                   | Some route \<Rightarrow>
                       (let (ok, c) = ProviderAvailable (pc_breaker (ge_config env)) now (r_ProviderID route) (ps_circuits (gw_pipe g));
                            g = g\<lparr>gw_pipe := (gw_pipe g)\<lparr>ps_circuits := c\<rparr>\<rparr>
                        in if \<not> ok then (Inl route_gone, g)
                           else if \<not> uuid_valid (ra_ProviderKeyID a) \<and> \<not> uuid_valid (ra_OrgProviderKeyID a)
                           then (Inl (state_unavailable ''The resource's original credential is unavailable''), g)
                           else (Inr (prep\<lparr>pr_res := (pr_res prep)\<lparr>re_Routes := [route]\<rparr>\<rparr>,
                                      rq\<lparr>rq_PinnedProviderKeyID := ra_ProviderKeyID a,
                                         rq_PinnedOrgProviderKeyID := ra_OrgProviderKeyID a\<rparr>), g))))"

definition requestStoresResource :: "json option \<Rightarrow> bool" where
  "requestStoresResource body =
     (case decode_body (\<lambda>k v s. if k = ''store'' then (case v of JNull \<Rightarrow> Inr None | _ \<Rightarrow> put_bool v Some s) else Inr s) None body of
        Inl _ \<Rightarrow> False
      | Inr None \<Rightarrow> True
      | Inr (Some b) \<Rightarrow> b)"

definition sharedKeyOf :: "upstreamResult \<Rightarrow> uuid" where "sharedKeyOf res = sharedKeyIfUsed (ur_byok res) (ur_keyID res)"
definition byokKeyOf :: "upstreamResult \<Rightarrow> uuid" where "byokKeyOf res = ur_byokKeyID res"

definition rememberAffinityID :: "('c, 's, 'l, 'b) gateway_env \<Rightarrow> instant \<Rightarrow> prepared \<Rightarrow> Request \<Rightarrow> string \<Rightarrow> upstreamResult
    \<Rightarrow> rotationResult \<Rightarrow> ('c, 's, 'l, 'b) gateway \<Rightarrow> ('c, 's, 'l, 'b) gateway" where
  "rememberAffinityID env now prep rq upstreamID upstream rotation g =
     (if rq_Surface rq \<notin> {SurfaceResponses, SurfaceGeminiInteractions} then g
      else if upstreamID = [] \<or> \<not> requestStoresResource (ge_json env (rq_Body rq)) then g
      else if \<not> ge_affinity_ok env then g
      else g\<lparr>gw_affinities := UpsertResourceAffinity
             \<lparr>ra_OrgID = id_OrgID (pr_id prep), ra_Protocol = rq_Protocol rq,
              ra_ResourceType = (if rq_Surface rq = SurfaceResponses then resourceResponse else resourceInteraction),
              ra_UpstreamID = upstreamID, ra_ModelID = m_ID (re_Model (pr_res prep)),
              ra_RouteID = (case rr_route rotation of None \<Rightarrow> None | Some r \<Rightarrow> r_ID r),
              ra_ProviderID = (case rr_route rotation of None \<Rightarrow> None | Some r \<Rightarrow> r_ProviderID r),
              ra_ProviderKeyID = sharedKeyOf upstream, ra_OrgProviderKeyID = byokKeyOf upstream,
              ra_ExpiresAt = now + ResourceAffinityTTL (ge_settings env)\<rparr> (gw_affinities g)\<rparr>)"

definition rememberAffinity :: "('c, 's, 'l, 'b) gateway_env \<Rightarrow> instant \<Rightarrow> prepared \<Rightarrow> Request \<Rightarrow> upstreamResult \<Rightarrow> rotationResult
    \<Rightarrow> ('c, 's, 'l, 'b) gateway \<Rightarrow> ('c, 's, 'l, 'b) gateway" where
  "rememberAffinity env now prep rq upstream rotation g =
     (if rq_Surface rq \<notin> {SurfaceResponses, SurfaceGeminiInteractions} then g
      else if \<not> requestStoresResource (ge_json env (rq_Body rq)) then g
      else case decode_body (\<lambda>k v s. if k = ''id'' then put_string v id s else Inr s) [] (ge_json env (ur_body upstream)) of
             Inl _ \<Rightarrow> g
           | Inr upstreamID \<Rightarrow> if upstreamID = [] then g else rememberAffinityID env now prep rq upstreamID upstream rotation g)"

section \<open>Locking the prices\<close>

definition incomplete_billing :: Error where
  "incomplete_billing = NewError GatewayInternal ''Billing configuration is incomplete''"

definition LockInputs :: "('c, 's, 'l, 'b) gateway_env \<Rightarrow> catalog_db \<Rightarrow> Identity \<Rightarrow> Resolution \<Rightarrow> Error + pricingInputs" where
  "LockInputs env db i res =
     (let fx = FXRate (ge_txSettings env) (id_WalletCurrency i)
      in if fx = [] then Inl incomplete_billing
         else if \<not> ge_planRow_ok env then Inl incomplete_billing
         else case ResolveUsagePricing db (m_Slug (re_Model res)) (id_OrgID i) of
                None \<Rightarrow> Inl incomplete_billing
              | Some row \<Rightarrow>
                  if up_ModelID row \<noteq> m_ID (re_Model res) \<or> up_ModelSlug row \<noteq> m_Slug (re_Model res) \<or>
                     \<not> uuid_valid (up_PricingPlanID row) then Inl incomplete_billing
                  else Inr \<lparr>pi_rates = \<lparr>rt_ModelMultiplierBps = up_ModelMultiplierBps row,
                              rt_PlanMultiplierBps = up_PlanMultiplierBps row, rt_ProcurementMultiplierBps = 10000, rt_FXRate = fx\<rparr>,
                            pi_byokFeeBps = BYOKFeeBps (ge_txSettings env), pi_pricingPlanID = up_PricingPlanID row,
                            pi_planModelOverride = up_PlanModelOverride row, pi_fxVersion = ''sha256:'' @ ge_sha256 env fx\<rparr>)"

definition unpriced :: Error where
  "unpriced = NewError GatewayModelUnpriced ''Model is temporarily unavailable''"

definition quoteOrRefuse :: "('c, 's, 'l, 'b) gateway_env \<Rightarrow> instant \<Rightarrow> string \<Rightarrow> pricing_error + Quote \<Rightarrow> ('c, 's, 'l, 'b) gateway
    \<Rightarrow> (Error + Quote) \<times> ('c, 's, 'l, 'b) gateway" where
  "quoteOrRefuse env now slug computed g =
     (case computed of
        Inr quote \<Rightarrow> (Inr quote, g)
      | Inl ErrUnitPriceMissing \<Rightarrow> (Inl unpriced, alertUnpriced env now slug g)
      | Inl _ \<Rightarrow> (Inl incomplete_billing, g))"

definition syncUnits :: "('c, 's, 'l, 'b) gateway_env \<Rightarrow> instant \<Rightarrow> prepared \<Rightarrow> Request \<Rightarrow> ('c, 's, 'l, 'b) gateway
    \<Rightarrow> (Error + Units) \<times> ('c, 's, 'l, 'b) gateway" where
  "syncUnits env now prep rq g =
     (case BillingUnit (pr_unitPriceTable prep) of
        Inl _ \<Rightarrow> (Inl unpriced, alertUnpriced env now (pr_modelSlug prep) g)
      | Inr unit \<Rightarrow>
          if rq_Surface rq = SurfaceImages \<or> rq_Surface rq = SurfaceImagesEdit then
            (let (size, quality) = imageParamsOf (ge_json env (rq_Body rq));
                 key = \<lparr>uk_Unit = unit, uk_Resolution = size, uk_Audio = [], uk_Variant = quality, uk_ServiceTier = []\<rparr>
             in (Inr (imageUnits key (maxImagesOf (map Route.truncate (re_Routes (pr_res prep))))), g))
          else (Inl incomplete_billing, g))"

section \<open>Prepare\<close>

type_synonym ('c, 's, 'l, 'b) prepare_result = "(prepared \<times> Error option) \<times> ('c, 's, 'l, 'b) gateway"

definition check_rate :: "('c, 's, 'l, 'b) gateway_env \<Rightarrow> instant \<Rightarrow> Identity \<Rightarrow> int \<Rightarrow> ('c, 's, 'l, 'b) gateway
    \<Rightarrow> Error option \<times> ('c, 's, 'l, 'b) gateway" where
  "check_rate env now i tokens g =
     (let (e, l) = CheckRate (pc_limiter (ge_config env)) i now tokens (ps_limiter (gw_pipe g))
      in (e, g\<lparr>gw_pipe := (gw_pipe g)\<lparr>ps_limiter := l\<rparr>\<rparr>))"

text \<open>The end of step 5 for a model billed by unit: the rate gate, and the exact charge of a synchronous call.\<close>

definition prepare_units :: "('c, 's, 'l, 'b) gateway_env \<Rightarrow> instant \<Rightarrow> Request \<Rightarrow> prepared \<Rightarrow> ('c, 's, 'l, 'b) gateway
    \<Rightarrow> ('c, 's, 'l, 'b) prepare_result" where
  "prepare_units env now rq out g =
     (let (e, g) = check_rate env now (pr_id out) 0 g
      in if e \<noteq> None then ((out, e), g)
         else if rq_Surface rq = SurfaceVideo then ((out, None), g)
         else if rq_Stream rq \<and> isImageSurface (rq_Surface rq)
         then ((out, Some (NewError GatewayInvalidRequest
                (''This model is billed per image, and the number of images produced '' @
                 ''cannot be counted from a stream. Retry without \"stream\".''))), g)
         else case syncUnits env now out rq g of
                (Inl e, g) \<Rightarrow> ((out, Some e), g)
              | (Inr units, g) \<Rightarrow>
                  (let (list, cost) = billingUnitPrices out
                   in case quoteOrRefuse env now (pr_modelSlug out) (ComputeUnits list cost units (pi_rates (pr_pricing out))) g of
                        (Inl e, g) \<Rightarrow> ((out, Some e), g)
                      | (Inr quote, g) \<Rightarrow> ((out\<lparr>pr_units := units, pr_estNano := q_ChargedNano quote\<rparr>, None), g)))"

text \<open>The end of step 5 for a model billed by token: the rate gate and the estimate.\<close>

definition hold_estimate :: "('c, 's, 'l, 'b) gateway_env \<Rightarrow> Request \<Rightarrow> prepared \<Rightarrow> EstimateInput" where
  "hold_estimate env rq out =
     (let (holdCap, ignoreCap) = HoldCap (re_Model (pr_res out)) (re_Routes (pr_res out));
          (holdPrice, holdCeiling, holdRates) = holdInputs (pr_pricing out) (re_ModelPricing (pr_res out)) (pr_priceTable out)
      in \<lparr>ei_Price = holdPrice, ei_LongContext = holdCeiling, ei_InputTokens = pr_inputTokens out,
          ei_MaxOutput = MaxTokensOf (ge_json env (rq_Body rq)), ei_DefaultMaxCap = holdCap, ei_IgnoreRequestCap = ignoreCap,
          ei_Rates = holdRates\<rparr>)"

definition prepare_tokens :: "('c, 's, 'l, 'b) gateway_env \<Rightarrow> instant \<Rightarrow> Request \<Rightarrow> prepared \<Rightarrow> ('c, 's, 'l, 'b) gateway
    \<Rightarrow> ('c, 's, 'l, 'b) prepare_result" where
  "prepare_tokens env now rq out g =
     (let out = out\<lparr>pr_inputTokens := EstimateRequestTokens (rq_Body rq)\<rparr>;
          (e, g) = check_rate env now (pr_id out) (pr_inputTokens out) g
      in if e \<noteq> None then ((out, e), g)
         else case Estimate (hold_estimate env rq out) of
                Inl _ \<Rightarrow> ((out, Some (NewError GatewayInternal ''Billing estimation failed'')), g)
              | Inr estNano \<Rightarrow> ((out\<lparr>pr_estNano := estNano\<rparr>, None), g))"

text \<open>Step 4, inside the pricing transaction, and the budget gate after its commit.\<close>

definition prepare_priced :: "('c, 's, 'l, 'b) gateway_env \<Rightarrow> catalog_db \<Rightarrow> instant \<Rightarrow> Request \<Rightarrow> prepared \<Rightarrow> ('c, 's, 'l, 'b) gateway
    \<Rightarrow> ('c, 's, 'l, 'b) prepare_result" where
  "prepare_priced env db now rq out g =
     (case LockInputs env db (pr_id out) (pr_res out) of
        Inl e \<Rightarrow> ((out, Some e), g)
      | Inr pricing \<Rightarrow>
          (let out = out\<lparr>pr_pricing := pricing\<rparr>; modelID = m_ID (re_Model (pr_res out))
           in if \<not> ge_priceRows_ok env then ((out, Some incomplete_billing), g)
              else (let out = out\<lparr>pr_priceTable := LockedPriceTable db modelID (re_ModelPricing (pr_res out))\<rparr>;
                        unitTable = LockedUnitPriceTable db modelID
                    in if unitBilled out \<and> \<not> ge_unitRows_ok env then ((out, Some incomplete_billing), g)
                       else if unitBilled out \<and> Empty unitTable then ((out, Some unpriced), alertUnpriced env now (pr_modelSlug out) g)
                       else (let out = (if unitBilled out then out\<lparr>pr_unitPriceTable := unitTable\<rparr> else out)
                             in if \<not> ge_commit_ok env then ((out, Some incomplete_billing), g)
                                else case CheckBudget (pr_id out) now (ge_keySpend env (bo_ledger (gw_books g))) of
                                       Some e \<Rightarrow> ((out, Some e), g)
                                     | None \<Rightarrow> if unitBilled out then prepare_units env now rq out g
                                               else prepare_tokens env now rq out g))))"

definition resolution_failed :: Error where
  "resolution_failed = NewError GatewayInternal ''Model resolution failed''"

text \<open>Resolution in the pricing transaction; a utility call ends here.\<close>

definition prepare_resolved :: "('c, 's, 'l, 'b) gateway_env \<Rightarrow> instant \<Rightarrow> Request \<Rightarrow> prepared \<Rightarrow> ('c, 's, 'l, 'b) gateway
    \<Rightarrow> ('c, 's, 'l, 'b) prepare_result" where
  "prepare_resolved env now rq out g =
     (case ge_snapshot env of
        Inl _ \<Rightarrow> ((out, Some resolution_failed), g)
      | Inr db \<Rightarrow>
          (case ResolveFor (ge_validate env) db (pr_modelSlug out) (rq_Surface rq) (id_ModelTierID (pr_id out)) (vendors (pr_byok out))
                  (gw_known g) of
             (Inl e, known) \<Rightarrow>
               (let g = g\<lparr>gw_known := known\<rparr>
                in case e of
                     ErrModelUnpriced \<Rightarrow> ((out, Some unpriced), alertUnpriced env now (pr_modelSlug out) g)
                   | ErrModelUnavailable \<Rightarrow>
                       (case affinityResolutionError env db now (pr_id out) rq (pr_affinity out) (gw_affinities g) of
                          Some e \<Rightarrow> ((out, Some e), g)
                        | None \<Rightarrow> ((out, Some (NewError GatewayModelNotFound ''Model not found or unavailable'')), g))
                   | InvalidTransport _ \<Rightarrow> ((out, Some resolution_failed), g))
           | (Inr res, known) \<Rightarrow>
               (let g = g\<lparr>gw_known := known\<rparr>; out = out\<lparr>pr_res := res\<rparr>
                in if rq_Utility rq then
                     (if \<not> ge_commit_ok env then ((out, Some resolution_failed), g)
                      else (let out = out\<lparr>pr_inputTokens := EstimateRequestTokens (rq_Body rq)\<rparr>;
                                (e, g) = check_rate env now (pr_id out) (pr_inputTokens out) g
                            in ((out, e), g)))
                   else prepare_priced env db now rq out g)))"

definition Prepare :: "('c, 's, 'l, 'b) gateway_env \<Rightarrow> instant \<Rightarrow> Request \<Rightarrow> ('c, 's, 'l, 'b) gateway
    \<Rightarrow> ('c, 's, 'l, 'b) prepare_result" where
  "Prepare env now rq g =
     (case Authenticate (ge_hash env) (ge_cache env) (ge_authDB env) now (rq_Credential rq) (gw_auth g) of
        (Inl e, au) \<Rightarrow> ((no_prepared, Some e), g\<lparr>gw_auth := au\<rparr>)
      | (Inr i, au) \<Rightarrow>
          (let g = g\<lparr>gw_auth := au\<rparr>; out = no_prepared\<lparr>pr_id := i\<rparr>
           in case RequireScope i ''inference'' of
                Some e \<Rightarrow> ((out, Some e), g)
              | None \<Rightarrow>
                  if KillSwitch (ge_settings env) then ((out, Some (NewError GatewayModelDisabled ''Service is temporarily disabled'')), g)
                  else (case modelForAdmission env now i rq (gw_affinities g) of
                     Inl e \<Rightarrow> ((out, Some e), g)
                   | Inr (modelSlug, affinity) \<Rightarrow>
                       (let out = out\<lparr>pr_modelSlug := modelSlug, pr_affinity := affinity\<rparr>
                        in case CheckTier i of
                             Some e \<Rightarrow> ((out, Some e), g)
                           | None \<Rightarrow>
                               (case CheckModel i modelSlug of
                                  Some e \<Rightarrow> ((out, Some e), g)
                                | None \<Rightarrow>
                                    prepare_resolved env now rq
                                      (out\<lparr>pr_byok := resolveBYOK (en_box (ge_attempt env)) (id_OrgID i)
                                             (at_orgKeys (ps_attempt (gw_pipe g)))\<rparr>) g)))))"

section \<open>What an admitted call has passed\<close>

lemma check_rate_keeps:
  assumes "check_rate env now i tokens g = (e, g')"
  shows "gw_books g' = gw_books g" and "gw_affinities g' = gw_affinities g"
  using assms by (auto simp: check_rate_def split: prod.splits)

lemma alertUnpriced_keeps [simp]:
  "gw_books (alertUnpriced env now slug g) = gw_books g" "gw_affinities (alertUnpriced env now slug g) = gw_affinities g"
  "gw_pipe (alertUnpriced env now slug g) = gw_pipe g" "gw_pricingMissing (alertUnpriced env now slug g) = gw_pricingMissing g"
  by (auto simp: alertUnpriced_def split: option.splits)

text \<open>An admitted token-billed call, taken apart.\<close>

lemma prepare_tokens_ok:
  assumes "prepare_tokens env now rq out g = ((prep, None), g')"
  shows "prep = out\<lparr>pr_inputTokens := EstimateRequestTokens (rq_Body rq), pr_estNano := pr_estNano prep\<rparr>"
    and "Estimate (hold_estimate env rq prep) = Inr (pr_estNano prep)"
  using assms by (auto simp: prepare_tokens_def hold_estimate_def Let_def split: prod.splits if_splits sum.splits)

lemma prepare_units_ok:
  assumes "prepare_units env now rq out g = ((prep, None), g')"
  shows "prep = out\<lparr>pr_units := pr_units prep, pr_estNano := pr_estNano prep\<rparr>"
  using assms by (auto simp: prepare_units_def Let_def split: prod.splits if_splits sum.splits)

lemma unitBilled_update [simp]:
  "unitBilled (out\<lparr>pr_pricing := a\<rparr>) = unitBilled out" "unitBilled (out\<lparr>pr_priceTable := b\<rparr>) = unitBilled out"
  "unitBilled (out\<lparr>pr_unitPriceTable := c\<rparr>) = unitBilled out" "unitBilled (out\<lparr>pr_inputTokens := n\<rparr>) = unitBilled out"
  "unitBilled (out\<lparr>pr_estNano := n\<rparr>) = unitBilled out" "unitBilled (out\<lparr>pr_units := u\<rparr>) = unitBilled out"
  by (simp_all add: unitBilled_def)

lemma prepare_priced_tokens:
  assumes "prepare_priced env db now rq out g = ((prep, None), g')" and "\<not> unitBilled prep"
  shows "\<not> unitBilled out" and "LockInputs env db (pr_id out) (pr_res out) = Inr (pr_pricing prep)"
    and "pr_id prep = pr_id out" and "pr_res prep = pr_res out"
    and "pr_priceTable prep = LockedPriceTable db (m_ID (re_Model (pr_res out))) (re_ModelPricing (pr_res out))"
    and "pr_inputTokens prep = EstimateRequestTokens (rq_Body rq)"
    and "CheckBudget (pr_id out) now (ge_keySpend env (bo_ledger (gw_books g))) = None"
    and "Estimate (hold_estimate env rq prep) = Inr (pr_estNano prep)"
proof -
  obtain pricing where lock: "LockInputs env db (pr_id out) (pr_res out) = Inr pricing"
    using assms(1) by (auto simp: prepare_priced_def split: sum.splits)
  let ?out = "out\<lparr>pr_pricing := pricing,
    pr_priceTable := LockedPriceTable db (m_ID (re_Model (pr_res out))) (re_ModelPricing (pr_res out))\<rparr>"
  have nu: "\<not> unitBilled out"
  proof
    assume u: "unitBilled out"
    have "unitBilled (?out\<lparr>pr_unitPriceTable := t, pr_units := v, pr_estNano := n\<rparr>)" for t v n using u by simp
    moreover have "prepare_units env now rq (?out\<lparr>pr_unitPriceTable := LockedUnitPriceTable db (m_ID (re_Model (pr_res out)))\<rparr>) g =
        ((prep, None), g')"
      using assms(1) u by (auto simp: prepare_priced_def lock Let_def split: if_splits option.splits)
    ultimately show False using prepare_units_ok assms(2) by metis
  qed
  have budget: "CheckBudget (pr_id out) now (ge_keySpend env (bo_ledger (gw_books g))) = None"
    and tok: "prepare_tokens env now rq ?out g = ((prep, None), g')"
    using assms(1) nu by (auto simp: prepare_priced_def lock Let_def split: if_splits option.splits)
  note ok = prepare_tokens_ok[OF tok]
  have *: "pr_pricing prep = pricing" "pr_id prep = pr_id out" "pr_res prep = pr_res out"
    "pr_priceTable prep = LockedPriceTable db (m_ID (re_Model (pr_res out))) (re_ModelPricing (pr_res out))"
    "pr_inputTokens prep = EstimateRequestTokens (rq_Body rq)"
    by (subst ok(1), simp)+
  show "\<not> unitBilled out" by (fact nu)
  show "LockInputs env db (pr_id out) (pr_res out) = Inr (pr_pricing prep)" using lock * by simp
  show "pr_id prep = pr_id out" "pr_res prep = pr_res out"
    "pr_priceTable prep = LockedPriceTable db (m_ID (re_Model (pr_res out))) (re_ModelPricing (pr_res out))"
    "pr_inputTokens prep = EstimateRequestTokens (rq_Body rq)" by (fact *)+
  show "CheckBudget (pr_id out) now (ge_keySpend env (bo_ledger (gw_books g))) = None" by (fact budget)
  show "Estimate (hold_estimate env rq prep) = Inr (pr_estNano prep)" by (fact ok(2))
qed

text \<open>Everything a call that reached resolution has passed.\<close>

lemma Prepare_okE:
  assumes "Prepare env now rq g = ((prep, None), g')"
  obtains i au slug aff out where
    "Authenticate (ge_hash env) (ge_cache env) (ge_authDB env) now (rq_Credential rq) (gw_auth g) = (Inr i, au)"
    "RequireScope i ''inference'' = None" "\<not> KillSwitch (ge_settings env)"
    "modelForAdmission env now i rq (gw_affinities g) = Inr (slug, aff)" "CheckTier i = None" "CheckModel i slug = None"
    "out = no_prepared\<lparr>pr_id := i, pr_modelSlug := slug, pr_affinity := aff,
       pr_byok := resolveBYOK (en_box (ge_attempt env)) (id_OrgID i) (at_orgKeys (ps_attempt (gw_pipe g)))\<rparr>"
    "prepare_resolved env now rq out (g\<lparr>gw_auth := au\<rparr>) = ((prep, None), g')"
  using assms unfolding Prepare_def
  by (auto simp: Let_def split: prod.splits sum.splits option.splits if_splits)

lemma prepare_resolved_okE:
  assumes "prepare_resolved env now rq out g = ((prep, None), g')"
  obtains db res known where "ge_snapshot env = Inr db"
    "ResolveFor (ge_validate env) db (pr_modelSlug out) (rq_Surface rq) (id_ModelTierID (pr_id out)) (vendors (pr_byok out)) (gw_known g)
       = (Inr res, known)"
    "rq_Utility rq \<Longrightarrow> ge_commit_ok env \<and> pr_res prep = res"
    "\<not> rq_Utility rq \<Longrightarrow> prepare_priced env db now rq (out\<lparr>pr_res := res\<rparr>) (g\<lparr>gw_known := known\<rparr>) = ((prep, None), g')"
  using assms unfolding prepare_resolved_def
  by (auto simp: Let_def split: prod.splits sum.splits option.splits if_splits catalog_error.splits)

section \<open>The hold covers the bill\<close>

lemma LockedPriceTable_base:
  "pt_base (LockedPriceTable db m pricing) = ms_Upstream pricing"
  "ForBilling (LockedPriceTable db m pricing) False = LockedPriceTable db m pricing"
  by (simp_all add: LockedPriceTable_def WithToolPrices_def NewPriceTable_def ForBilling_def Flat_def Let_def)

lemma hold_estimate_simps:
  "ei_Price (hold_estimate env rq out) = BillablePriceOf (re_ModelPricing (pr_res out))"
  "ei_LongContext (hold_estimate env rq out) = LongContextCeiling (ForBilling (pr_priceTable out) (IsFree (re_ModelPricing (pr_res out))))"
  "ei_InputTokens (hold_estimate env rq out) = pr_inputTokens out"
  "ei_MaxOutput (hold_estimate env rq out) = MaxTokensOf (ge_json env (rq_Body rq))"
  "ei_DefaultMaxCap (hold_estimate env rq out) = fst (HoldCap (re_Model (pr_res out)) (re_Routes (pr_res out)))"
  "ei_IgnoreRequestCap (hold_estimate env rq out) = snd (HoldCap (re_Model (pr_res out)) (re_Routes (pr_res out)))"
  "ei_Rates (hold_estimate env rq out) = pi_rates (pr_pricing out)"
  by (simp_all add: hold_estimate_def holdInputs_def split: prod.splits)

text \<open>What an answer may hold: no more output than the model and its candidates declare, nor than a cap they all honour.\<close>

definition within_caps :: "(string \<Rightarrow> json option) \<Rightarrow> Request \<Rightarrow> Resolution \<Rightarrow> int \<Rightarrow> bool" where
  "within_caps parse rq res n \<longleftrightarrow>
     (let (cap, ignored) = HoldCap (re_Model res) (re_Routes res); asked = MaxTokensOf (parse (rq_Body rq))
      in 0 < cap \<and> n \<le> cap \<and> (0 < asked \<and> \<not> ignored \<longrightarrow> n \<le> asked))"

lemma within_caps_estimate:
  assumes "within_caps (ge_json env) rq (pr_res out) n"
  shows "n \<le> estimate_output (hold_estimate env rq out)"
  using assms
  by (auto simp: within_caps_def estimate_output_def hold_estimate_simps Let_def split: prod.splits)

lemma Compute_free_charges_nothing:
  assumes "Compute (ForBilling list True) cost t r = Inr q"
  shows "q_ChargedNano q = 0"
proof -
  obtain c l where "ValidateTokens t = Inr ()" and "upstreamCost (ForBilling list True) t = Inr l"
    and q: "\<exists>f :: rat. q_ChargedNano q = \<lceil>l * f\<rceil>"
    using assms by (rule tokens.quote_exact) blast
  moreover have "upstreamCost (ForBilling (ForBilling list True) True) t = Inr 0"
    using calculation(2) by (rule upstreamCost_free)
  moreover have "ForBilling (ForBilling list True) True = ForBilling list True" by (simp add: ForBilling_def)
  ultimately have "l = 0" by simp
  then show ?thesis using q by auto
qed


text \<open>A gateway with the catalog of \<^theory_text>\<open>demo_catalog\<close>, and a caller whose tier lists its model.\<close>

definition demo_auth :: auth_db where
  "demo_auth = (revoked_at_ten 0)\<lparr>ad_tiers := [\<lparr>mt_ID = Some 9, mt_Status = ''active'', mt_IsDefault = True\<rparr>]\<rparr>"

definition demo_identity :: Identity where
  "demo_identity = stored_identity\<lparr>id_ModelTierID := Some 9\<rparr>"

definition demo_body :: json where
  "demo_body = JObj [(''model'', JStr ''m''), (''max_tokens'', JNum 8)]"

definition gateway_demo :: "upstream_answer \<Rightarrow> (unit, Memory, redis, key_spend) gateway_env" where
  "gateway_demo answer = \<lparr>ge_hash = (\<lambda>_. ''h''), ge_cache = None, ge_authDB = demo_auth, ge_settings = (\<lambda>_. Inr None),
     ge_txSettings = (\<lambda>_. Inr None), ge_pool = demo_catalog, ge_snapshot = Inr demo_catalog, ge_validate = (\<lambda>_. Some plain_transport),
     ge_json = (\<lambda>_. Some demo_body), ge_sha256 = id, ge_config = sample_config,
     ge_attempt = demo_env answer, ge_keySpend = id, ge_alerter = True, ge_affinity_ok = True, ge_planRow_ok = True,
     ge_priceRows_ok = True, ge_unitRows_ok = True, ge_commit_ok = True\<rparr>"

definition demo_request :: Request where
  "demo_request = \<lparr>rq_PinnedProviderKeyID = None, rq_PinnedOrgProviderKeyID = None, rq_Surface = SurfaceChat, rq_Protocol = ProtocolOpenAI,
     rq_UpstreamPath = ''/v1/chat/completions'', rq_Method = [], rq_Resource = [], rq_Body = ''xxxxxxxx'',
     rq_Credential = sample_key, rq_EndUserID = [], rq_RequestID = ''req-1'', rq_Model = [], rq_UpstreamQuery = [], rq_Stream = False,
     rq_Utility = False\<rparr>"

definition demo_gateway :: "(unit, Memory, redis, key_spend) gateway" where
  "demo_gateway = \<lparr>gw_auth = \<lparr>au_cache = (), au_touched = []\<rparr>,
     gw_pipe = \<lparr>ps_circuits = fresh_circuits, ps_budget = NewRetryBudget, ps_semaphores = Map.empty, ps_limiter = (\<lambda>_. None),
       ps_attempt = demo_attempt\<lparr>at_orgKeys := []\<rparr>, ps_draws = [], ps_jitter = [], ps_probe_requests = []\<rparr>,
     gw_known = Map.empty, gw_affinities = [], gw_unpricedSeen = Map.empty, gw_alerts = [],
     gw_books = \<lparr>bo_ledger = \<lparr>ks_daily = [], ks_total = [Some 7 \<mapsto> 0]\<rparr>, bo_usage = [], bo_unsettled = [], bo_alerts = []\<rparr>,
     gw_pricingMissing = []\<rparr>"

definition demo_pricing :: pricingInputs where
  "demo_pricing = \<lparr>pi_rates = \<lparr>rt_ModelMultiplierBps = 10000, rt_PlanMultiplierBps = 10000, rt_ProcurementMultiplierBps = 10000,
       rt_FXRate = ''1''\<rparr>, pi_byokFeeBps = 500, pi_pricingPlanID = Some 7, pi_planModelOverride = False, pi_fxVersion = ''sha256:1''\<rparr>"

definition demo_prepared :: prepared where
  "demo_prepared = no_prepared\<lparr>pr_id := demo_identity, pr_modelSlug := ''m'', pr_res := demo_resolution, pr_pricing := demo_pricing,
     pr_inputTokens := 4, pr_estNano := 132000, pr_priceTable := Flat (ms_Upstream (re_ModelPricing demo_resolution))\<rparr>"

lemma demo_authenticates:
  "Authenticate (\<lambda>_. ''h'') None demo_auth 0 sample_key \<lparr>au_cache = (), au_touched = []\<rparr> =
     (Inr demo_identity, \<lparr>au_cache = (), au_touched = [Some 7]\<rparr>)"
proof -
  have "minBodyLen \<le> length ''12345678''" by (simp add: minBodyLen_def)
  then have "ValidKey sample_key" unfolding ValidKey_iff sample_key_def by blast
  moreover have "load_identity demo_auth 0 ''h'' = Inr demo_identity" by code_simp
  moreover have "id_KeyID demo_identity = Some 7" by code_simp
  ultimately show ?thesis by (simp add: Authenticate_def lookup_key_def)
qed

lemma demo_reads:
  "EstimateRequestTokens ''xxxxxxxx'' = 4" "ModelOf (Some demo_body) = Inr ''m''" "MaxTokensOf (Some demo_body) = 8"
  by code_simp+

lemma demo_model_read: "modelForAdmission (gateway_demo answer) 0 demo_identity demo_request [] = Inr (''m'', None)"
  by (simp add: modelForAdmission_def modelForRequest_def gateway_demo_def demo_request_def demo_reads)

lemma demo_lock: "LockInputs (gateway_demo answer) demo_catalog demo_identity demo_resolution = Inr demo_pricing"
  by (simp add: LockInputs_def gateway_demo_def FXRate_def demo_identity_def stored_identity_def identity_of_def ResolveUsagePricing_def
      GetModelBySlug_def GetModelPricing_def demo_catalog_def demo_model_def selected_plan_def demo_resolution_def demo_pricing_def
      BYOKFeeBps_def get_int_setting_def Let_def)

lemma demo_gates:
  "RequireScope demo_identity ''inference'' = None" "CheckTier demo_identity = None" "CheckModel demo_identity ''m'' = None"
  "id_ModelTierID demo_identity = Some 9" "CheckBudget demo_identity 0 s = None"
  by (simp_all add: demo_identity_def stored_identity_def identity_of_def stored_key_def RequireScope_def CheckTier_def CheckModel_def
      CheckBudget_def or_zero_def)

lemma demo_table:
  "LockedPriceTable demo_catalog (Some 1) (re_ModelPricing demo_resolution) = Flat (ms_Upstream (re_ModelPricing demo_resolution))"
  by (simp add: LockedPriceTable_def demo_catalog_def WithToolPrices_def NewPriceTable_def Flat_def sort_bands_def)

definition demo_hold :: EstimateInput where
  "demo_hold = \<lparr>ei_Price = ms_Upstream (re_ModelPricing demo_resolution), ei_LongContext = zero_price, ei_InputTokens = 4, ei_MaxOutput = 8,
     ei_DefaultMaxCap = 8192, ei_IgnoreRequestCap = False, ei_Rates = pi_rates demo_pricing\<rparr>"

lemma demo_hold_estimate: "hold_estimate (gateway_demo answer) demo_request demo_prepared = demo_hold"
  by (rule EstimateInput.equality)
    (simp_all add: hold_estimate_simps, simp_all add: demo_hold_def demo_prepared_def demo_table gateway_demo_def demo_reads
      demo_resolution_def BillablePriceOf_def PriceOf_def IsFree_def LongContextCeiling_def ForBilling_def Flat_def HoldCap_def demo_model_def
      route_of_def demo_row_def or_zero_def quirkBool_def)

lemma demo_estimate: "Estimate demo_hold = Inr 132000"
  by code_simp

lemma gateway_demo_fields [simp]:
  "ge_hash (gateway_demo answer) = (\<lambda>_. ''h'')" "ge_cache (gateway_demo answer) = None" "ge_authDB (gateway_demo answer) = demo_auth"
  "ge_settings (gateway_demo answer) = (\<lambda>_. Inr None)" "ge_snapshot (gateway_demo answer) = Inr demo_catalog"
  "ge_validate (gateway_demo answer) = (\<lambda>_. Some plain_transport)" "ge_config (gateway_demo answer) = sample_config"
  "ge_json (gateway_demo answer) x = Some demo_body" "ge_attempt (gateway_demo answer) = demo_env answer"
  "ge_keySpend (gateway_demo answer) = id" "ge_priceRows_ok (gateway_demo answer)" "ge_commit_ok (gateway_demo answer)"
  "ge_affinity_ok (gateway_demo answer)"
  by (simp_all add: gateway_demo_def)

lemma demo_request_fields [simp]:
  "rq_Credential demo_request = sample_key" "rq_Surface demo_request = SurfaceChat" "rq_Body demo_request = ''xxxxxxxx''"
  "\<not> rq_Utility demo_request" "rq_Protocol demo_request = ProtocolOpenAI" "rq_RequestID demo_request = ''req-1''"
  "\<not> rq_Stream demo_request" "rq_Resource demo_request = []"
  by (simp_all add: demo_request_def)

lemma demo_gateway_fields [simp]:
  "gw_auth demo_gateway = \<lparr>au_cache = (), au_touched = []\<rparr>" "gw_affinities demo_gateway = []" "gw_known demo_gateway = Map.empty"
  "at_orgKeys (ps_attempt (gw_pipe demo_gateway)) = []"
  by (simp_all add: demo_gateway_def)

definition demo_admitted :: "(unit, Memory, redis, key_spend) gateway" where
  "demo_admitted = demo_gateway\<lparr>gw_auth := \<lparr>au_cache = (), au_touched = [Some 7]\<rparr>, gw_known := [Some 5 \<mapsto> plain_transport]\<rparr>"

lemma demo_prepare_tokens:
  "prepare_tokens (gateway_demo answer) 0 demo_request (demo_prepared\<lparr>pr_inputTokens := 0, pr_estNano := 0\<rparr>) g = ((demo_prepared, None), g)"
proof -
  have "hold_estimate (gateway_demo answer) demo_request (demo_prepared\<lparr>pr_estNano := 0, pr_inputTokens := 4\<rparr>) = demo_hold"
    using demo_hold_estimate[of answer] by (simp add: hold_estimate_def demo_prepared_def)
  then show ?thesis
    by (simp add: prepare_tokens_def demo_reads check_rate_def CheckRate_def sample_config_def demo_estimate Let_def)
      (simp add: demo_prepared_def no_prepared_def)
qed

lemma demo_prepare_priced:
  "prepare_priced (gateway_demo answer) demo_catalog 0 demo_request
     (no_prepared\<lparr>pr_id := demo_identity, pr_modelSlug := ''m'', pr_affinity := None, pr_byok := [], pr_res := demo_resolution\<rparr>) g =
   ((demo_prepared, None), g)"
proof -
  have out: "no_prepared\<lparr>pr_id := demo_identity, pr_modelSlug := ''m'', pr_affinity := None, pr_byok := [], pr_res := demo_resolution,
      pr_pricing := demo_pricing, pr_priceTable := Flat (ms_Upstream (re_ModelPricing demo_resolution))\<rparr>
    = demo_prepared\<lparr>pr_inputTokens := 0, pr_estNano := 0\<rparr>"
    by (simp add: demo_prepared_def no_prepared_def)
  have "pr_id demo_prepared = demo_identity" "pr_res demo_prepared = demo_resolution" by (simp_all add: demo_prepared_def)
  moreover have "m_ID (re_Model demo_resolution) = Some 1" "ms_Family (re_ModelPricing demo_resolution) \<noteq> FamilyUnits"
    by (simp_all add: demo_resolution_def demo_model_def FamilyUnits_def)
  ultimately show ?thesis
    by (simp add: prepare_priced_def demo_lock unitBilled_def demo_table Let_def demo_gates out demo_prepare_tokens)
qed

lemma demo_prepares: "Prepare (gateway_demo answer) 0 demo_request demo_gateway = ((demo_prepared, None), demo_admitted)"
  by (simp add: Prepare_def demo_authenticates demo_gates KillSwitch_def demo_model_read prepare_resolved_def resolveBYOK_def
      ListActiveBYOKForOrg_def vendors_def demo_resolves demo_prepare_priced Let_def)
    (simp add: demo_admitted_def demo_gateway_def)

definition demo_usage :: Tokens where
  "demo_usage = no_tokens\<lparr>tk_In := 3, tk_Out := 8\<rparr>"

definition demo_quote :: Quote where
  "demo_quote = \<lparr>q_UpstreamUSDNano = 116100, q_ChargedNano = 129000, q_ModelMultiplierBps = 10000, q_PlanMultiplierBps = 10000,
     q_ProcurementMultiplierBps = 9000, q_FXRate = ''1''\<rparr>"

lemma demo_settles:
  "Compute (Flat (ms_Upstream (re_ModelPricing demo_resolution))) (Flat (ms_Upstream (re_ModelPricing demo_resolution))) demo_usage
     ((pi_rates demo_pricing)\<lparr>rt_ProcurementMultiplierBps := 9000\<rparr>) = Inr demo_quote"
  by code_simp


section \<open>A follow-up returns to its maker\<close>

lemma prepare_keeps_affinities:
  "gw_affinities (snd (prepare_tokens env now rq out g)) = gw_affinities g"
  "gw_affinities (snd (prepare_units env now rq out g)) = gw_affinities g"
  by (auto simp: prepare_tokens_def prepare_units_def check_rate_def syncUnits_def quoteOrRefuse_def Let_def
      split: prod.splits sum.splits pricing_error.splits)

lemma prepare_priced_affinities: "gw_affinities (snd (prepare_priced env db now rq out g)) = gw_affinities g"
  by (simp add: prepare_priced_def prepare_keeps_affinities Let_def split: sum.split option.split)

lemma prepare_resolved_affinities: "gw_affinities (snd (prepare_resolved env now rq out g)) = gw_affinities g"
  by (auto simp: prepare_resolved_def prepare_priced_affinities check_rate_def Let_def
      split: sum.split option.split prod.split catalog_error.split)

lemma prepare_keeps_affinity:
  "pr_affinity (fst (fst (prepare_tokens env now rq out g))) = pr_affinity out"
  "pr_affinity (fst (fst (prepare_units env now rq out g))) = pr_affinity out"
  by (auto simp: prepare_tokens_def prepare_units_def Let_def split: prod.splits sum.splits)

lemma prepare_priced_affinity: "pr_affinity (fst (fst (prepare_priced env db now rq out g))) = pr_affinity out"
  by (auto simp: prepare_priced_def prepare_keeps_affinity Let_def split: sum.split option.split)

lemma prepare_resolved_affinity: "pr_affinity (fst (fst (prepare_resolved env now rq out g))) = pr_affinity out"
  by (auto simp: prepare_resolved_def prepare_priced_affinity Let_def split: sum.split option.split prod.split catalog_error.split)

lemma prepare_keeps_id:
  "pr_id (fst (fst (prepare_tokens env now rq out g))) = pr_id out"
  "pr_id (fst (fst (prepare_units env now rq out g))) = pr_id out"
  by (auto simp: prepare_tokens_def prepare_units_def Let_def split: prod.splits sum.splits)

lemma prepare_priced_id: "pr_id (fst (fst (prepare_priced env db now rq out g))) = pr_id out"
  by (auto simp: prepare_priced_def prepare_keeps_id Let_def split: sum.split option.split)

lemma prepare_resolved_id: "pr_id (fst (fst (prepare_resolved env now rq out g))) = pr_id out"
  by (auto simp: prepare_resolved_def prepare_priced_id Let_def split: sum.split option.split prod.split catalog_error.split)

text \<open>A stored affinity of the caller's organization that the request names and that has not expired.\<close>

definition own_affinity :: "('c, 's, 'l, 'b) gateway_env \<Rightarrow> instant \<Rightarrow> uuid \<Rightarrow> Request \<Rightarrow> ResourceAffinity list \<Rightarrow> ResourceAffinity \<Rightarrow> bool" where
  "own_affinity env now orgID rq rows a \<longleftrightarrow>
     a \<in> set rows \<and> ra_OrgID a = orgID \<and> orgID \<noteq> None \<and> ra_Protocol a = rq_Protocol rq \<and>
     (ra_ResourceType a, ra_UpstreamID a) = affinityReference (ge_json env) rq \<and> now < ra_ExpiresAt a"

lemma GetResourceAffinity_own:
  assumes "affinityReference (ge_json env) rq = (ty, up)"
    and "GetResourceAffinity db now orgID (rq_Protocol rq) ty up rows = Some (a, slug)"
  shows "own_affinity env now orgID rq rows a"
  using assms by (auto simp: GetResourceAffinity_def own_affinity_def find_Some_iff in_set_conv_nth split: option.splits)

lemma Prepare_affinity:
  assumes "Prepare env now rq g = ((prep, None), g')"
  shows "gw_affinities g' = gw_affinities g"
    and "pr_affinity prep = Some (a, slug) \<Longrightarrow> own_affinity env now (id_OrgID (pr_id prep)) rq (gw_affinities g) a"
proof -
  obtain i au m aff out where adm: "modelForAdmission env now i rq (gw_affinities g) = Inr (m, aff)"
    and out: "out = no_prepared\<lparr>pr_id := i, pr_modelSlug := m, pr_affinity := aff,
       pr_byok := resolveBYOK (en_box (ge_attempt env)) (id_OrgID i) (at_orgKeys (ps_attempt (gw_pipe g)))\<rparr>"
    and res: "prepare_resolved env now rq out (g\<lparr>gw_auth := au\<rparr>) = ((prep, None), g')"
    using assms by (rule Prepare_okE)
  show "gw_affinities g' = gw_affinities g" using prepare_resolved_affinities[of env now rq out "g\<lparr>gw_auth := au\<rparr>"] res by simp
  assume a: "pr_affinity prep = Some (a, slug)"
  have eq: "aff = Some (a, slug)" "pr_id prep = i"
    using a prepare_resolved_affinity[of env now rq out "g\<lparr>gw_auth := au\<rparr>"]
      prepare_resolved_id[of env now rq out "g\<lparr>gw_auth := au\<rparr>"] res out by simp_all
  obtain ty up where ref: "affinityReference (ge_json env) rq = (ty, up)" by (metis surj_pair)
  have "GetResourceAffinity (ge_pool env) now (id_OrgID i) (rq_Protocol rq) ty up (gw_affinities g) = Some (a, slug)"
    using adm[unfolded eq] by (auto simp: modelForAdmission_def ref Let_def split: sum.splits if_splits option.splits)
  then show "own_affinity env now (id_OrgID (pr_id prep)) rq (gw_affinities g) a"
    unfolding eq by (rule GetResourceAffinity_own[OF ref])
qed

lemma pinAffinityE:
  assumes "pinAffinity env now prep rq g = (Inr (prep', rq'), g')" and "snd (affinityReference (ge_json env) rq) \<noteq> []"
  obtains a slug route where "pr_affinity prep = Some (a, slug) \<or> pr_affinity prep = None \<and>
      GetResourceAffinity (ge_pool env) now (id_OrgID (pr_id prep)) (rq_Protocol rq) (fst (affinityReference (ge_json env) rq))
        (snd (affinityReference (ge_json env) rq)) (gw_affinities g) = Some (a, slug)"
    "ra_ModelID a = m_ID (re_Model (pr_res prep))" "route \<in> set (re_Routes (pr_res prep))" "r_ID route = ra_RouteID a"
    "r_ProviderID route = ra_ProviderID a" "prep' = prep\<lparr>pr_res := (pr_res prep)\<lparr>re_Routes := [route]\<rparr>\<rparr>"
    "rq' = rq\<lparr>rq_PinnedProviderKeyID := ra_ProviderKeyID a, rq_PinnedOrgProviderKeyID := ra_OrgProviderKeyID a\<rparr>"
    "uuid_valid (ra_ProviderKeyID a) \<or> uuid_valid (ra_OrgProviderKeyID a)"
proof -
  obtain ty up where ref: "affinityReference (ge_json env) rq = (ty, up)" by (metis surj_pair)
  let ?src = "case pr_affinity prep of Some a \<Rightarrow> Inr a | None \<Rightarrow>
      if \<not> ge_affinity_ok env then Inl lookup_failed
      else case GetResourceAffinity (ge_pool env) now (id_OrgID (pr_id prep)) (rq_Protocol rq) ty up (gw_affinities g) of
             None \<Rightarrow> Inl resource_gone | Some a \<Rightarrow> Inr a"
  obtain a slug where src: "?src = Inr (a, slug)"
    using assms ref by (cases ?src) (auto simp: pinAffinity_def)
  obtain route where find: "find (\<lambda>r. r_ID r = ra_RouteID a \<and> r_ProviderID r = ra_ProviderID a) (re_Routes (pr_res prep)) = Some route"
    and model: "ra_ModelID a = m_ID (re_Model (pr_res prep))"
    using assms ref src by (auto simp: pinAffinity_def split: if_splits option.splits)
  have "prep' = prep\<lparr>pr_res := (pr_res prep)\<lparr>re_Routes := [route]\<rparr>\<rparr>"
    "rq' = rq\<lparr>rq_PinnedProviderKeyID := ra_ProviderKeyID a, rq_PinnedOrgProviderKeyID := ra_OrgProviderKeyID a\<rparr>"
    "uuid_valid (ra_ProviderKeyID a) \<or> uuid_valid (ra_OrgProviderKeyID a)"
    using assms ref src find by (auto simp: pinAffinity_def Let_def split: if_splits prod.splits)
  moreover have "pr_affinity prep = Some (a, slug) \<or> pr_affinity prep = None \<and>
      GetResourceAffinity (ge_pool env) now (id_OrgID (pr_id prep)) (rq_Protocol rq) ty up (gw_affinities g) = Some (a, slug)"
    using src by (auto split: option.splits if_splits)
  moreover have "route \<in> set (re_Routes (pr_res prep))" "r_ID route = ra_RouteID a" "r_ProviderID route = ra_ProviderID a"
    using find by (auto simp: find_Some_iff)
  ultimately show ?thesis using that model ref by simp
qed

text \<open>A pinned attempt uses the pinned credential and no other.\<close>

lemma pinned_choice:
  assumes "choose_credential b env route orgID pins c x = (Inr (keyID, apiKey, baseURL), used, choice, c1, x1)"
    and "uuid_valid (rq_PinnedProviderKeyID pins) \<or> uuid_valid (rq_PinnedOrgProviderKeyID pins)"
  shows "if used then byokKeyIDIfUsed used choice = rq_PinnedOrgProviderKeyID pins else keyID = rq_PinnedProviderKeyID pins"
  using assms
  by (auto simp: choose_credential_def pinnedCredentialFor_def GetActiveOrgProviderKeyByID_def find_Some_iff byokKeyIDIfUsed_def
      no_choice_def Let_def split: if_splits option.splits prod.splits sum.splits)

text \<open>
  C16. A follow-up stays with the caller's own resource and the account that made it. When a call that names
  a stored resource is admitted, pinned and served, there is an unexpired affinity of the caller's organization for
  that resource; the candidate that served is its route and provider, one the catalog still admits; and the
  credential that served is the one stored with it -- the organization's own or the pool's, as
  it was when the resource was made. It is never sent anywhere else.
\<close>

theorem follow_up_returns_to_its_maker:
  assumes "Prepare env now rq g = ((prep, None), g1)" and "pinAffinity env now prep rq g1 = (Inr (prep', rq'), g2)"
    and "snd (affinityReference (ge_json env) rq) \<noteq> []"
    and "Execute (ge_config env) aenv (id_OrgID (pr_id prep')) (request_pins.truncate rq') endpoint est now'
           (map Route.truncate (re_Routes (pr_res prep'))) (pr_byok prep') st = ((res, rot), st')"
    and "rr_err rot = None"
  shows "\<exists>a. own_affinity env now (id_OrgID (pr_id prep)) rq (gw_affinities g) a \<and>
    (\<exists>route \<in> set (re_Routes (pr_res prep)). rr_route rot = Some (Route.truncate route) \<and> r_ID route = ra_RouteID a \<and>
       r_ProviderID route = ra_ProviderID a) \<and>
    (if ur_byok res then ur_byokKeyID res = ra_OrgProviderKeyID a else ur_keyID res = ra_ProviderKeyID a)"
proof -
  obtain a slug route where src: "pr_affinity prep = Some (a, slug) \<or> pr_affinity prep = None \<and>
      GetResourceAffinity (ge_pool env) now (id_OrgID (pr_id prep)) (rq_Protocol rq) (fst (affinityReference (ge_json env) rq))
        (snd (affinityReference (ge_json env) rq)) (gw_affinities g1) = Some (a, slug)"
    and route: "route \<in> set (re_Routes (pr_res prep))" "r_ID route = ra_RouteID a" "r_ProviderID route = ra_ProviderID a"
    and prep': "prep' = prep\<lparr>pr_res := (pr_res prep)\<lparr>re_Routes := [route]\<rparr>\<rparr>"
    and rq': "rq' = rq\<lparr>rq_PinnedProviderKeyID := ra_ProviderKeyID a, rq_PinnedOrgProviderKeyID := ra_OrgProviderKeyID a\<rparr>"
    and valid: "uuid_valid (ra_ProviderKeyID a) \<or> uuid_valid (ra_OrgProviderKeyID a)"
    using assms(2,3) by (rule pinAffinityE)
  have own: "own_affinity env now (id_OrgID (pr_id prep)) rq (gw_affinities g) a"
    using src Prepare_affinity[OF assms(1)] GetResourceAffinity_own[of env rq, OF prod.collapse[symmetric]] by metis
  let ?pins = "request_pins.truncate rq'"
  have pins: "rq_PinnedProviderKeyID ?pins = ra_ProviderKeyID a" "rq_PinnedOrgProviderKeyID ?pins = ra_OrgProviderKeyID a"
    using rq' by (simp_all add: request_pins.defs)
  obtain served c x keyID apiKey baseURL choice c1 x1 where
    ch: "choose_credential (pc_breaker (ge_config env)) aenv served (id_OrgID (pr_id prep')) ?pins c x =
           (Inr (keyID, apiKey, baseURL), ur_byok res, choice, c1, x1)"
    and rr: "rr_route rot = Some served" "served \<in> set (map Route.truncate (re_Routes (pr_res prep')))"
    and keys: "ur_keyID res = keyID" "ur_byokKeyID res = byokKeyIDIfUsed (ur_byok res) choice"
    using assms(4,5) by (rule Execute_servedE)
  have "served = Route.truncate route" using rr(2) prep' by simp
  moreover have "if ur_byok res then ur_byokKeyID res = ra_OrgProviderKeyID a else ur_keyID res = ra_ProviderKeyID a"
    using pinned_choice[OF ch] valid keys pins by (cases "ur_byok res") simp_all
  ultimately show ?thesis using own route rr(1) by blast
qed

text \<open>The row a served call remembers.\<close>

definition made_affinity :: "('c, 's, 'l, 'b) gateway_env \<Rightarrow> instant \<Rightarrow> prepared \<Rightarrow> Request \<Rightarrow> string \<Rightarrow> upstreamResult \<Rightarrow> Route \<Rightarrow> ResourceAffinity" where
  "made_affinity env now prep rq upstreamID upstream route =
     \<lparr>ra_OrgID = id_OrgID (pr_id prep), ra_Protocol = rq_Protocol rq,
      ra_ResourceType = (if rq_Surface rq = SurfaceResponses then resourceResponse else resourceInteraction),
      ra_UpstreamID = upstreamID, ra_ModelID = m_ID (re_Model (pr_res prep)), ra_RouteID = r_ID route, ra_ProviderID = r_ProviderID route,
      ra_ProviderKeyID = sharedKeyOf upstream, ra_OrgProviderKeyID = byokKeyOf upstream,
      ra_ExpiresAt = now + ResourceAffinityTTL (ge_settings env)\<rparr>"

lemma set_upsert:
  "set (if \<exists>b \<in> set rows. k b = k a then map (\<lambda>b. if k b = k a then a else b) rows else rows @ [a]) =
     insert a {b \<in> set rows. k b \<noteq> k a}"
  by (auto simp: image_iff)

lemma upsert_lookup:
  assumes "affinity_key a = (orgID, protocol, ty, up)" and "now < ra_ExpiresAt a" and "orgID \<noteq> None"
  shows "find (\<lambda>b. ra_OrgID b = orgID \<and> orgID \<noteq> None \<and> ra_Protocol b = protocol \<and> ra_ResourceType b = ty \<and> ra_UpstreamID b = up \<and>
      ra_ExpiresAt b > now) (UpsertResourceAffinity a rows) = Some a" (is "find ?P ?rows = _")
proof -
  have key: "?P b \<Longrightarrow> affinity_key b = affinity_key a" for b using assms(1) by (simp add: affinity_key_def)
  have upsert: "b \<in> set ?rows \<longleftrightarrow> b = a \<or> b \<in> set rows \<and> affinity_key b \<noteq> affinity_key a" for b
    unfolding UpsertResourceAffinity_def set_upsert by simp
  have only: "b = a" if "b \<in> set ?rows" "?P b" for b using key[OF that(2)] that(1) upsert by blast
  have mem: "a \<in> set ?rows" using upsert by blast
  have "?P a" using assms by (simp add: affinity_key_def)
  then show ?thesis using mem only by (intro find_only)
qed

text \<open>
  What a served call stores is what its follow-ups find. A call on a surface with stored resources that
  does not opt out remembers the identifier it returned; until it expires, a follow-up of the
  same organization that names it and resolves to the same model, while the route is still a candidate and its
  provider's circuit lets it through, is pinned to that very route, with the credential that served it.
\<close>

theorem remembered_resource_is_pinned:
  assumes "rq_Surface rq \<in> {SurfaceResponses, SurfaceGeminiInteractions}" and "requestStoresResource (ge_json env (rq_Body rq))"
    and "upstreamID \<noteq> []" and "ge_affinity_ok env" and "rr_route rot = Some route"
    and "uuid_valid (r_ID route)" and "uuid_valid (r_ProviderID route)" and "id_OrgID (pr_id prep) \<noteq> None"
    and "uuid_valid (sharedKeyOf up) \<or> uuid_valid (byokKeyOf up)"
    and "find (\<lambda>m. m_ID m = m_ID (re_Model (pr_res prep))) (ct_models (ge_pool env)) = Some model"
    and "gw_affinities g' = gw_affinities (rememberAffinityID env t prep rq upstreamID up rot g)"
    and "now < t + ResourceAffinityTTL (ge_settings env)"
    and "pr_affinity prep' = None" and "id_OrgID (pr_id prep') = id_OrgID (pr_id prep)"
    and "rq_Protocol rq' = rq_Protocol rq"
    and "affinityReference (ge_json env) rq' =
           (if rq_Surface rq = SurfaceResponses then resourceResponse else resourceInteraction, upstreamID)"
    and "m_ID (re_Model (pr_res prep')) = m_ID (re_Model (pr_res prep))"
    and "find (\<lambda>r. r_ID r = r_ID route \<and> r_ProviderID r = r_ProviderID route) (re_Routes (pr_res prep')) = Some cand"
    and "fst (ProviderAvailable (pc_breaker (ge_config env)) now (r_ProviderID route) (ps_circuits (gw_pipe g')))"
  shows "fst (pinAffinity env now prep' rq' g') =
    Inr (prep'\<lparr>pr_res := (pr_res prep')\<lparr>re_Routes := [cand]\<rparr>\<rparr>,
         rq'\<lparr>rq_PinnedProviderKeyID := sharedKeyOf up, rq_PinnedOrgProviderKeyID := byokKeyOf up\<rparr>)"
proof -
  let ?a = "made_affinity env t prep rq upstreamID up route"
  have rows: "gw_affinities g' = UpsertResourceAffinity ?a (gw_affinities g)"
    using assms(1-5,11) by (auto simp: rememberAffinityID_def made_affinity_def)
  have "affinity_key ?a = (id_OrgID (pr_id prep'), rq_Protocol rq', fst (affinityReference (ge_json env) rq'), upstreamID)"
    using assms(14-16) by (simp add: affinity_key_def made_affinity_def)
  from upsert_lookup[OF this, of now "gw_affinities g"] have look:
    "GetResourceAffinity (ge_pool env) now (id_OrgID (pr_id prep')) (rq_Protocol rq') (fst (affinityReference (ge_json env) rq')) upstreamID
       (gw_affinities g') = Some (?a, m_Slug model)"
    using assms(8,10,12,14) rows by (simp add: GetResourceAffinity_def made_affinity_def)
  have cand: "r_ProviderID cand = r_ProviderID route" using assms(18) by (auto simp: find_Some_iff)
  have fields: "ra_ModelID ?a = m_ID (re_Model (pr_res prep))" "ra_RouteID ?a = r_ID route" "ra_ProviderID ?a = r_ProviderID route"
    "ra_ProviderKeyID ?a = sharedKeyOf up" "ra_OrgProviderKeyID ?a = byokKeyOf up"
    by (simp_all add: made_affinity_def)
  show ?thesis
    using assms(3,4,6,7,9,13,16-19) look cand
    by (simp add: pinAffinity_def fields case_prod_beta Let_def)
qed

text \<open>The organization of the example made the resource \<open>r1\<close> on its first route with a pool credential, and asks for it again.\<close>

definition demo_maker :: CatalogRoute where
  "demo_maker = route_of ProtocolOpenAI (demo_row 22 1) demo_provider plain_transport"

definition demo_made :: ResourceAffinity where
  "demo_made = \<lparr>ra_OrgID = Some 3, ra_Protocol = ProtocolOpenAI, ra_ResourceType = ''response'', ra_UpstreamID = ''r1'', ra_ModelID = Some 1,
     ra_RouteID = Some 22, ra_ProviderID = Some 5, ra_ProviderKeyID = Some 1, ra_OrgProviderKeyID = None,
     ra_ExpiresAt = hours 1440\<rparr>"

definition demo_follow_up :: Request where
  "demo_follow_up = demo_request\<lparr>rq_Surface := SurfaceResponsesResources, rq_Resource := ''r1'', rq_Model := ''m'', rq_Utility := True\<rparr>"

definition demo_stateful :: "(unit, Memory, redis, key_spend) gateway" where
  "demo_stateful = demo_gateway\<lparr>gw_affinities := [demo_made]\<rparr>"

definition demo_admitted_follow_up :: prepared where
  "demo_admitted_follow_up = no_prepared\<lparr>pr_id := demo_identity, pr_modelSlug := ''m'', pr_res := demo_resolution, pr_inputTokens := 4\<rparr>"

lemma demo_resolves_resources:
  "ResolveFor (\<lambda>_. Some plain_transport) demo_catalog ''m'' SurfaceResponsesResources (Some 9) [] Map.empty =
     (Inr demo_resolution, [Some 5 \<mapsto> plain_transport])"
proof -
  have "admit_model demo_catalog ''m'' SurfaceResponsesResources (Some 9) = Inr (demo_model, re_ModelPricing demo_resolution)"
    by (simp add: admit_model_def GetModelBySlug_def GetModelPricing_def demo_catalog_def demo_model_def modelPricingSnapshot_def
        TierAllowsModel_def checkPriced_def ServesFamily_def billingFamilies_def surface_names FamilyTokens_def FamilyUnits_def
        demo_resolution_def)
  moreover have "ListRoutesForModel demo_catalog (Some 1) ProtocolOpenAI ''responses_resources'' [] False =
      [(demo_row 22 1, demo_provider), (demo_row 21 2, demo_provider)]"
    by (simp add: ListRoutesForModel_def demo_catalog_def demo_row_def demo_provider_def List.map_filter_simps verdict_def uuid_order_def
        sort_key_def)
  moreover have "m_ID demo_model = Some 1" by (simp add: demo_model_def)
  ultimately show ?thesis
    by (simp add: ResolveFor_def surface_protocol_def surface_endpoint_def surface_names probeMode_def Let_def transportFor_def
        demo_row_def demo_resolution_def)
qed

lemma demo_follow_up_fields [simp]:
  "rq_Surface demo_follow_up = SurfaceResponsesResources" "rq_Resource demo_follow_up = ''r1''" "rq_Model demo_follow_up = ''m''"
  "rq_Utility demo_follow_up" "rq_Credential demo_follow_up = sample_key" "rq_Body demo_follow_up = ''xxxxxxxx''"
  "rq_Protocol demo_follow_up = ProtocolOpenAI"
  by (simp_all add: demo_follow_up_def)

lemma demo_follow_up_prepares:
  "Prepare (gateway_demo answer) 0 demo_follow_up demo_stateful =
     ((demo_admitted_follow_up, None), demo_admitted\<lparr>gw_affinities := [demo_made]\<rparr>)"
proof -
  have "modelForAdmission (gateway_demo answer) 0 demo_identity demo_follow_up rows = Inr (''m'', None)" for rows
    by (simp add: modelForAdmission_def modelForRequest_def)
  then show ?thesis
    by (simp add: Prepare_def demo_authenticates demo_gates KillSwitch_def prepare_resolved_def resolveBYOK_def
      ListActiveBYOKForOrg_def vendors_def demo_resolves_resources Let_def demo_stateful_def demo_reads check_rate_def CheckRate_def
      sample_config_def)
     (simp add: demo_admitted_def demo_gateway_def demo_admitted_follow_up_def no_prepared_def)
qed

lemma demo_follow_up_reference: "affinityReference parse demo_follow_up = (''response'', ''r1'')"
  by (simp add: affinityReference_def resourceResponse_def)

lemma demo_pins:
  "\<exists>g'. pinAffinity (gateway_demo answer) 0 demo_admitted_follow_up demo_follow_up (demo_admitted\<lparr>gw_affinities := [demo_made]\<rparr>) =
     (Inr (demo_admitted_follow_up\<lparr>pr_res := demo_resolution\<lparr>re_Routes := [demo_maker]\<rparr>\<rparr>,
           demo_follow_up\<lparr>rq_PinnedProviderKeyID := Some 1, rq_PinnedOrgProviderKeyID := None\<rparr>), g')"
proof -
  have "fst (ProviderAvailable (pc_breaker sample_config) 0 (Some 5) fresh_circuits)" by code_simp
  moreover have "ps_circuits (gw_pipe demo_admitted) = fresh_circuits" by (simp add: demo_admitted_def demo_gateway_def)
  moreover have "find (\<lambda>r. r_ID r = Some 22 \<and> r_ProviderID r = Some 5) (re_Routes demo_resolution) = Some demo_maker"
    by (simp add: demo_resolution_def demo_maker_def route_of_def demo_row_def)
  moreover have "r_ProviderID demo_maker = Some 5" by (simp add: demo_maker_def route_of_def demo_row_def)
  moreover have "pr_res demo_admitted_follow_up = demo_resolution" "pr_affinity demo_admitted_follow_up = None"
    "id_OrgID (pr_id demo_admitted_follow_up) = Some 3" "m_ID (re_Model demo_resolution) = Some 1"
    by (simp_all add: demo_admitted_follow_up_def no_prepared_def demo_identity_def stored_identity_def identity_of_def stored_key_def
        demo_resolution_def demo_model_def)
  moreover have "ge_pool (gateway_demo answer) = demo_catalog" by (simp add: gateway_demo_def)
  ultimately show ?thesis
    by (simp add: pinAffinity_def demo_follow_up_reference GetResourceAffinity_def demo_made_def hours_def demo_catalog_def demo_model_def
        case_prod_beta Let_def)
qed

definition demo_serving :: attempt_env where
  "demo_serving = (demo_env (Answer 200 ''hi'' []))\<lparr>en_providerKey := (\<lambda>_. Some (Some 5, ''sealed''))\<rparr>"

lemma demo_follow_up_served:
  "let ((res, rot), st') = Execute sample_config demo_serving (Some 3)
       \<lparr>rq_PinnedProviderKeyID = Some 1, rq_PinnedOrgProviderKeyID = None\<rparr> ''responses_resources'' 4 0 [Route.truncate demo_maker] [] demo_state
   in rr_err rot = None \<and> \<not> ur_byok res"
  by code_simp

theorem follow_up_returns_to_its_maker_witness:
  "let ((res, rot), st') = Execute sample_config demo_serving (Some 3)
       \<lparr>rq_PinnedProviderKeyID = Some 1, rq_PinnedOrgProviderKeyID = None\<rparr> ''responses_resources'' 4 0 [Route.truncate demo_maker] [] demo_state
   in \<exists>a \<in> {demo_made}. (\<exists>route \<in> set (re_Routes demo_resolution). rr_route rot = Some (Route.truncate route) \<and> r_ID route = ra_RouteID a) \<and>
      ur_keyID res = ra_ProviderKeyID a"
proof -
  let ?env = "gateway_demo (Answer 200 ''hi'' [])"
  let ?pins = "\<lparr>rq_PinnedProviderKeyID = Some 1, rq_PinnedOrgProviderKeyID = None\<rparr>"
  let ?rq = "demo_follow_up\<lparr>rq_PinnedProviderKeyID := Some 1, rq_PinnedOrgProviderKeyID := None\<rparr>"
  let ?prep = "demo_admitted_follow_up\<lparr>pr_res := demo_resolution\<lparr>re_Routes := [demo_maker]\<rparr>\<rparr>"
  obtain res rot st' where ex: "Execute sample_config demo_serving (Some 3) ?pins ''responses_resources'' 4 0 [Route.truncate demo_maker] []
      demo_state = ((res, rot), st')" by (metis surj_pair)
  have ok: "rr_err rot = None" "\<not> ur_byok res" using demo_follow_up_served unfolding ex by simp_all
  obtain g' where pin: "pinAffinity ?env 0 demo_admitted_follow_up demo_follow_up (demo_admitted\<lparr>gw_affinities := [demo_made]\<rparr>) =
      (Inr (?prep, ?rq), g')" using demo_pins by blast
  have "request_pins.truncate ?rq = ?pins" "id_OrgID (pr_id ?prep) = Some 3" "pr_byok ?prep = []"
    by (simp_all add: request_pins.defs demo_admitted_follow_up_def no_prepared_def demo_identity_def stored_identity_def identity_of_def
        stored_key_def)
  with ex have ex': "Execute (ge_config ?env) demo_serving (id_OrgID (pr_id ?prep)) (request_pins.truncate ?rq) ''responses_resources'' 4 0
      (map Route.truncate (re_Routes (pr_res ?prep))) (pr_byok ?prep) demo_state = ((res, rot), st')" by simp
  from follow_up_returns_to_its_maker[OF demo_follow_up_prepares pin _ ex' ok(1)] ok(2)
  show ?thesis unfolding ex
    by (auto simp: demo_follow_up_reference own_affinity_def demo_stateful_def demo_admitted_follow_up_def)
qed

theorem remembered_resource_is_pinned_witness:
  "fst (pinAffinity (gateway_demo (Answer 200 ''hi'' [])) 0 demo_admitted_follow_up demo_follow_up
      (rememberAffinityID (gateway_demo (Answer 200 ''hi'' [])) 0 demo_admitted_follow_up (demo_request\<lparr>rq_Surface := SurfaceResponses\<rparr>) ''r1''
         (no_upstream\<lparr>ur_keyID := Some 1\<rparr>) (zero_rotation\<lparr>rr_route := Some (Route.truncate demo_maker)\<rparr>) demo_gateway)) =
    Inr (demo_admitted_follow_up\<lparr>pr_res := demo_resolution\<lparr>re_Routes := [demo_maker]\<rparr>\<rparr>,
         demo_follow_up\<lparr>rq_PinnedProviderKeyID := Some 1, rq_PinnedOrgProviderKeyID := None\<rparr>)"
  (is "fst (pinAffinity ?env 0 ?prep demo_follow_up ?g) = _")
proof -
  have res: "pr_res ?prep = demo_resolution" by (simp add: demo_admitted_follow_up_def)
  have keys: "sharedKeyOf (no_upstream\<lparr>ur_keyID := Some 1\<rparr>) = Some 1" "byokKeyOf (no_upstream\<lparr>ur_keyID := Some 1\<rparr>) = None"
    by (simp_all add: sharedKeyOf_def byokKeyOf_def sharedKeyIfUsed_def no_upstream_def)
  have ids: "r_ID (Route.truncate demo_maker) = Some 22" "r_ProviderID (Route.truncate demo_maker) = Some 5"
    by (simp_all add: demo_maker_def route_of_def demo_row_def Route.defs)
  have up: "fst (ProviderAvailable (pc_breaker sample_config) 0 (Some 5) fresh_circuits)" by code_simp
  have "ps_circuits (gw_pipe ?g) = fresh_circuits" by (simp add: rememberAffinityID_def demo_gateway_def)
  moreover have "requestStoresResource (Some demo_body)" by code_simp
  moreover have "ge_pool ?env = demo_catalog" by (simp add: gateway_demo_def)
  moreover have "ResourceAffinityTTL (\<lambda>_. Inr None) = hours 1440" by (simp add: ResourceAffinityTTL_def get_int_setting_def)
  ultimately show ?thesis
    using remembered_resource_is_pinned[of "demo_request\<lparr>rq_Surface := SurfaceResponses\<rparr>" ?env "''r1''"
        "zero_rotation\<lparr>rr_route := Some (Route.truncate demo_maker)\<rparr>" "Route.truncate demo_maker" ?prep "no_upstream\<lparr>ur_keyID := Some 1\<rparr>"
        demo_model ?g 0 demo_gateway 0 ?prep demo_follow_up demo_maker] up keys ids res
    by (simp add: demo_follow_up_reference resourceResponse_def zero_rotation_def)
      (simp add: demo_admitted_follow_up_def no_prepared_def demo_identity_def stored_identity_def identity_of_def stored_key_def
        demo_resolution_def demo_model_def demo_catalog_def demo_maker_def route_of_def demo_row_def hours_def)
qed

end
