(* ===== verification/VideoJobs.thy ===== *)
theory VideoJobs
  imports Unsettled UnitPrice Guard
begin

text \<open>
  Asynchronous video jobs: the job row and the statements on it
  (\<open>internal/gateway/db/videojobs.sql.go\<close>), the reconciler that polls jobs and moves
  their money (\<open>proxy/video_worker.go\<close>), and cancel and delete (\<open>proxy/video_jobs.go\<close>).

  A worker acts on a copy of a row it read earlier, while other workers may have
  changed the row since; what keeps the money right is the guard in each statement.
  Every statement, every transaction and every call to the ledger is one atomic
  operation here. The upstream -- shaping a poll, making the call, reading the
  answer -- is a parameter; a database statement is taken to succeed.
\<close>

section \<open>Rows\<close>

text \<open>
  The two state columns hold exactly the values their check constraints admit. Columns
  that are written and never read by the job's own code -- the poll and update times,
  the size and type of the artifact, the vendor alias -- are left out.
\<close>

datatype job_status = Queued | InProgress | Completed | Failed | Canceled | Expired
datatype settlement_state = Held | Protected | Settled | Voided | Orphaned

record Job =
  j_ID :: uuid
  j_OrgID :: uuid
  j_ApiKeyID :: uuid
  j_RequestID :: string
  j_IdempotencyKey :: string
  j_RequestFingerprint :: string
  j_ModelID :: uuid
  j_ModelSlug :: string
  j_RouteID :: uuid
  j_ProviderID :: uuid
  j_ProviderKeyID :: uuid
  j_OrgProviderKeyID :: uuid
  j_Byok :: bool
  j_UpstreamID :: string
  j_Status :: job_status
  j_SettlementState :: settlement_state
  j_UpstreamStatus :: string
  j_Progress :: int
  j_ErrorCode :: string
  j_ErrorMessage :: string
  j_Params :: "json option"
  j_BillingUnits :: "json option"
  j_HoldID :: uuid
  j_HoldNano :: int
  j_HoldExpiresAt :: "instant option"
  j_ChargedNano :: int
  j_ChargedCurrency :: string
  j_PricingSnapshot :: "json option"
  j_MaxJobSeconds :: int
  j_PollAttempts :: int
  j_NotFoundCount :: int
  j_NextPollAt :: "instant option"
  j_ArtifactKey :: string
  j_UpstreamArtifactRef :: string
  j_EndUserID :: string
  j_ExpiresAt :: instant
  j_CreatedAt :: instant
  j_SubmittedAt :: "instant option"
  j_TerminalAt :: "instant option"

text \<open>\<open>video.Status.Terminal\<close>, and the statuses of a running job.\<close>

definition Terminal :: "job_status \<Rightarrow> bool" where
  "Terminal s \<longleftrightarrow> s = Completed \<or> s = Failed \<or> s = Canceled"

definition running :: "job_status \<Rightarrow> bool" where
  "running s \<longleftrightarrow> s = Queued \<or> s = InProgress"

record Poll =
  po_Status :: job_status
  po_UpstreamStatus :: string
  po_Progress :: int
  po_ErrorCode :: string
  po_ErrorMessage :: string
  po_NotFound :: bool
  po_ArtifactRef :: string

definition no_poll :: Poll where
  "no_poll = \<lparr>po_Status = Queued, po_UpstreamStatus = [], po_Progress = 0, po_ErrorCode = [], po_ErrorMessage = [],
     po_NotFound = False, po_ArtifactRef = []\<rparr>"

section \<open>Statements\<close>

text \<open>An update answers how many rows it matched.\<close>

definition update_where :: "('r \<Rightarrow> bool) \<Rightarrow> ('r \<Rightarrow> 'r) \<Rightarrow> 'r list \<Rightarrow> nat \<times> 'r list" where
  "update_where P f rows = (length (filter P rows), set_where P f rows)"

definition ClaimDueVideoJobs :: "instant \<Rightarrow> duration \<Rightarrow> nat \<Rightarrow> Job list \<Rightarrow> Job list \<times> Job list" where
  "ClaimDueVideoJobs now lease lim_n jobs =
     (let due = filter (\<lambda>j. running (j_Status j) \<and> (case j_NextPollAt j of None \<Rightarrow> False | Some t \<Rightarrow> t \<le> now)) jobs;
          ids = map j_ID (take lim_n (sort_key (\<lambda>j. the (j_NextPollAt j)) due));
          jobs = set_where (\<lambda>j. j_ID j \<in> set ids)
                   (\<lambda>j. j\<lparr>j_NextPollAt := Some (now + lease), j_PollAttempts := j_PollAttempts j + 1\<rparr>) jobs
      in (filter (\<lambda>j. j_ID j \<in> set ids) jobs, jobs))"

definition MarkVideoJobTerminal :: "instant \<Rightarrow> uuid \<Rightarrow> job_status \<Rightarrow> Poll \<Rightarrow> Job list \<Rightarrow> nat \<times> Job list" where
  "MarkVideoJobTerminal now u status poll =
     update_where (\<lambda>j. j_ID j = u \<and> running (j_Status j))
       (\<lambda>j. j\<lparr>j_Status := status, j_UpstreamStatus := po_UpstreamStatus poll, j_TerminalAt := Some now,
              j_ErrorCode := po_ErrorCode poll, j_ErrorMessage := po_ErrorMessage poll,
              j_UpstreamArtifactRef := po_ArtifactRef poll,
              j_Progress := (if status = Completed then 100 else j_Progress j), j_NextPollAt := None\<rparr>)"

definition SettleVideoJob :: "uuid \<Rightarrow> int \<Rightarrow> Job list \<Rightarrow> nat \<times> Job list" where
  "SettleVideoJob u chargedNano =
     update_where (\<lambda>j. j_ID j = u \<and> j_SettlementState j \<in> {Held, Protected, Orphaned})
       (\<lambda>j. j\<lparr>j_SettlementState := Settled, j_ChargedNano := chargedNano\<rparr>)"

definition VoidVideoJob :: "uuid \<Rightarrow> Job list \<Rightarrow> nat \<times> Job list" where
  "VoidVideoJob u =
     update_where (\<lambda>j. j_ID j = u \<and> j_SettlementState j \<in> {Held, Protected})
       (\<lambda>j. j\<lparr>j_SettlementState := Voided, j_ChargedNano := 0\<rparr>)"

definition ProtectVideoJobHold :: "uuid \<Rightarrow> Job list \<Rightarrow> Job list" where
  "ProtectVideoJobHold u =
     set_where (\<lambda>j. j_ID j = u \<and> j_SettlementState j = Held) (\<lambda>j. j\<lparr>j_SettlementState := Protected, j_HoldExpiresAt := None\<rparr>)"

definition OrphanVideoJobHold :: "uuid \<Rightarrow> Job list \<Rightarrow> Job list" where
  "OrphanVideoJobHold u =
     set_where (\<lambda>j. j_ID j = u \<and> j_SettlementState j \<in> {Held, Protected}) (\<lambda>j. j\<lparr>j_SettlementState := Orphaned\<rparr>)"

definition MarkVideoJobSubmitted :: "instant \<Rightarrow> uuid \<Rightarrow> string \<Rightarrow> string \<Rightarrow> job_status \<Rightarrow> duration \<Rightarrow> Job list \<Rightarrow> Job list" where
  "MarkVideoJobSubmitted now u upstreamID upstreamStatus status pollAfter =
     set_where (\<lambda>j. j_ID j = u)
       (\<lambda>j. j\<lparr>j_UpstreamID := upstreamID, j_UpstreamStatus := upstreamStatus, j_Status := status,
              j_SubmittedAt := Some now, j_NextPollAt := Some (now + pollAfter)\<rparr>)"

definition to_int16 :: "int \<Rightarrow> int" where
  "to_int16 x = (x + 32768) mod 65536 - 32768"

definition MarkVideoJobProgress :: "instant \<Rightarrow> uuid \<Rightarrow> Poll \<Rightarrow> duration \<Rightarrow> Job list \<Rightarrow> Job list" where
  "MarkVideoJobProgress now u poll pollAfter =
     set_where (\<lambda>j. j_ID j = u \<and> running (j_Status j))
       (\<lambda>j. j\<lparr>j_Status := po_Status poll, j_UpstreamStatus := po_UpstreamStatus poll, j_Progress := to_int16 (po_Progress poll),
              j_NextPollAt := Some (now + pollAfter)\<rparr>)"

text \<open>The statement returns the new count; without a matching row it fails.\<close>

definition MarkVideoJobNotFound :: "instant \<Rightarrow> uuid \<Rightarrow> duration \<Rightarrow> Job list \<Rightarrow> int option \<times> Job list" where
  "MarkVideoJobNotFound now u pollAfter jobs =
     (let jobs = set_where (\<lambda>j. j_ID j = u)
            (\<lambda>j. j\<lparr>j_NotFoundCount := j_NotFoundCount j + 1, j_NextPollAt := Some (now + pollAfter)\<rparr>) jobs
      in (map_option j_NotFoundCount (find (\<lambda>j. j_ID j = u) jobs), jobs))"

definition DeleteVideoJob :: "uuid \<Rightarrow> Job list \<Rightarrow> Job list" where
  "DeleteVideoJob u jobs = filter (\<lambda>j. j_ID j \<noteq> u) jobs"

definition ClearVideoJobArtifact :: "uuid \<Rightarrow> Job list \<Rightarrow> Job list" where
  "ClearVideoJobArtifact u = set_where (\<lambda>j. j_ID j = u) (\<lambda>j. j\<lparr>j_ArtifactKey := []\<rparr>)"

definition RecordVideoJobArtifact :: "uuid \<Rightarrow> string \<Rightarrow> Job list \<Rightarrow> Job list" where
  "RecordVideoJobArtifact u key = set_where (\<lambda>j. j_ID j = u) (\<lambda>j. j\<lparr>j_ArtifactKey := key\<rparr>)"

definition GetVideoJob :: "uuid \<Rightarrow> uuid \<Rightarrow> Job list \<Rightarrow> Job option" where
  "GetVideoJob u org jobs = find (\<lambda>j. j_ID j = u \<and> j_OrgID j = org) jobs"

definition ListUnsubmittedVideoJobs :: "instant \<Rightarrow> duration \<Rightarrow> nat \<Rightarrow> Job list \<Rightarrow> Job list" where
  "ListUnsubmittedVideoJobs now olderThan n jobs =
     take n (filter (\<lambda>j. j_Status j = Queued \<and> j_UpstreamID j = [] \<and> j_SubmittedAt j = None \<and>
       j_CreatedAt j < now - olderThan) jobs)"

definition ListStaleVideoJobs :: "instant \<Rightarrow> nat \<Rightarrow> Job list \<Rightarrow> Job list" where
  "ListStaleVideoJobs now n jobs =
     take n (filter (\<lambda>j. running (j_Status j) \<and> j_CreatedAt j < now - seconds (j_MaxJobSeconds j * 2)) jobs)"

definition ListExpiredVideoJobs :: "instant \<Rightarrow> nat \<Rightarrow> Job list \<Rightarrow> Job list" where
  "ListExpiredVideoJobs now n jobs = take n (filter (\<lambda>j. j_ExpiresAt j \<le> now) jobs)"

section \<open>The usage row of a job\<close>

definition to_int32 :: "int \<Rightarrow> int" where
  "to_int32 x = (x + 2147483648) mod 4294967296 - 2147483648"

text \<open>Decoding the stored quantity vector; anything unreadable reads as no vector.\<close>

fun unit_rows :: "json list \<Rightarrow> replay_error + (string \<times> int) list" where
  "unit_rows [] = Inr []"
| "unit_rows (v # vs) =
     bind_result (case v of JObj fs \<Rightarrow> Inr fs | JNull \<Rightarrow> Inr [] | _ \<Rightarrow> Inl NotAnObject) (\<lambda>fs.
     bind_result (get_string fs ''unit'') (\<lambda>u.
     bind_result (get_number is_int64 fs ''quantity'') (\<lambda>q.
     bind_result (unit_rows vs) (\<lambda>rest. Inr ((u, q) # rest)))))"

definition unitRowsOf :: "json option \<Rightarrow> (string \<times> int) list" where
  "unitRowsOf raw =
     (case raw of
        Some (JObj fs) \<Rightarrow> (case map_of fs ''units'' of
            Some (JArr vs) \<Rightarrow> (case unit_rows vs of Inr rows \<Rightarrow> rows | Inl _ \<Rightarrow> [])
          | _ \<Rightarrow> [])
      | _ \<Rightarrow> [])"

definition billedUnitsOf :: "json option \<Rightarrow> int option" where
  "billedUnitsOf raw =
     (let rows = unitRowsOf raw
      in if length rows = 0 then None
         else Some (to_int32 (min (foldl (\<lambda>t r. add64 t (snd r)) 0 rows) 2147483647)))"

definition billedUnitOf :: "json option \<Rightarrow> string" where
  "billedUnitOf raw = (case unitRowsOf raw of [] \<Rightarrow> [] | r # rs \<Rightarrow> fst r)"

definition unitsSnapshot :: "Units \<Rightarrow> json" where
  "unitsSnapshot u = JObj [(''units'', JArr (map (\<lambda>(k, q). JObj
     [(''unit'', JStr (uk_Unit k)), (''resolution'', JStr (uk_Resolution k)), (''audio'', JStr (uk_Audio k)),
      (''service_tier'', JStr (uk_ServiceTier k)), (''quantity'', JNum q)]) u))]"

definition fxRateFrom :: "json option \<Rightarrow> string" where
  "fxRateFrom snapshot =
     (case snapshot of
        Some (JObj fs) \<Rightarrow> (case get_string fs ''fx_rate'' of Inr t \<Rightarrow> (if t = [] then ''1'' else t) | Inl _ \<Rightarrow> ''1'')
      | _ \<Rightarrow> ''1'')"

definition upstreamCostFrom :: "json option \<Rightarrow> int" where
  "upstreamCostFrom snapshot =
     (case snapshot of
        Some (JObj fs) \<Rightarrow> (case get_number is_int64 fs ''upstream_usd_nano'' of Inr n \<Rightarrow> n | Inl _ \<Rightarrow> 0)
      | _ \<Rightarrow> 0)"

definition video_outcome :: "Poll \<Rightarrow> job_status \<Rightarrow> string" where
  "video_outcome poll status =
     (if status = Failed
      then (if po_ErrorCode poll = ''gateway.video_content_rejected'' then ''client_error'' else ''upstream_error'')
      else if status = Canceled then ''canceled''
      else if status = Expired then ''upstream_error''
      else ''ok'')"

definition numericFromString :: "(string \<Rightarrow> string option) \<Rightarrow> string \<Rightarrow> string option" where
  "numericFromString scan_num s = (if s = [] then None else scan_num s)"

definition videoUsageLogParams :: "(string \<Rightarrow> string option) \<Rightarrow> instant \<Rightarrow> Job \<Rightarrow> Poll \<Rightarrow> job_status \<Rightarrow> int \<Rightarrow> UsageLogParams" where
  "videoUsageLogParams scan_num now job poll status charged =
     \<lparr>u_OrgID = j_OrgID job, u_ApiKeyID = j_ApiKeyID job, u_RequestID = j_RequestID job, u_Surface = ''video'',
      u_ModelSlug = j_ModelSlug job, u_ProviderID = j_ProviderID job, u_ProviderKeyID = j_ProviderKeyID job,
      u_OrgProviderKeyID = j_OrgProviderKeyID job, u_Byok = j_Byok job, u_RouteAttempts = 1, u_Stream = False,
      u_Status = video_outcome poll status, u_ErrorCode = po_ErrorCode poll, u_HttpStatus = 200,
      u_TokensIn = 0, u_TokensOut = 0, u_TokensCachedRead = 0, u_TokensCacheWrite = 0, u_TokensReasoning = 0,
      u_UsageEstimated = False, u_UpstreamCostUsdNano = upstreamCostFrom (j_PricingSnapshot job),
      u_ChargedNano = charged, u_ChargedCurrency = j_ChargedCurrency job,
      u_FxRate = numericFromString scan_num (fxRateFrom (j_PricingSnapshot job)), u_HoldID = j_HoldID job, u_EndUserID = j_EndUserID job,
      u_TtftMs = 0,
      u_DurationMs = (case j_SubmittedAt job of None \<Rightarrow> 0 | Some t \<Rightarrow> to_int32 (quo (now - t) millisecond)),
      u_ToolCalls = Some (JObj []), u_ServiceTier = Some [], u_TokensAudioIn = Some 0, u_TokensAudioOut = Some 0,
      u_TokensImageIn = Some 0, u_BilledUnits = billedUnitsOf (j_BillingUnits job),
      u_BilledUnit = billedUnitOf (j_BillingUnits job), u_TokensCacheWrite5m = Some 0, u_TokensCacheWrite1h = Some 0,
      u_PricingSnapshot = j_PricingSnapshot job, u_RouteID = j_RouteID job, u_Attempts = Some (JArr []),
      u_TokensImageOut = None\<rparr>"

section \<open>Moving the money\<close>

text \<open>
  The tables a worker touches. \<open>wo_reads\<close> are the copies of rows workers hold, and
  \<open>wo_charges\<close> is the record of every charge made for a job, settled at once or
  queued to be debited late.
\<close>

record 'l world =
  wo_jobs :: "Job list"
  wo_books :: "'l books"
  wo_reads :: "Job list"
  wo_charges :: "(uuid \<times> int) list"

definition VoidHold :: "'l Settler \<Rightarrow> uuid \<Rightarrow> string \<Rightarrow> 'l world \<Rightarrow> 'l world" where
  "VoidHold S orgID requestID w =
     w\<lparr>wo_books := (wo_books w)\<lparr>bo_ledger := snd (st_Void S orgID requestID (bo_ledger (wo_books w)))\<rparr>\<rparr>"

definition recordVideoUnsettled :: "(string \<Rightarrow> string option) \<Rightarrow> instant \<Rightarrow> Job \<Rightarrow> int \<Rightarrow> 'l books \<Rightarrow> 'l books" where
  "recordVideoUnsettled scan_num now job charged b =
     RecordUnsettled now (j_RequestID job) (j_OrgID job) [] charged
       (videoUsageLogParams scan_num now job no_poll Completed charged) b"

text \<open>The transaction of \<open>terminateVideoJob\<close>; \<open>None\<close> is a rollback.\<close>

definition terminate_tx :: "'l Settler \<Rightarrow> (string \<Rightarrow> string option) \<Rightarrow> instant \<Rightarrow> Job \<Rightarrow> Poll \<Rightarrow> job_status \<Rightarrow> 'l world \<Rightarrow> 'l world option" where
  "terminate_tx S scan_num now job poll status w =
     (let settling = (status = Completed);
          charged = (if settling then j_HoldNano job else 0);
          row = videoUsageLogParams scan_num now job poll status charged;
          (moved, jobs) = MarkVideoJobTerminal now (j_ID job) status poll (wo_jobs w);
          b = wo_books w
      in if moved = 0 then None
         else if settling then
           (let (claimed, jobs) = SettleVideoJob (j_ID job) charged jobs
            in if claimed = 0 then None
               else if j_SettlementState job = Orphaned
               then Some (w\<lparr>wo_jobs := jobs, wo_charges := wo_charges w @ [(j_ID job, charged)],
                      wo_books := recordVideoUnsettled scan_num now job charged (b\<lparr>bo_usage := bo_usage b @ [row]\<rparr>)\<rparr>)
               else case st_SettleTx S now \<lparr>si_OrgID = j_OrgID job, si_RequestID = j_RequestID job,
                             si_ActualNano = charged, si_APIKeyID = j_ApiKeyID job\<rparr> (bo_ledger b) of
                      Inl _ \<Rightarrow> None
                    | Inr l \<Rightarrow> Some (w\<lparr>wo_jobs := jobs, wo_charges := wo_charges w @ [(j_ID job, charged)],
                        wo_books := b\<lparr>bo_ledger := l, bo_usage := bo_usage b @ [row]\<rparr>\<rparr>))
         else Some (w\<lparr>wo_jobs := snd (VoidVideoJob (j_ID job) jobs),
                wo_books := b\<lparr>bo_usage := bo_usage b @ [row]\<rparr>\<rparr>))"

definition terminateVideoJob :: "'l Settler \<Rightarrow> (string \<Rightarrow> string option) \<Rightarrow> instant \<Rightarrow> Job \<Rightarrow> Poll \<Rightarrow> job_status \<Rightarrow> 'l world \<Rightarrow> 'l world" where
  "terminateVideoJob S scan_num now job poll status w =
     (let w = (if status \<noteq> Completed then VoidHold S (j_OrgID job) (j_RequestID job) w else w)
      in case terminate_tx S scan_num now job poll status w of None \<Rightarrow> w | Some w' \<Rightarrow> w')"

definition fail_tx :: "instant \<Rightarrow> Job \<Rightarrow> string \<Rightarrow> string \<Rightarrow> 'l world \<Rightarrow> 'l world" where
  "fail_tx now job code message w =
     w\<lparr>wo_jobs := snd (VoidVideoJob (j_ID job) (snd (MarkVideoJobTerminal now (j_ID job) Failed
         (no_poll\<lparr>po_ErrorCode := code, po_ErrorMessage := message\<rparr>) (wo_jobs w))))\<rparr>"

definition failVideoJob :: "'l Settler \<Rightarrow> instant \<Rightarrow> Job \<Rightarrow> string \<Rightarrow> string \<Rightarrow> 'l world \<Rightarrow> 'l world" where
  "failVideoJob S now job code message w =
     fail_tx now job code message (VoidHold S (j_OrgID job) (j_RequestID job) w)"

definition keepVideoHoldAlive :: "'l Settler \<Rightarrow> instant \<Rightarrow> Job \<Rightarrow> 'l world \<Rightarrow> 'l world" where
  "keepVideoHoldAlive S now job w =
     (case j_HoldExpiresAt job of
        None \<Rightarrow> w
      | Some t \<Rightarrow>
          if j_SettlementState job \<noteq> Held \<or> t - now > minutes 15 then w
          else let (kept, l) = st_ProtectHold S (j_OrgID job) (j_RequestID job) (bo_ledger (wo_books w));
                   w = w\<lparr>wo_books := (wo_books w)\<lparr>bo_ledger := l\<rparr>\<rparr>
               in case kept of
                    Inl _ \<Rightarrow> w
                  | Inr True \<Rightarrow> w\<lparr>wo_jobs := ProtectVideoJobHold (j_ID job) (wo_jobs w)\<rparr>
                  | Inr False \<Rightarrow> w\<lparr>wo_jobs := OrphanVideoJobHold (j_ID job) (wo_jobs w)\<rparr>)"

section \<open>Polling\<close>

definition pollLease :: duration where "pollLease = seconds 90"
definition pollBaseQueued :: duration where "pollBaseQueued = seconds 5"
definition pollBaseInProgress :: duration where "pollBaseInProgress = seconds 10"
definition pollMax :: duration where "pollMax = minutes 2"
definition videoClaimBatch :: nat where "videoClaimBatch = 50"
definition notFoundStrikes :: int where "notFoundStrikes = 2"

fun poll_ladder :: "nat \<Rightarrow> rat \<Rightarrow> rat \<Rightarrow> duration" where
  "poll_ladder 0 growth d = \<lfloor>d\<rfloor>"
| "poll_ladder (Suc n) growth d =
     (let d = d * growth in if \<lfloor>d\<rfloor> \<ge> pollMax then pollMax else poll_ladder n growth d)"

definition nextPollDelay :: "job_status \<Rightarrow> int \<Rightarrow> duration" where
  "nextPollDelay status attempts =
     (let (base, growth) = (if status = Queued then (pollBaseQueued, 3 / 2) else (pollBaseInProgress, 7 / 5))
      in poll_ladder (nat (min attempts 20)) growth (of_int base))"

text \<open>
  What polling reads: the pinned route with its vendor, the two kinds of stored
  credential, the box that opens them, whether a vendor has a mapper and a transport
  profile parses, and the upstream's answer to a poll or a cancel on a credential.
\<close>

record pinned_route =
  pr_BaseURL :: string
  pr_Vendor :: string
  pr_Transport :: string
  pr_CancelMode :: string

record videoCredential =
  vc_APIKey :: string
  vc_BaseURL :: string
  vc_ProviderKeyID :: uuid
  vc_OrgProviderKeyID :: uuid

record video_env =
  ve_GetVideoJobRoute :: "uuid \<Rightarrow> pinned_route option"
  ve_MapperFor :: "string \<Rightarrow> bool"
  ve_ParseTransport :: "string \<Rightarrow> bool"
  ve_GetOrgProviderKeySecret :: "uuid \<Rightarrow> uuid \<Rightarrow> (string \<times> string option) option"
  ve_GetVideoJobProviderKey :: "uuid \<Rightarrow> string option"
  ve_Open :: "string \<Rightarrow> uuid \<Rightarrow> string option"
  ve_poll :: "videoCredential \<Rightarrow> string \<Rightarrow> Poll option"
  ve_cancel :: "videoCredential \<Rightarrow> string \<Rightarrow> Error + int"
  ve_capture :: "Job \<Rightarrow> string option"
  ve_delete_artifact :: "string \<Rightarrow> bool"
  ve_scan_num :: "string \<Rightarrow> string option"

definition credentialOfJob :: "video_env \<Rightarrow> Job \<Rightarrow> pinned_route \<Rightarrow> videoCredential option" where
  "credentialOfJob env job route =
     (if uuid_valid (j_OrgProviderKeyID job) then
        (case ve_GetOrgProviderKeySecret env (j_OrgProviderKeyID job) (j_OrgID job) of
           None \<Rightarrow> None
         | Some (enc, base) \<Rightarrow>
             (case ve_Open env enc (j_OrgProviderKeyID job) of
                None \<Rightarrow> None
              | Some plain \<Rightarrow> Some \<lparr>vc_APIKey = plain,
                  vc_BaseURL = (case base of Some b \<Rightarrow> (if b \<noteq> [] then b else pr_BaseURL route) | None \<Rightarrow> pr_BaseURL route),
                  vc_ProviderKeyID = None, vc_OrgProviderKeyID = j_OrgProviderKeyID job\<rparr>))
      else if uuid_valid (j_ProviderKeyID job) then
        (case ve_GetVideoJobProviderKey env (j_ProviderKeyID job) of
           None \<Rightarrow> None
         | Some enc \<Rightarrow>
             (case ve_Open env enc (j_ProviderKeyID job) of
                None \<Rightarrow> None
              | Some plain \<Rightarrow> Some \<lparr>vc_APIKey = plain, vc_BaseURL = pr_BaseURL route,
                  vc_ProviderKeyID = j_ProviderKeyID job, vc_OrgProviderKeyID = None\<rparr>))
      else None)"

definition videoRouteFor :: "video_env \<Rightarrow> Job \<Rightarrow> (pinned_route \<times> videoCredential) option" where
  "videoRouteFor env job =
     (if \<not> uuid_valid (j_RouteID job) then None
      else case ve_GetVideoJobRoute env (j_RouteID job) of
             None \<Rightarrow> None
           | Some route \<Rightarrow>
               if \<not> ve_MapperFor env (pr_Vendor route) \<or> \<not> ve_ParseTransport env (pr_Transport route) then None
               else map_option (Pair route) (credentialOfJob env job route))"

definition pollVideoJob :: "'l Settler \<Rightarrow> video_env \<Rightarrow> instant \<Rightarrow> Job \<Rightarrow> 'l world \<Rightarrow> 'l world" where
  "pollVideoJob S env now job w =
     (case videoRouteFor env job of
        None \<Rightarrow> failVideoJob S now job ''gateway.state_route_unavailable''
                  ''the upstream that created this job is no longer configured'' w
      | Some (route, cred) \<Rightarrow>
          (case ve_poll env cred (j_UpstreamID job) of
             None \<Rightarrow> w
           | Some poll \<Rightarrow>
               if po_NotFound poll then
                 (let (count, jobs) = MarkVideoJobNotFound now (j_ID job) pollBaseInProgress (wo_jobs w);
                      w = w\<lparr>wo_jobs := jobs\<rparr>
                  in case count of
                       None \<Rightarrow> w
                     | Some n \<Rightarrow>
                         if n \<ge> notFoundStrikes
                         then terminateVideoJob S (ve_scan_num env) now job
                                (no_poll\<lparr>po_Status := Failed, po_UpstreamStatus := ''NOT_FOUND'',
                                  po_ErrorCode := ''gateway.resource_not_found'',
                                  po_ErrorMessage := ''the upstream no longer has this job''\<rparr>) Expired w
                         else w)
               else if \<not> Terminal (po_Status poll) then
                 (let w = keepVideoHoldAlive S now job w
                  in w\<lparr>wo_jobs := MarkVideoJobProgress now (j_ID job) poll
                         (nextPollDelay (po_Status poll) (j_PollAttempts job)) (wo_jobs w)\<rparr>)
               else
                 (let w = terminateVideoJob S (ve_scan_num env) now job poll (po_Status poll) w
                  in if po_Status poll = Completed
                     then (case ve_capture env job of
                             None \<Rightarrow> w
                           | Some key \<Rightarrow> w\<lparr>wo_jobs := RecordVideoJobArtifact (j_ID job) key (wo_jobs w)\<rparr>)
                     else w)))"

text \<open>A query hands copies of rows to the worker that made it.\<close>

definition read_rows :: "Job list \<Rightarrow> 'l world \<Rightarrow> 'l world" where
  "read_rows rows w = w\<lparr>wo_reads := rows @ wo_reads w\<rparr>"

definition each_row :: "(Job \<Rightarrow> 'l world \<Rightarrow> 'l world) \<Rightarrow> Job list \<Rightarrow> 'l world \<Rightarrow> 'l world" where
  "each_row act rows w = foldl (\<lambda>w job. act job w) (read_rows rows w) rows"

definition VideoScan_Work :: "'l Settler \<Rightarrow> video_env \<Rightarrow> instant \<Rightarrow> 'l world \<Rightarrow> 'l world" where
  "VideoScan_Work S env now w =
     (let (due, jobs) = ClaimDueVideoJobs now pollLease videoClaimBatch (wo_jobs w)
      in each_row (pollVideoJob S env now) due (w\<lparr>wo_jobs := jobs\<rparr>))"

section \<open>Sweeping, cancelling and deleting\<close>

definition videoDeleteRefusal :: "Job \<Rightarrow> Error option" where
  "videoDeleteRefusal job =
     (if running (j_Status job)
      then Some (NewError GatewayJobNotReady
             ''This job is still running; cancel it or wait for it to finish before deleting it'')
      else if j_SettlementState job = Held \<or> j_SettlementState job = Protected
      then Some (NewError GatewayJobNotReady
             ''This job is still holding a reservation; its charge has to be settled or voided before it can be deleted'')
      else None)"

definition sweep_expired :: "video_env \<Rightarrow> Job \<Rightarrow> 'l world \<Rightarrow> 'l world" where
  "sweep_expired env job w =
     (if j_ArtifactKey job \<noteq> [] \<and> \<not> ve_delete_artifact env (j_ArtifactKey job) then w
      else if videoDeleteRefusal job \<noteq> None then w\<lparr>wo_jobs := ClearVideoJobArtifact (j_ID job) (wo_jobs w)\<rparr>
      else w\<lparr>wo_jobs := DeleteVideoJob (j_ID job) (wo_jobs w)\<rparr>)"

definition sweep_unsubmitted :: "'l Settler \<Rightarrow> instant \<Rightarrow> Job \<Rightarrow> 'l world \<Rightarrow> 'l world" where
  "sweep_unsubmitted S now job w = failVideoJob S now job ''gateway.internal'' ''the job was never submitted upstream'' w"

definition sweep_stale :: "'l Settler \<Rightarrow> video_env \<Rightarrow> instant \<Rightarrow> Job \<Rightarrow> 'l world \<Rightarrow> 'l world" where
  "sweep_stale S env now job w = terminateVideoJob S (ve_scan_num env) now job
     (no_poll\<lparr>po_Status := Expired, po_UpstreamStatus := j_UpstreamStatus job,
       po_ErrorCode := ''gateway.upstream_timeout'',
       po_ErrorMessage := ''the upstream never finished this job''\<rparr>) Expired w"

definition VideoSweep_Work :: "'l Settler \<Rightarrow> video_env \<Rightarrow> instant \<Rightarrow> 'l world \<Rightarrow> 'l world" where
  "VideoSweep_Work S env now w =
     (let w = each_row (sweep_unsubmitted S now) (ListUnsubmittedVideoJobs now (minutes 2) videoClaimBatch (wo_jobs w)) w;
          w = each_row (sweep_stale S env now) (ListStaleVideoJobs now videoClaimBatch (wo_jobs w)) w
      in each_row (sweep_expired env) (ListExpiredVideoJobs now videoClaimBatch (wo_jobs w)) w)"

definition VideoJobs_Get :: "uuid option \<Rightarrow> uuid \<Rightarrow> Job list \<Rightarrow> Error + Job" where
  "VideoJobs_Get parsed orgID jobs =
     (case parsed of
        None \<Rightarrow> Inl (NewError GatewayResourceNotFound ''Video job not found'')
      | Some u \<Rightarrow> (case GetVideoJob u orgID jobs of
                    None \<Rightarrow> Inl (NewError GatewayResourceNotFound ''Video job not found'')
                  | Some job \<Rightarrow> Inr job))"

definition VideoJobs_Cancel :: "'l Settler \<Rightarrow> video_env \<Rightarrow> instant \<Rightarrow> uuid \<Rightarrow> uuid option \<Rightarrow> 'l world \<Rightarrow> (Error + Job) \<times> 'l world" where
  "VideoJobs_Cancel S env now orgID parsed w =
     (case VideoJobs_Get parsed orgID (wo_jobs w) of
        Inl e \<Rightarrow> (Inl e, w)
      | Inr job \<Rightarrow>
          if \<not> running (j_Status job)
          then (Inl (NewError GatewayJobNotCancelable ''This job has already finished''), w)
          else (case videoRouteFor env job of
             None \<Rightarrow> (Inl (NewError GatewayStateRouteUnavailable
                        ''The upstream that created this job is no longer configured''), w)
           | Some (route, cred) \<Rightarrow>
               if pr_CancelMode route = ''never''
               then (Inl (NewError GatewayJobNotCancelable
                      ''This model cannot cancel a job once it has been submitted''), w)
               else if pr_CancelMode route = ''queued_only'' \<and> j_Status job \<noteq> Queued
               then (Inl (NewError GatewayJobNotCancelable
                      ''This model can only cancel a job that has not started generating''), w)
               else (case ve_cancel env cred (j_UpstreamID job) of
                  Inl e \<Rightarrow> (Inl e, w)
                | Inr status \<Rightarrow>
                    if status < 200 \<or> status \<ge> 300
                    then (Inl (NewError GatewayJobNotCancelable
                           ''The upstream refused to cancel this job; it is already generating''), w)
                    else (let w = terminateVideoJob S (ve_scan_num env) now job
                                (no_poll\<lparr>po_Status := Canceled, po_UpstreamStatus := ''canceled''\<rparr>) Canceled (read_rows [job] w)
                          in case VideoJobs_Get parsed orgID (wo_jobs w) of
                               Inr fresh \<Rightarrow> (Inr fresh, w)
                             | Inl _ \<Rightarrow> (Inr (job\<lparr>j_Status := Canceled\<rparr>), w)))))"

definition VideoJobs_Delete :: "video_env \<Rightarrow> uuid \<Rightarrow> uuid option \<Rightarrow> 'l world \<Rightarrow> (Error + Job) \<times> 'l world" where
  "VideoJobs_Delete env orgID parsed w =
     (case VideoJobs_Get parsed orgID (wo_jobs w) of
        Inl e \<Rightarrow> (Inl e, w)
      | Inr job \<Rightarrow>
          (case videoDeleteRefusal job of
             Some e \<Rightarrow> (Inl e, w)
           | None \<Rightarrow>
               if j_ArtifactKey job \<noteq> [] \<and> \<not> ve_delete_artifact env (j_ArtifactKey job)
               then (Inl (NewError GatewayInternal ''The artifact could not be deleted''), w)
               else (Inr job, (read_rows [job] w)\<lparr>wo_jobs := DeleteVideoJob (j_ID job) (wo_jobs w)\<rparr>)))"

end
