(* ===== verification/Settlement.thy ===== *)
theory Settlement
  imports Admission VideoJobs
begin

text \<open>
  From a served call to the books (\<open>proxy/pipeline.go\<close>, \<open>proxy/buffered_settlement.go\<close>,
  \<open>proxy/pricing_snapshot.go\<close>, \<open>proxy/images.go\<close>, \<open>proxy/utility.go\<close> and the charge functions of
  \<open>proxy/byok.go\<close>): the hold, the quote, the usage row, the settlement with its two fallback queues,
  and the whole buffered call. Metrics are not modelled; the tokens a charge is computed from come from the
  body as \<open>encoding/json\<close> reads it.
\<close>

section \<open>The price snapshot of a usage row\<close>

definition multiplierOrOne :: "int \<Rightarrow> int" where
  "multiplierOrOne v = (if v = 0 then 10000 else v)"

definition exactUSDPerM :: "int \<Rightarrow> int list \<Rightarrow> string" where
  "exactUSDPerM nano multipliers = FormatScaled (foldl (*) nano multipliers) (9 + 4 * length multipliers)"

record usageTokenRatesUSDPerM =
  utr_Input :: string
  utr_Output :: string
  utr_CacheRead :: string
  utr_CacheWrite :: string

definition multipliedRatesOf :: "Price \<Rightarrow> int list \<Rightarrow> usageTokenRatesUSDPerM" where
  "multipliedRatesOf p multipliers =
     \<lparr>utr_Input = exactUSDPerM (InNanoPerMTok p) multipliers, utr_Output = exactUSDPerM (OutNanoPerMTok p) multipliers,
      utr_CacheRead = exactUSDPerM (CacheReadNanoPerMTok p) multipliers,
      utr_CacheWrite = exactUSDPerM (CacheWriteNanoPerMTok p) multipliers\<rparr>"

definition ratesOf :: "Price \<Rightarrow> usageTokenRatesUSDPerM" where "ratesOf p = multipliedRatesOf p []"

definition procurementRatesOf :: "Price \<Rightarrow> int \<Rightarrow> usageTokenRatesUSDPerM" where
  "procurementRatesOf official multiplierBps = multipliedRatesOf official [multiplierBps]"

definition zeroUsageTokenRates :: usageTokenRatesUSDPerM where
  "zeroUsageTokenRates = \<lparr>utr_Input = ''0'', utr_Output = ''0'', utr_CacheRead = ''0'', utr_CacheWrite = ''0''\<rparr>"

record usageEffectiveRateGroups =
  ueg_Official :: usageTokenRatesUSDPerM
  ueg_Public :: usageTokenRatesUSDPerM
  ueg_Customer :: usageTokenRatesUSDPerM
  ueg_Procurement :: usageTokenRatesUSDPerM

definition effectiveRateGroups :: "Price \<Rightarrow> string \<Rightarrow> int \<Rightarrow> int \<Rightarrow> int \<Rightarrow> bool \<Rightarrow> int \<Rightarrow> usageEffectiveRateGroups" where
  "effectiveRateGroups official billingMode modelBps planBps procurementBps byok byokFeeBps =
     (let model = multiplierOrOne modelBps; plan = multiplierOrOne planBps; procurement = multiplierOrOne procurementBps
      in \<lparr>ueg_Official = ratesOf official,
          ueg_Public = (if billingMode \<noteq> ''free'' then multipliedRatesOf official [model] else zeroUsageTokenRates),
          ueg_Customer = (if billingMode \<noteq> ''free'' then
                            (if byok then multipliedRatesOf official [byokFeeBps, plan] else multipliedRatesOf official [model, plan])
                          else zeroUsageTokenRates),
          ueg_Procurement = (if byok then zeroUsageTokenRates else procurementRatesOf official procurement)\<rparr>)"

text \<open>Every snapshot settlement and logging need. The zero route has no id.\<close>

record settleArgs =
  sa_id :: Identity
  sa_requestID :: string
  sa_quote :: Quote
  sa_usage :: Usage
  sa_units :: Units
  sa_estimated :: bool
  sa_model :: ModelRow
  sa_modelPricing :: ModelPricingSnapshot
  sa_route :: "Route option"
  sa_in :: Request
  sa_pricing :: pricingInputs
  sa_priceTable :: PriceTable
  sa_pricingIssue :: string
  sa_pricingFallback :: bool
  sa_httpStatus :: int
  sa_durationMs :: int
  sa_status :: string
  sa_ttfbMs :: int
  sa_attempts :: int
  sa_byok :: bool
  sa_orgProviderKeyID :: uuid
  sa_routeID :: uuid
  sa_trail :: "json option"
  sa_providerKeyID :: uuid
  sa_holdID :: uuid
  sa_utility :: bool

definition no_quote :: Quote where
  "no_quote = \<lparr>q_UpstreamUSDNano = 0, q_ChargedNano = 0, q_ModelMultiplierBps = 0, q_PlanMultiplierBps = 0,
     q_ProcurementMultiplierBps = 0, q_FXRate = []\<rparr>"

definition route_or_zero :: "(Route \<Rightarrow> 'a) \<Rightarrow> 'a \<Rightarrow> Route option \<Rightarrow> 'a" where
  "route_or_zero f z route = (case route of None \<Rightarrow> z | Some r \<Rightarrow> f r)"

definition versionedEffectiveRates :: "settleArgs \<Rightarrow> usageEffectiveRateGroups" where
  "versionedEffectiveRates a =
     effectiveRateGroups (pt_base (sa_priceTable a)) (if IsFree (sa_modelPricing a) then ''free'' else ''paid'')
       (rt_ModelMultiplierBps (pi_rates (sa_pricing a))) (rt_PlanMultiplierBps (pi_rates (sa_pricing a)))
       (route_or_zero r_ProcurementMultiplierBps 0 (sa_route a)) (sa_byok a) (pi_byokFeeBps (sa_pricing a))"

text \<open>The JSON of the snapshot, with the tags of its structs; \<open>omit\<close> is \<open>omitempty\<close>.\<close>

definition omit :: "bool \<Rightarrow> string \<Rightarrow> json \<Rightarrow> (string \<times> json) list" where
  "omit zero k v = (if zero then [] else [(k, v)])"

definition json_of_price :: "Price \<Rightarrow> json" where
  "json_of_price p = JObj [(''input'', JNum (InNanoPerMTok p)), (''output'', JNum (OutNanoPerMTok p)),
     (''cache_read'', JNum (CacheReadNanoPerMTok p)), (''cache_write'', JNum (CacheWriteNanoPerMTok p))]"

definition json_of_dimension :: "DimensionRate \<Rightarrow> json" where
  "json_of_dimension d = JObj ([(''bucket'', JStr (dr_Bucket d)), (''service_tier'', JStr (dr_ServiceTier d))] @
     omit (dr_Variant d = []) ''variant'' (JStr (dr_Variant d)) @
     omit (dr_MinInputTokens d = 0) ''min_input_tokens'' (JNum (dr_MinInputTokens d)) @
     [(''nano_per_mtok'', JNum (dr_NanoPerMtok d))])"

definition json_of_counts :: "(string \<times> int) list \<Rightarrow> json" where
  "json_of_counts m = JObj (map (\<lambda>(k, n). (k, JNum n)) (sort_key fst m))"

definition json_of_table :: "PriceTableSnapshot \<Rightarrow> json" where
  "json_of_table s = JObj [(''base_nano_per_mtok'', json_of_price (pts_Base s)),
     (''dimension_rates'', JArr (map json_of_dimension (pts_DimensionRates s))),
     (''tool_rates_nano_per_call'', json_of_counts (pts_ToolRates s))]"

definition json_of_rates :: "usageTokenRatesUSDPerM \<Rightarrow> json" where
  "json_of_rates r = JObj [(''input'', JStr (utr_Input r)), (''output'', JStr (utr_Output r)), (''cache_read'', JStr (utr_CacheRead r)),
     (''cache_write'', JStr (utr_CacheWrite r))]"

definition usagePricingSchemaVersion :: int where "usagePricingSchemaVersion = 1"

definition encodePricingSnapshot :: "settleArgs \<Rightarrow> json" where
  "encodePricingSnapshot a =
     (let rates = versionedEffectiveRates a; snapshot = json_of_table (Snapshot (sa_priceTable a)); q = sa_quote a; p = sa_pricing a
      in JObj (
          [(''schema_version'', JNum usagePricingSchemaVersion),
           (''billing_mode'', JStr (if sa_utility a then ''utility'' else if IsFree (sa_modelPricing a) then ''free'' else ''paid'')),
           (''byok'', JBool (sa_byok a))] @
          omit (\<not> sa_byok a \<or> pi_byokFeeBps p = 0) ''byok_fee_bps'' (JNum (pi_byokFeeBps p)) @
          omit (UUIDString (pi_pricingPlanID p) = []) ''pricing_plan_id'' (JStr (UUIDString (pi_pricingPlanID p))) @
          [(''plan_model_override'', JBool (pi_planModelOverride p)),
           (''official_price_table'', snapshot), (''procurement_price_table'', snapshot),
           (''context_tokens'', JNum (ContextTokens (BillingTokens (sa_usage a)))),
           (''official_rates_usd_per_m'', json_of_rates (ueg_Official rates)),
           (''public_rates_usd_per_m'', json_of_rates (ueg_Public rates)),
           (''customer_rates_usd_per_m'', json_of_rates (ueg_Customer rates)),
           (''procurement_rates_usd_per_m'', json_of_rates (ueg_Procurement rates)),
           (''model_multiplier_bps'', JNum (q_ModelMultiplierBps q)), (''plan_multiplier_bps'', JNum (q_PlanMultiplierBps q)),
           (''procurement_multiplier_bps'', JNum (q_ProcurementMultiplierBps q)),
           (''fx_rate'', JStr (q_FXRate q)), (''fx_version'', JStr (pi_fxVersion p)),
           (''upstream_cost_usd_nano'', JNum (q_UpstreamUSDNano q)), (''charged_nano'', JNum (q_ChargedNano q)),
           (''charged_currency'', JStr (id_WalletCurrency (sa_id a))),
           (''settlement_status'', JStr (if sa_utility a then ''not_charged'' else if sa_pricingIssue a \<noteq> [] then ''pricing_missing''
              else ''priced''))] @
          omit (\<not> sa_utility a) ''utility'' (JBool True) @
          omit (sa_pricingIssue a = []) ''pricing_issue'' (JStr (sa_pricingIssue a))))"

section \<open>The usage row\<close>

definition clampInt32 :: "int \<Rightarrow> int" where
  "clampInt32 v = (if v < 0 then 0 else if v > 2147483647 then 2147483647 else v)"

definition snapshotInt4 :: "int \<Rightarrow> int option" where "snapshotInt4 v = Some (clampInt32 v)"

definition statusOrOK :: "string \<Rightarrow> string" where "statusOrOK s = (if s = [] then ''ok'' else s)"

definition attemptsOrOne :: "int \<Rightarrow> int" where "attemptsOrOne n = (if n < 1 then 1 else n)"

definition attemptsJSON :: "json option \<Rightarrow> json" where
  "attemptsJSON raw = (case raw of None \<Rightarrow> JArr [] | Some j \<Rightarrow> j)"

definition json_of_hop :: "failedHop \<Rightarrow> json" where
  "json_of_hop h = JObj (omit (fh_RouteID h = []) ''route_id'' (JStr (fh_RouteID h)) @
     omit (fh_ProviderID h = []) ''provider_id'' (JStr (fh_ProviderID h)) @
     omit (fh_ProviderKeyID h = []) ''provider_key_id'' (JStr (fh_ProviderKeyID h)) @ [(''class'', JStr (fh_Class h))] @
     omit (fh_HTTPStatus h = 0) ''http_status'' (JNum (fh_HTTPStatus h)) @
     omit (fh_ErrorCode h = []) ''error_code'' (JStr (fh_ErrorCode h)) @
     [(''latency_ms'', JNum (fh_LatencyMs h)), (''priority'', JNum (fh_Priority h)), (''weight'', JNum (fh_Weight h))])"

definition trailJSON :: "rotationResult \<Rightarrow> json" where
  "trailJSON r = JArr (map json_of_hop (rr_trail r))"

definition routeID :: "rotationResult \<Rightarrow> uuid" where
  "routeID r = route_or_zero r_ID None (rr_route r)"

definition encodeToolCalls :: "(string \<times> int) list \<Rightarrow> json" where "encodeToolCalls m = json_of_counts m"

definition endUserOf :: "(string \<Rightarrow> json option) \<Rightarrow> Request \<Rightarrow> string" where
  "endUserOf parse rq = (if rq_EndUserID rq \<noteq> [] then rq_EndUserID rq else EndUserOf (rq_Protocol rq) (parse (rq_Body rq)))"

definition billedUnitsOfVector :: "Units \<Rightarrow> int option" where
  "billedUnitsOfVector u = (if u = [] then None else Some (clampInt32 (foldl (\<lambda>t (k, q). add64 t q) 0 u)))"

definition billedUnitOfVector :: "Units \<Rightarrow> string" where
  "billedUnitOfVector u = (case u of [] \<Rightarrow> [] | (k, q) # rest \<Rightarrow> uk_Unit k)"

text \<open>
  What writing to the books needs: the settlement contract, \<open>pgtype.Numeric\<close>'s scanner, whether an insert succeeds,
  and the identifier a request without one is given.
\<close>

record 'b settle_env =
  se_settler :: "'b Settler"
  se_scan_num :: "string \<Rightarrow> string option"
  se_insert_ok :: "UsageLogParams \<Rightarrow> bool"
  se_freshID :: string

definition usageLogParams :: "(string \<Rightarrow> string option) \<Rightarrow> (string \<Rightarrow> json option) \<Rightarrow> settleArgs \<Rightarrow> UsageLogParams" where
  "usageLogParams scan_num parse a =
     \<lparr>u_OrgID = id_OrgID (sa_id a), u_ApiKeyID = id_KeyID (sa_id a), u_RequestID = sa_requestID a, u_Surface = rq_Surface (sa_in a),
      u_ModelSlug = m_Slug (sa_model a), u_ProviderID = route_or_zero r_ProviderID None (sa_route a),
      u_ProviderKeyID = sa_providerKeyID a, u_OrgProviderKeyID = sa_orgProviderKeyID a, u_Byok = sa_byok a,
      u_RouteAttempts = attemptsOrOne (sa_attempts a), u_Stream = rq_Stream (sa_in a), u_Status = statusOrOK (sa_status a),
      u_ErrorCode = [], u_HttpStatus = to_int32 (sa_httpStatus a),
      u_TokensIn = clampInt32 (us_In (sa_usage a)), u_TokensOut = clampInt32 (us_Out (sa_usage a)),
      u_TokensCachedRead = clampInt32 (us_CachedRead (sa_usage a)), u_TokensCacheWrite = clampInt32 (us_CacheWrite (sa_usage a)),
      u_TokensReasoning = clampInt32 (us_Reasoning (sa_usage a)), u_UsageEstimated = sa_estimated a,
      u_UpstreamCostUsdNano = q_UpstreamUSDNano (sa_quote a), u_ChargedNano = q_ChargedNano (sa_quote a),
      u_ChargedCurrency = id_WalletCurrency (sa_id a), u_FxRate = numericFromString scan_num (q_FXRate (sa_quote a)),
      u_HoldID = sa_holdID a, u_EndUserID = endUserOf parse (sa_in a), u_TtftMs = sa_ttfbMs a, u_DurationMs = sa_durationMs a,
      u_ToolCalls = Some (encodeToolCalls (us_ToolCalls (sa_usage a))), u_ServiceTier = Some (us_ServiceTier (sa_usage a)),
      u_TokensAudioIn = snapshotInt4 (us_AudioIn (sa_usage a)), u_TokensAudioOut = snapshotInt4 (us_AudioOut (sa_usage a)),
      u_TokensImageIn = snapshotInt4 (us_ImageIn (sa_usage a)),
      u_BilledUnits = billedUnitsOfVector (sa_units a), u_BilledUnit = billedUnitOfVector (sa_units a),
      u_TokensCacheWrite5m = snapshotInt4 (us_CacheWrite5m (sa_usage a)), u_TokensCacheWrite1h = snapshotInt4 (us_CacheWrite1h (sa_usage a)),
      u_PricingSnapshot = Some (encodePricingSnapshot a), u_RouteID = sa_routeID a, u_Attempts = Some (attemptsJSON (sa_trail a)),
      u_TokensImageOut = snapshotInt4 (us_ImageOut (sa_usage a))\<rparr>"

definition failureStatus :: "string \<Rightarrow> string" where
  "failureStatus code =
     (if code \<in> {GatewayUpstreamTimeout, GatewayAllProvidersFailed, GatewayInternal} then ''upstream_error'' else ''client_error'')"

definition millis :: "duration \<Rightarrow> int" where "millis d = to_int32 (quo d millisecond)"

definition failure_params :: "(string \<Rightarrow> json option) \<Rightarrow> Identity \<Rightarrow> Request \<Rightarrow> string \<Rightarrow> Route option \<Rightarrow> rotationResult \<Rightarrow> string
    \<Rightarrow> Error \<Rightarrow> duration \<Rightarrow> UsageLogParams" where
  "failure_params parse i rq modelSlug route rot requestID gerr elapsed =
     \<lparr>u_OrgID = id_OrgID i, u_ApiKeyID = id_KeyID i, u_RequestID = requestID, u_Surface = rq_Surface rq, u_ModelSlug = modelSlug,
      u_ProviderID = route_or_zero r_ProviderID None route, u_ProviderKeyID = rr_keyID rot, u_OrgProviderKeyID = None, u_Byok = False,
      u_RouteAttempts = to_int32 (int (rr_attempts rot)), u_Stream = False, u_Status = failureStatus (e_Code gerr), u_ErrorCode = e_Code gerr,
      u_HttpStatus = to_int32 (statusOf (e_Code gerr)), u_TokensIn = 0, u_TokensOut = 0, u_TokensCachedRead = 0, u_TokensCacheWrite = 0,
      u_TokensReasoning = 0, u_UsageEstimated = False, u_UpstreamCostUsdNano = 0, u_ChargedNano = 0,
      u_ChargedCurrency = id_WalletCurrency i, u_FxRate = None, u_HoldID = None, u_EndUserID = endUserOf parse rq, u_TtftMs = 0,
      u_DurationMs = millis elapsed, u_ToolCalls = Some (JObj []), u_ServiceTier = Some [], u_TokensAudioIn = None, u_TokensAudioOut = None,
      u_TokensImageIn = None, u_BilledUnits = None, u_BilledUnit = [], u_TokensCacheWrite5m = None, u_TokensCacheWrite1h = None,
      u_PricingSnapshot = Some (JObj []), u_RouteID = routeID rot, u_Attempts = Some (attemptsJSON (Some (trailJSON rot))),
      u_TokensImageOut = None\<rparr>"

section \<open>Writing to the books\<close>

definition put_books :: "('b books \<Rightarrow> 'b books) \<Rightarrow> ('c, 's, 'l, 'b) gateway \<Rightarrow> ('c, 's, 'l, 'b) gateway" where
  "put_books f g = g\<lparr>gw_books := f (gw_books g)\<rparr>"

definition insert_row :: "'b settle_env \<Rightarrow> UsageLogParams \<Rightarrow> 'b books \<Rightarrow> 'b books" where
  "insert_row se params b = (if se_insert_ok se params then b\<lparr>bo_usage := bo_usage b @ [params]\<rparr> else b)"

definition logFailure :: "('c, 's, 'l, 'b) gateway_env \<Rightarrow> 'b settle_env \<Rightarrow> Identity \<Rightarrow> Request \<Rightarrow> string \<Rightarrow> Route option \<Rightarrow> rotationResult
    \<Rightarrow> string \<Rightarrow> Error \<Rightarrow> duration \<Rightarrow> ('c, 's, 'l, 'b) gateway \<Rightarrow> ('c, 's, 'l, 'b) gateway" where
  "logFailure env se i rq modelSlug route rot requestID gerr elapsed =
     put_books (insert_row se (failure_params (ge_json env) i rq modelSlug route rot requestID gerr elapsed))"

definition RecordRejection :: "('c, 's, 'l, 'b) gateway_env \<Rightarrow> 'b settle_env \<Rightarrow> prepared \<Rightarrow> Request \<Rightarrow> string \<Rightarrow> Error \<Rightarrow> duration
    \<Rightarrow> ('c, 's, 'l, 'b) gateway \<Rightarrow> ('c, 's, 'l, 'b) gateway" where
  "RecordRejection env se prep rq requestID gerr elapsed g =
     (if \<not> uuid_valid (id_OrgID (pr_id prep)) then g
      else logFailure env se (pr_id prep) rq (pr_modelSlug prep) None zero_rotation requestID gerr elapsed g)"

definition CommonInsufficientCredits :: string where "CommonInsufficientCredits = ''common.insufficient_credits''"
definition CommonOrgSuspended :: string where "CommonOrgSuspended = ''common.org_suspended''"
definition CommonNotFound :: string where "CommonNotFound = ''common.not_found''"

definition mapHoldError :: "hold_error \<Rightarrow> Error" where
  "mapHoldError err =
     (case err of
        CodeError code \<Rightarrow>
          if code = CommonInsufficientCredits then NewError GatewayInsufficientCredits ''Insufficient credits''
          else if code = CommonOrgSuspended then NewError GatewayOrgSuspended ''Organization is suspended''
          else if code = CommonNotFound then NewError GatewayOrgSuspended ''Organization is unavailable''
          else NewError GatewayInternal ''Billing failed''
      | OtherError \<Rightarrow> NewError GatewayInternal ''Billing failed'')"

definition imageHoldTTL :: duration where "imageHoldTTL = minutes 30"

definition holdTTLFor :: "string \<Rightarrow> duration" where
  "holdTTLFor surface = (if isImageSurface surface then imageHoldTTL else 0)"

definition billingHoldInput :: "Identity \<Rightarrow> string \<Rightarrow> int \<Rightarrow> HoldInput" where
  "billingHoldInput i requestID amountNano = \<lparr>hi_OrgID = id_OrgID i, hi_RequestID = requestID, hi_AmountNano = amountNano, hi_TTL = 0\<rparr>"

definition ReserveFor :: "'b settle_env \<Rightarrow> Identity \<Rightarrow> string \<Rightarrow> int \<Rightarrow> duration \<Rightarrow> ('c, 's, 'l, 'b) gateway
    \<Rightarrow> (Error + uuid) \<times> ('c, 's, 'l, 'b) gateway" where
  "ReserveFor se i requestID amountNano ttl g =
     (let (r, l) = st_Hold (se_settler se) ((billingHoldInput i requestID amountNano)\<lparr>hi_TTL := ttl\<rparr>) (bo_ledger (gw_books g))
      in (case r of Inl e \<Rightarrow> Inl (mapHoldError e) | Inr holdID \<Rightarrow> Inr holdID, put_books (\<lambda>b. b\<lparr>bo_ledger := l\<rparr>) g))"

definition release_hold :: "'b settle_env \<Rightarrow> uuid \<Rightarrow> string \<Rightarrow> ('c, 's, 'l, 'b) gateway \<Rightarrow> ('c, 's, 'l, 'b) gateway" where
  "release_hold se orgID requestID = put_books (\<lambda>b. b\<lparr>bo_ledger := snd (st_Void (se_settler se) orgID requestID (bo_ledger b))\<rparr>)"

definition RecordExecutionFailure :: "('c, 's, 'l, 'b) gateway_env \<Rightarrow> 'b settle_env \<Rightarrow> prepared \<Rightarrow> Request \<Rightarrow> string \<Rightarrow> rotationResult
    \<Rightarrow> Error \<Rightarrow> duration \<Rightarrow> ('c, 's, 'l, 'b) gateway \<Rightarrow> ('c, 's, 'l, 'b) gateway" where
  "RecordExecutionFailure env se prep rq requestID rotation gerr elapsed g =
     logFailure env se (pr_id prep) rq (pr_modelSlug prep) (rr_route rotation) rotation requestID gerr elapsed
       (release_hold se (id_OrgID (pr_id prep)) requestID g)"

definition SettleAndLog :: "('c, 's, 'l, 'b) gateway_env \<Rightarrow> 'b settle_env \<Rightarrow> instant \<Rightarrow> settleArgs \<Rightarrow> 'b books \<Rightarrow> unit + 'b books" where
  "SettleAndLog env se now a b =
     settle_and_log (se_settler se) (se_insert_ok se) now
       \<lparr>si_OrgID = id_OrgID (sa_id a), si_RequestID = sa_requestID a, si_ActualNano = q_ChargedNano (sa_quote a), si_APIKeyID = id_KeyID (sa_id a)\<rparr>
       (usageLogParams (se_scan_num se) (ge_json env) a) b"

definition record_unsettled :: "('c, 's, 'l, 'b) gateway_env \<Rightarrow> 'b settle_env \<Rightarrow> instant \<Rightarrow> settleArgs \<Rightarrow> Quote \<Rightarrow> 'b books \<Rightarrow> 'b books" where
  "record_unsettled env se now a quote =
     RecordUnsettled now (sa_requestID a) (id_OrgID (sa_id a)) (id_WalletCurrency (sa_id a)) (q_ChargedNano quote)
       (usageLogParams (se_scan_num se) (ge_json env) a)"

text \<open>A repeated entry for one request only counts an attempt.\<close>

definition RecordPricingMissing :: "('c, 's, 'l, 'b) gateway_env \<Rightarrow> 'b settle_env \<Rightarrow> settleArgs \<Rightarrow> int \<Rightarrow> ('c, 's, 'l, 'b) gateway
    \<Rightarrow> ('c, 's, 'l, 'b) gateway" where
  "RecordPricingMissing env se a reservedNano g =
     (case EncodeUsageReplayPayload (usageLogParams (se_scan_num se) (ge_json env) a) of
        Inl _ \<Rightarrow> g
      | Inr payload \<Rightarrow>
          (let (r, l) = st_ProtectHold (se_settler se) (id_OrgID (sa_id a)) (sa_requestID a) (bo_ledger (gw_books g));
               g = put_books (\<lambda>b. b\<lparr>bo_ledger := l\<rparr>) g;
               row = \<lparr>pm_RequestID = sa_requestID a, pm_OrgID = id_OrgID (sa_id a), pm_ReservedNano = reservedNano,
                      pm_Currency = id_WalletCurrency (sa_id a), pm_Payload = payload\<rparr>
           in case r of
                Inl _ \<Rightarrow> g
              | Inr protected \<Rightarrow>
                  if \<not> protected then g
                  else if \<exists>m \<in> set (gw_pricingMissing g). pm_RequestID m = sa_requestID a then g
                  else g\<lparr>gw_pricingMissing := gw_pricingMissing g @ [row]\<rparr>))"

text \<open>The three ways a priced call ends: queued for a price, settled and logged, or queued for replay.\<close>

definition settle_or_queue :: "('c, 's, 'l, 'b) gateway_env \<Rightarrow> 'b settle_env \<Rightarrow> instant \<Rightarrow> settleArgs \<Rightarrow> ('c, 's, 'l, 'b) gateway
    \<Rightarrow> ('c, 's, 'l, 'b) gateway" where
  "settle_or_queue env se now a g =
     (case SettleAndLog env se now a (gw_books g) of
        Inr b \<Rightarrow> g\<lparr>gw_books := b\<rparr>
      | Inl _ \<Rightarrow> put_books (record_unsettled env se now a (sa_quote a)) g)"

section \<open>The charge\<close>

definition quoteFor :: "PriceTable \<Rightarrow> PriceTable \<Rightarrow> Tokens \<Rightarrow> bool \<Rightarrow> Rates \<Rightarrow> int \<Rightarrow> pricing_error + Quote" where
  "quoteFor list cost tok usedBYOK rates byokFeeBps =
     (if usedBYOK then ComputeBYOK list tok byokFeeBps rates else Compute list cost tok rates)"

definition unitCharge :: "prepared \<Rightarrow> 'z Route_scheme \<Rightarrow> bool \<Rightarrow> Units \<Rightarrow> pricing_error + Quote" where
  "unitCharge prep route usedBYOK units =
     (let (list, cost) = billingUnitPrices prep; rates = ratesForRoute (pr_pricing prep) route
      in if usedBYOK then ComputeUnitsBYOK list units (pi_byokFeeBps (pr_pricing prep)) rates else ComputeUnits list cost units rates)"

definition fallbackQuote :: "int \<Rightarrow> Rates \<Rightarrow> Quote" where
  "fallbackQuote estNano rates =
     \<lparr>q_UpstreamUSDNano = 0, q_ChargedNano = estNano, q_ModelMultiplierBps = multiplierOrOne (rt_ModelMultiplierBps rates),
      q_PlanMultiplierBps = multiplierOrOne (rt_PlanMultiplierBps rates),
      q_ProcurementMultiplierBps = multiplierOrOne (rt_ProcurementMultiplierBps rates), q_FXRate = rt_FXRate rates\<rparr>"

definition holdIsTheBill :: "string \<Rightarrow> bool \<Rightarrow> bool" where
  "holdIsTheBill surface estimated \<longleftrightarrow> estimated \<and> isImageSurface surface"

fun advanced_price_missing :: "pricing_error option \<Rightarrow> string option" where
  "advanced_price_missing (Some (ErrAdvancedPriceMissing t)) = Some t"
| "advanced_price_missing _ = None"

section \<open>The buffered call\<close>

record call_result =
  cr_Status :: int
  cr_Body :: "json option"

record bufferedCompletion =
  bc_prep :: prepared
  bc_in :: Request
  bc_requestID :: string
  bc_upstream :: upstreamResult
  bc_rotation :: rotationResult
  bc_holdID :: uuid
  bc_started :: instant

text \<open>The snapshot both families fill in the same way.\<close>

definition completion_args :: "bufferedCompletion \<Rightarrow> instant \<Rightarrow> Quote \<Rightarrow> Usage \<Rightarrow> bool \<Rightarrow> bool \<Rightarrow> Units \<Rightarrow> settleArgs" where
  "completion_args c now quote usage estimated fallback units =
     \<lparr>sa_id = pr_id (bc_prep c), sa_requestID = bc_requestID c, sa_quote = quote, sa_usage = usage, sa_units = units,
      sa_estimated = estimated, sa_model = re_Model (pr_res (bc_prep c)), sa_modelPricing = no_pricing, sa_route = rr_route (bc_rotation c),
      sa_in = bc_in c, sa_pricing = pr_pricing (bc_prep c), sa_priceTable = pr_priceTable (bc_prep c), sa_pricingIssue = [],
      sa_pricingFallback = fallback, sa_httpStatus = ur_status (bc_upstream c), sa_durationMs = millis (now - bc_started c),
      sa_status = [], sa_ttfbMs = 0, sa_attempts = to_int32 (int (ur_attempts (bc_upstream c))), sa_byok = ur_byok (bc_upstream c),
      sa_orgProviderKeyID = byokKeyOf (bc_upstream c), sa_routeID = routeID (bc_rotation c), sa_trail = Some (trailJSON (bc_rotation c)),
      sa_providerKeyID = sharedKeyOf (bc_upstream c), sa_holdID = bc_holdID c, sa_utility = False\<rparr>"

definition completeBufferedUnits :: "('c, 's, 'l, 'b) gateway_env \<Rightarrow> 'b settle_env \<Rightarrow> instant \<Rightarrow> bufferedCompletion \<Rightarrow> Route
    \<Rightarrow> ('c, 's, 'l, 'b) gateway \<Rightarrow> (Error + call_result) \<times> ('c, 's, 'l, 'b) gateway" where
  "completeBufferedUnits env se now c route g =
     (let prep = bc_prep c; up = bc_upstream c; body = ge_json env (ur_body up);
          units = settledUnits (pr_units prep) (rq_Surface (bc_in c)) body
      in case quoteOrRefuse env now (pr_modelSlug prep) (unitCharge prep route (ur_byok up) units) g of
           (Inl gerr, g) \<Rightarrow>
             (Inl gerr, put_books (record_unsettled env se now
                (completion_args c now no_quote (no_usage\<lparr>us_Present := True\<rparr>) False False units) no_quote) g)
         | (Inr quote, g) \<Rightarrow>
             (let a = completion_args c now quote (no_usage\<lparr>us_Present := True\<rparr>) False False units
              in (Inr \<lparr>cr_Status = ur_status up,
                       cr_Body = AnnotateUsage body False (q_ChargedNano quote) (id_WalletCurrency (pr_id prep))\<rparr>,
                  settle_or_queue env se now a g)))"

text \<open>The usage of a token-billed answer, estimated from what it holds when the upstream reports none.\<close>

definition settled_usage :: "string \<Rightarrow> json option \<Rightarrow> int \<Rightarrow> Usage" where
  "settled_usage surface body inputTokens =
     (let usage = ParseUsage surface body
      in if us_Present usage then usage
         else no_usage\<lparr>us_In := inputTokens, us_Out := EstimateTokens (ResponseTextOf surface body), us_ToolCalls := us_ToolCalls usage\<rparr>)"

definition CompleteBuffered :: "('c, 's, 'l, 'b) gateway_env \<Rightarrow> 'b settle_env \<Rightarrow> instant \<Rightarrow> bufferedCompletion \<Rightarrow> Route
    \<Rightarrow> ('c, 's, 'l, 'b) gateway \<Rightarrow> (Error + call_result) \<times> ('c, 's, 'l, 'b) gateway" where
  "CompleteBuffered env se now c route g =
     (if unitBilled (bc_prep c) then completeBufferedUnits env se now c route g
      else
        let prep = bc_prep c; up = bc_upstream c; surface = rq_Surface (bc_in c); body = ge_json env (ur_body up);
            estimated = (\<not> us_Present (ParseUsage surface body));
            usage = settled_usage surface body (pr_inputTokens prep);
            rates = ratesForRoute (pr_pricing prep) route;
            computed = quoteFor (ForBilling (pr_priceTable prep) (IsFree (re_ModelPricing (pr_res prep)))) (pr_priceTable prep)
                         (BillingTokens usage) (ur_byok up) rates (pi_byokFeeBps (pr_pricing prep));
            pricingErr = (if holdIsTheBill surface estimated then None else case computed of Inl e \<Rightarrow> Some e | Inr _ \<Rightarrow> None);
            quote = (if holdIsTheBill surface estimated then fallbackQuote (pr_estNano prep) rates
                     else case computed of Inr q \<Rightarrow> q | Inl _ \<Rightarrow> fallbackQuote (pr_estNano prep) rates);
            a = completion_args c now quote usage estimated (pricingErr \<noteq> None) [];
            g = (case advanced_price_missing pricingErr of
                   Some issue \<Rightarrow> RecordPricingMissing env se (a\<lparr>sa_pricingIssue := issue\<rparr>) (pr_estNano prep) g
                 | None \<Rightarrow> settle_or_queue env se now a g)
        in (Inr \<lparr>cr_Status = ur_status up,
                 cr_Body = AnnotateUsage body estimated (q_ChargedNano quote) (id_WalletCurrency (pr_id prep))\<rparr>, g))"

text \<open>The upstream's view of a request: the body is rewritten for the candidate that gets it.\<close>

definition rewrite_for :: "('c, 's, 'l, 'b) gateway_env \<Rightarrow> Request \<Rightarrow> CatalogRoute list \<Rightarrow> Route \<Rightarrow> string option" where
  "rewrite_for env rq routes route =
     (if rq_Body rq = [] then None
      else case find (\<lambda>r. Route.truncate r = route) routes of
             None \<Rightarrow> None
           | Some r \<Rightarrow>
               (case RewriteRequest (rq_Surface rq) (ge_json env (rq_Body rq)) (r_ProviderModelID r) False (r_Transport r) of
                  Inl _ \<Rightarrow> Some ''proxy: invalid JSON in request body'' | Inr _ \<Rightarrow> None))"

definition execute_call :: "('c, 's, 'l, 'b) gateway_env \<Rightarrow> instant \<Rightarrow> prepared \<Rightarrow> Request \<Rightarrow> ('c, 's, 'l, 'b) gateway
    \<Rightarrow> (upstreamResult \<times> rotationResult) \<times> ('c, 's, 'l, 'b) gateway" where
  "execute_call env now prep rq g =
     (let routes = re_Routes (pr_res prep);
          (r, pipe) = Execute (ge_config env) ((ge_attempt env)\<lparr>en_rewrite := rewrite_for env rq routes\<rparr>) (id_OrgID (pr_id prep))
                        (request_pins.truncate rq) (case surface_endpoint (rq_Surface rq) of None \<Rightarrow> [] | Some e \<Rightarrow> e) (pr_inputTokens prep) now
                        (map Route.truncate routes) (pr_byok prep) (gw_pipe g)
      in (r, g\<lparr>gw_pipe := pipe\<rparr>))"

definition clock :: "('c, 's, 'l, 'b) gateway \<Rightarrow> instant" where "clock g = at_now (ps_attempt (gw_pipe g))"

definition requestID :: "'b settle_env \<Rightarrow> Request \<Rightarrow> string" where
  "requestID se rq = (if rq_RequestID rq \<noteq> [] then rq_RequestID rq else se_freshID se)"

definition zero_route :: Route where
  "zero_route = \<lparr>r_ID = None, r_ProviderID = None, r_ProviderSlug = [], r_ProviderVendor = [], r_BaseURL = [], r_Priority = 0, r_Weight = 0,
     r_ProcurementMultiplierBps = 0, r_ContextWindow = 0, r_MaxOutputTokens = 0, r_MaxImages = 0, r_IgnoresMaxOutputTokens = False,
     r_Capacity = \<lparr>RateLimitRPM = 0, RateLimitTPM = 0, MaxConcurrency = 0\<rparr>\<rparr>"

definition Run :: "('c, 's, 'l, 'b) gateway_env \<Rightarrow> 'b settle_env \<Rightarrow> instant \<Rightarrow> Request \<Rightarrow> ('c, 's, 'l, 'b) gateway
    \<Rightarrow> (Error + call_result) \<times> ('c, 's, 'l, 'b) gateway" where
  "Run env se now rq g =
     (let rq = rq\<lparr>rq_Stream := False\<rparr>; reqID = requestID se rq
      in case Prepare env now rq g of
           ((prep, Some gerr), g) \<Rightarrow> (Inl gerr, RecordRejection env se prep rq reqID gerr 0 g)
         | ((prep, None), g) \<Rightarrow>
             (case pinAffinity env now prep rq g of
                (Inl gerr, g) \<Rightarrow> (Inl gerr, RecordRejection env se prep rq reqID gerr 0 g)
              | (Inr (prep, rq), g) \<Rightarrow>
                  (case ReserveFor se (pr_id prep) reqID (pr_estNano prep) (holdTTLFor (rq_Surface rq)) g of
                     (Inl gerr, g) \<Rightarrow> (Inl gerr, g)
                   | (Inr holdID, g) \<Rightarrow>
                       (let ((up, rotation), g) = execute_call env now prep rq g; later = clock g
                        in case rr_err rotation of
                             Some gerr \<Rightarrow> (Inl gerr, RecordExecutionFailure env se prep rq reqID rotation gerr (later - now) g)
                           | None \<Rightarrow>
                               CompleteBuffered env se later
                                 \<lparr>bc_prep = prep, bc_in = rq, bc_requestID = reqID, bc_upstream = up, bc_rotation = rotation,
                                  bc_holdID = holdID, bc_started = now\<rparr> (route_or_zero id zero_route (rr_route rotation))
                                 (rememberAffinity env later prep rq up rotation g)))))"

section \<open>Utility calls\<close>

definition RunUtility :: "('c, 's, 'l, 'b) gateway_env \<Rightarrow> 'b settle_env \<Rightarrow> instant \<Rightarrow> Request \<Rightarrow> ('c, 's, 'l, 'b) gateway
    \<Rightarrow> (Error + call_result) \<times> ('c, 's, 'l, 'b) gateway" where
  "RunUtility env se now rq g =
     (let rq = rq\<lparr>rq_Stream := False, rq_Utility := True\<rparr>; reqID = requestID se rq
      in case Prepare env now rq g of
           ((prep, Some gerr), g) \<Rightarrow> (Inl gerr, RecordRejection env se prep rq reqID gerr 0 g)
         | ((prep, None), g) \<Rightarrow>
             (case pinAffinity env now prep rq g of
                (Inl gerr, g) \<Rightarrow> (Inl gerr, RecordRejection env se prep rq reqID gerr 0 g)
              | (Inr (prep, rq), g) \<Rightarrow>
                  (let ((up, rotation), g) = execute_call env now prep rq g; later = clock g
                   in case rr_err rotation of
                        Some gerr \<Rightarrow>
                          (Inl gerr, logFailure env se (pr_id prep) rq (pr_modelSlug prep) (rr_route rotation) rotation reqID gerr (later - now) g)
                      | None \<Rightarrow>
                          (let body = ge_json env (ur_body up);
                               c = \<lparr>bc_prep = prep, bc_in = rq, bc_requestID = reqID, bc_upstream = up, bc_rotation = rotation,
                                    bc_holdID = None, bc_started = now\<rparr>;
                               a = (completion_args c later no_quote (parseUtilityUsage (rq_Surface rq) body) False False [])\<lparr>sa_utility := True\<rparr>;
                               params = usageLogParams (se_scan_num se) (ge_json env) a
                           in if se_insert_ok se params
                              then (Inr \<lparr>cr_Status = ur_status up, cr_Body = body\<rparr>, put_books (insert_row se params) g)
                              else (Inl (NewError GatewayInternal ''Audit recording failed''), g)))))"

section \<open>Image edits\<close>

text \<open>
  The edit endpoint streams a multipart body to one route. What its parser found -- the fields admission reads as a
  JSON document, and whether the body can be rewritten for an upstream model -- is an argument.
\<close>

record peekedForm =
  pf_probeBody :: string
  pf_BodyFor :: "string \<Rightarrow> string option"

record settleImageArgs =
  ia_prep :: prepared
  ia_in :: Request
  ia_route :: Route
  ia_requestID :: string
  ia_respBody :: string
  ia_httpStatus :: int
  ia_started :: instant
  ia_byok :: bool
  ia_byokKeyID :: uuid
  ia_providerKeyID :: uuid
  ia_holdID :: uuid

definition image_args :: "settleImageArgs \<Rightarrow> instant \<Rightarrow> Quote \<Rightarrow> Usage \<Rightarrow> bool \<Rightarrow> bool \<Rightarrow> Units \<Rightarrow> settleArgs" where
  "image_args a now quote usage estimated fallback units =
     \<lparr>sa_id = pr_id (ia_prep a), sa_requestID = ia_requestID a, sa_quote = quote, sa_usage = usage, sa_units = units,
      sa_estimated = estimated, sa_model = re_Model (pr_res (ia_prep a)), sa_modelPricing = no_pricing, sa_route = Some (ia_route a),
      sa_in = ia_in a, sa_pricing = pr_pricing (ia_prep a), sa_priceTable = pr_priceTable (ia_prep a), sa_pricingIssue = [],
      sa_pricingFallback = fallback, sa_httpStatus = ia_httpStatus a, sa_durationMs = millis (now - ia_started a), sa_status = [],
      sa_ttfbMs = 0, sa_attempts = 1, sa_byok = ia_byok a, sa_orgProviderKeyID = ia_byokKeyID a, sa_routeID = None, sa_trail = None,
      sa_providerKeyID = ia_providerKeyID a, sa_holdID = ia_holdID a, sa_utility = False\<rparr>"

definition settleImageAt :: "('c, 's, 'l, 'b) gateway_env \<Rightarrow> 'b settle_env \<Rightarrow> instant \<Rightarrow> settleImageArgs \<Rightarrow> Quote \<Rightarrow> Usage \<Rightarrow> bool
    \<Rightarrow> pricing_error option \<Rightarrow> bool \<Rightarrow> Units \<Rightarrow> ('c, 's, 'l, 'b) gateway \<Rightarrow> (Error + call_result) \<times> ('c, 's, 'l, 'b) gateway" where
  "settleImageAt env se now a quote usage estimated pricingErr fallback units g =
     (let args = image_args a now quote usage estimated fallback units;
          g = (case advanced_price_missing pricingErr of
                 Some issue \<Rightarrow> RecordPricingMissing env se (args\<lparr>sa_pricingIssue := issue\<rparr>) (pr_estNano (ia_prep a)) g
               | None \<Rightarrow> settle_or_queue env se now args g)
      in (Inr \<lparr>cr_Status = ia_httpStatus a,
               cr_Body = AnnotateUsage (ge_json env (ia_respBody a)) estimated (q_ChargedNano quote) (id_WalletCurrency (pr_id (ia_prep a)))\<rparr>, g))"

definition settleImageUnits :: "('c, 's, 'l, 'b) gateway_env \<Rightarrow> 'b settle_env \<Rightarrow> instant \<Rightarrow> settleImageArgs \<Rightarrow> ('c, 's, 'l, 'b) gateway
    \<Rightarrow> (Error + call_result) \<times> ('c, 's, 'l, 'b) gateway" where
  "settleImageUnits env se now a g =
     (let prep = ia_prep a; units = settledUnits (pr_units prep) (rq_Surface (ia_in a)) (ge_json env (ia_respBody a))
      in case quoteOrRefuse env now (pr_modelSlug prep) (unitCharge prep (ia_route a) (ia_byok a) units) g of
           (Inl gerr, g) \<Rightarrow>
             (Inl gerr, put_books (record_unsettled env se now
                ((image_args a now no_quote no_usage False False units)
                   \<lparr>sa_durationMs := 0, sa_attempts := 0, sa_byok := False, sa_orgProviderKeyID := None, sa_providerKeyID := None\<rparr>) no_quote) g)
         | (Inr quote, g) \<Rightarrow> settleImageAt env se now a quote (no_usage\<lparr>us_Present := True\<rparr>) False None False units g)"

definition settleImage :: "('c, 's, 'l, 'b) gateway_env \<Rightarrow> 'b settle_env \<Rightarrow> instant \<Rightarrow> settleImageArgs \<Rightarrow> ('c, 's, 'l, 'b) gateway
    \<Rightarrow> (Error + call_result) \<times> ('c, 's, 'l, 'b) gateway" where
  "settleImage env se now a g =
     (let prep = ia_prep a; usage = ParseImageUsage (ge_json env (ia_respBody a)); rates = ratesForRoute (pr_pricing prep) (ia_route a)
      in if unitBilled prep then settleImageUnits env se now a g
         else if \<not> us_Present usage
         then settleImageAt env se now a (fallbackQuote (pr_estNano prep) rates) (no_usage\<lparr>us_In := pr_inputTokens prep\<rparr>) True None True
                (pr_units prep) g
         else case quoteFor (ForBilling (pr_priceTable prep) (IsFree (re_ModelPricing (pr_res prep)))) (pr_priceTable prep)
                     (BillingTokens usage) (ia_byok a) rates (pi_byokFeeBps (pr_pricing prep)) of
                Inr quote \<Rightarrow> settleImageAt env se now a quote usage False None False (pr_units prep) g
              | Inl e \<Rightarrow> settleImageAt env se now a (fallbackQuote (pr_estNano prep) rates) usage False (Some e) True (pr_units prep) g)"

text \<open>The call to the upstream and the reaction to its answer; the body is read without a bound.\<close>

definition image_call :: "('c, 's, 'l, 'b) gateway_env \<Rightarrow> 'b settle_env \<Rightarrow> instant \<Rightarrow> Request \<Rightarrow> prepared \<Rightarrow> string \<Rightarrow> uuid \<Rightarrow> Route
    \<Rightarrow> uuid \<times> string \<times> string \<times> uuid \<Rightarrow> ('c, 's, 'l, 'b) gateway \<Rightarrow> (Error + call_result) \<times> ('c, 's, 'l, 'b) gateway" where
  "image_call env se now rq prep reqID holdID route cred g =
     (let (keyID, apiKey, baseURL, byokKeyID) = cred; used = uuid_valid byokKeyID; orgID = id_OrgID (pr_id prep);
          endpoint = (case surface_endpoint (rq_Surface rq) of None \<Rightarrow> [] | Some e \<Rightarrow> e);
          (answer, elapsed) = en_call (ge_attempt env) route baseURL apiKey; later = now + elapsed;
          once = zero_rotation\<lparr>rr_attempts := 1, rr_keyID := keyID, rr_route := Some route\<rparr>;
          voided = release_hold se orgID reqID g;
          react = (\<lambda>cls g. g\<lparr>gw_pipe := applyBreaker (ge_config env) later route endpoint cls used (gw_pipe g)\<rparr>);
          logged = (\<lambda>gerr g. logFailure env se (pr_id prep) rq (pr_modelSlug prep) (Some route) once reqID gerr elapsed g)
      in case answer of
           NotBuilt msg \<Rightarrow> (Inl (NewError GatewayInternal msg), voided)
         | NoAnswer te \<Rightarrow>
             (let gerr = NewError GatewayUpstreamTimeout ''Upstream is unreachable''
              in (Inl gerr, logged gerr (react (ClassifyTransportError te) voided)))
         | Answer status body retryAfter \<Rightarrow>
             if status \<ge> 400 then
               (let g = (if used \<and> byokRejected status
                         then g\<lparr>gw_pipe := (gw_pipe g)\<lparr>ps_attempt := markBYOKInvalid (ge_attempt env) orgID byokKeyID status
                                  (ps_attempt (gw_pipe g))\<rparr>\<rparr> else g);
                    g = release_hold se orgID reqID g;
                    cls = (ClassifyStatus status body retryAfter)\<lparr>c_keyID := keyID\<rparr>;
                    g = react cls g
                in case c_Err cls of
                     None \<Rightarrow> (Inr \<lparr>cr_Status = 0, cr_Body = None\<rparr>, g)
                   | Some gerr \<Rightarrow> (Inl gerr, logged gerr g))
             else (let pipe = gw_pipe g;
                       g = g\<lparr>gw_pipe := pipe\<lparr>ps_circuits := RecordSuccess (pc_breaker (ge_config env)) later (r_ProviderID route) keyID
                              (ps_circuits pipe)\<rparr>\<rparr>
                   in settleImage env se later
                        \<lparr>ia_prep = prep, ia_in = rq, ia_route = route, ia_requestID = reqID, ia_respBody = body, ia_httpStatus = status,
                         ia_started = now, ia_byok = used, ia_byokKeyID = byokKeyID, ia_providerKeyID = sharedKeyIfUsed used keyID,
                         ia_holdID = holdID\<rparr> g)
         | _ \<Rightarrow> (Inl (NewError GatewayUpstreamTimeout ''Reading the upstream response failed''), voided))"

definition RunImageEdit :: "('c, 's, 'l, 'b) gateway_env \<Rightarrow> 'b settle_env \<Rightarrow> instant \<Rightarrow> Request \<Rightarrow> string + peekedForm \<Rightarrow> ('c, 's, 'l, 'b) gateway
    \<Rightarrow> (Error + call_result) \<times> ('c, 's, 'l, 'b) gateway" where
  "RunImageEdit env se now rq form g =
     (let rq = rq\<lparr>rq_Stream := False\<rparr>; reqID = requestID se rq
      in case form of
           Inl msg \<Rightarrow> (Inl (NewError GatewayInvalidRequest msg), g)
         | Inr peeked \<Rightarrow>
             (case Prepare env now (rq\<lparr>rq_Body := pf_probeBody peeked\<rparr>) g of
                ((prep, Some gerr), g) \<Rightarrow> (Inl gerr, RecordRejection env se prep rq reqID gerr 0 g)
              | ((prep, None), g) \<Rightarrow>
                  (case ReserveFor se (pr_id prep) reqID (pr_estNano prep) imageHoldTTL g of
                     (Inl gerr, g) \<Rightarrow> (Inl gerr, g)
                   | (Inr holdID, g) \<Rightarrow>
                       (let r = hd (re_Routes (pr_res prep)); route = Route.truncate r; pipe = gw_pipe g;
                            (cred, c, cursors) = credentialFor (pc_breaker (ge_config env)) (ge_attempt env) now route (pr_byok prep)
                               (ps_circuits pipe) (at_cursors (ps_attempt pipe));
                            g = g\<lparr>gw_pipe := pipe\<lparr>ps_circuits := c, ps_attempt := (ps_attempt pipe)\<lparr>at_cursors := cursors\<rparr>\<rparr>\<rparr>;
                            voided = release_hold se (id_OrgID (pr_id prep)) reqID g
                        in case cred of
                             Inl gerr \<Rightarrow> (Inl gerr, voided)
                           | Inr cred \<Rightarrow>
                               (case pf_BodyFor peeked (r_ProviderModelID r) of
                                  Some msg \<Rightarrow> (Inl (NewError GatewayInternal msg), voided)
                                | None \<Rightarrow> image_call env se now rq prep reqID holdID route cred g)))))"

end
