(* ===== verification/Calls.thy ===== *)
theory Calls
  imports Settlement
begin

text \<open>
  What a call leaves on the books, whichever way it ends: the requests of
  \<open>Settlement\<close> from admission to settlement, over any ledger that keeps the contract
  of \<open>Ledger\<close>. A refused or failed call costs nothing, a served one is accounted under the
  amount its own answer names, and a utility call is free.
\<close>

section \<open>What leaves the books alone\<close>

definition accounts :: "('c, 's, 'l, 'b) gateway \<Rightarrow> 'b books \<times> pricing_missing list" where
  "accounts g = (gw_books g, gw_pricingMissing g)"

lemma accounts_eq: "accounts g = accounts h \<longleftrightarrow> gw_books g = gw_books h \<and> gw_pricingMissing g = gw_pricingMissing h"
  by (simp add: accounts_def)

lemma accounts_update [simp]:
  "accounts (g\<lparr>gw_auth := a\<rparr>) = accounts g" "accounts (g\<lparr>gw_pipe := p\<rparr>) = accounts g" "accounts (g\<lparr>gw_known := k\<rparr>) = accounts g"
  "accounts (g\<lparr>gw_affinities := f\<rparr>) = accounts g" "accounts (alertUnpriced env now slug g) = accounts g"
  by (simp_all add: accounts_def)

lemma accounts_prepare:
  "accounts (snd (prepare_tokens env now rq out g)) = accounts g"
  "accounts (snd (prepare_units env now rq out g)) = accounts g"
  by (auto simp: prepare_tokens_def prepare_units_def check_rate_def syncUnits_def quoteOrRefuse_def Let_def
      split: prod.splits sum.splits pricing_error.splits)

lemma accounts_prepare_priced: "accounts (snd (prepare_priced env db now rq out g)) = accounts g"
  by (auto simp: prepare_priced_def accounts_prepare Let_def split: sum.split option.split)

lemma accounts_prepare_resolved: "accounts (snd (prepare_resolved env now rq out g)) = accounts g"
  by (auto simp: prepare_resolved_def accounts_prepare_priced check_rate_def Let_def
      split: sum.split option.split prod.split catalog_error.split)

lemma accounts_Prepare: "accounts (snd (Prepare env now rq g)) = accounts g"
  by (auto simp: Prepare_def accounts_prepare_resolved Let_def split: sum.split option.split prod.split)

lemma accounts_pin: "accounts (snd (pinAffinity env now prep rq g)) = accounts g"
  by (auto simp: pinAffinity_def Let_def split: sum.split option.split prod.split)

lemma accounts_execute: "accounts (snd (execute_call env now prep rq g)) = accounts g"
  by (simp add: execute_call_def case_prod_beta Let_def)

lemma accounts_remember: "accounts (rememberAffinity env now prep rq up rot g) = accounts g"
  by (auto simp: rememberAffinity_def rememberAffinityID_def split: sum.split)

lemma accounts_quote: "accounts (snd (quoteOrRefuse env now slug computed g)) = accounts g"
  by (auto simp: quoteOrRefuse_def split: sum.split pricing_error.split)

lemma put_books_simps [simp]:
  "gw_books (put_books f g) = f (gw_books g)" "gw_pricingMissing (put_books f g) = gw_pricingMissing g"
  "gw_pipe (put_books f g) = gw_pipe g"
  by (simp_all add: put_books_def)

text \<open>What the books say: the spend of every key, the usage log, and the two queues.\<close>

definition balance :: "('b \<Rightarrow> uuid \<Rightarrow> int) \<Rightarrow> ('c, 's, 'l, 'b) gateway
    \<Rightarrow> (uuid \<Rightarrow> int) \<times> UsageLogParams list \<times> UnsettledRow list \<times> pricing_missing list" where
  "balance spent g = (spent (bo_ledger (gw_books g)), bo_usage (gw_books g), bo_unsettled (gw_books g), gw_pricingMissing g)"

lemma balance_accounts: "accounts h = accounts g \<Longrightarrow> balance spent h = balance spent g"
  by (simp add: balance_def accounts_eq)

text \<open>At most rows that charge nothing are added.\<close>

definition costs_nothing :: "('b \<Rightarrow> uuid \<Rightarrow> int) \<Rightarrow> ('c, 's, 'l, 'b) gateway \<Rightarrow> ('c, 's, 'l, 'b) gateway \<Rightarrow> bool" where
  "costs_nothing spent g g' \<longleftrightarrow>
     (\<exists>rows. balance spent g' = (spent (bo_ledger (gw_books g)), bo_usage (gw_books g) @ rows, bo_unsettled (gw_books g), gw_pricingMissing g) \<and>
        (\<forall>r \<in> set rows. u_ChargedNano r = 0))"

lemma costs_nothing_balance: "balance spent h = balance spent g \<Longrightarrow> costs_nothing spent g h"
  by (auto simp: costs_nothing_def balance_def intro: exI [of _ "[]"])

lemma costs_nothing_after: "balance spent h = balance spent g \<Longrightarrow> costs_nothing spent h k \<Longrightarrow> costs_nothing spent g k"
  by (simp add: costs_nothing_def balance_def)

lemma costs_nothing_row:
  "u_ChargedNano p = 0 \<Longrightarrow> costs_nothing spent g (put_books (insert_row se p) g)"
  by (auto simp: costs_nothing_def balance_def insert_row_def intro: exI [of _ "[p]"] exI [of _ "[]"])

lemma costs_nothing_failure: "costs_nothing spent g (logFailure env se i rq slug route rot reqID gerr elapsed g)"
  unfolding logFailure_def by (rule costs_nothing_row) (simp add: failure_params_def)

lemma costs_nothing_rejection: "costs_nothing spent g (RecordRejection env se prep rq reqID gerr elapsed g)"
  by (simp add: RecordRejection_def costs_nothing_failure costs_nothing_balance)

text \<open>A record made without a quote has no exchange rate, and a payload without one is not encoded.\<close>

lemma record_unsettled_without_quote:
  assumes "sa_quote a = no_quote"
  shows "record_unsettled env se now a q b = b"
  using assms
  by (simp add: record_unsettled_def RecordUnsettled_def EncodeUsageReplayPayload_def usageLogParams_def no_quote_def
      numericFromString_def numericText_def)

lemma units_refusal_keeps_accounts:
  assumes "completeBufferedUnits env se now c route g = (Inl gerr, g')"
  shows "accounts g' = accounts g"
proof -
  let ?units = "settledUnits (pr_units (bc_prep c)) (rq_Surface (bc_in c)) (ge_json env (ur_body (bc_upstream c)))"
  let ?q = "quoteOrRefuse env now (pr_modelSlug (bc_prep c)) (unitCharge (bc_prep c) route (ur_byok (bc_upstream c)) ?units) g"
  obtain r h where q: "?q = (r, h)" by (metis surj_pair)
  have h: "accounts h = accounts g" using accounts_quote[of env now "pr_modelSlug (bc_prep c)" _ g] q by (metis snd_conv)
  have "put_books (record_unsettled env se now (completion_args c now no_quote u e f ?units) no_quote) h = h" for u e f
    by (simp add: put_books_def record_unsettled_without_quote completion_args_def)
  then show ?thesis using assms q h
    by (cases r) (auto simp: completeBufferedUnits_def Let_def)
qed

context settlement
begin

lemma balance_hold: "se_settler se = S \<Longrightarrow> balance spent (snd (ReserveFor se i reqID n ttl g)) = balance spent g"
  using hold_keeps by (simp add: ReserveFor_def balance_def case_prod_beta Let_def)

lemma balance_void: "se_settler se = S \<Longrightarrow> balance spent (release_hold se orgID reqID g) = balance spent g"
  using void_keeps by (simp add: release_hold_def balance_def)

lemma costs_nothing_execution_failure:
  "se_settler se = S \<Longrightarrow> costs_nothing spent g (RecordExecutionFailure env se prep rq reqID rot gerr elapsed g)"
  unfolding RecordExecutionFailure_def
  by (rule costs_nothing_after [OF balance_void]) (assumption, rule costs_nothing_failure)

end

section \<open>A refused call costs nothing\<close>

lemma balance_Prepare: "Prepare env now rq g = (r, g') \<Longrightarrow> balance spent g' = balance spent g"
  using accounts_Prepare [of env now rq g] by (intro balance_accounts) simp

lemma balance_pin: "pinAffinity env now prep rq g = (r, g') \<Longrightarrow> balance spent g' = balance spent g"
  using accounts_pin [of env now prep rq g] by (intro balance_accounts) simp

lemma balance_execute: "execute_call env now prep rq g = (r, g') \<Longrightarrow> balance spent g' = balance spent g"
  using accounts_execute [of env now prep rq g] by (intro balance_accounts) simp

lemma balance_remember: "balance spent (rememberAffinity env now prep rq up rot g) = balance spent g"
  by (intro balance_accounts accounts_remember)

lemma balance_Reserve:
  assumes "settlement (se_settler se) spent" and "ReserveFor se i reqID n ttl g = (r, g')"
  shows "balance spent g' = balance spent g"
  using settlement.balance_hold [OF assms(1) refl, of i reqID n ttl g] assms(2) by simp

text \<open>The five ways a buffered call ends.\<close>

lemma Run_cases:
  assumes run: "Run env se now rq g = (res, g')" and rq: "rq0 = rq\<lparr>rq_Stream := False\<rparr>" and id: "reqID = requestID se rq0"
  obtains (refused) prep e g1 where "Prepare env now rq0 g = ((prep, Some e), g1)" "g' = RecordRejection env se prep rq0 reqID e 0 g1" "res = Inl e"
  | (unpinned) prep e g1 g2 where "Prepare env now rq0 g = ((prep, None), g1)" "pinAffinity env now prep rq0 g1 = (Inl e, g2)"
      "g' = RecordRejection env se prep rq0 reqID e 0 g2" "res = Inl e"
  | (unheld) prep g1 prep' rq' g2 e where "Prepare env now rq0 g = ((prep, None), g1)" "pinAffinity env now prep rq0 g1 = (Inr (prep', rq'), g2)"
      "ReserveFor se (pr_id prep') reqID (pr_estNano prep') (holdTTLFor (rq_Surface rq')) g2 = (Inl e, g')" "res = Inl e"
  | (failed) prep g1 prep' rq' g2 holdID g3 up rot g4 e where "Prepare env now rq0 g = ((prep, None), g1)"
      "pinAffinity env now prep rq0 g1 = (Inr (prep', rq'), g2)"
      "ReserveFor se (pr_id prep') reqID (pr_estNano prep') (holdTTLFor (rq_Surface rq')) g2 = (Inr holdID, g3)"
      "execute_call env now prep' rq' g3 = ((up, rot), g4)" "rr_err rot = Some e" "res = Inl e"
      "g' = RecordExecutionFailure env se prep' rq' reqID rot e (clock g4 - now) g4"
  | (served) prep g1 prep' rq' g2 holdID g3 up rot g4 where "Prepare env now rq0 g = ((prep, None), g1)"
      "pinAffinity env now prep rq0 g1 = (Inr (prep', rq'), g2)"
      "ReserveFor se (pr_id prep') reqID (pr_estNano prep') (holdTTLFor (rq_Surface rq')) g2 = (Inr holdID, g3)"
      "execute_call env now prep' rq' g3 = ((up, rot), g4)" "rr_err rot = None"
      "CompleteBuffered env se (clock g4) \<lparr>bc_prep = prep', bc_in = rq', bc_requestID = reqID, bc_upstream = up, bc_rotation = rot,
         bc_holdID = holdID, bc_started = now\<rparr> (route_or_zero id zero_route (rr_route rot))
         (rememberAffinity env (clock g4) prep' rq' up rot g4) = (res, g')"
proof -
  obtain prep e g1 where P: "Prepare env now rq0 g = ((prep, e), g1)" by (metis surj_pair)
  obtain r g2 where A: "pinAffinity env now prep rq0 g1 = (r, g2)" by (metis surj_pair)
  note run = run [unfolded Run_def Let_def, folded rq, folded id, unfolded P prod.case]
  show thesis
  proof (cases e)
    case (Some err)
    with run P show thesis by (intro refused) auto
  next
    case e: None
    note run = run [unfolded e option.case A prod.case]
    show thesis
    proof (cases r)
      case (Inl err)
      with run P A e show thesis by (intro unpinned) auto
    next
      case (Inr pr)
      obtain prep' rq' where pr: "pr = (prep', rq')" by (cases pr)
      obtain h g3 where H: "ReserveFor se (pr_id prep') reqID (pr_estNano prep') (holdTTLFor (rq_Surface rq')) g2 = (h, g3)"
        by (metis surj_pair)
      obtain up rot g4 where X: "execute_call env now prep' rq' g3 = ((up, rot), g4)" by (metis surj_pair)
      note known = P [unfolded e] A [unfolded Inr pr] H
      note run = run [unfolded Inr pr sum.case prod.case H]
      show thesis
      proof (cases h)
        case (Inl err)
        with run known show thesis by (intro unheld) auto
      next
        case (Inr holdID)
        note run = run [unfolded Inr sum.case prod.case X]
        show thesis
        proof (cases "rr_err rot")
          case None
          show thesis by (rule served [OF known(1,2) known(3) [unfolded Inr] X None]) (use run None in auto)
        next
          case (Some err)
          show thesis by (rule failed [OF known(1,2) known(3) [unfolded Inr] X Some]) (use run Some in auto)
        qed
      qed
    qed
  qed
qed

lemma CompleteBuffered_refused:
  assumes "CompleteBuffered env se now c route g = (Inl gerr, g')"
  shows "accounts g' = accounts g"
  using assms units_refusal_keeps_accounts by (auto simp: CompleteBuffered_def Let_def split: if_splits)


section \<open>A served call is accounted\<close>

text \<open>The three ways: settled at once, queued for replay, or kept for an operator to price.\<close>

definition settled_now :: "('b \<Rightarrow> uuid \<Rightarrow> int) \<Rightarrow> UsageLogParams \<Rightarrow> ('c, 's, 'l, 'b) gateway \<Rightarrow> ('c, 's, 'l, 'b) gateway \<Rightarrow> bool" where
  "settled_now spent p g g' \<longleftrightarrow>
     bo_usage (gw_books g') = bo_usage (gw_books g) @ [p] \<and> bo_unsettled (gw_books g') = bo_unsettled (gw_books g) \<and>
     gw_pricingMissing g' = gw_pricingMissing g \<and>
     (0 \<le> u_ChargedNano p \<longrightarrow>
        spent (bo_ledger (gw_books g')) =
          (if u_ApiKeyID p = None then spent (bo_ledger (gw_books g))
           else (spent (bo_ledger (gw_books g)))(u_ApiKeyID p := spent (bo_ledger (gw_books g)) (u_ApiKeyID p) + u_ChargedNano p)))"

definition queued_for_replay :: "('b \<Rightarrow> uuid \<Rightarrow> int) \<Rightarrow> UsageLogParams \<Rightarrow> ('c, 's, 'l, 'b) gateway \<Rightarrow> ('c, 's, 'l, 'b) gateway \<Rightarrow> bool" where
  "queued_for_replay spent p g g' \<longleftrightarrow>
     (\<exists>rows. balance spent g' = (spent (bo_ledger (gw_books g)), bo_usage (gw_books g), rows, gw_pricingMissing g) \<and>
        (case EncodeUsageReplayPayload p of
           Inl _ \<Rightarrow> rows = bo_unsettled (gw_books g)
         | Inr payload \<Rightarrow>
             if \<exists>r \<in> set (bo_unsettled (gw_books g)). un_RequestID r = u_RequestID p
             then rows = BumpUnsettledAttempt (u_RequestID p) (bo_unsettled (gw_books g))
             else \<exists>r. rows = bo_unsettled (gw_books g) @ [r] \<and> un_RequestID r = u_RequestID p \<and> un_OrgID r = u_OrgID p \<and>
                      un_ChargedNano r = u_ChargedNano p \<and> un_Payload r = payload \<and> unsettled_pending r))"

definition awaits_price :: "('b \<Rightarrow> uuid \<Rightarrow> int) \<Rightarrow> UsageLogParams \<Rightarrow> ('c, 's, 'l, 'b) gateway \<Rightarrow> ('c, 's, 'l, 'b) gateway \<Rightarrow> bool" where
  "awaits_price spent p g g' \<longleftrightarrow>
     (\<exists>rows. balance spent g' = (spent (bo_ledger (gw_books g)), bo_usage (gw_books g), bo_unsettled (gw_books g), gw_pricingMissing g @ rows) \<and>
        (rows = [] \<or> (\<exists>m. rows = [m] \<and> pm_RequestID m = u_RequestID p \<and> pm_OrgID m = u_OrgID p \<and> pm_ReservedNano m = u_ChargedNano p)))"

lemma usageLogParams_simps [simp]:
  "u_OrgID (usageLogParams sn js a) = id_OrgID (sa_id a)" "u_ApiKeyID (usageLogParams sn js a) = id_KeyID (sa_id a)"
  "u_RequestID (usageLogParams sn js a) = sa_requestID a" "u_ChargedNano (usageLogParams sn js a) = q_ChargedNano (sa_quote a)"
  by (simp_all add: usageLogParams_def)

lemma completion_args_simps [simp]:
  "sa_id (completion_args c now q u e f v) = pr_id (bc_prep c)" "sa_requestID (completion_args c now q u e f v) = bc_requestID c"
  "sa_quote (completion_args c now q u e f v) = q"
  by (simp_all add: completion_args_def)

lemma record_unsettled_queues:
  "queued_for_replay spent (usageLogParams (se_scan_num se) (ge_json env) a) g
     (put_books (record_unsettled env se now a (sa_quote a)) g)"
  by (auto simp: queued_for_replay_def balance_def record_unsettled_def RecordUnsettled_def insert_unsettled_def unsettled_pending_def
      split: sum.split)

context settlement
begin

lemma settle_or_queue_accounts:
  assumes "se_settler se = S" and "p = usageLogParams (se_scan_num se) (ge_json env) a"
  shows "settled_now spent p g (settle_or_queue env se now a g) \<or> queued_for_replay spent p g (settle_or_queue env se now a g)"
proof (cases "SettleAndLog env se now a (gw_books g)")
  case (Inl u)
  then show ?thesis using record_unsettled_queues [of spent se env a g now] assms(2) by (simp add: settle_or_queue_def)
next
  case (Inr b)
  then obtain l where "st_SettleTx S now \<lparr>si_OrgID = id_OrgID (sa_id a), si_RequestID = sa_requestID a,
      si_ActualNano = q_ChargedNano (sa_quote a), si_APIKeyID = id_KeyID (sa_id a)\<rparr> (bo_ledger (gw_books g)) = Inr l"
    and "b = (gw_books g)\<lparr>bo_ledger := l, bo_usage := bo_usage (gw_books g) @ [p]\<rparr>"
    using assms by (auto simp: SettleAndLog_def settle_and_log_def bind_result_Inr_iff split: if_splits)
  then show ?thesis using settle_adds Inr assms(2) by (auto simp: settle_or_queue_def settled_now_def)
qed

lemma RecordPricingMissing_accounts:
  assumes "se_settler se = S" and "p = usageLogParams (se_scan_num se) (ge_json env) a" and "n = q_ChargedNano (sa_quote a)"
  shows "awaits_price spent p g (RecordPricingMissing env se a n g)"
  using protect_keeps assms
  by (auto simp: awaits_price_def balance_def RecordPricingMissing_def case_prod_beta Let_def split: sum.split)

end

text \<open>
  What a served call owes: the price of what the answer reports, at the rates of the route that served and
  under the credential it served on; or, when that price cannot be computed, the amount that was held.
\<close>

definition charge_due :: "('c, 's, 'l, 'b) gateway_env \<Rightarrow> prepared \<Rightarrow> Request \<Rightarrow> upstreamResult \<Rightarrow> Route \<Rightarrow> int \<Rightarrow> bool" where
  "charge_due env prep rq up route n \<longleftrightarrow>
     (let body = ge_json env (ur_body up)
      in if unitBilled prep
         then \<exists>q. unitCharge prep route (ur_byok up) (settledUnits (pr_units prep) (rq_Surface rq) body) = Inr q \<and> n = q_ChargedNano q
         else n = pr_estNano prep \<or>
              (\<exists>q. quoteFor (ForBilling (pr_priceTable prep) (IsFree (re_ModelPricing (pr_res prep)))) (pr_priceTable prep)
                     (BillingTokens (settled_usage (rq_Surface rq) body (pr_inputTokens prep))) (ur_byok up)
                     (ratesForRoute (pr_pricing prep) route) (pi_byokFeeBps (pr_pricing prep)) = Inr q \<and> n = q_ChargedNano q))"

text \<open>The admitted request, the answer and the route it came over.\<close>

definition serves :: "('c, 's, 'l, 'b) gateway_env \<Rightarrow> 'b settle_env \<Rightarrow> instant \<Rightarrow> Request \<Rightarrow> ('c, 's, 'l, 'b) gateway \<Rightarrow> prepared \<Rightarrow> Request
    \<Rightarrow> upstreamResult \<Rightarrow> Route \<Rightarrow> bool" where
  "serves env se now rq g prep rq' up route \<longleftrightarrow>
     (\<exists>prep0 g1 g2 holdID g3 rot g4. Prepare env now rq g = ((prep0, None), g1) \<and> pinAffinity env now prep0 rq g1 = (Inr (prep, rq'), g2) \<and>
        ReserveFor se (pr_id prep) (requestID se rq) (pr_estNano prep) (holdTTLFor (rq_Surface rq')) g2 = (Inr holdID, g3) \<and>
        execute_call env now prep rq' g3 = ((up, rot), g4) \<and> rr_err rot = None \<and> route = route_or_zero id zero_route (rr_route rot))"

text \<open>What a completion promises of the state it leaves and the answer it gives.\<close>

definition completed :: "('b \<Rightarrow> uuid \<Rightarrow> int) \<Rightarrow> ('c, 's, 'l, 'b) gateway_env \<Rightarrow> bufferedCompletion \<Rightarrow> Route \<Rightarrow> ('c, 's, 'l, 'b) gateway \<Rightarrow> call_result
    \<Rightarrow> ('c, 's, 'l, 'b) gateway \<Rightarrow> bool" where
  "completed spent env c route g res g' \<longleftrightarrow> (\<exists>p est. u_OrgID p = id_OrgID (pr_id (bc_prep c)) \<and> u_ApiKeyID p = id_KeyID (pr_id (bc_prep c)) \<and> u_RequestID p = bc_requestID c \<and>
    charge_due env (bc_prep c) (bc_in c) (bc_upstream c) route (u_ChargedNano p) \<and> cr_Status res = ur_status (bc_upstream c) \<and>
    cr_Body res = AnnotateUsage (ge_json env (ur_body (bc_upstream c))) est (u_ChargedNano p) (id_WalletCurrency (pr_id (bc_prep c))) \<and>
    (settled_now spent p g g' \<or> queued_for_replay spent p g g' \<or> awaits_price spent p g g'))"

lemma CompleteBuffered_units:
  assumes "settlement (se_settler se) spent" and "CompleteBuffered env se now c route g = (Inr res, g')" and True: "unitBilled (bc_prep c)"
  shows "completed spent env c route g res g'"
proof -
  let ?body = "ge_json env (ur_body (bc_upstream c))"
  let ?units = "settledUnits (pr_units (bc_prep c)) (rq_Surface (bc_in c)) ?body"
  let ?charge = "unitCharge (bc_prep c) route (ur_byok (bc_upstream c)) ?units"
  obtain q where q: "?charge = Inr q" and res: "res = \<lparr>cr_Status = ur_status (bc_upstream c),
      cr_Body = AnnotateUsage ?body False (q_ChargedNano q) (id_WalletCurrency (pr_id (bc_prep c)))\<rparr>"
    and g': "g' = settle_or_queue env se now (completion_args c now q (no_usage\<lparr>us_Present := True\<rparr>) False False ?units) g"
    using assms(2) True
    by (cases ?charge) (auto simp: CompleteBuffered_def completeBufferedUnits_def quoteOrRefuse_def Let_def split: pricing_error.splits)
  let ?p = "usageLogParams (se_scan_num se) (ge_json env) (completion_args c now q (no_usage\<lparr>us_Present := True\<rparr>) False False ?units)"
  show ?thesis unfolding completed_def
    using settlement.settle_or_queue_accounts [OF assms(1) refl refl, of env
        "completion_args c now q (no_usage\<lparr>us_Present := True\<rparr>) False False ?units" g now] q
    by (intro exI [of _ ?p] exI [of _ False]) (auto simp: charge_due_def True res g' Let_def)
qed

lemma CompleteBuffered_tokens:
  assumes "settlement (se_settler se) spent" and "CompleteBuffered env se now c route g = (Inr res, g')" and False: "\<not> unitBilled (bc_prep c)"
  shows "completed spent env c route g res g'"
proof -
  define body where "body = ge_json env (ur_body (bc_upstream c))"
  define est where "est = (\<not> us_Present (ParseUsage (rq_Surface (bc_in c)) body))"
  define usage where "usage = settled_usage (rq_Surface (bc_in c)) body (pr_inputTokens (bc_prep c))"
  define rates where "rates = ratesForRoute (pr_pricing (bc_prep c)) route"
  define computed where "computed = quoteFor (ForBilling (pr_priceTable (bc_prep c)) (IsFree (re_ModelPricing (pr_res (bc_prep c)))))
      (pr_priceTable (bc_prep c)) (BillingTokens usage) (ur_byok (bc_upstream c)) rates (pi_byokFeeBps (pr_pricing (bc_prep c)))"
  define held where "held = fallbackQuote (pr_estNano (bc_prep c)) rates"
  define perr where "perr = (if holdIsTheBill (rq_Surface (bc_in c)) est then None else case computed of Inl e \<Rightarrow> Some e | Inr _ \<Rightarrow> None)"
  define q where "q = (if holdIsTheBill (rq_Surface (bc_in c)) est then held else case computed of Inr q \<Rightarrow> q | Inl _ \<Rightarrow> held)"
  define a where "a = completion_args c now q usage est (perr \<noteq> None) []"
  note run = assms(2) [unfolded CompleteBuffered_def Let_def if_not_P [OF False], folded body_def, folded est_def usage_def rates_def,
      folded computed_def held_def, folded perr_def q_def, folded a_def]
  have out: "res = \<lparr>cr_Status = ur_status (bc_upstream c), cr_Body = AnnotateUsage body est (q_ChargedNano q) (id_WalletCurrency (pr_id (bc_prep c)))\<rparr>"
    "g' = (case advanced_price_missing perr of
             Some issue \<Rightarrow> RecordPricingMissing env se (a\<lparr>sa_pricingIssue := issue\<rparr>) (pr_estNano (bc_prep c)) g
           | None \<Rightarrow> settle_or_queue env se now a g)"
    using run by auto
  have due: "charge_due env (bc_prep c) (bc_in c) (bc_upstream c) route (q_ChargedNano q)"
    using False by (auto simp: charge_due_def q_def held_def fallbackQuote_def computed_def usage_def body_def rates_def Let_def split: sum.split)
  show ?thesis
  proof (cases "advanced_price_missing perr")
    case None
    then show ?thesis
      unfolding completed_def using settlement.settle_or_queue_accounts [OF assms(1) refl refl, of env a g now] due
      by (intro exI [of _ "usageLogParams (se_scan_num se) (ge_json env) a"] exI [of _ est]) (auto simp: out a_def body_def)
  next
    case (Some issue)
    then have "q = held" by (auto simp: perr_def q_def split: if_splits sum.splits)
    then have "pr_estNano (bc_prep c) = q_ChargedNano (sa_quote (a\<lparr>sa_pricingIssue := issue\<rparr>))" by (simp add: a_def held_def fallbackQuote_def)
    from settlement.RecordPricingMissing_accounts [OF assms(1) refl refl this, of env g] due Some show ?thesis
      unfolding completed_def
      by (intro exI [of _ "usageLogParams (se_scan_num se) (ge_json env) (a\<lparr>sa_pricingIssue := issue\<rparr>)"] exI [of _ est])
         (auto simp: out a_def body_def)
  qed
qed

lemma balance_shift:
  assumes "balance spent h = balance spent g"
  shows "settled_now spent p h k \<longleftrightarrow> settled_now spent p g k" "queued_for_replay spent p h k \<longleftrightarrow> queued_for_replay spent p g k"
    "awaits_price spent p h k \<longleftrightarrow> awaits_price spent p g k"
proof -
  have eq: "spent (bo_ledger (gw_books h)) = spent (bo_ledger (gw_books g))" "bo_usage (gw_books h) = bo_usage (gw_books g)"
    "bo_unsettled (gw_books h) = bo_unsettled (gw_books g)" "gw_pricingMissing h = gw_pricingMissing g"
    using assms by (simp_all add: balance_def)
  show "settled_now spent p h k \<longleftrightarrow> settled_now spent p g k" "queued_for_replay spent p h k \<longleftrightarrow> queued_for_replay spent p g k"
    "awaits_price spent p h k \<longleftrightarrow> awaits_price spent p g k"
    unfolding settled_now_def queued_for_replay_def awaits_price_def eq by (rule refl)+
qed


section \<open>Utility calls\<close>

text \<open>
  Counting tokens is free. A utility call -- served or not -- takes no hold, moves no key's spend, queues
  nothing, and every row it logs charges nothing.
\<close>

theorem utility_call_is_free:
  assumes "RunUtility env se now rq g = (res, g')"
  shows "costs_nothing spent g g'"
proof -
  let ?rq = "rq\<lparr>rq_Stream := False, rq_Utility := True\<rparr>" and ?id = "requestID se (rq\<lparr>rq_Stream := False, rq_Utility := True\<rparr>)"
  obtain prep e g1 where P: "Prepare env now ?rq g = ((prep, e), g1)" by (metis surj_pair)
  obtain r g2 where A: "pinAffinity env now prep ?rq g1 = (r, g2)" by (metis surj_pair)
  have b1: "balance spent g1 = balance spent g" by (rule balance_Prepare [OF P])
  have b2: "balance spent g2 = balance spent g" using balance_pin [OF A, of spent] b1 by simp
  note run = assms [unfolded RunUtility_def Let_def P prod.case]
  show ?thesis
  proof (cases e)
    case (Some err)
    with run show ?thesis using costs_nothing_after [OF b1 costs_nothing_rejection] by auto
  next
    case e: None
    note run = run [unfolded e option.case A prod.case]
    show ?thesis
    proof (cases r)
      case (Inl err)
      with run show ?thesis using costs_nothing_after [OF b2 costs_nothing_rejection] by auto
    next
      case (Inr pr)
      obtain prep' rq' where pr: "pr = (prep', rq')" by (cases pr)
      obtain up rot g4 where X: "execute_call env now prep' rq' g2 = ((up, rot), g4)" by (metis surj_pair)
      have b4: "balance spent g4 = balance spent g" using balance_execute [OF X, of spent] b2 by simp
      note run = run [unfolded Inr pr sum.case prod.case X]
      show ?thesis
      proof (cases "rr_err rot")
        case None
        with run show ?thesis
          using costs_nothing_after [OF b4 costs_nothing_row] costs_nothing_balance [OF b4]
          by (auto simp: no_quote_def split: if_splits)
      next
        case (Some err)
        with run show ?thesis using costs_nothing_after [OF b4 costs_nothing_failure] by auto
      qed
    qed
  qed
qed

section \<open>A missing price on the self-hosted ledger\<close>

text \<open>
  A served call whose usage hits a missing rate leaves no trace on the self-hosted ledger. The books are
  untouched -- no spend, no usage row, and nothing in either queue, since that ledger never has a hold to
  protect -- while the answer tells the caller it was charged the held amount.
\<close>

theorem missing_price_leaves_no_trace:
  assumes "se_settler se = Recorder" and "\<not> unitBilled (bc_prep c)"
    and "body = ge_json env (ur_body (bc_upstream c))" and "usage = settled_usage (rq_Surface (bc_in c)) body (pr_inputTokens (bc_prep c))"
    and "\<not> holdIsTheBill (rq_Surface (bc_in c)) (\<not> us_Present (ParseUsage (rq_Surface (bc_in c)) body))"
    and "quoteFor (ForBilling (pr_priceTable (bc_prep c)) (IsFree (re_ModelPricing (pr_res (bc_prep c))))) (pr_priceTable (bc_prep c))
           (BillingTokens usage) (ur_byok (bc_upstream c)) (ratesForRoute (pr_pricing (bc_prep c)) route) (pi_byokFeeBps (pr_pricing (bc_prep c)))
         = Inl (ErrAdvancedPriceMissing issue)"
    and "CompleteBuffered env se now c route g = (res, g')"
  shows "accounts g' = accounts g \<and>
    (\<exists>r est. res = Inr r \<and> cr_Body r = AnnotateUsage body est (pr_estNano (bc_prep c)) (id_WalletCurrency (pr_id (bc_prep c))))"
proof -
  have "accounts (RecordPricingMissing env se a n g) = accounts g" for a n
    by (simp add: RecordPricingMissing_def assms(1) Recorder_def Recorder_ProtectHold_def accounts_def put_books_def split: sum.split)
  then show ?thesis
    using assms(7) by (auto simp: CompleteBuffered_def assms(2,5,6) assms(3,4) [symmetric] fallbackQuote_def Let_def)
qed

section \<open>Concrete calls\<close>

definition demo_settle :: "key_spend settle_env" where
  "demo_settle = \<lparr>se_settler = Recorder, se_scan_num = Some, se_insert_ok = (\<lambda>_. True), se_freshID = ''fresh''\<rparr>"

lemma demo_rewrites: "rewrite_for (gateway_demo answer) demo_request routes = (\<lambda>_. None)"
  by (rule ext) (simp add: rewrite_for_def RewriteRequest_def demo_body_def Let_def split: option.split)

lemma demo_env_again: "(demo_env answer)\<lparr>en_rewrite := \<lambda>_. None\<rparr> = demo_env answer"
  by (simp add: demo_env_def)

lemma demo_prepared_fields [simp]:
  "pr_id demo_prepared = demo_identity" "pr_res demo_prepared = demo_resolution" "pr_byok demo_prepared = []" "pr_inputTokens demo_prepared = 4"
  by (simp_all add: demo_prepared_def no_prepared_def)

lemma demo_execute:
  "fst (execute_call (gateway_demo answer) 0 demo_prepared demo_request g) =
     fst (Execute sample_config (demo_env answer) (Some 3) no_pins ''chat'' 4 0 (map Route.truncate (re_Routes demo_resolution)) [] (gw_pipe g))"
proof -
  have "id_OrgID demo_identity = Some 3" by code_simp
  moreover have "surface_endpoint SurfaceChat = Some ''chat''" by code_simp
  moreover have "request_pins.truncate demo_request = no_pins" by (simp add: demo_request_def request_pins.defs no_pins_def)
  ultimately show ?thesis by (simp add: execute_call_def demo_rewrites demo_env_again case_prod_beta Let_def)
qed

lemma demo_answers:
  "rr_err (snd (fst (Execute sample_config (demo_env (Answer 200 ''hi'' [])) (Some 3) no_pins ''chat'' 4 0
     (map Route.truncate (re_Routes demo_resolution)) [] (gw_pipe demo_gateway)))) = None"
  "rr_err (snd (fst (Execute sample_config (demo_env (Answer 400 [] [])) (Some 3) no_pins ''chat'' 4 0
     (map Route.truncate (re_Routes demo_resolution)) [] (gw_pipe demo_gateway)))) \<noteq> None"
  by code_simp+

lemma demo_unpinned: "pinAffinity (gateway_demo answer) 0 demo_prepared demo_request g = (Inr (demo_prepared, demo_request), g)"
proof -
  have "affinityReference (ge_json (gateway_demo answer)) demo_request = ([], [])"
    by (auto simp: affinityReference_def surface_names split: sum.split)
  then show ?thesis by (simp add: pinAffinity_def)
qed

lemma demo_reserved: "ReserveFor demo_settle i reqID n ttl g = (Inr None, g)"
  by (simp add: ReserveFor_def demo_settle_def Recorder_def Recorder_Hold_def put_books_def)

lemma demo_run:
  "isl (fst (Run (gateway_demo answer) demo_settle 0 demo_request demo_gateway)) \<longleftrightarrow>
     rr_err (snd (fst (Execute sample_config (demo_env answer) (Some 3) no_pins ''chat'' 4 0
       (map Route.truncate (re_Routes demo_resolution)) [] (gw_pipe demo_gateway)))) \<noteq> None"
proof -
  have rq: "demo_request\<lparr>rq_Stream := False\<rparr> = demo_request" by (simp add: demo_request_def)
  have units: "\<not> unitBilled demo_prepared" by (simp add: unitBilled_def demo_resolution_def FamilyUnits_def)
  have pipe: "gw_pipe demo_admitted = gw_pipe demo_gateway" by (simp add: demo_admitted_def)
  obtain up rot g4 where X: "execute_call (gateway_demo answer) 0 demo_prepared demo_request demo_admitted = ((up, rot), g4)"
    by (metis surj_pair)
  have "rr_err rot = rr_err (snd (fst (Execute sample_config (demo_env answer) (Some 3) no_pins ''chat'' 4 0
       (map Route.truncate (re_Routes demo_resolution)) [] (gw_pipe demo_gateway))))"
    using demo_execute [of answer demo_admitted] unfolding X pipe by (metis fst_conv snd_conv)
  then show ?thesis
    by (simp add: Run_def rq demo_prepares demo_unpinned demo_reserved X CompleteBuffered_def units Let_def split: option.split)
qed



theorem utility_call_is_free_witness:
  "costs_nothing total_spent demo_gateway (snd (RunUtility (gateway_demo (Answer 200 ''hi'' [])) demo_settle 0 demo_request demo_gateway))"
  using utility_call_is_free [OF surjective_pairing] by blast

text \<open>An answer that reports two searches, on a model with no rate for them.\<close>

definition searching_body :: json where
  "searching_body = JObj [(''usage'', JObj [(''prompt_tokens'', JNum 10), (''completion_tokens'', JNum 1)]),
     (''tool_usage'', JObj [(''web_search'', JNum 2)])]"

definition searching_env :: "(unit, Memory, redis, key_spend) gateway_env" where
  "searching_env = (gateway_demo (Answer 200 [] []))\<lparr>ge_json := \<lambda>_. Some searching_body\<rparr>"

definition searching_call :: bufferedCompletion where
  "searching_call = \<lparr>bc_prep = demo_prepared, bc_in = demo_request, bc_requestID = ''req-1'', bc_upstream = no_upstream\<lparr>ur_status := 200\<rparr>,
     bc_rotation = zero_rotation, bc_holdID = None, bc_started = 0\<rparr>"

lemma searching_unpriced:
  "\<exists>issue. quoteFor (ForBilling (pr_priceTable demo_prepared) (IsFree (re_ModelPricing demo_resolution))) (pr_priceTable demo_prepared)
     (BillingTokens (settled_usage SurfaceChat (Some searching_body) 4)) False (ratesForRoute (pr_pricing demo_prepared) zero_route)
     (pi_byokFeeBps (pr_pricing demo_prepared)) = Inl (ErrAdvancedPriceMissing issue)" (is "\<exists>issue. ?q = _")
proof -
  have "case ?q of Inl (ErrAdvancedPriceMissing _) \<Rightarrow> True | _ \<Rightarrow> False" by code_simp
  then show ?thesis by (cases ?q) (auto split: pricing_error.splits)
qed

theorem missing_price_leaves_no_trace_witness:
  "let (res, g') = CompleteBuffered searching_env demo_settle 0 searching_call zero_route demo_gateway
   in accounts g' = accounts demo_gateway \<and> (\<exists>r est. res = Inr r \<and> cr_Body r = AnnotateUsage (Some searching_body) est 132000 ''USD'')"
proof -
  obtain res g' where run: "CompleteBuffered searching_env demo_settle 0 searching_call zero_route demo_gateway = (res, g')" by (metis surj_pair)
  obtain issue where q: "quoteFor (ForBilling (pr_priceTable demo_prepared) (IsFree (re_ModelPricing demo_resolution))) (pr_priceTable demo_prepared)
     (BillingTokens (settled_usage SurfaceChat (Some searching_body) 4)) False (ratesForRoute (pr_pricing demo_prepared) zero_route)
     (pi_byokFeeBps (pr_pricing demo_prepared)) = Inl (ErrAdvancedPriceMissing issue)" using searching_unpriced by blast
  have units: "\<not> unitBilled demo_prepared" by (simp add: unitBilled_def demo_resolution_def FamilyUnits_def)
  have chat: "\<not> isImageSurface SurfaceChat" by code_simp
  have money: "pr_estNano demo_prepared = 132000" "id_WalletCurrency demo_identity = ''USD''"
    by (simp_all add: demo_prepared_def) code_simp
  show ?thesis
    using missing_price_leaves_no_trace [of demo_settle searching_call "Some searching_body" searching_env, OF _ _ _ refl _ _ run] q units chat money run
    by (simp add: demo_settle_def searching_call_def searching_env_def no_upstream_def holdIsTheBill_def)
qed

end
