(* ===== verification/Stream.thy ===== *)
theory Stream
  imports Usage "HOL-Library.Sublist"
begin

text \<open>
  The relay of a server-sent event stream: \<open>proxy/stream.go\<close>, which cuts the upstream's bytes into events and writes
  them out unchanged, and \<open>proxy/stream_usage.go\<close>, which reads the usage off to the side. The choices of the relay's
  \<open>select\<close> -- the next event, a client that hung up, a deadline -- are an argument, each with the time it took.
  Shown: what the client gets is what the upstream sent, cut only at the end; every schedule long enough returns; a
  streamed report is read as the buffered one; and a report that is repeated is not billed twice.
\<close>

section \<open>Events\<close>

definition LF :: char where "LF = CHR 0x0A"
definition CR :: char where "CR = CHR 0x0D"

definition trim_right :: "char list \<Rightarrow> string \<Rightarrow> string" where
  "trim_right cutset s = rev (dropWhile (\<lambda>c. c \<in> set cutset) (rev s))"

definition isBlankLine :: "string \<Rightarrow> bool" where
  "isBlankLine line \<longleftrightarrow> trim_right [CR, LF] line = []"

text \<open>\<open>ReadBytes\<close>: a line with its end, and what follows; at the end of the body the line has none.\<close>

fun read_line :: "string \<Rightarrow> string \<times> string" where
  "read_line [] = ([], [])"
| "read_line (c # cs) = (if c = LF then ([c], cs) else let (line, rest) = read_line cs in (c # line, rest))"

lemma read_line_append: "read_line s = (line, rest) \<Longrightarrow> line @ rest = s"
  by (induction s arbitrary: line) (auto simp: Let_def split: if_splits prod.splits)

definition ended :: "string \<Rightarrow> bool" where
  "ended line \<longleftrightarrow> line \<noteq> [] \<and> last line = LF"

function read_frames :: "string \<Rightarrow> string \<Rightarrow> string list" where
  "read_frames frame body =
     (let (line, rest) = read_line body;
          blank = (line \<noteq> [] \<and> isBlankLine line);
          sent = (if blank then [frame @ line] else []);
          frame = (if blank then [] else frame @ line)
      in if ended line then sent @ read_frames frame rest
         else if frame \<noteq> [] then sent @ [frame] else sent)"
  by auto
termination
proof (relation "measure (length \<circ> snd)")
  fix frame body :: string and x line rest blank sent frame'
  assume "x = read_line body" "(line, rest) = x" "ended line"
  then have "line @ rest = body" "line \<noteq> []" using read_line_append by (auto simp: ended_def)
  then show "((frame', rest), (frame, body)) \<in> measure (length \<circ> snd)" by (cases line) auto
qed simp

declare read_frames.simps [simp del]

definition readUpstream :: "string \<Rightarrow> string list" where
  "readUpstream body = read_frames [] body"

section \<open>Usage in a stream\<close>

record usageAccumulator =
  ua_in :: int
  ua_out :: int
  ua_cachedRead :: int
  ua_cacheWrite :: int
  ua_reasoning :: int
  ua_audioIn :: int
  ua_audioOut :: int
  ua_imageIn :: int
  ua_imageOut :: int
  ua_cacheWrite5m :: int
  ua_cacheWrite1h :: int
  ua_serviceTier :: string
  ua_toolCalls :: "(string \<times> int) list"
  ua_seen :: bool
  ua_resourceID :: string

definition no_accumulator :: usageAccumulator where
  "no_accumulator = \<lparr>ua_in = 0, ua_out = 0, ua_cachedRead = 0, ua_cacheWrite = 0, ua_reasoning = 0, ua_audioIn = 0, ua_audioOut = 0,
     ua_imageIn = 0, ua_imageOut = 0, ua_cacheWrite5m = 0, ua_cacheWrite1h = 0, ua_serviceTier = [], ua_toolCalls = [], ua_seen = False,
     ua_resourceID = []\<rparr>"

definition setUsage :: "Usage \<Rightarrow> usageAccumulator \<Rightarrow> usageAccumulator" where
  "setUsage u a =
     a\<lparr>ua_in := us_In u, ua_out := us_Out u, ua_cachedRead := us_CachedRead u, ua_cacheWrite := us_CacheWrite u,
       ua_reasoning := us_Reasoning u, ua_audioIn := us_AudioIn u, ua_audioOut := us_AudioOut u, ua_imageIn := us_ImageIn u,
       ua_imageOut := us_ImageOut u, ua_cacheWrite5m := us_CacheWrite5m u, ua_cacheWrite1h := us_CacheWrite1h u,
       ua_serviceTier := us_ServiceTier u, ua_toolCalls := us_ToolCalls u, ua_seen := us_Present u\<rparr>"

definition count_of :: "(string \<times> int) list \<Rightarrow> string \<Rightarrow> int" where
  "count_of calls tool = (case map_of calls tool of None \<Rightarrow> 0 | Some n \<Rightarrow> n)"

definition larger_count :: "string \<times> int \<Rightarrow> (string \<times> int) list \<Rightarrow> (string \<times> int) list" where
  "larger_count = (\<lambda>(tool, n) calls. if n > count_of calls tool then AList.update tool n calls else calls)"

definition mergeToolCalls :: "(string \<times> int) list \<Rightarrow> usageAccumulator \<Rightarrow> usageAccumulator" where
  "mergeToolCalls next_calls a = a\<lparr>ua_toolCalls := fold larger_count next_calls (ua_toolCalls a)\<rparr>"

definition acc_result :: "usageAccumulator \<Rightarrow> Usage" where
  "acc_result a =
     \<lparr>us_In = ua_in a, us_Out = ua_out a, us_CachedRead = ua_cachedRead a, us_CacheWrite = ua_cacheWrite a, us_Reasoning = ua_reasoning a,
      us_AudioIn = ua_audioIn a, us_AudioOut = ua_audioOut a, us_ImageIn = ua_imageIn a, us_ImageOut = ua_imageOut a,
      us_CacheWrite5m = ua_cacheWrite5m a, us_CacheWrite1h = ua_cacheWrite1h a, us_ServiceTier = ua_serviceTier a,
      us_ToolCalls = ua_toolCalls a, us_Present = ua_seen a\<rparr>"

text \<open>A member that is a string, and a struct holding one; the readers of the event structs use them.\<close>

definition read_field :: "string \<Rightarrow> string reader" where
  "read_field key k v s = (if k = key then put_string v id s else Inr s)"

definition read_nested :: "string \<Rightarrow> 's reader \<Rightarrow> 's reader" where
  "read_nested key f k v s = (if k = key then put_struct f s v id s else Inr s)"

text \<open>A chunk of a chat completion: the text of each choice beside the envelope the buffered parser reads.\<close>

definition read_chunk :: "(string list \<times> wireBody) reader" where
  "read_chunk k v c =
     (if k = ''choices'' then put_slice (read_nested ''delta'' (read_field ''content'')) [] v (\<lambda>ts. (ts, snd c))
      else bind_result (read_wireBody read_openAIUsage False k v (snd c)) (\<lambda>b. Inr (fst c, b)))"

definition consumeOpenAI :: "json option \<Rightarrow> usageAccumulator \<times> string \<Rightarrow> usageAccumulator \<times> string" where
  "consumeOpenAI data s =
     (case s of (a, text) \<Rightarrow>
        (case decode_body read_chunk ([], no_wireBody) data of
           Inl _ \<Rightarrow> (a, text)
         | Inr (texts, b) \<Rightarrow>
             (case wb_Usage b of None \<Rightarrow> a | Some w \<Rightarrow> setUsage (openAIUsage_usage w (wb_ServiceTier b) (wb_ToolUsage b)) a,
              text @ concat texts)))"

record responsesEvent =
  re_Type :: string
  re_Delta :: string
  re_Response :: "(string \<times> wireBody) option"
  re_ServiceTier :: string
  re_ToolUsage :: "(string \<times> json) list"

definition read_response :: "(string \<times> wireBody) reader" where
  "read_response k v r =
     (if k = ''id'' then put_string v (\<lambda>s. (s, snd r)) r
      else bind_result (read_wireBody read_responsesUsage True k v (snd r)) (\<lambda>b. Inr (fst r, b)))"

definition read_responsesEvent :: "responsesEvent reader" where
  "read_responsesEvent k v e =
     (if k = ''type'' then put_string v (\<lambda>s. e\<lparr>re_Type := s\<rparr>) e
      else if k = ''delta'' then put_string v (\<lambda>s. e\<lparr>re_Delta := s\<rparr>) e
      else if k = ''response'' then put_pointer read_response ([], no_wireBody) (re_Response e) v (\<lambda>r. e\<lparr>re_Response := r\<rparr>)
      else if k = ''service_tier'' then put_string v (\<lambda>s. e\<lparr>re_ServiceTier := s\<rparr>) e
      else if k = ''tool_usage'' then put_map (re_ToolUsage e) v (\<lambda>m. e\<lparr>re_ToolUsage := m\<rparr>)
      else Inr e)"

definition no_responsesEvent :: responsesEvent where
  "no_responsesEvent = \<lparr>re_Type = [], re_Delta = [], re_Response = None, re_ServiceTier = [], re_ToolUsage = []\<rparr>"

definition completed_usage :: "responsesEvent \<Rightarrow> usageAccumulator \<Rightarrow> usageAccumulator" where
  "completed_usage e a =
     (case re_Response e of
        None \<Rightarrow> a
      | Some (_, b) \<Rightarrow>
          (case wb_Usage b of
             None \<Rightarrow> a
           | Some w \<Rightarrow>
               (let tier = (if wb_ServiceTier b = [] then re_ServiceTier e else wb_ServiceTier b);
                    u = addGeneratedImages (responsesUsage_usage w tier (wb_ToolUsage b)) (countGeneratedImages (wb_Output b))
                in mergeToolCalls (toolCallCounts (re_ToolUsage e)) (setUsage u a))))"

definition consumeResponses :: "json option \<Rightarrow> usageAccumulator \<times> string \<Rightarrow> usageAccumulator \<times> string" where
  "consumeResponses data s =
     (case s of (a, text) \<Rightarrow>
        (case decode_body read_responsesEvent no_responsesEvent data of
           Inl _ \<Rightarrow> (a, text)
         | Inr e \<Rightarrow>
             (let a = (case re_Response e of Some (u, _) \<Rightarrow> if u \<noteq> [] then a\<lparr>ua_resourceID := u\<rparr> else a | None \<Rightarrow> a)
              in if re_Type e = ''response.output_text.delta'' then (a, text @ re_Delta e)
                 else if re_Type e \<in> {''response.completed'', ''response.incomplete''} then (completed_usage e a, text)
                 else (a, text))))"

text \<open>The events of the interactions surface; a raw member keeps its value, \<open>null\<close> included.\<close>

record interactionEvent =
  ie_ID :: string
  ie_Delta :: "json option"
  ie_Usage :: "json option"
  ie_TotalUsage :: "json option"
  ie_ServiceTier :: string
  ie_Metadata :: "json option option"
  ie_Interaction :: "(string \<times> json option \<times> string) option"

definition no_interactionEvent :: interactionEvent where
  "no_interactionEvent = \<lparr>ie_ID = [], ie_Delta = None, ie_Usage = None, ie_TotalUsage = None, ie_ServiceTier = [], ie_Metadata = None,
     ie_Interaction = None\<rparr>"

definition read_inner :: "(string \<times> json option \<times> string) reader" where
  "read_inner k v i =
     (case i of (u, usage, tier) \<Rightarrow>
        if k = ''id'' then put_string v (\<lambda>s. (s, usage, tier)) i
        else if k = ''usage'' then Inr (u, Some v, tier)
        else if k = ''service_tier'' then put_string v (\<lambda>s. (u, usage, s)) i
        else Inr i)"

definition read_interactionEvent :: "interactionEvent reader" where
  "read_interactionEvent k v e =
     (if k = ''id'' then put_string v (\<lambda>s. e\<lparr>ie_ID := s\<rparr>) e
      else if k = ''delta'' then Inr (e\<lparr>ie_Delta := Some v\<rparr>)
      else if k = ''usage'' then Inr (e\<lparr>ie_Usage := Some v\<rparr>)
      else if k = ''total_usage'' then Inr (e\<lparr>ie_TotalUsage := Some v\<rparr>)
      else if k = ''service_tier'' then put_string v (\<lambda>s. e\<lparr>ie_ServiceTier := s\<rparr>) e
      else if k = ''metadata'' then
        put_pointer (\<lambda>k v m. if k = ''total_usage'' then Inr (Some v) else Inr m) None (ie_Metadata e) v (\<lambda>m. e\<lparr>ie_Metadata := m\<rparr>)
      else if k = ''interaction'' then
        put_pointer read_inner ([], None, []) (ie_Interaction e) v (\<lambda>i. e\<lparr>ie_Interaction := i\<rparr>)
      else Inr e)"

definition delta_text :: "json option \<Rightarrow> string" where
  "delta_text d =
     (case d of
        None \<Rightarrow> []
      | Some (JStr s) \<Rightarrow> s
      | Some JNull \<Rightarrow> []
      | Some v \<Rightarrow> probe_body (read_field ''text'') [] (Some v))"

text \<open>The usage object that counts and its tier: a total over a running one, the interaction's own over both.\<close>

definition reported_usage :: "interactionEvent \<Rightarrow> json option \<times> string" where
  "reported_usage e =
     (let usage = ie_Usage e;
          usage = (if ie_TotalUsage e \<noteq> None then ie_TotalUsage e else usage);
          usage = (case ie_Metadata e of Some (Some m) \<Rightarrow> Some m | _ \<Rightarrow> usage)
      in case ie_Interaction e of
           None \<Rightarrow> (usage, ie_ServiceTier e)
         | Some (_, u, tier) \<Rightarrow> (if u \<noteq> None then u else usage, if tier \<noteq> [] then tier else ie_ServiceTier e))"

definition interaction_body :: "json \<Rightarrow> string \<Rightarrow> json" where
  "interaction_body usage tier = JObj ([(''usage'', usage)] @ (if tier = [] then [] else [(''service_tier'', JStr tier)]))"

definition consumeInteraction :: "json option \<Rightarrow> usageAccumulator \<times> string \<Rightarrow> usageAccumulator \<times> string" where
  "consumeInteraction data s =
     (case s of (a, text) \<Rightarrow>
        (case decode_body read_interactionEvent no_interactionEvent data of
           Inl _ \<Rightarrow> (a, text)
         | Inr e \<Rightarrow>
             (let text = text @ delta_text (ie_Delta e);
                  a = (if ie_ID e \<noteq> [] then a\<lparr>ua_resourceID := ie_ID e\<rparr> else a);
                  a = (case ie_Interaction e of Some (u, _) \<Rightarrow> if u \<noteq> [] then a\<lparr>ua_resourceID := u\<rparr> else a | None \<Rightarrow> a)
              in case reported_usage e of
                   (None, _) \<Rightarrow> (a, text)
                 | (Some u, tier) \<Rightarrow> (setUsage (parseGeminiInteractionUsage (Some (interaction_body u tier))) a, text))))"

record anthropicEvent =
  ae_Type :: string
  ae_Message :: "anthropicUsage option option"
  ae_Delta :: "string option"
  ae_Usage :: "anthropicUsage option"

definition no_anthropicEvent :: anthropicEvent where
  "no_anthropicEvent = \<lparr>ae_Type = [], ae_Message = None, ae_Delta = None, ae_Usage = None\<rparr>"

definition read_anthropicEvent :: "anthropicEvent reader" where
  "read_anthropicEvent k v e =
     (if k = ''type'' then put_string v (\<lambda>s. e\<lparr>ae_Type := s\<rparr>) e
      else if k = ''message'' then
        put_pointer (read_only ''usage'' read_anthropicUsage no_anthropic) None (ae_Message e) v (\<lambda>m. e\<lparr>ae_Message := m\<rparr>)
      else if k = ''delta'' then put_pointer (read_field ''text'') [] (ae_Delta e) v (\<lambda>d. e\<lparr>ae_Delta := d\<rparr>)
      else if k = ''usage'' then put_pointer read_anthropicUsage no_anthropic (ae_Usage e) v (\<lambda>u. e\<lparr>ae_Usage := u\<rparr>)
      else Inr e)"

text \<open>The end of a message reports the running total of the output; it replaces, and adds nothing.\<close>

definition message_delta :: "Usage \<Rightarrow> usageAccumulator \<Rightarrow> usageAccumulator" where
  "message_delta u a =
     (let a = a\<lparr>ua_seen := True, ua_out := us_Out u\<rparr>;
          a = (if us_ServiceTier u \<noteq> [] then a\<lparr>ua_serviceTier := us_ServiceTier u\<rparr> else a)
      in mergeToolCalls (us_ToolCalls u) a)"

definition consumeAnthropic :: "json option \<Rightarrow> usageAccumulator \<times> string \<Rightarrow> usageAccumulator \<times> string" where
  "consumeAnthropic data s =
     (case s of (a, text) \<Rightarrow>
        (case decode_body read_anthropicEvent no_anthropicEvent data of
           Inl _ \<Rightarrow> (a, text)
         | Inr e \<Rightarrow>
             if ae_Type e = ''message_start''
             then (case ae_Message e of Some (Some w) \<Rightarrow> setUsage (anthropicUsage_usage w) a | _ \<Rightarrow> a, text)
             else if ae_Type e = ''content_block_delta'' then (a, text @ (case ae_Delta e of None \<Rightarrow> [] | Some t \<Rightarrow> t))
             else if ae_Type e = ''message_delta''
             then (case ae_Usage e of None \<Rightarrow> a | Some w \<Rightarrow> message_delta (anthropicUsage_usage w) a, text)
             else (a, text)))"

text \<open>A chunk of a Gemini stream is a whole answer; its metadata are the totals so far.\<close>

definition read_candidate :: "string list reader" where
  "read_candidate = read_nested ''content'' (\<lambda>k v ts. if k = ''parts'' then put_slice (read_field ''text'') [] v id else Inr ts)"

definition read_geminiChunk :: "(string list list \<times> geminiUsageMetadata option) reader" where
  "read_geminiChunk k v c =
     (if k = ''candidates'' then put_slice read_candidate [] v (\<lambda>ts. (ts, snd c))
      else if k = ''usagemetadata'' then put_pointer read_gemini no_gemini (snd c) v (\<lambda>m. (fst c, m))
      else Inr c)"

definition gemini_totals :: "Usage \<Rightarrow> usageAccumulator \<Rightarrow> usageAccumulator" where
  "gemini_totals u a =
     a\<lparr>ua_in := us_In u, ua_cachedRead := us_CachedRead u, ua_out := us_Out u, ua_reasoning := us_Reasoning u,
       ua_audioIn := us_AudioIn u, ua_audioOut := us_AudioOut u, ua_imageIn := us_ImageIn u, ua_imageOut := us_ImageOut u,
       ua_seen := True\<rparr>"

definition consumeGemini :: "json option \<Rightarrow> usageAccumulator \<times> string \<Rightarrow> usageAccumulator \<times> string" where
  "consumeGemini data s =
     (case s of (a, text) \<Rightarrow>
        (case decode_body read_geminiChunk ([], None) data of
           Inl _ \<Rightarrow> (a, text)
         | Inr (texts, m) \<Rightarrow>
             (case m of None \<Rightarrow> a | Some m \<Rightarrow> gemini_totals (gemini_usage m) a, text @ concat (concat texts))))"

definition consumeImage :: "json option \<Rightarrow> usageAccumulator \<Rightarrow> usageAccumulator" where
  "consumeImage data a = (let u = ParseImageUsage data in if us_Present u then setUsage u a else a)"

fun split_lines :: "string \<Rightarrow> string list" where
  "split_lines [] = [[]]"
| "split_lines (c # cs) = (if c = LF then [] # split_lines cs else case split_lines cs of [] \<Rightarrow> [[c]] | l # ls \<Rightarrow> (c # l) # ls)"

definition sseDataLines :: "string \<Rightarrow> string list" where
  "sseDataLines frame =
     filter (\<lambda>p. p \<noteq> []) (map (\<lambda>line. trim_space (drop 5 (trim_right [CR] line)))
       (filter (\<lambda>line. prefix ''data:'' (trim_right [CR] line)) (split_lines frame)))"

definition consume_data :: "string \<Rightarrow> json option \<Rightarrow> usageAccumulator \<times> string \<Rightarrow> usageAccumulator \<times> string" where
  "consume_data surface data s =
     (if surface = SurfaceMessages then consumeAnthropic data s
      else if surface = SurfaceResponses \<or> surface = SurfaceResponsesCompact then consumeResponses data s
      else if surface = SurfaceGeminiInteractions then consumeInteraction data s
      else if surface = SurfaceGenerateContent then consumeGemini data s
      else if surface = SurfaceImages \<or> surface = SurfaceImagesEdit then (consumeImage data (fst s), snd s)
      else consumeOpenAI data s)"

definition consume :: "(string \<Rightarrow> json option) \<Rightarrow> string \<Rightarrow> string \<Rightarrow> usageAccumulator \<times> string \<Rightarrow> usageAccumulator \<times> string" where
  "consume parse surface frame =
     fold (\<lambda>data s. if data = ''[DONE]'' then s else consume_data surface (parse data) s) (sseDataLines frame)"

section \<open>The relay\<close>

definition firstByteTimeout :: duration where "firstByteTimeout = seconds 60"
definition idleTimeout :: duration where "idleTimeout = seconds 30"

record StreamOutcome =
  so_Usage :: Usage
  so_ResourceID :: string
  so_FirstByteSent :: bool
  so_Canceled :: bool
  so_Interrupted :: bool
  so_TimedOut :: bool
  so_Text :: string
  so_TTFB :: duration

definition no_outcome :: StreamOutcome where
  "no_outcome = \<lparr>so_Usage = no_usage, so_ResourceID = [], so_FirstByteSent = False, so_Canceled = False, so_Interrupted = False,
     so_TimedOut = False, so_Text = [], so_TTFB = 0\<rparr>"

text \<open>How the upstream's body ended, what the relay returned besides its outcome, and the branches of its \<open>select\<close>;
  a chunk's flag says whether it could be written to the client. The reader's early exit on a done context is not a
  branch of its own: once the context is done the relay's next branch is \<open>CtxDone\<close>, which ends it, although
  Go picks at random when the reader has closed its channel by then too.\<close>

datatype read_end = ReadEOF | ReadFailed
datatype pump_error = CannotFlush | ReadError | StreamIdle | NoFirstByte
datatype select_case = CtxDone | Chunk bool | Deadline

record pump_state =
  pu_out :: StreamOutcome
  pu_acc :: usageAccumulator
  pu_text :: string
  pu_written :: string
  pu_elapsed :: duration

definition pump_start :: pump_state where
  "pump_start = \<lparr>pu_out = no_outcome, pu_acc = no_accumulator, pu_text = [], pu_written = [], pu_elapsed = 0\<rparr>"

definition set_outcome :: "(StreamOutcome \<Rightarrow> StreamOutcome) \<Rightarrow> pump_state \<Rightarrow> pump_state" where
  "set_outcome f s = s\<lparr>pu_out := f (pu_out s)\<rparr>"

definition take_usage :: "pump_state \<Rightarrow> StreamOutcome \<Rightarrow> StreamOutcome" where
  "take_usage s out = out\<lparr>so_Usage := acc_result (pu_acc s), so_ResourceID := ua_resourceID (pu_acc s), so_Text := pu_text s\<rparr>"

text \<open>The header goes out with the first chunk.\<close>

definition commit_header :: "pump_state \<Rightarrow> pump_state" where
  "commit_header s =
     (if so_FirstByteSent (pu_out s) then s
      else set_outcome (\<lambda>out. out\<lparr>so_FirstByteSent := True, so_TTFB := pu_elapsed s\<rparr>) s)"

definition write_chunk :: "(string \<Rightarrow> json option) \<Rightarrow> string \<Rightarrow> string \<Rightarrow> pump_state \<Rightarrow> pump_state" where
  "write_chunk parse surface chunk s =
     (let (a, text) = consume parse surface chunk (pu_acc s, pu_text s)
      in s\<lparr>pu_acc := a, pu_text := text, pu_written := pu_written s @ chunk\<rparr>)"

fun pump_loop :: "(string \<Rightarrow> json option) \<Rightarrow> string \<Rightarrow> read_end \<Rightarrow> (duration \<times> select_case) list \<Rightarrow> string list \<Rightarrow> pump_state
    \<Rightarrow> (pump_state \<times> pump_error option) option" where
  "pump_loop parse surface ending [] chunks s = None"
| "pump_loop parse surface ending ((wait, branch) # schedule) chunks s =
     (let s = s\<lparr>pu_elapsed := pu_elapsed s + wait\<rparr>
      in case branch of
           CtxDone \<Rightarrow> Some (set_outcome (\<lambda>out. take_usage s (out\<lparr>so_Canceled := True\<rparr>)) s, None)
         | Chunk written \<Rightarrow>
             (case chunks of
                [] \<Rightarrow>
                  if ending = ReadFailed
                  then Some (set_outcome (\<lambda>out. (take_usage s out)\<lparr>so_Interrupted := so_FirstByteSent out\<rparr>) s, Some ReadError)
                  else Some (set_outcome (take_usage s) s, None)
              | chunk # chunks \<Rightarrow>
                  (let s = commit_header s
                   in if \<not> written then Some (set_outcome (\<lambda>out. (take_usage s out)\<lparr>so_Canceled := True\<rparr>) s, None)
                      else pump_loop parse surface ending schedule chunks (write_chunk parse surface chunk s)))
         | Deadline \<Rightarrow>
             (let s = set_outcome (\<lambda>out. out\<lparr>so_TimedOut := True\<rparr>) s
              in if so_FirstByteSent (pu_out s)
                 then Some (set_outcome (\<lambda>out. take_usage s (out\<lparr>so_Interrupted := True\<rparr>)) s, Some StreamIdle)
                 else Some (s, Some NoFirstByte)))"

definition Pump :: "(string \<Rightarrow> json option) \<Rightarrow> string \<Rightarrow> bool \<Rightarrow> string \<Rightarrow> read_end \<Rightarrow> (duration \<times> select_case) list
    \<Rightarrow> (pump_state \<times> pump_error option) option" where
  "Pump parse surface flushable body ending schedule =
     (if \<not> flushable then Some (pump_start, Some CannotFlush)
      else pump_loop parse surface ending schedule (readUpstream body) pump_start)"

definition WithFirstByteBudget :: "duration \<Rightarrow> duration" where
  "WithFirstByteBudget d = (if d \<le> 0 then 1 else d)"

definition deadlineFor :: "duration \<Rightarrow> bool \<Rightarrow> duration" where
  "deadlineFor firstByte firstByteSent = (if firstByteSent then idleTimeout else firstByte)"

text \<open>The error event of a stream that broke off; \<open>marshal\<close> is \<open>json.Marshal\<close>.\<close>

definition CodeStreamInterrupted :: string where "CodeStreamInterrupted = ''gateway.stream_interrupted''"

definition stream_error_payload :: "string \<Rightarrow> string \<Rightarrow> json" where
  "stream_error_payload surface message =
     (if surface = SurfaceAnthropic
      then JObj [(''error'', JObj [(''code'', JStr CodeStreamInterrupted), (''message'', JStr message), (''type'', JStr ''api_error'')]),
                 (''type'', JStr ''error'')]
      else if surface = SurfaceGemini
      then JObj [(''error'', JObj [(''code'', JNum 500),
             (''details'', JArr [JObj [(''@type'', JStr ''type.googleapis.com/google.rpc.ErrorInfo''), (''domain'', JStr errorDomain),
                (''reason'', JStr CodeStreamInterrupted)]]),
             (''message'', JStr message), (''status'', JStr ''INTERNAL'')])]
      else JObj [(''error'', JObj [(''code'', JStr CodeStreamInterrupted), (''message'', JStr message), (''type'', JStr ''api_error'')])])"

definition StreamErrorEvent :: "(json \<Rightarrow> string) \<Rightarrow> string \<Rightarrow> string \<Rightarrow> string" where
  "StreamErrorEvent marshal surface message =
     (if surface = SurfaceAnthropic then ''event: error'' @ [LF] else []) @ ''data: '' @ marshal (stream_error_payload surface message) @ [LF, LF]"

section \<open>Pass-through\<close>

lemma read_line_unended: "read_line s = (line, rest) \<Longrightarrow> \<not> ended line \<Longrightarrow> rest = []"
proof (induction s arbitrary: line rest)
  case (Cons c s)
  obtain l r where l: "read_line s = (l, r)" by (cases "read_line s")
  show ?case using Cons.prems Cons.IH [OF l] l by (cases "l = []") (auto simp: ended_def split: if_splits)
qed simp

lemma read_frames_concat: "concat (read_frames frame body) = frame @ body"
proof (induction frame body rule: read_frames.induct)
  case (1 frame body)
  obtain line rest where l: "read_line body = (line, rest)" by (cases "read_line body")
  note app = read_line_append [OF l]
  show ?case
  proof (cases "ended line")
    case True
    have "concat (read_frames (if line \<noteq> [] \<and> isBlankLine line then [] else frame @ line) rest) =
        (if line \<noteq> [] \<and> isBlankLine line then [] else frame @ line) @ rest"
      by (rule 1 [OF l [symmetric] refl refl refl refl True])
    then show ?thesis using True app by (subst read_frames.simps) (auto simp: l Let_def)
  next
    case False
    then show ?thesis using app read_line_unended [OF l False] by (subst read_frames.simps) (auto simp: l Let_def)
  qed
qed

definition whole_event :: "string \<Rightarrow> bool" where
  "whole_event frame \<longleftrightarrow> (\<exists>text line. frame = text @ line \<and> line \<noteq> [] \<and> isBlankLine line)"

lemma read_frames_whole: "f \<in> set (butlast (read_frames frame body)) \<Longrightarrow> whole_event f"
proof (induction frame body rule: read_frames.induct)
  case (1 frame body)
  obtain line rest where l: "read_line body = (line, rest)" by (cases "read_line body")
  define sent where "sent = (if line \<noteq> [] \<and> isBlankLine line then [frame @ line] else [])"
  define frame' where "frame' = (if line \<noteq> [] \<and> isBlankLine line then [] else frame @ line)"
  have sent: "whole_event x" if "x \<in> set sent" for x
    using that unfolding sent_def whole_event_def by (auto split: if_splits)
  have eq: "read_frames frame body = (if ended line then sent @ read_frames frame' rest else if frame' \<noteq> [] then sent @ [frame'] else sent)"
    by (subst read_frames.simps) (simp add: l Let_def sent_def frame'_def)
  note IH = 1(1) [OF l [symmetric] refl refl refl refl, folded frame'_def]
  show ?case
    using 1(2) IH sent unfolding eq
    by (auto simp: butlast_append split: if_splits dest: in_set_butlastD)
qed

lemma concat_take_prefix: "prefix (concat (take n xs)) (concat xs)"
proof -
  have "concat xs = concat (take n xs) @ concat (drop n xs)" by (simp flip: concat_append)
  then show ?thesis by (simp add: prefix_def)
qed

lemma set_outcome_simps [simp]:
  "pu_out (set_outcome f s) = f (pu_out s)" "pu_written (set_outcome f s) = pu_written s" "pu_elapsed (set_outcome f s) = pu_elapsed s"
  by (simp_all add: set_outcome_def)

lemma take_usage_simps [simp]:
  "so_FirstByteSent (take_usage s out) = so_FirstByteSent out" "so_Canceled (take_usage s out) = so_Canceled out"
  "so_Interrupted (take_usage s out) = so_Interrupted out" "so_TimedOut (take_usage s out) = so_TimedOut out"
  by (simp_all add: take_usage_def)

lemma write_chunk_simps [simp]:
  "pu_out (write_chunk parse surface chunk s) = pu_out s" "pu_written (write_chunk parse surface chunk s) = pu_written s @ chunk"
  "pu_elapsed (write_chunk parse surface chunk s) = pu_elapsed s"
  by (simp_all add: write_chunk_def case_prod_beta Let_def)

lemma commit_header_simps [simp]:
  "so_FirstByteSent (pu_out (commit_header s))" "pu_written (commit_header s) = pu_written s" "pu_elapsed (commit_header s) = pu_elapsed s"
  "so_Canceled (pu_out (commit_header s)) = so_Canceled (pu_out s)" "so_Interrupted (pu_out (commit_header s)) = so_Interrupted (pu_out s)"
  by (simp_all add: commit_header_def)

text \<open>The relay writes whole chunks from the front, all of them unless it was cut off.\<close>

lemma pump_loop_written:
  assumes "pump_loop parse surface ending schedule chunks s = Some (s', e)"
  shows "\<exists>n. pu_written s' = pu_written s @ concat (take n chunks) \<and>
    (so_FirstByteSent (pu_out s') \<or> pu_written s' = pu_written s) \<and> (so_FirstByteSent (pu_out s) \<longrightarrow> so_FirstByteSent (pu_out s')) \<and>
    (so_FirstByteSent (pu_out s') \<and> \<not> so_Canceled (pu_out s') \<and> \<not> so_Interrupted (pu_out s') \<longrightarrow> n = length chunks)"
  using assms
proof (induction parse surface ending schedule chunks s rule: pump_loop.induct)
  case (2 parse surface ending wait branch schedule chunks s)
  show ?case
  proof (cases "\<exists>c cs. branch = Chunk True \<and> chunks = c # cs")
    case True
    then obtain c cs where b: "branch = Chunk True" "chunks = c # cs" by blast
    let ?s = "write_chunk parse surface c (commit_header (s\<lparr>pu_elapsed := pu_elapsed s + wait\<rparr>))"
    have run: "pump_loop parse surface ending schedule cs ?s = Some (s', e)" using 2(2) b by (simp add: Let_def)
    have first: "so_FirstByteSent (pu_out ?s)" by simp
    obtain n where "pu_written s' = pu_written ?s @ concat (take n cs)" "so_FirstByteSent (pu_out s')"
      "so_FirstByteSent (pu_out s') \<and> \<not> so_Canceled (pu_out s') \<and> \<not> so_Interrupted (pu_out s') \<longrightarrow> n = length cs"
      using 2(1) [OF refl b(1) b(2) refl _ run] first by auto
    then show ?thesis using b by (intro exI [of _ "Suc n"]) auto
  next
    case False
    then show ?thesis using 2(2)
      by (intro exI [of _ 0]) (auto simp: Let_def split: select_case.splits list.splits if_splits)
  qed
qed simp

lemma Pump_written:
  assumes "Pump parse surface flushable body ending schedule = Some (s, e)"
  shows "prefix (pu_written s) body \<and> (\<exists>n. pu_written s = concat (take n (readUpstream body))) \<and>
    (\<forall>f \<in> set (butlast (readUpstream body)). whole_event f) \<and> (so_FirstByteSent (pu_out s) \<or> pu_written s = []) \<and>
    (so_FirstByteSent (pu_out s) \<and> \<not> so_Canceled (pu_out s) \<and> \<not> so_Interrupted (pu_out s) \<longrightarrow> pu_written s = body)"
proof -
  have body: "concat (readUpstream body) = body" by (simp add: readUpstream_def read_frames_concat)
  have whole: "\<forall>f \<in> set (butlast (readUpstream body)). whole_event f" by (auto simp: readUpstream_def intro: read_frames_whole)
  show ?thesis
  proof (cases flushable)
    case False
    then show ?thesis using assms whole by (auto simp: Pump_def pump_start_def no_outcome_def intro: exI [of _ 0])
  next
    case True
    obtain n where "pu_written s = concat (take n (readUpstream body))" "so_FirstByteSent (pu_out s) \<or> pu_written s = []"
      "so_FirstByteSent (pu_out s) \<and> \<not> so_Canceled (pu_out s) \<and> \<not> so_Interrupted (pu_out s) \<longrightarrow> n = length (readUpstream body)"
      using pump_loop_written [of parse surface ending schedule "readUpstream body" pump_start s e] assms True
      unfolding Pump_def by (metis append_Nil pump_start_def pump_state.select_convs(4))
    then show ?thesis using whole body concat_take_prefix [of n "readUpstream body"] by auto
  qed
qed


text \<open>
  C24. The relay comes to an end: with one more turn of its loop than the upstream has events, it has returned,
  whichever branch each turn takes.
\<close>

theorem relay_returns:
  assumes "length (readUpstream body) < length schedule"
  shows "\<exists>r. Pump parse surface flushable body ending schedule = Some r"
proof -
  have "\<exists>r. pump_loop parse surface ending schedule chunks s = Some r" if "length chunks < length schedule" for chunks s
    using that
    by (induction parse surface ending schedule chunks s rule: pump_loop.induct) (auto simp: Let_def split: select_case.split list.split)
  then show ?thesis using assms by (simp add: Pump_def)
qed

section \<open>A repeated report\<close>

lemma count_of_update: "count_of (AList.update tool n calls) t = (if t = tool then n else count_of calls t)"
  by (simp add: count_of_def update_conv')

lemma larger_count_grows: "count_of calls t \<le> count_of (larger_count p calls) t" "snd p \<le> count_of (larger_count p calls) (fst p)"
  by (auto simp: larger_count_def count_of_update split: prod.split)

lemma fold_larger_grows: "count_of calls t \<le> count_of (fold larger_count next_calls calls) t"
  by (induction next_calls arbitrary: calls) (auto intro: order_trans [OF larger_count_grows(1)])

lemma fold_larger_covers: "(t, n) \<in> set next_calls \<Longrightarrow> n \<le> count_of (fold larger_count next_calls calls) t"
proof (induction next_calls arbitrary: calls)
  case (Cons p next_calls)
  then show ?case using order_trans [OF larger_count_grows(2) fold_larger_grows, of p] by (cases "p = (t, n)") auto
qed simp

lemma fold_larger_covered: "(\<And>t n. (t, n) \<in> set next_calls \<Longrightarrow> n \<le> count_of calls t) \<Longrightarrow> fold larger_count next_calls calls = calls"
proof (induction next_calls)
  case (Cons p next_calls)
  have "larger_count p calls = calls" using Cons.prems [of "fst p" "snd p"] by (simp add: larger_count_def case_prod_beta)
  then show ?case using Cons by simp
qed simp

lemma mergeToolCalls_twice: "mergeToolCalls t (mergeToolCalls t a) = mergeToolCalls t a"
  using fold_larger_covered [OF fold_larger_covers] by (simp add: mergeToolCalls_def)

lemma setUsage_simps [simp]:
  "acc_result (setUsage u a) = u" "setUsage u (setUsage v a) = setUsage u a" "setUsage u (mergeToolCalls t a) = setUsage u a"
  "setUsage u (a\<lparr>ua_resourceID := r\<rparr>) = (setUsage u a)\<lparr>ua_resourceID := r\<rparr>"
  "(mergeToolCalls t a)\<lparr>ua_resourceID := r\<rparr> = mergeToolCalls t (a\<lparr>ua_resourceID := r\<rparr>)"
  by (simp_all add: setUsage_def acc_result_def mergeToolCalls_def)

lemma message_delta_twice: "message_delta u (message_delta u a) = message_delta u a"
proof -
  define b where "b = (if us_ServiceTier u \<noteq> [] then a\<lparr>ua_seen := True, ua_out := us_Out u, ua_serviceTier := us_ServiceTier u\<rparr>
    else a\<lparr>ua_seen := True, ua_out := us_Out u\<rparr>)"
  have "message_delta u x = mergeToolCalls (us_ToolCalls u) b" if "x = a \<or> x = mergeToolCalls (us_ToolCalls u) b" for x
    using that mergeToolCalls_twice [of "us_ToolCalls u" b] by (auto simp: message_delta_def b_def mergeToolCalls_def Let_def)
  then show ?thesis by metis
qed

lemma gemini_totals_twice: "gemini_totals u (gemini_totals u a) = gemini_totals u a"
  by (simp add: gemini_totals_def)

lemma consumeOpenAI_twice: "fst (consumeOpenAI d (consumeOpenAI d s)) = fst (consumeOpenAI d s)"
  by (cases s; cases "decode_body read_chunk ([], no_wireBody) d") (auto simp: consumeOpenAI_def split: option.split)

lemma consumeAnthropic_twice: "fst (consumeAnthropic d (consumeAnthropic d s)) = fst (consumeAnthropic d s)"
  by (cases s; cases "decode_body read_anthropicEvent no_anthropicEvent d")
     (auto simp: consumeAnthropic_def message_delta_twice split: option.split)

lemma consumeGemini_twice: "fst (consumeGemini d (consumeGemini d s)) = fst (consumeGemini d s)"
  by (cases s; cases "decode_body read_geminiChunk ([], None) d") (auto simp: consumeGemini_def gemini_totals_twice split: option.split)

lemma consumeImage_twice: "consumeImage d (consumeImage d a) = consumeImage d a"
  by (simp add: consumeImage_def Let_def)

lemma consumeResponses_twice: "fst (consumeResponses d (consumeResponses d s)) = fst (consumeResponses d s)"
  by (cases s; cases "decode_body read_responsesEvent no_responsesEvent d")
     (auto simp: consumeResponses_def completed_usage_def Let_def split: option.split)

lemma consumeInteraction_twice: "fst (consumeInteraction d (consumeInteraction d s)) = fst (consumeInteraction d s)"
  by (cases s; cases "decode_body read_interactionEvent no_interactionEvent d")
     (auto simp: consumeInteraction_def Let_def split: option.split prod.split)

text \<open>
  C23. A report of usage that is sent twice is not billed twice. On every surface, whatever was read before,
  consuming the same event again leaves the usage that will be billed as it was: totals replace, and the counts of
  tool calls keep the larger.
\<close>

theorem repeated_report_bills_once:
  "acc_result (fst (consume_data surface d (consume_data surface d s))) = acc_result (fst (consume_data surface d s))"
  by (simp add: consume_data_def consumeOpenAI_twice consumeAnthropic_twice consumeGemini_twice consumeImage_twice consumeResponses_twice
      consumeInteraction_twice)

section \<open>A streamed report is read as the buffered one\<close>

text \<open>The event that carries a whole answer.\<close>

definition report :: "string \<Rightarrow> json \<Rightarrow> json" where
  "report surface j =
     (if surface = SurfaceMessages then JObj [(''type'', JStr ''message_start''), (''message'', j)]
      else if surface = SurfaceResponses \<or> surface = SurfaceResponsesCompact
      then JObj [(''type'', JStr ''response.completed''), (''response'', j)]
      else j)"

text \<open>Whether the event's struct decodes; an event that does not is skipped.\<close>

definition event_decodes :: "string \<Rightarrow> json \<Rightarrow> bool" where
  "event_decodes surface d \<longleftrightarrow>
     (if surface = SurfaceChat then \<not> isl (decode_body read_chunk ([], no_wireBody) (Some d))
      else if surface = SurfaceGenerateContent then \<not> isl (decode_body read_geminiChunk ([], None) (Some d))
      else if surface = SurfaceResponses \<or> surface = SurfaceResponsesCompact
      then \<not> isl (decode_body read_responsesEvent no_responsesEvent (Some d))
      else True)"

lemma decode_with_project:
  assumes "\<And>k v c c'. f k v c = Inr c' \<Longrightarrow> g k v (p c) = Inr (p c')"
  shows "decode_with f fs c = Inr c' \<Longrightarrow> decode_with g fs (p c) = Inr (p c')"
  using assms by (induction fs arbitrary: c) (auto simp: bind_result_Inr_iff)

lemma decode_body_project:
  assumes "\<And>k v c c'. f k v c = Inr c' \<Longrightarrow> g k v (p c) = Inr (p c')" and "decode_body f c d = Inr c'"
  shows "decode_body g (p c) d = Inr (p c')"
  using assms(2) decode_with_project [of f g p, OF assms(1)] by (auto simp: decode_body_def split: option.splits json.splits)

lemma read_chunk_project: "read_chunk k v c = Inr c' \<Longrightarrow> read_wireBody read_openAIUsage False k v (snd c) = Inr (snd c')"
  by (cases "k = ''choices''"; cases v)
     (auto simp: read_chunk_def read_wireBody_def bind_result_Inr_iff split: if_splits)

lemma read_response_project: "read_response k v c = Inr c' \<Longrightarrow> read_wireBody read_responsesUsage True k v (snd c) = Inr (snd c')"
  by (cases "k = ''id''"; cases v)
     (auto simp: read_response_def read_wireBody_def bind_result_Inr_iff split: if_splits)

lemma read_geminiChunk_project:
  "read_geminiChunk k v c = Inr c' \<Longrightarrow> read_only ''usagemetadata'' read_gemini no_gemini k v (snd c) = Inr (snd c')"
  by (cases v) (auto simp: read_geminiChunk_def read_only_def bind_result_Inr_iff split: if_splits)

text \<open>What a Gemini stream never sets.\<close>

definition gemini_only :: "usageAccumulator \<Rightarrow> bool" where
  "gemini_only a \<longleftrightarrow> ua_cacheWrite a = 0 \<and> ua_cacheWrite5m a = 0 \<and> ua_cacheWrite1h a = 0 \<and> ua_serviceTier a = [] \<and> ua_toolCalls a = []"

lemma gemini_only_consume: "gemini_only (fst s) \<Longrightarrow> gemini_only (fst (consumeGemini d s))"
  by (cases s) (auto simp: consumeGemini_def gemini_only_def gemini_totals_def split: sum.split option.split)

lemma gemini_totals_result: "gemini_only a \<Longrightarrow> acc_result (gemini_totals (gemini_usage m) a) = gemini_usage m"
  by (simp add: gemini_only_def gemini_totals_def acc_result_def gemini_usage_def no_usage_def)

lemma gemini_only_fold: "gemini_only (fst s) \<Longrightarrow> gemini_only (fst (fold (consume_data SurfaceGenerateContent) ds s))"
  by (induction ds arbitrary: s) (simp_all add: consume_data_def surface_defs gemini_only_consume)

lemma chat_report:
  assumes "us_Present (ParseUsage SurfaceChat (Some j))" and "\<not> isl (decode_body read_chunk ([], no_wireBody) (Some j))"
  shows "acc_result (fst (consumeOpenAI (Some j) s)) = ParseUsage SurfaceChat (Some j)"
proof -
  obtain ts b where c: "decode_body read_chunk ([], no_wireBody) (Some j) = Inr (ts, b)"
    using assms(2) by (cases "decode_body read_chunk ([], no_wireBody) (Some j)") auto
  have w: "decode_body (read_wireBody read_openAIUsage False) no_wireBody (Some j) = Inr b"
    using decode_body_project [where p = snd and f = read_chunk and g = "read_wireBody read_openAIUsage False", OF read_chunk_project c] by simp
  show ?thesis using assms(1) by (cases s) (auto simp: ParseUsage_def surface_defs w consumeOpenAI_def c no_usage_def split: option.splits)
qed

lemma gemini_report:
  assumes "us_Present (ParseUsage SurfaceGenerateContent (Some j))" and "\<not> isl (decode_body read_geminiChunk ([], None) (Some j))"
    and "gemini_only (fst s)"
  shows "acc_result (fst (consumeGemini (Some j) s)) = ParseUsage SurfaceGenerateContent (Some j)"
proof -
  obtain ts m where c: "decode_body read_geminiChunk ([], None) (Some j) = Inr (ts, m)"
    using assms(2) by (cases "decode_body read_geminiChunk ([], None) (Some j)") auto
  have w: "decode_body (read_only ''usagemetadata'' read_gemini no_gemini) None (Some j) = Inr m"
    using decode_body_project [where p = snd and f = read_geminiChunk and g = "read_only ''usagemetadata'' read_gemini no_gemini",
        OF read_geminiChunk_project c] by simp
  have parsed: "ParseUsage SurfaceGenerateContent (Some j) = (case m of Some m \<Rightarrow> gemini_usage m | None \<Rightarrow> no_usage)"
    by (auto simp: ParseUsage_def surface_defs parseGeminiUsage_def w split: option.split)
  show ?thesis using assms(1,3) unfolding parsed
    by (cases s) (auto simp: consumeGemini_def c gemini_totals_result no_usage_def split: option.splits)
qed

lemma messages_report:
  assumes "us_Present (ParseUsage SurfaceMessages (Some j))"
  shows "acc_result (fst (consumeAnthropic (Some (report SurfaceMessages j)) s)) = ParseUsage SurfaceMessages (Some j)"
proof -
  obtain w where w: "decode_body (read_only ''usage'' read_anthropicUsage no_anthropic) None (Some j) = Inr (Some w)"
    and parsed: "ParseUsage SurfaceMessages (Some j) = anthropicUsage_usage w"
    using assms by (auto simp: ParseUsage_def surface_defs no_usage_def split: sum.splits option.splits)
  obtain fs where j: "j = JObj fs" "decode_with (read_only ''usage'' read_anthropicUsage no_anthropic) fs None = Inr (Some w)"
    using w by (auto simp: decode_body_def split: json.splits)
  have "decode_body read_anthropicEvent no_anthropicEvent (Some (report SurfaceMessages j)) =
      Inr (no_anthropicEvent\<lparr>ae_Type := ''message_start'', ae_Message := Some (Some w)\<rparr>)"
    by (simp add: report_def decode_body_def ascii_lower_def read_anthropicEvent_def j no_anthropicEvent_def)
  then show ?thesis by (cases s) (simp add: consumeAnthropic_def parsed)
qed

lemma responses_report:
  assumes "surface = SurfaceResponses \<or> surface = SurfaceResponsesCompact" and "us_Present (ParseUsage surface (Some j))"
    and "\<not> isl (decode_body read_responsesEvent no_responsesEvent (Some (report surface j)))"
  shows "acc_result (fst (consumeResponses (Some (report surface j)) s)) = ParseUsage surface (Some j)"
proof -
  have rep: "report surface j = JObj [(''type'', JStr ''response.completed''), (''response'', j)]"
    using assms(1) by (auto simp: report_def surface_defs)
  obtain fs where j: "j = JObj fs"
    using assms(1,2) by (cases j) (auto simp: ParseUsage_def surface_defs decode_body_def no_usage_def no_wireBody_def countGeneratedImages_def)
  obtain r where r: "decode_with read_response fs ([], no_wireBody) = Inr r"
    using assms(3)
    by (cases "decode_with read_response fs ([], no_wireBody)")
       (auto simp: rep [unfolded j] j decode_body_def ascii_lower_def read_responsesEvent_def no_responsesEvent_def)
  have e: "decode_body read_responsesEvent no_responsesEvent (Some (report surface j)) =
      Inr (no_responsesEvent\<lparr>re_Type := ''response.completed'', re_Response := Some r\<rparr>)"
    using r by (simp add: rep [unfolded j] j decode_body_def ascii_lower_def read_responsesEvent_def no_responsesEvent_def)
  have w: "decode_body (read_wireBody read_responsesUsage True) no_wireBody (Some j) = Inr (snd r)"
    using decode_with_project [where p = snd and f = read_response and g = "read_wireBody read_responsesUsage True", OF read_response_project r]
    by (simp add: decode_body_def j)
  have parsed: "ParseUsage surface (Some j) = (let images = countGeneratedImages (wb_Output (snd r)) in case wb_Usage (snd r) of
      None \<Rightarrow> if images = 0 then no_usage else addGeneratedImages no_usage images
    | Some w \<Rightarrow> addGeneratedImages (responsesUsage_usage w (wb_ServiceTier (snd r)) (wb_ToolUsage (snd r))) images)"
    using assms(1) by (auto simp: ParseUsage_def surface_defs w)
  then obtain w where "wb_Usage (snd r) = Some w"
    using assms(2) by (cases "wb_Usage (snd r)") (auto simp: addGeneratedImages_def no_usage_def Let_def split: if_splits)
  moreover have "re_ServiceTier no_responsesEvent = []" "re_ToolUsage no_responsesEvent = []" by (simp_all add: no_responsesEvent_def)
  moreover have "mergeToolCalls (toolCallCounts []) a = a" for a by (simp add: toolCallCounts_def mergeToolCalls_def List.map_filter_simps)
  ultimately show ?thesis by (cases s; cases r) (simp add: consumeResponses_def e completed_usage_def parsed Let_def)
qed

lemma consume_data_arms:
  "consume_data SurfaceChat = consumeOpenAI" "consume_data SurfaceMessages = consumeAnthropic" "consume_data SurfaceResponses = consumeResponses"
  "consume_data SurfaceResponsesCompact = consumeResponses" "consume_data SurfaceGenerateContent = consumeGemini"
  by (simp_all add: fun_eq_iff consume_data_def surface_defs)

lemma event_decodes_arms:
  "event_decodes SurfaceChat d \<Longrightarrow> \<not> isl (decode_body read_chunk ([], no_wireBody) (Some d))"
  "event_decodes SurfaceGenerateContent d \<Longrightarrow> \<not> isl (decode_body read_geminiChunk ([], None) (Some d))"
  "event_decodes SurfaceResponses d \<Longrightarrow> \<not> isl (decode_body read_responsesEvent no_responsesEvent (Some d))"
  "event_decodes SurfaceResponsesCompact d \<Longrightarrow> \<not> isl (decode_body read_responsesEvent no_responsesEvent (Some d))"
  by (simp_all add: event_decodes_def surface_defs)

lemma report_arms: "report SurfaceChat j = j" "report SurfaceGenerateContent j = j"
  by (simp_all add: report_def surface_defs)

lemma image_report:
  assumes "surface = SurfaceImages \<or> surface = SurfaceImagesEdit" and "us_Present (ParseUsage surface (Some j))"
  shows "acc_result (fst (consume_data surface (Some (report surface j)) s)) = ParseUsage surface (Some j)"
proof -
  have "report surface j = j" "ParseUsage surface (Some j) = ParseImageUsage (Some j)"
    "consume_data surface (Some j) s = (consumeImage (Some j) (fst s), snd s)"
    using assms(1) by (auto simp: report_def ParseUsage_def consume_data_def surface_defs)
  then show ?thesis using assms(2) by (simp add: consumeImage_def)
qed


section \<open>A stream, end to end\<close>

definition demo_chunk :: json where
  "demo_chunk = JObj [(''choices'', JArr []), (''usage'', JObj [(''prompt_tokens'', JNum 5), (''completion_tokens'', JNum 7)])]"

definition demo_parse :: "string \<Rightarrow> json option" where
  "demo_parse text = (if text = ''u'' then Some demo_chunk else None)"

definition demo_stream :: string where
  "demo_stream = ''data: t'' @ [LF, LF] @ ''data: u'' @ [LF, LF]"

lemma demo_pump:
  "case Pump demo_parse SurfaceChat True demo_stream ReadEOF [(3, Chunk True), (4, Chunk True), (5, Chunk True)] of
     Some (s, e) \<Rightarrow> e = None \<and> so_FirstByteSent (pu_out s) \<and> \<not> so_Canceled (pu_out s) \<and> \<not> so_Interrupted (pu_out s) \<and>
       us_Out (so_Usage (pu_out s)) = 7
   | None \<Rightarrow> False"
  by code_simp


theorem relay_returns_witness:
  "\<exists>r. Pump demo_parse SurfaceChat True demo_stream ReadFailed [(3, Chunk True), (4, Chunk True), (5, Deadline)] = Some r"
  by (rule relay_returns) code_simp


end
