(* ===== verification/StreamCalls.thy ===== *)
theory StreamCalls
  imports Calls Stream
begin

text \<open>
  The streaming pipeline, \<open>proxy/pipeline_stream.go\<close>: admission and hold as in a buffered call, a rotation over the
  candidates whose attempts relay the upstream's stream to the client, and the settlement of what was delivered.
  Shown: a stream that fails before its first byte costs nothing and sends nothing; what a client receives comes
  from one candidate; a stream that started is accounted once; and the timer of the first byte cuts longer streams off.
\<close>

section \<open>One attempt\<close>

definition imageTimeout :: duration where "imageTimeout = seconds 300"

definition firstByteBudgetFor :: "string \<Rightarrow> duration" where
  "firstByteBudgetFor surface = (if isImageSurface surface then imageTimeout else firstByteTimeout)"

text \<open>What a call comes to: a refusal, or a body with the way it ends and the schedule of its relay.\<close>

datatype stream_answer = SNotBuilt string | SNoAnswer transport_error | SRefused int string string
  | SStream string read_end "(duration \<times> select_case) list"

record stream_env =
  sm_call :: "Route \<Rightarrow> string \<Rightarrow> string \<Rightarrow> stream_answer \<times> duration"
  sm_flushable :: bool
  sm_marshal :: "json \<Rightarrow> string"
  sm_jitter :: "rat list"

record stream_state =
  ss_at :: attempt_state
  ss_outcome :: StreamOutcome
  ss_keyID :: uuid
  ss_byokKeyID :: uuid
  ss_sent :: string
  ss_jitter :: "rat list"

text \<open>
  The timer of the attempt's context. It is armed before the call and stopped when the relay has returned, so it
  runs during the relay too: a branch that would be taken after it fires is the context's.
\<close>

fun arm :: "duration \<Rightarrow> (duration \<times> select_case) list \<Rightarrow> (duration \<times> select_case) list" where
  "arm limit [] = [(limit, CtxDone)]"
| "arm limit ((wait, branch) # schedule) = (if wait < limit then (wait, branch) # arm (limit - wait) schedule else [(limit, CtxDone)])"

definition relay :: "(string \<Rightarrow> json option) \<Rightarrow> string \<Rightarrow> bool \<Rightarrow> duration \<Rightarrow> string \<Rightarrow> read_end \<Rightarrow> (duration \<times> select_case) list \<Rightarrow> pump_state" where
  "relay parse surface flushable limit body ending schedule =
     (case Pump parse surface flushable body ending (arm limit schedule) of Some (s, _) \<Rightarrow> s | None \<Rightarrow> pump_start)"

definition stream_credential :: "'s Breaker \<Rightarrow> attempt_env \<Rightarrow> Route \<Rightarrow> uuid \<Rightarrow> Request \<Rightarrow> 's circuits \<Rightarrow> attempt_state
    \<Rightarrow> (Error + uuid \<times> string \<times> string \<times> uuid) \<times> 's circuits \<times> attempt_state" where
  "stream_credential b env route orgID rq c x =
     (if uuid_valid (rq_PinnedProviderKeyID rq) \<or> uuid_valid (rq_PinnedOrgProviderKeyID rq)
      then (let (cred, c) = pinnedCredentialFor b env (at_now x) route orgID (request_pins.truncate rq) (at_orgKeys x) c in (cred, c, x))
      else (let (cred, c, cursors) = credentialFor b env (at_now x) route (at_byok x) c (at_cursors x) in (cred, c, x\<lparr>at_cursors := cursors\<rparr>)))"

definition stream_refused :: "attempt_env \<Rightarrow> Route \<Rightarrow> uuid \<Rightarrow> Request \<Rightarrow> uuid \<Rightarrow> uuid \<Rightarrow> int \<Rightarrow> string \<Rightarrow> string \<Rightarrow> attempt_state
    \<Rightarrow> Classification \<times> attempt_state" where
  "stream_refused env route orgID rq keyID byokKeyID status body retryAfter x =
     (let x = (if uuid_valid byokKeyID \<and> byokRejected status
               then (let x = markBYOKInvalid env orgID byokKeyID status x
                     in case forVendor (at_byok x) (r_ProviderVendor route) of
                          Some choice \<Rightarrow> if bc_Fallback choice then x\<lparr>at_byok := AList.delete (r_ProviderVendor route) (at_byok x)\<rparr> else x
                        | None \<Rightarrow> x)
               else x);
          pinned = (uuid_valid (rq_PinnedProviderKeyID rq) \<or> uuid_valid (rq_PinnedOrgProviderKeyID rq));
          cls = (classifyUpstreamStatus pinned status body retryAfter)\<lparr>c_keyID := keyID\<rparr>;
          cls = (if uuid_valid byokKeyID then cls\<lparr>c_CountsTowardHealth := False, c_keyID := None\<rparr> else cls)
      in (cls, x))"

definition timed_out :: Error where "timed_out = NewError GatewayUpstreamTimeout ''Upstream timed out''"
definition interrupted :: Error where "interrupted = NewError GatewayUpstreamTimeout ''The upstream stream was interrupted''"
definition returned_nothing :: Error where "returned_nothing = NewError GatewayUpstreamTimeout ''Upstream returned nothing''"

text \<open>The end of an attempt whose stream was relayed.\<close>

definition relayed :: "'s Breaker \<Rightarrow> Route \<Rightarrow> uuid \<Rightarrow> bool \<Rightarrow> instant \<Rightarrow> pump_state \<Rightarrow> 's circuits \<Rightarrow> stream_state
    \<Rightarrow> attemptOutcome \<times> 's circuits \<times> stream_state" where
  "relayed b route keyID byok t0 s c x =
     (let out = pu_out s; now = at_now (ss_at x); x = x\<lparr>ss_sent := ss_sent x @ pu_written s\<rparr>;
          hop = \<lparr>ao_cls = no_classification, ao_err = None, ao_keyID = keyID, ao_byok = byok, ao_committed = True, ao_budgetSpent = False,
                 ao_elapsed = now - t0\<rparr>
      in if so_FirstByteSent out \<and> \<not> so_Interrupted out \<and> \<not> so_Canceled out
         then (hop, RecordSuccess b now (r_ProviderID route) keyID c, x\<lparr>ss_outcome := out\<rparr>)
         else if so_Interrupted out \<or> so_Canceled out
         then (hop\<lparr>ao_cls := no_classification\<lparr>c_Class := ClassTerminal\<rparr>, ao_err := Some interrupted\<rparr>,
               if so_Interrupted out
               then RecordProviderFailure b now (next_jitter (ss_jitter x)) (r_ProviderID route) ''stream interrupted'' c else c,
               x\<lparr>ss_outcome := out, ss_jitter := (if so_Interrupted out then drop 1 (ss_jitter x) else ss_jitter x)\<rparr>)
         else (hop\<lparr>ao_cls := provider_failure\<lparr>c_keyID := keyID\<rparr>, ao_err := Some returned_nothing, ao_committed := False,
                   ao_budgetSpent := so_TimedOut out\<rparr>, c, x))"

definition stream_attempt :: "'s Breaker \<Rightarrow> attempt_env \<Rightarrow> stream_env \<Rightarrow> (string \<Rightarrow> json option) \<Rightarrow> uuid \<Rightarrow> Request \<Rightarrow> instant
    \<Rightarrow> ('s, stream_state) attempt" where
  "stream_attempt b env sm parse orgID rq streamStart route n c x =
     (let t0 = at_now (ss_at x);
          (cred, c, att) = stream_credential b env route orgID rq c (ss_at x); x = x\<lparr>ss_at := att\<rparr>;
          hop = (\<lambda>cls err keyID byok spent now. \<lparr>ao_cls = cls, ao_err = Some err, ao_keyID = keyID, ao_byok = byok, ao_committed = False,
                   ao_budgetSpent = spent, ao_elapsed = now - t0\<rparr>)
      in case cred of
           Inl gerr \<Rightarrow>
             (hop (if e_Code gerr = GatewayStateRouteUnavailable then no_classification\<lparr>c_Class := ClassTerminal\<rparr> else provider_failure)
                gerr None False False t0, c, x)
         | Inr (keyID, apiKey, baseURL, byokKeyID) \<Rightarrow>
             (let x = x\<lparr>ss_keyID := keyID, ss_byokKeyID := byokKeyID\<rparr>; byok = uuid_valid byokKeyID
              in case en_rewrite env route of
                   Some msg \<Rightarrow> (hop (no_classification\<lparr>c_Class := ClassClient\<rparr>) (NewError GatewayInvalidRequest msg) None False False t0, c, x)
                 | None \<Rightarrow>
                     (let (answer, elapsed) = sm_call sm route baseURL apiKey;
                          remaining = firstByteBudgetFor (rq_Surface rq) - (t0 - streamStart);
                          later = t0 + elapsed; x' = x\<lparr>ss_at := (ss_at x)\<lparr>at_now := later\<rparr>\<rparr>
                      in case answer of
                           SNotBuilt msg \<Rightarrow> (hop provider_failure (NewError GatewayInternal msg) None False False t0, c, x)
                         | _ \<Rightarrow>
                             if remaining \<le> 0 then (hop provider_failure timed_out keyID byok True t0, c, x)
                             else (case answer of
                                SNoAnswer te \<Rightarrow>
                                  (let cls = (ClassifyTransportError te)\<lparr>c_keyID := keyID\<rparr>
                                   in (hop cls (case c_Err cls of None \<Rightarrow> NewError GatewayInternal ''Request was cancelled'' | Some e \<Rightarrow> e)
                                         keyID byok (te = FirstByteBudget) later, c, x'))
                              | SRefused status body retryAfter \<Rightarrow>
                                  (let (cls, att) = stream_refused env route orgID rq keyID byokKeyID status body retryAfter (ss_at x')
                                   in ((hop cls interrupted keyID byok False later)\<lparr>ao_err := c_Err cls\<rparr>, c, x'\<lparr>ss_at := att\<rparr>))
                              | SStream body ending schedule \<Rightarrow>
                                  (let s = relay parse (rq_Surface rq) (sm_flushable sm) (remaining - elapsed) body ending schedule
                                   in relayed b route keyID byok t0 s c (x'\<lparr>ss_at := (ss_at x')\<lparr>at_now := later + pu_elapsed s\<rparr>\<rparr>))))))"

section \<open>The call\<close>

definition stream_rewrites :: "('c, 's, 'l, 'b) gateway_env \<Rightarrow> Request \<Rightarrow> CatalogRoute list \<Rightarrow> Route \<Rightarrow> string option" where
  "stream_rewrites env rq routes route =
     (case find (\<lambda>r. Route.truncate r = route) routes of
        None \<Rightarrow> None
      | Some r \<Rightarrow>
          (case RewriteRequest (rq_Surface rq) (ge_json env (rq_Body rq)) (r_ProviderModelID r) True (r_Transport r) of
             Inl _ \<Rightarrow> Some ''proxy: invalid JSON in request body'' | Inr _ \<Rightarrow> None))"

definition with_attempt :: "'y \<Rightarrow> ('s, 'l, 'x) pipeline_state \<Rightarrow> ('s, 'l, 'y) pipeline_state" where
  "with_attempt y st = \<lparr>ps_circuits = ps_circuits st, ps_budget = ps_budget st, ps_semaphores = ps_semaphores st, ps_limiter = ps_limiter st,
     ps_attempt = y, ps_draws = ps_draws st, ps_jitter = ps_jitter st, ps_probe_requests = ps_probe_requests st\<rparr>"

definition stream_begin :: "stream_env \<Rightarrow> instant \<Rightarrow> byokChoices \<Rightarrow> attempt_state \<Rightarrow> stream_state" where
  "stream_begin sm now byok att = \<lparr>ss_at = att\<lparr>at_now := now, at_byok := byok\<rparr>, ss_outcome = no_outcome, ss_keyID = None, ss_byokKeyID = None,
     ss_sent = [], ss_jitter = sm_jitter sm\<rparr>"

definition stream_rotation :: "('c, 's, 'l, 'b) gateway_env \<Rightarrow> stream_env \<Rightarrow> instant \<Rightarrow> prepared \<Rightarrow> Request \<Rightarrow> ('c, 's, 'l, 'b) gateway
    \<Rightarrow> (rotationResult \<times> stream_state) \<times> ('c, 's, 'l, 'b) gateway" where
  "stream_rotation env sm now prep rq g =
     (let routes = re_Routes (pr_res prep); cfg = ge_config env;
          attempt = stream_attempt (pc_breaker cfg) ((ge_attempt env)\<lparr>en_rewrite := stream_rewrites env rq routes\<rparr>) sm (ge_json env)
                      (id_OrgID (pr_id prep)) rq now;
          (rot, st) = rotate cfg attempt (case surface_endpoint (rq_Surface rq) of None \<Rightarrow> [] | Some e \<Rightarrow> e) (pr_inputTokens prep) now
                        (map Route.truncate routes) (with_attempt (stream_begin sm now (pr_byok prep) (ps_attempt (gw_pipe g))) (gw_pipe g))
      in ((rot, ps_attempt st), g\<lparr>gw_pipe := with_attempt (ss_at (ps_attempt st)) st\<rparr>))"

definition streamStatus :: "StreamOutcome \<Rightarrow> string" where
  "streamStatus out = (if so_Canceled out then ''canceled'' else if so_Interrupted out then ''upstream_error'' else ''ok'')"

text \<open>The usage of a stream, estimated from the text it carried when the upstream reports none.\<close>

definition stream_usage :: "prepared \<Rightarrow> StreamOutcome \<Rightarrow> Usage" where
  "stream_usage prep out =
     (if us_Present (so_Usage out) then so_Usage out
      else no_usage\<lparr>us_In := pr_inputTokens prep, us_Out := EstimateTokens (so_Text out), us_ToolCalls := us_ToolCalls (so_Usage out)\<rparr>)"

definition stream_args :: "prepared \<Rightarrow> Request \<Rightarrow> string \<Rightarrow> uuid \<Rightarrow> rotationResult \<Rightarrow> stream_state \<Rightarrow> duration \<Rightarrow> Quote \<Rightarrow> Usage \<Rightarrow> bool \<Rightarrow> bool
    \<Rightarrow> settleArgs" where
  "stream_args prep rq reqID holdID rot x elapsed quote usage estimated fallback =
     \<lparr>sa_id = pr_id prep, sa_requestID = reqID, sa_quote = quote, sa_usage = usage, sa_units = pr_units prep, sa_estimated = estimated,
      sa_model = re_Model (pr_res prep), sa_modelPricing = no_pricing, sa_route = rr_route rot, sa_in = rq, sa_pricing = pr_pricing prep,
      sa_priceTable = pr_priceTable prep, sa_pricingIssue = [], sa_pricingFallback = fallback, sa_httpStatus = 200,
      sa_durationMs = millis elapsed, sa_status = streamStatus (ss_outcome x), sa_ttfbMs = millis (so_TTFB (ss_outcome x)),
      sa_attempts = to_int32 (int (rr_attempts rot)), sa_byok = uuid_valid (ss_byokKeyID x), sa_orgProviderKeyID = ss_byokKeyID x,
      sa_routeID = routeID rot, sa_trail = Some (trailJSON rot),
      sa_providerKeyID = sharedKeyIfUsed (uuid_valid (ss_byokKeyID x)) (ss_keyID x), sa_holdID = holdID, sa_utility = False\<rparr>"

definition settle_stream :: "('c, 's, 'l, 'b) gateway_env \<Rightarrow> 'b settle_env \<Rightarrow> instant \<Rightarrow> duration \<Rightarrow> prepared \<Rightarrow> Request \<Rightarrow> string \<Rightarrow> uuid
    \<Rightarrow> rotationResult \<Rightarrow> stream_state \<Rightarrow> ('c, 's, 'l, 'b) gateway \<Rightarrow> ('c, 's, 'l, 'b) gateway" where
  "settle_stream env se now elapsed prep rq reqID holdID rot x g =
     (let route = route_or_zero id zero_route (rr_route rot); rates = ratesForRoute (pr_pricing prep) route;
          estimated = (\<not> us_Present (so_Usage (ss_outcome x))); usage = stream_usage prep (ss_outcome x);
          args = stream_args prep rq reqID holdID rot x elapsed
      in if unitBilled prep
         then put_books (record_unsettled env se now (args no_quote (no_usage\<lparr>us_Present := True\<rparr>) False True) no_quote)
                (alertUnpriced env now (pr_modelSlug prep) g)
         else
           let bill = holdIsTheBill (rq_Surface rq) estimated;
               computed = quoteFor (ForBilling (pr_priceTable prep) (IsFree (re_ModelPricing (pr_res prep)))) (pr_priceTable prep)
                            (BillingTokens usage) (uuid_valid (ss_byokKeyID x)) rates (pi_byokFeeBps (pr_pricing prep));
               pricingErr = (if bill then None else case computed of Inl e \<Rightarrow> Some e | Inr _ \<Rightarrow> None);
               quote = (if bill then fallbackQuote (pr_estNano prep) rates
                        else case computed of Inr q \<Rightarrow> q | Inl _ \<Rightarrow> fallbackQuote (pr_estNano prep) rates);
               a = args quote usage estimated (pricingErr \<noteq> None)
           in case advanced_price_missing pricingErr of
                Some issue \<Rightarrow> RecordPricingMissing env se (a\<lparr>sa_pricingIssue := issue\<rparr>) (pr_estNano prep) g
              | None \<Rightarrow> settle_or_queue env se now a g)"

text \<open>Answers the error, if nothing was sent, and all the bytes the client was sent.\<close>

definition RunStream :: "('c, 's, 'l, 'b) gateway_env \<Rightarrow> 'b settle_env \<Rightarrow> stream_env \<Rightarrow> instant \<Rightarrow> Request \<Rightarrow> string \<Rightarrow> ('c, 's, 'l, 'b) gateway
    \<Rightarrow> (Error option \<times> string) \<times> ('c, 's, 'l, 'b) gateway" where
  "RunStream env se sm now rq surface g =
     (let rq = rq\<lparr>rq_Stream := True\<rparr>; reqID = requestID se rq
      in case Prepare env now rq g of
           ((prep, Some gerr), g) \<Rightarrow> ((Some gerr, []), RecordRejection env se prep rq reqID gerr 0 g)
         | ((prep, None), g) \<Rightarrow>
             (case pinAffinity env now prep rq g of
                (Inl gerr, g) \<Rightarrow> ((Some gerr, []), RecordRejection env se prep rq reqID gerr 0 g)
              | (Inr (prep, rq), g) \<Rightarrow>
                  (case ReserveFor se (pr_id prep) reqID (pr_estNano prep) (holdTTLFor (rq_Surface rq)) g of
                     (Inl gerr, g) \<Rightarrow> ((Some gerr, []), g)
                   | (Inr holdID, g) \<Rightarrow>
                       (let ((rot, x), g) = stream_rotation env sm now prep rq g; later = clock g; out = ss_outcome x
                        in if \<not> so_FirstByteSent out
                           then (let gerr = (case rr_err rot of None \<Rightarrow> returned_nothing | Some e \<Rightarrow> e)
                                 in ((Some gerr, ss_sent x),
                                     logFailure env se (pr_id prep) rq (pr_modelSlug prep) (rr_route rot) rot reqID gerr (later - now)
                                       (release_hold se (id_OrgID (pr_id prep)) reqID g)))
                           else (let up = no_upstream\<lparr>ur_keyID := ss_keyID x, ur_byok := uuid_valid (ss_byokKeyID x), ur_byokKeyID := ss_byokKeyID x\<rparr>;
                                     g = (if so_ResourceID out \<noteq> [] then rememberAffinityID env later prep rq (so_ResourceID out) up rot g else g);
                                     tail = (if so_Interrupted out then StreamErrorEvent (sm_marshal sm) surface ''The upstream stream was interrupted''
                                             else [])
                                 in ((None, ss_sent x @ tail), settle_stream env se later (later - now) prep rq reqID holdID rot x g))))))"

section \<open>The relay under its timer\<close>

lemma arm_returns: "\<exists>r. pump_loop parse surface ending (arm limit schedule) chunks s = Some r"
  by (induction limit schedule arbitrary: chunks s rule: arm.induct) (auto simp: Let_def split: select_case.split list.split)

lemma relay_Pump: "\<exists>e. Pump parse surface flushable body ending (arm limit schedule) = Some (relay parse surface flushable limit body ending schedule, e)"
  using arm_returns [of parse surface ending limit schedule "readUpstream body" pump_start]
  by (auto simp: relay_def Pump_def split: prod.split)

lemma relay_written:
  assumes "s = relay parse surface flushable limit body ending schedule"
  shows "prefix (pu_written s) body" and "so_FirstByteSent (pu_out s) \<or> pu_written s = []"
    and "so_FirstByteSent (pu_out s) \<and> \<not> so_Canceled (pu_out s) \<and> \<not> so_Interrupted (pu_out s) \<Longrightarrow> pu_written s = body"
  using relay_Pump [of parse surface flushable body ending limit schedule] Pump_written assms by metis+

lemma arm_elapsed:
  "pump_loop parse surface ending (arm limit schedule) chunks s = Some (s', e) \<Longrightarrow> pu_elapsed s' \<le> pu_elapsed s + limit"
proof (induction limit schedule arbitrary: chunks s rule: arm.induct)
  case (2 limit wait branch schedule)
  show ?case
  proof (cases "wait < limit \<and> branch = Chunk True \<and> chunks \<noteq> []")
    case True
    then obtain c cs where chunks: "chunks = c # cs" by (cases chunks) auto
    then show ?thesis using 2 True by (fastforce simp: Let_def)
  next
    case False
    then show ?thesis using 2(2) by (auto simp: Let_def split: if_splits select_case.splits list.splits)
  qed
qed (auto simp: Let_def)

lemma arm_cuts:
  assumes "\<forall>p \<in> set schedule. snd p = Chunk True" and "length schedule \<le> length chunks"
    and "pump_loop parse surface ending (arm limit schedule) chunks s = Some (s', e)"
  shows "so_Canceled (pu_out s') \<and> pu_elapsed s' = pu_elapsed s + limit"
  using assms
proof (induction limit schedule arbitrary: chunks s rule: arm.induct)
  case (2 limit wait branch schedule)
  obtain c cs where chunks: "chunks = c # cs" using 2(3) by (cases chunks) auto
  show ?case
  proof (cases "wait < limit")
    case True
    let ?s = "write_chunk parse surface c (commit_header (s\<lparr>pu_elapsed := pu_elapsed s + wait\<rparr>))"
    have "pump_loop parse surface ending (arm (limit - wait) schedule) cs ?s = Some (s', e)"
      using 2(2,4) True chunks by (simp add: Let_def)
    from 2(1) [OF True _ _ this] show ?thesis using 2(2,3) chunks by simp
  next
    case False
    then show ?thesis using 2(4) by (auto simp: Let_def)
  qed
qed (auto simp: Let_def)


section \<open>One candidate per stream\<close>

text \<open>A rotation whose attempts stay in \<open>P\<close> until one commits, and leaves \<open>Q\<close>.\<close>

lemma applyBreaker_attempt [simp]: "ps_attempt (applyBreaker cfg now route ep cls byok st) = ps_attempt st"
  by (simp add: applyBreaker_def split: FailureClass.split)

lemma rotate_step_commits:
  assumes "\<And>n c x out c' x'. P x \<Longrightarrow> attempt route n c x = (out, c', x') \<Longrightarrow> P x' \<or> (ao_err out = None \<or> ao_committed out) \<and> Q route x'"
    and "P (ps_attempt st)"
  shows "case rotate_step cfg attempt ep est now route res st of
      Inl (_, res', st') \<Rightarrow> P (ps_attempt st') \<or> rr_route res' = Some route \<and> Q route (ps_attempt st')
    | Inr (_, _, st') \<Rightarrow> P (ps_attempt st')"
  using assms(2)
  by (auto simp: rotate_step_def Let_def split: prod.split option.split dest: assms(1) [OF assms(2)])

lemma rotate_loop_commits:
  assumes step: "\<And>route n c x out c' x'. route \<in> R \<Longrightarrow> P x \<Longrightarrow> attempt route n c x = (out, c', x') \<Longrightarrow>
      P x' \<or> (ao_err out = None \<or> ao_committed out) \<and> Q route x'"
    and "set routes \<subseteq> R" and "P (ps_attempt st)" and "rotate_loop cfg attempt ep est now routes res st = (ret, res', st')"
  shows "P (ps_attempt st') \<or> (\<exists>route \<in> R. rr_route res' = Some route \<and> Q route (ps_attempt st'))"
  using assms(2-4)
proof (induction routes arbitrary: now res st)
  case (Cons route rest)
  have R: "route \<in> R" using Cons.prems(1) by simp
  have commits: "case rotate_step cfg attempt ep est now route res st of
      Inl (_, res', st') \<Rightarrow> P (ps_attempt st') \<or> rr_route res' = Some route \<and> Q route (ps_attempt st')
    | Inr (_, _, st') \<Rightarrow> P (ps_attempt st')"
    by (rule rotate_step_commits) (use step [OF R] Cons.prems(2) in blast)+
  show ?case
  proof (cases "rotate_step cfg attempt ep est now route res st")
    case (Inl d)
    then show ?thesis using commits Cons.prems(3) R by auto
  next
    case (Inr d)
    obtain now2 res2 st2 where d: "d = (now2, res2, st2)" by (metis prod_cases3)
    then show ?thesis using Inr commits Cons by auto
  qed
qed simp

lemma rotate_commits:
  assumes step: "\<And>route n c x out c' x'. route \<in> set candidates \<Longrightarrow> P x \<Longrightarrow> attempt route n c x = (out, c', x') \<Longrightarrow>
      P x' \<or> (ao_err out = None \<or> ao_committed out) \<and> Q route x'"
    and "P (ps_attempt st)" and "rotate cfg attempt ep est now candidates st = (res, st')"
  shows "P (ps_attempt st') \<or> (\<exists>route \<in> set candidates. rr_route res = Some route \<and> Q route (ps_attempt st'))"
proof -
  obtain usable c where u: "availableRoutes (pc_breaker cfg) now candidates (ps_circuits st) = (usable, c)" by (metis surj_pair)
  obtain ordered draws where o: "Order (ps_draws st) usable = (ordered, draws)" by (metis surj_pair)
  have "set ordered = set usable" using arg_cong [OF o, of fst] mset_order_groups
    by (auto simp: Order_def split: if_splits) (metis mset_eq_setD)+
  then have sub: "set ordered \<subseteq> set candidates" using availableRoutes_subset u by (metis fst_conv)
  let ?st = "st\<lparr>ps_budget := StartRequest (ps_budget st), ps_circuits := c, ps_draws := draws\<rparr>"
  obtain ret res2 st2 where l: "rotate_loop cfg attempt ep est now ordered zero_rotation ?st = (ret, res2, st2)" by (metis prod_cases3)
  have "P (ps_attempt ?st)" using assms(2) by simp
  then have "P (ps_attempt st2) \<or> (\<exists>route \<in> set candidates. rr_route res2 = Some route \<and> Q route (ps_attempt st2))"
    by (intro rotate_loop_commits [where R = "set candidates" and Q = Q, OF _ sub _ l]) (use step in blast)+
  then show ?thesis using assms(2,3) u o l by (auto simp: rotate_def Let_def split: if_splits)
qed

text \<open>Before an attempt has committed nothing was sent; one that commits sent a part of its own stream.\<close>

definition untouched :: "stream_state \<Rightarrow> bool" where
  "untouched x \<longleftrightarrow> ss_sent x = [] \<and> ss_outcome x = no_outcome"

definition streamed_from :: "stream_env \<Rightarrow> Route \<Rightarrow> stream_state \<Rightarrow> bool" where
  "streamed_from sm route x \<longleftrightarrow>
     (\<exists>baseURL apiKey body ending schedule elapsed. sm_call sm route baseURL apiKey = (SStream body ending schedule, elapsed) \<and>
        prefix (ss_sent x) body \<and> (so_FirstByteSent (ss_outcome x) \<or> ss_sent x = []) \<and>
        (so_FirstByteSent (ss_outcome x) \<and> \<not> so_Canceled (ss_outcome x) \<and> \<not> so_Interrupted (ss_outcome x) \<longrightarrow> ss_sent x = body))"

lemma untouched_update [simp]:
  "untouched (x\<lparr>ss_at := a\<rparr>) = untouched x" "untouched (x\<lparr>ss_keyID := k\<rparr>) = untouched x" "untouched (x\<lparr>ss_byokKeyID := k\<rparr>) = untouched x"
  by (simp_all add: untouched_def)

lemma relayed_commits:
  assumes "sm_call sm route baseURL apiKey = (SStream body ending schedule, elapsed)" and "s = relay parse surface fl limit body ending schedule"
    and "untouched x" and "relayed b route keyID byok t0 s c x = (out, c', x')"
  shows "untouched x' \<or> (ao_err out = None \<or> ao_committed out) \<and> streamed_from sm route x'"
proof -
  note w = relay_written [OF assms(2)]
  show ?thesis
  proof (cases "so_FirstByteSent (pu_out s) \<or> so_Interrupted (pu_out s) \<or> so_Canceled (pu_out s)")
    case True
    then have x': "ss_sent x' = pu_written s" "ss_outcome x' = pu_out s" and out: "ao_committed out"
      using assms(3,4) by (auto simp: relayed_def untouched_def Let_def split: if_splits)
    have "streamed_from sm route x'" unfolding streamed_from_def x' using w assms(1) by blast
    then show ?thesis using out by blast
  next
    case False
    then show ?thesis using assms(3,4) w(2) by (auto simp: relayed_def untouched_def Let_def split: if_splits)
  qed
qed

lemma stream_attempt_commits:
  assumes "untouched x" and "stream_attempt b env sm parse orgID rq start route n c x = (out, c', x')"
  shows "untouched x' \<or> (ao_err out = None \<or> ao_committed out) \<and> streamed_from sm route x'"
proof -
  obtain cred c1 att where cr: "stream_credential b env route orgID rq c (ss_at x) = (cred, c1, att)" by (metis prod_cases3)
  note run = assms(2) [unfolded stream_attempt_def Let_def cr prod.case]
  show ?thesis
  proof (cases cred)
    case (Inl gerr)
    then show ?thesis using run assms(1) by auto
  next
    case (Inr cr)
    obtain keyID apiKey baseURL byokKeyID where cr: "cr = (keyID, apiKey, baseURL, byokKeyID)" by (metis prod_cases4)
    obtain answer elapsed where call: "sm_call sm route baseURL apiKey = (answer, elapsed)" by (metis surj_pair)
    note run = run [unfolded Inr sum.case cr prod.case call]
    show ?thesis
    proof (cases "\<exists>body ending schedule. answer = SStream body ending schedule")
      case True
      then obtain body ending schedule where a: "answer = SStream body ending schedule" by blast
      show ?thesis
        using run assms(1) unfolding a
        by (auto split: option.splits if_splits dest: relayed_commits [OF call [unfolded a] refl, rotated])
    next
      case False
      then show ?thesis using run assms(1) by (auto split: option.splits if_splits stream_answer.splits prod.splits)
    qed
  qed
qed

lemma stream_rotation_sends:
  assumes "stream_rotation env sm now prep rq g = ((rot, x), g')"
  shows "untouched x \<or> (\<exists>route \<in> Route.truncate ` set (re_Routes (pr_res prep)). rr_route rot = Some route \<and> streamed_from sm route x)"
proof -
  define attempt where "attempt = stream_attempt (pc_breaker (ge_config env)) ((ge_attempt env)\<lparr>en_rewrite := stream_rewrites env rq (re_Routes (pr_res prep))\<rparr>)
    sm (ge_json env) (id_OrgID (pr_id prep)) rq now"
  define st where "st = with_attempt (stream_begin sm now (pr_byok prep) (ps_attempt (gw_pipe g))) (gw_pipe g)"
  obtain st' where "rotate (ge_config env) attempt (case surface_endpoint (rq_Surface rq) of None \<Rightarrow> [] | Some e \<Rightarrow> e) (pr_inputTokens prep) now
      (map Route.truncate (re_Routes (pr_res prep))) st = (rot, st')" and x: "x = ps_attempt st'"
    using assms by (auto simp: stream_rotation_def attempt_def st_def Let_def split: prod.splits)
  moreover have "untouched (ps_attempt st)" by (simp add: st_def with_attempt_def stream_begin_def untouched_def)
  moreover have "untouched x' \<or> (ao_err out = None \<or> ao_committed out) \<and> streamed_from sm route x'"
    if "untouched x" "attempt route n c x = (out, c', x')" for route n c x out c' x'
    using stream_attempt_commits that unfolding attempt_def by blast
  ultimately have "untouched (ps_attempt st') \<or> (\<exists>route \<in> set (map Route.truncate (re_Routes (pr_res prep))). rr_route rot = Some route \<and>
      streamed_from sm route (ps_attempt st'))"
    by (intro rotate_commits [where Q = "streamed_from sm"]) auto
  then show ?thesis by (simp add: x)
qed

section \<open>How a streamed call ends\<close>

lemma RunStream_cases:
  assumes run: "RunStream env se sm now rq surface g = ((e, sent), g')" and rq: "rq0 = rq\<lparr>rq_Stream := True\<rparr>" and id: "reqID = requestID se rq0"
  obtains (refused) prep gerr g1 where "Prepare env now rq0 g = ((prep, Some gerr), g1)" "g' = RecordRejection env se prep rq0 reqID gerr 0 g1"
      "e = Some gerr" "sent = []"
  | (unpinned) prep gerr g1 g2 where "Prepare env now rq0 g = ((prep, None), g1)" "pinAffinity env now prep rq0 g1 = (Inl gerr, g2)"
      "g' = RecordRejection env se prep rq0 reqID gerr 0 g2" "e = Some gerr" "sent = []"
  | (unheld) prep g1 prep' rq' g2 gerr where "Prepare env now rq0 g = ((prep, None), g1)" "pinAffinity env now prep rq0 g1 = (Inr (prep', rq'), g2)"
      "ReserveFor se (pr_id prep') reqID (pr_estNano prep') (holdTTLFor (rq_Surface rq')) g2 = (Inl gerr, g')" "e = Some gerr" "sent = []"
  | (silent) prep g1 prep' rq' g2 holdID g3 rot x g4 gerr where "Prepare env now rq0 g = ((prep, None), g1)"
      "pinAffinity env now prep rq0 g1 = (Inr (prep', rq'), g2)"
      "ReserveFor se (pr_id prep') reqID (pr_estNano prep') (holdTTLFor (rq_Surface rq')) g2 = (Inr holdID, g3)"
      "stream_rotation env sm now prep' rq' g3 = ((rot, x), g4)" "\<not> so_FirstByteSent (ss_outcome x)" "e = Some gerr" "sent = ss_sent x"
      "g' = logFailure env se (pr_id prep') rq' (pr_modelSlug prep') (rr_route rot) rot reqID gerr (clock g4 - now)
        (release_hold se (id_OrgID (pr_id prep')) reqID g4)"
  | (started) prep g1 prep' rq' g2 holdID g3 rot x g4 g5 tail where "Prepare env now rq0 g = ((prep, None), g1)"
      "pinAffinity env now prep rq0 g1 = (Inr (prep', rq'), g2)"
      "ReserveFor se (pr_id prep') reqID (pr_estNano prep') (holdTTLFor (rq_Surface rq')) g2 = (Inr holdID, g3)"
      "stream_rotation env sm now prep' rq' g3 = ((rot, x), g4)" "so_FirstByteSent (ss_outcome x)" "e = None" "sent = ss_sent x @ tail"
      "tail = (if so_Interrupted (ss_outcome x) then StreamErrorEvent (sm_marshal sm) surface ''The upstream stream was interrupted'' else [])"
      "accounts g5 = accounts g4" "g' = settle_stream env se (clock g4) (clock g4 - now) prep' rq' reqID holdID rot x g5"
proof -
  obtain prep pe g1 where P: "Prepare env now rq0 g = ((prep, pe), g1)" by (metis surj_pair)
  obtain r g2 where A: "pinAffinity env now prep rq0 g1 = (r, g2)" by (metis surj_pair)
  note run = run [unfolded RunStream_def Let_def, folded rq, folded id, unfolded P prod.case]
  show thesis
  proof (cases pe)
    case (Some err)
    with run P show thesis by (intro refused) auto
  next
    case pe: None
    note run = run [unfolded pe option.case A prod.case]
    show thesis
    proof (cases r)
      case (Inl err)
      with run P A pe show thesis by (intro unpinned) auto
    next
      case (Inr pr)
      obtain prep' rq' where pr: "pr = (prep', rq')" by (cases pr)
      obtain h g3 where H: "ReserveFor se (pr_id prep') reqID (pr_estNano prep') (holdTTLFor (rq_Surface rq')) g2 = (h, g3)"
        by (metis surj_pair)
      obtain rot x g4 where X: "stream_rotation env sm now prep' rq' g3 = ((rot, x), g4)" by (metis surj_pair)
      note known = P [unfolded pe] A [unfolded Inr pr] H
      note run = run [unfolded Inr pr sum.case prod.case H]
      show thesis
      proof (cases h)
        case (Inl err)
        with run known show thesis by (intro unheld) auto
      next
        case (Inr holdID)
        note run = run [unfolded Inr sum.case prod.case X]
        show thesis
        proof (cases "so_FirstByteSent (ss_outcome x)")
          case False
          show thesis by (rule silent [OF known(1,2) known(3) [unfolded Inr] X False]) (use run False in auto)
        next
          case True
          define g5 where "g5 = (if so_ResourceID (ss_outcome x) \<noteq> []
            then rememberAffinityID env (clock g4) prep' rq' (so_ResourceID (ss_outcome x))
              (no_upstream\<lparr>ur_keyID := ss_keyID x, ur_byok := uuid_valid (ss_byokKeyID x), ur_byokKeyID := ss_byokKeyID x\<rparr>) rot g4 else g4)"
          have acc: "accounts g5 = accounts g4" by (simp add: g5_def rememberAffinityID_def)
          show thesis
            by (rule started [OF known(1,2) known(3) [unfolded Inr] X True _ _ refl acc]) (use run [folded g5_def] True in auto)
        qed
      qed
    qed
  qed
qed

text \<open>The request as admission leaves it.\<close>

definition admits :: "('c, 's, 'l, 'b) gateway_env \<Rightarrow> instant \<Rightarrow> Request \<Rightarrow> ('c, 's, 'l, 'b) gateway \<Rightarrow> prepared \<Rightarrow> Request \<Rightarrow> bool" where
  "admits env now rq g prep rq' \<longleftrightarrow>
     (\<exists>prep0 g1 g2. Prepare env now rq g = ((prep0, None), g1) \<and> pinAffinity env now prep0 rq g1 = (Inr (prep, rq'), g2))"

text \<open>
  C6. What a client of a stream receives comes from one upstream. Whatever candidates were tried before and
  however the call ends, the bytes sent are the beginning of the stream of one candidate of the resolved model -- all of it
  unless the stream was cut -- followed at most by the event that says the stream was interrupted; and a call that
  answers with an error has sent nothing.
\<close>

theorem stream_comes_from_one_candidate:
  assumes "RunStream env se sm now rq surface g = ((e, sent), g')"
  shows "sent = [] \<or>
    (e = None \<and> (\<exists>prep rq' route baseURL apiKey body ending schedule elapsed written tail.
       admits env now (rq\<lparr>rq_Stream := True\<rparr>) g prep rq' \<and> route \<in> Route.truncate ` set (re_Routes (pr_res prep)) \<and>
       sm_call sm route baseURL apiKey = (SStream body ending schedule, elapsed) \<and> sent = written @ tail \<and> prefix written body \<and>
       (tail = [] \<or> tail = StreamErrorEvent (sm_marshal sm) surface ''The upstream stream was interrupted'')))"
  using assms refl refl
proof (cases rule: RunStream_cases)
  case (silent prep g1 prep' rq' g2 holdID g3 rot x g4 gerr)
  then have "sent = []" using stream_rotation_sends [OF silent(4)] by (auto simp: untouched_def streamed_from_def)
  then show ?thesis by simp
next
  case (started prep g1 prep' rq' g2 holdID g3 rot x g4 g5 tail)
  then have "\<not> untouched x" by (auto simp: untouched_def no_outcome_def)
  then obtain route where r: "route \<in> Route.truncate ` set (re_Routes (pr_res prep'))" "streamed_from sm route x"
    using stream_rotation_sends [OF started(4)] by blast
  obtain baseURL apiKey body ending schedule elapsed where c: "sm_call sm route baseURL apiKey = (SStream body ending schedule, elapsed)"
    "prefix (ss_sent x) body" using r(2) unfolding streamed_from_def by blast
  have a: "admits env now (rq\<lparr>rq_Stream := True\<rparr>) g prep' rq'" using started(1,2) unfolding admits_def by blast
  have "tail = [] \<or> tail = StreamErrorEvent (sm_marshal sm) surface ''The upstream stream was interrupted''" using started(8) by simp
  then show ?thesis using started(6,7) a r(1) c by blast
qed simp_all

section \<open>What a streamed call costs\<close>

lemma balance_stream_rotation: "stream_rotation env sm now prep rq g = (r, g') \<Longrightarrow> balance spent g' = balance spent g"
  by (rule balance_accounts) (auto simp: stream_rotation_def Let_def split: prod.splits)

text \<open>
  C7. A stream that never started costs nothing. A streamed call that answers with an error -- refused at a gate,
  without a hold, or after every candidate failed before its first byte -- has sent the client nothing, moved
  no key's spend, queued nothing, and logged only rows that charge nothing; over any ledger that keeps the contract.
\<close>

theorem silent_stream_costs_nothing:
  assumes "settlement (se_settler se) spent" and "RunStream env se sm now rq surface g = ((Some gerr, sent), g')"
  shows "costs_nothing spent g g' \<and> sent = []"
proof -
  note hold = balance_Reserve [OF assms(1)]
  from assms(2) refl refl show ?thesis
  proof (cases rule: RunStream_cases)
    case (refused prep e g1)
    show ?thesis unfolding refused(2,4) using costs_nothing_after [OF balance_Prepare [OF refused(1)] costs_nothing_rejection] by simp
  next
    case (unpinned prep e g1 g2)
    have "balance spent g2 = balance spent g" using balance_Prepare [OF unpinned(1)] balance_pin [OF unpinned(2)] by metis
    from costs_nothing_after [OF this costs_nothing_rejection] show ?thesis unfolding unpinned(3,5) by simp
  next
    case (unheld prep g1 prep' rq' g2 e)
    then show ?thesis
      using balance_Prepare [OF unheld(1)] balance_pin [OF unheld(2)] hold [OF unheld(3)] by (auto intro: costs_nothing_balance)
  next
    case (silent prep g1 prep' rq' g2 holdID g3 rot x g4 e)
    have "balance spent g4 = balance spent g"
      using balance_Prepare [OF silent(1)] balance_pin [OF silent(2)] hold [OF silent(3)] balance_stream_rotation [OF silent(4)] by simp
    then have "balance spent (release_hold se (id_OrgID (pr_id prep')) (requestID se (rq\<lparr>rq_Stream := True\<rparr>)) g4) = balance spent g"
      using settlement.balance_void [OF assms(1) refl] by metis
    from costs_nothing_after [OF this costs_nothing_failure] have "costs_nothing spent g g'" unfolding silent(8) .
    moreover have "sent = []" using stream_rotation_sends [OF silent(4)] silent(5,7) by (auto simp: untouched_def streamed_from_def)
    ultimately show ?thesis by simp
  next
    case started
    then show ?thesis by simp
  qed
qed

text \<open>Admission refuses to stream what is billed by the unit.\<close>

lemma prepare_units_streamed:
  assumes "prepare_units env now rq out g = ((prep, None), g')" and "rq_Stream rq"
  shows "rq_Surface rq = SurfaceVideo"
proof (rule ccontr)
  assume "rq_Surface rq \<noteq> SurfaceVideo"
  then show False
    using assms by (auto simp: prepare_units_def syncUnits_def isImageSurface_def Let_def split: prod.splits if_splits sum.splits)
qed

lemma prepare_priced_streamed:
  assumes "prepare_priced env db now rq out g = ((prep, None), g')" and "rq_Stream rq" and "rq_Surface rq \<noteq> SurfaceVideo"
  shows "\<not> unitBilled prep"
  using assms prepare_units_streamed [of env now rq] prepare_tokens_ok(1) [of env now rq]
  by (auto simp: prepare_priced_def Let_def split: sum.splits if_splits option.splits) (metis unitBilled_update)+

lemma Prepare_streamed:
  assumes "Prepare env now rq g = ((prep, None), g')" and "rq_Stream rq" and "rq_Surface rq \<noteq> SurfaceVideo" and "\<not> rq_Utility rq"
  shows "\<not> unitBilled prep"
  using assms
  by (auto simp: Prepare_def prepare_resolved_def Let_def split: sum.splits prod.splits option.splits if_splits catalog_error.splits
      dest: prepare_priced_streamed)

lemma pinAffinity_keeps:
  assumes "pinAffinity env now prep rq g = (Inr (prep', rq'), g')"
  shows "unitBilled prep' = unitBilled prep"
  using assms by (auto simp: pinAffinity_def unitBilled_def Let_def split: prod.splits if_splits sum.splits option.splits)

text \<open>What a stream owes: the price of the usage it reported or was estimated at, or the held amount.\<close>

definition stream_charge_due :: "prepared \<Rightarrow> stream_state \<Rightarrow> Route \<Rightarrow> int \<Rightarrow> bool" where
  "stream_charge_due prep x route n \<longleftrightarrow> n = pr_estNano prep \<or>
     (\<exists>q. quoteFor (ForBilling (pr_priceTable prep) (IsFree (re_ModelPricing (pr_res prep)))) (pr_priceTable prep)
            (BillingTokens (stream_usage prep (ss_outcome x))) (uuid_valid (ss_byokKeyID x)) (ratesForRoute (pr_pricing prep) route)
            (pi_byokFeeBps (pr_pricing prep)) = Inr q \<and> n = q_ChargedNano q)"

lemma stream_args_simps [simp]:
  "sa_id (stream_args prep rq reqID holdID rot x el q u est f) = pr_id prep" "sa_requestID (stream_args prep rq reqID holdID rot x el q u est f) = reqID"
  "sa_quote (stream_args prep rq reqID holdID rot x el q u est f) = q" "sa_status (stream_args prep rq reqID holdID rot x el q u est f) = streamStatus (ss_outcome x)"
  by (simp_all add: stream_args_def)

lemma stream_row_status: "sa_status a = streamStatus out \<Longrightarrow> u_Status (usageLogParams sn js a) = streamStatus out"
  by (simp add: usageLogParams_def statusOrOK_def streamStatus_def)

lemma settle_stream_accounts:
  assumes "settlement (se_settler se) spent" and "\<not> unitBilled prep"
    and "g' = settle_stream env se now el prep rq reqID holdID rot x g" and "route = route_or_zero id zero_route (rr_route rot)"
  shows "\<exists>p. u_OrgID p = id_OrgID (pr_id prep) \<and> u_ApiKeyID p = id_KeyID (pr_id prep) \<and> u_RequestID p = reqID \<and>
    u_Status p = streamStatus (ss_outcome x) \<and> stream_charge_due prep x route (u_ChargedNano p) \<and>
    (settled_now spent p g g' \<or> queued_for_replay spent p g g' \<or> awaits_price spent p g g')"
proof -
  define est where "est = (\<not> us_Present (so_Usage (ss_outcome x)))"
  define rates where "rates = ratesForRoute (pr_pricing prep) route"
  define computed where "computed = quoteFor (ForBilling (pr_priceTable prep) (IsFree (re_ModelPricing (pr_res prep)))) (pr_priceTable prep)
    (BillingTokens (stream_usage prep (ss_outcome x))) (uuid_valid (ss_byokKeyID x)) rates (pi_byokFeeBps (pr_pricing prep))"
  define held where "held = fallbackQuote (pr_estNano prep) rates"
  define perr where "perr = (if holdIsTheBill (rq_Surface rq) est then None else case computed of Inl e \<Rightarrow> Some e | Inr _ \<Rightarrow> None)"
  define q where "q = (if holdIsTheBill (rq_Surface rq) est then held else case computed of Inr q \<Rightarrow> q | Inl _ \<Rightarrow> held)"
  define a where "a = stream_args prep rq reqID holdID rot x el q (stream_usage prep (ss_outcome x)) est (perr \<noteq> None)"
  have g': "g' = (case advanced_price_missing perr of
      Some issue \<Rightarrow> RecordPricingMissing env se (a\<lparr>sa_pricingIssue := issue\<rparr>) (pr_estNano prep) g | None \<Rightarrow> settle_or_queue env se now a g)"
    using assms(3) unfolding settle_stream_def Let_def if_not_P [OF assms(2)] assms(4) [symmetric]
    unfolding a_def perr_def q_def held_def computed_def rates_def est_def .
  have due: "stream_charge_due prep x route (q_ChargedNano q)"
    by (auto simp: stream_charge_due_def q_def held_def fallbackQuote_def computed_def rates_def split: sum.split)
  show ?thesis
  proof (cases "advanced_price_missing perr")
    case None
    then show ?thesis
      using settlement.settle_or_queue_accounts [OF assms(1) refl refl, of env a g now] due
      by (intro exI [of _ "usageLogParams (se_scan_num se) (ge_json env) a"]) (auto simp: g' a_def stream_row_status)
  next
    case (Some issue)
    then have "q = held" by (auto simp: perr_def q_def split: if_splits sum.splits)
    then have "pr_estNano prep = q_ChargedNano (sa_quote (a\<lparr>sa_pricingIssue := issue\<rparr>))" by (simp add: a_def held_def fallbackQuote_def)
    from settlement.RecordPricingMissing_accounts [OF assms(1) refl refl this, of env g] due Some show ?thesis
      by (intro exI [of _ "usageLogParams (se_scan_num se) (ge_json env) (a\<lparr>sa_pricingIssue := issue\<rparr>)"])
         (auto simp: g' a_def stream_row_status)
  qed
qed


section \<open>Concrete streams\<close>


definition demo_relay :: stream_env where
  "demo_relay = \<lparr>sm_call = (\<lambda>_ _ _. (SStream demo_stream ReadEOF [(3, Chunk True), (4, Chunk True), (5, Chunk True)], seconds 2)),
     sm_flushable = True, sm_marshal = (\<lambda>_. []), sm_jitter = []\<rparr>"

definition streamed_request :: Request where
  "streamed_request = demo_request\<lparr>rq_Stream := True\<rparr>"

lemma streamed_request_fields [simp]:
  "rq_Credential streamed_request = sample_key" "rq_Surface streamed_request = SurfaceChat" "rq_Body streamed_request = ''xxxxxxxx''"
  "\<not> rq_Utility streamed_request" "rq_Protocol streamed_request = ProtocolOpenAI" "rq_RequestID streamed_request = ''req-1''"
  "rq_Stream streamed_request" "rq_Resource streamed_request = []" "rq_Model streamed_request = []"
  "streamed_request\<lparr>rq_Stream := True\<rparr> = streamed_request"
  by (simp_all add: streamed_request_def) (simp add: demo_request_def)

lemma streamed_model_read: "modelForAdmission (gateway_demo answer) 0 demo_identity streamed_request [] = Inr (''m'', None)"
  by (simp add: modelForAdmission_def modelForRequest_def demo_reads)

lemma streamed_tokens:
  "prepare_tokens (gateway_demo answer) 0 streamed_request (demo_prepared\<lparr>pr_inputTokens := 0, pr_estNano := 0\<rparr>) g = ((demo_prepared, None), g)"
proof -
  have "hold_estimate (gateway_demo answer) streamed_request (demo_prepared\<lparr>pr_estNano := 0, pr_inputTokens := 4\<rparr>) = demo_hold"
    using demo_hold_estimate[of answer] by (simp add: hold_estimate_def demo_prepared_def)
  then show ?thesis
    by (simp add: prepare_tokens_def demo_reads check_rate_def CheckRate_def sample_config_def demo_estimate Let_def)
      (simp add: demo_prepared_def no_prepared_def)
qed

lemma streamed_priced:
  "prepare_priced (gateway_demo answer) demo_catalog 0 streamed_request
     (no_prepared\<lparr>pr_id := demo_identity, pr_modelSlug := ''m'', pr_affinity := None, pr_byok := [], pr_res := demo_resolution\<rparr>) g =
   ((demo_prepared, None), g)"
proof -
  have out: "no_prepared\<lparr>pr_id := demo_identity, pr_modelSlug := ''m'', pr_affinity := None, pr_byok := [], pr_res := demo_resolution,
      pr_pricing := demo_pricing, pr_priceTable := Flat (ms_Upstream (re_ModelPricing demo_resolution))\<rparr>
    = demo_prepared\<lparr>pr_inputTokens := 0, pr_estNano := 0\<rparr>"
    by (simp add: demo_prepared_def no_prepared_def)
  have "m_ID (re_Model demo_resolution) = Some 1" "ms_Family (re_ModelPricing demo_resolution) \<noteq> FamilyUnits"
    by (simp_all add: demo_resolution_def demo_model_def FamilyUnits_def)
  then show ?thesis
    by (simp add: prepare_priced_def demo_lock unitBilled_def demo_table Let_def demo_gates out streamed_tokens)
qed

lemma streamed_prepares: "Prepare (gateway_demo answer) 0 streamed_request demo_gateway = ((demo_prepared, None), demo_admitted)"
  by (simp add: Prepare_def demo_authenticates demo_gates KillSwitch_def streamed_model_read prepare_resolved_def resolveBYOK_def
      ListActiveBYOKForOrg_def vendors_def demo_resolves streamed_priced Let_def)
    (simp add: demo_admitted_def demo_gateway_def)

lemma streamed_unpinned: "pinAffinity (gateway_demo answer) 0 demo_prepared streamed_request g = (Inr (demo_prepared, streamed_request), g)"
proof -
  have "affinityReference (ge_json (gateway_demo answer)) streamed_request = ([], [])"
    by (auto simp: affinityReference_def surface_names split: sum.split)
  then show ?thesis by (simp add: pinAffinity_def)
qed

lemma streamed_rewrites: "stream_rewrites (gateway_demo answer) streamed_request routes = (\<lambda>_. None)"
  by (rule ext) (simp add: stream_rewrites_def RewriteRequest_def demo_body_def Let_def split: option.split)

text \<open>The attempts read only the surface and the pins of the request, so its credential does not have to be evaluated.\<close>

definition bare_request :: Request where
  "bare_request = \<lparr>rq_PinnedProviderKeyID = None, rq_PinnedOrgProviderKeyID = None, rq_Surface = SurfaceChat, rq_Protocol = ProtocolOpenAI,
     rq_UpstreamPath = [], rq_Method = [], rq_Resource = [], rq_Body = [], rq_Credential = [], rq_EndUserID = [], rq_RequestID = [], rq_Model = [],
     rq_UpstreamQuery = [], rq_Stream = True, rq_Utility = False\<rparr>"

lemma bare_attempt: "stream_attempt b env sm parse orgID streamed_request start = stream_attempt b env sm parse orgID bare_request start"
proof -
  have "rq_Surface streamed_request = rq_Surface bare_request" "request_pins.truncate streamed_request = request_pins.truncate bare_request"
    "rq_PinnedProviderKeyID streamed_request = rq_PinnedProviderKeyID bare_request"
    "rq_PinnedOrgProviderKeyID streamed_request = rq_PinnedOrgProviderKeyID bare_request"
    by (simp_all add: bare_request_def streamed_request_def demo_request_def request_pins.defs)
  then show ?thesis by (intro ext) (simp only: stream_attempt_def stream_credential_def stream_refused_def)
qed

lemma streamed_starts:
  "so_FirstByteSent (ss_outcome (ps_attempt (snd (rotate sample_config
     (stream_attempt (pc_breaker sample_config) (demo_env TooLong) demo_relay (\<lambda>_. Some demo_body) (Some 3) bare_request 0) ''chat'' 4 0
     (map Route.truncate (re_Routes demo_resolution))
     (with_attempt (stream_begin demo_relay 0 [] (ps_attempt (gw_pipe demo_gateway))) (gw_pipe demo_gateway))))))"
  by code_simp

lemma streamed_rotation:
  "so_FirstByteSent (ss_outcome (snd (fst (stream_rotation (gateway_demo TooLong) demo_relay 0 demo_prepared streamed_request demo_admitted))))"
proof -
  have "id_OrgID demo_identity = Some 3" by code_simp
  moreover have "surface_endpoint SurfaceChat = Some ''chat''" by code_simp
  moreover have "gw_pipe demo_admitted = gw_pipe demo_gateway" by (simp add: demo_admitted_def)
  moreover have "ge_json (gateway_demo TooLong) = (\<lambda>_. Some demo_body)" by (simp add: gateway_demo_def)
  ultimately show ?thesis
    using streamed_starts by (simp add: stream_rotation_def streamed_rewrites demo_env_again bare_attempt case_prod_beta Let_def)
qed

lemma streamed_run: "fst (fst (RunStream (gateway_demo TooLong) demo_settle demo_relay 0 streamed_request SurfaceChat demo_gateway)) = None"
proof -
  obtain rot x g4 where X: "stream_rotation (gateway_demo TooLong) demo_relay 0 demo_prepared streamed_request demo_admitted = ((rot, x), g4)"
    by (metis surj_pair)
  then have "so_FirstByteSent (ss_outcome x)" using streamed_rotation by simp
  then show ?thesis by (simp add: RunStream_def streamed_prepares streamed_unpinned demo_reserved X Let_def)
qed

lemma demo_ledger: "settlement (se_settler demo_settle) total_spent"
  using community.settlement_axioms by (simp add: demo_settle_def)

theorem stream_comes_from_one_candidate_witness:
  "\<exists>sent g'. RunStream (gateway_demo TooLong) demo_settle demo_relay 0 streamed_request SurfaceChat demo_gateway = ((None, sent), g') \<and>
     (sent = [] \<or> (\<exists>written tail. sent = written @ tail \<and> prefix written demo_stream \<and>
       (tail = [] \<or> tail = StreamErrorEvent (\<lambda>_. []) SurfaceChat ''The upstream stream was interrupted'')))"
proof -
  obtain sent g' where run: "RunStream (gateway_demo TooLong) demo_settle demo_relay 0 streamed_request SurfaceChat demo_gateway = ((None, sent), g')"
    using streamed_run by (metis prod.collapse)
  from stream_comes_from_one_candidate [OF run] have "sent = [] \<or> (\<exists>written tail. sent = written @ tail \<and> prefix written demo_stream \<and>
       (tail = [] \<or> tail = StreamErrorEvent (\<lambda>_. []) SurfaceChat ''The upstream stream was interrupted''))"
    by (auto simp: demo_relay_def)
  then show ?thesis using run by blast
qed


theorem silent_stream_costs_nothing_witness:
  "\<exists>gerr g'. RunStream (gateway_demo TooLong) demo_settle demo_relay 0 (streamed_request\<lparr>rq_Credential := []\<rparr>) SurfaceChat demo_gateway =
     ((Some gerr, []), g') \<and> costs_nothing total_spent demo_gateway g'"
proof -
  have bad: "\<not> ValidKey []" by code_simp
  have "\<exists>e a. Authenticate (\<lambda>_. ''h'') None demo_auth 0 [] \<lparr>au_cache = (), au_touched = []\<rparr> = (Inl e, a)"
    using bad by (simp add: Authenticate_def)
  then obtain gerr sent g' where run: "RunStream (gateway_demo TooLong) demo_settle demo_relay 0 (streamed_request\<lparr>rq_Credential := []\<rparr>) SurfaceChat
      demo_gateway = ((Some gerr, sent), g')"
    by (auto simp: RunStream_def Prepare_def Let_def)
  from silent_stream_costs_nothing [OF demo_ledger run] show ?thesis using run by auto
qed

end
