(* ===== verification/VideoRuns.thy ===== *)
theory VideoRuns
  imports VideoJobs
begin

text \<open>
  The video jobs under concurrency: any interleaving of the atomic operations of
  \<open>proxy/video_worker.go\<close>, \<open>proxy/video_submit.go\<close> and \<open>proxy/video_jobs.go\<close> on stale
  copies of the rows, the invariant of the money columns over all of them, and that the
  two periodic workers, the cancel and the delete are such interleavings.
\<close>

section \<open>Interleavings\<close>

text \<open>
  One atomic operation of some worker, in any order. A worker acts on any copy of a
  row it read, however long ago; the books may be changed by any other request at any
  time. New rows carry fresh ids.
\<close>

inductive video_step :: "'l Settler \<Rightarrow> 'l world \<Rightarrow> 'l world \<Rightarrow> bool" for S where
  create: "\<lbrakk>j_ID j \<notin> j_ID ` set (wo_jobs w @ wo_reads w); j_ID j \<notin> fst ` set (wo_charges w); j_Status j = Queued;
      j_SettlementState j = Held; j_ChargedNano j = 0\<rbrakk>
    \<Longrightarrow> video_step S w (w\<lparr>wo_jobs := wo_jobs w @ [j], wo_reads := j # wo_reads w\<rparr>)"
| read: "set rows \<subseteq> set (wo_jobs w) \<Longrightarrow> video_step S w (read_rows rows w)"
| books: "video_step S w (w\<lparr>wo_books := b\<rparr>)"
| claim: "ClaimDueVideoJobs now lease n (wo_jobs w) = (due, jobs) \<Longrightarrow> video_step S w (w\<lparr>wo_jobs := jobs\<rparr>)"
| submitted: "j \<in> set (wo_reads w) \<Longrightarrow>
    video_step S w (w\<lparr>wo_jobs := MarkVideoJobSubmitted now (j_ID j) up ups InProgress d (wo_jobs w)\<rparr>)"
| progress: "j \<in> set (wo_reads w) \<Longrightarrow> running (po_Status poll) \<Longrightarrow>
    video_step S w (w\<lparr>wo_jobs := MarkVideoJobProgress now (j_ID j) poll d (wo_jobs w)\<rparr>)"
| not_found: "video_step S w (w\<lparr>wo_jobs := snd (MarkVideoJobNotFound now u d (wo_jobs w))\<rparr>)"
| protect: "video_step S w (w\<lparr>wo_jobs := ProtectVideoJobHold u (wo_jobs w)\<rparr>)"
| orphan: "video_step S w (w\<lparr>wo_jobs := OrphanVideoJobHold u (wo_jobs w)\<rparr>)"
| artifact: "video_step S w (w\<lparr>wo_jobs := RecordVideoJobArtifact u key (wo_jobs w)\<rparr>)"
| clear: "video_step S w (w\<lparr>wo_jobs := ClearVideoJobArtifact u (wo_jobs w)\<rparr>)"
| terminate: "j \<in> set (wo_reads w) \<Longrightarrow> \<not> running status \<Longrightarrow> terminate_tx S scan_num now j poll status w = Some w' \<Longrightarrow> video_step S w w'"
| fail: "j \<in> set (wo_reads w) \<Longrightarrow> video_step S w (fail_tx now j code message w)"
| delete: "j \<in> set (wo_reads w) \<Longrightarrow> videoDeleteRefusal j = None \<Longrightarrow>
    video_step S w (w\<lparr>wo_jobs := DeleteVideoJob (j_ID j) (wo_jobs w)\<rparr>)"

definition charges_of :: "'l world \<Rightarrow> uuid \<Rightarrow> int list" where
  "charges_of w u = map snd (filter (\<lambda>c. fst c = u) (wo_charges w))"

text \<open>The row's money columns agree with the charges made for it.\<close>

definition row_ok :: "'l world \<Rightarrow> Job \<Rightarrow> bool" where
  "row_ok w j \<longleftrightarrow>
     charges_of w (j_ID j) = (if j_SettlementState j = Settled then [j_HoldNano j] else []) \<and>
     j_ChargedNano j = (if j_SettlementState j = Settled then j_HoldNano j else 0) \<and>
     (j_Status j = Completed \<longrightarrow> j_SettlementState j = Settled)"

definition money_inv :: "'l world \<Rightarrow> bool" where
  "money_inv w \<longleftrightarrow>
     distinct (map j_ID (wo_jobs w)) \<and> (\<forall>j \<in> set (wo_jobs w). row_ok w j) \<and>
     (\<forall>r \<in> set (wo_reads w). \<forall>j \<in> set (wo_jobs w). j_ID r = j_ID j \<longrightarrow> j_HoldNano r = j_HoldNano j) \<and>
     (\<forall>u. length (charges_of w u) \<le> 1)"

text \<open>A change of a row that leaves its money where it is.\<close>

definition keeps_money :: "Job \<Rightarrow> Job \<Rightarrow> bool" where
  "keeps_money j j' \<longleftrightarrow> j_ID j' = j_ID j \<and> j_HoldNano j' = j_HoldNano j \<and> j_ChargedNano j' = j_ChargedNano j \<and>
     (j_SettlementState j' = Settled \<longleftrightarrow> j_SettlementState j = Settled) \<and>
     (j_Status j' = Completed \<longrightarrow> j_Status j = Completed \<or> j_SettlementState j' = Settled)"

lemma keeps_moneyD: "keeps_money j j' \<Longrightarrow> row_ok w j \<Longrightarrow> row_ok w j'"
  by (auto simp: keeps_money_def row_ok_def split: if_splits)

lemma money_inv_set_where:
  assumes "money_inv w" and "\<And>j. P j \<Longrightarrow> row_ok w j \<Longrightarrow> keeps_money j (f j)"
  shows "money_inv (w\<lparr>wo_jobs := set_where P f (wo_jobs w)\<rparr>)"
proof -
  define g where "g = (\<lambda>j. if P j then f j else j)"
  have jobs: "set_where P f (wo_jobs w) = map g (wo_jobs w)" by (simp add: set_where_def g_def)
  have ok: "row_ok w j" if "j \<in> set (wo_jobs w)" for j using assms(1) that by (simp add: money_inv_def)
  have keep: "keeps_money j (g j)" if "j \<in> set (wo_jobs w)" for j
    using assms(2) [OF _ ok [OF that]] by (cases "P j") (auto simp: g_def keeps_money_def)
  have "map j_ID (map g (wo_jobs w)) = map j_ID (wo_jobs w)" using keep by (simp add: keeps_money_def)
  then have "distinct (map j_ID (map g (wo_jobs w)))" using assms(1) by (simp only: money_inv_def)
  moreover have "row_ok w (g j)" if "j \<in> set (wo_jobs w)" for j
    by (rule keeps_moneyD [OF keep [OF that] ok [OF that]])
  moreover have "row_ok (w\<lparr>wo_jobs := jobs\<rparr>) j = row_ok w j" "charges_of (w\<lparr>wo_jobs := jobs\<rparr>) u = charges_of w u"
    for jobs j u by (simp_all add: row_ok_def charges_of_def)
  ultimately show ?thesis using assms(1) keep unfolding jobs by (auto simp: money_inv_def keeps_money_def)
qed

lemmas update_defs = update_where_def MarkVideoJobTerminal_def SettleVideoJob_def VoidVideoJob_def

lemma money_inv_books: "money_inv (w\<lparr>wo_books := b\<rparr>) = money_inv w"
  by (simp add: money_inv_def row_ok_def charges_of_def)

lemma money_inv_fail: "money_inv w \<Longrightarrow> money_inv (fail_tx now j code message w)"
  unfolding fail_tx_def
  using money_inv_set_where [OF money_inv_set_where, of w
      "\<lambda>r. j_ID r = j_ID j \<and> running (j_Status r)" _ "\<lambda>r. j_ID r = j_ID j \<and> j_SettlementState r \<in> {Held, Protected}"
      "\<lambda>r. r\<lparr>j_SettlementState := Voided, j_ChargedNano := 0\<rparr>"]
  by (simp add: update_defs keeps_money_def) (force simp: row_ok_def keeps_money_def)

text \<open>The one transition that charges: an unsettled row becomes settled and gets its one charge.\<close>

lemma money_inv_settle:
  assumes "money_inv w" and "r \<in> set (wo_reads w)"
    and "update_where P f (wo_jobs w) = (Suc m, jobs)" and "SettleVideoJob (j_ID r) (j_HoldNano r) jobs = (Suc n, jobs')"
    and "\<And>j. P j \<Longrightarrow> j_ID j = j_ID r" and "\<And>j. j_ID (f j) = j_ID j \<and> j_HoldNano (f j) = j_HoldNano j \<and>
      j_SettlementState (f j) = j_SettlementState j"
  shows "money_inv (w\<lparr>wo_jobs := jobs', wo_charges := wo_charges w @ [(j_ID r, j_HoldNano r)], wo_books := b\<rparr>)"
proof -
  define w2 where "w2 = w\<lparr>wo_jobs := jobs', wo_charges := wo_charges w @ [(j_ID r, j_HoldNano r)], wo_books := b\<rparr>"
  have w2: "wo_jobs w2 = jobs'" "wo_reads w2 = wo_reads w" by (simp_all add: w2_def)
  define g where "g = (\<lambda>j. if P j then f j else j)"
  define h where "h = (\<lambda>j :: Job. if j_ID j = j_ID r \<and> j_SettlementState j \<in> {Held, Protected, Orphaned}
    then j\<lparr>j_SettlementState := Settled, j_ChargedNano := j_HoldNano r\<rparr> else j)"
  have jobs: "jobs = map g (wo_jobs w)" and jobs': "jobs' = map h jobs"
    using assms(3,4) by (simp_all add: update_defs set_where_def g_def h_def)
  have g: "j_ID (g j) = j_ID j" "j_HoldNano (g j) = j_HoldNano j" "j_SettlementState (g j) = j_SettlementState j" for j
    using assms(6) by (simp_all add: g_def)
  have h: "j_ID (h j) = j_ID j" "j_HoldNano (h j) = j_HoldNano j" for j by (simp_all add: h_def)
  from assms(4) have "filter (\<lambda>j. j_ID j = j_ID r \<and> j_SettlementState j \<in> {Held, Protected, Orphaned}) jobs \<noteq> []"
    by (auto simp: update_defs)
  then obtain j0 where j0: "j0 \<in> set (wo_jobs w)" "j_ID j0 = j_ID r" "j_SettlementState j0 \<in> {Held, Protected, Orphaned}"
    by (auto simp: filter_empty_conv jobs g)
  have d: "distinct (map j_ID (wo_jobs w))" using assms(1) by (simp add: money_inv_def)
  have only: "j = j0" if "j \<in> set (wo_jobs w)" "j_ID j = j_ID r" for j
    using distinct_ids_eq [OF d that(1) j0(1)] that(2) j0(2) by simp
  have none: "charges_of w (j_ID r) = []"
    using assms(1) j0 by (auto simp: money_inv_def row_ok_def)
  have hold: "j_HoldNano r = j_HoldNano j0" using assms(1,2) j0 by (auto simp: money_inv_def)
  have ch: "charges_of w2 u = (if u = j_ID r then [j_HoldNano r] else charges_of w u)" for u
    using none by (auto simp: charges_of_def w2_def)
  have same: "h (g j) = j" if "j_ID j \<noteq> j_ID r" for j
    using that assms(5) by (auto simp: g_def h_def)
  have charged: "h (g j0) = (g j0)\<lparr>j_SettlementState := Settled, j_ChargedNano := j_HoldNano r\<rparr>"
    using j0(2,3) by (simp only: h_def g) simp
  have "row_ok w2 (h (g j))" if "j \<in> set (wo_jobs w)" for j
  proof (cases "j_ID j = j_ID r")
    case True
    then have "j = j0" by (rule only [OF that])
    then show ?thesis using hold by (simp add: charged row_ok_def ch g j0(2))
  next
    case False
    then show ?thesis using assms(1) that by (simp add: same money_inv_def row_ok_def ch)
  qed
  moreover have "map j_ID jobs' = map j_ID (wo_jobs w)" by (simp add: jobs jobs' g h)
  moreover have "set jobs' = (\<lambda>j. h (g j)) ` set (wo_jobs w)" by (auto simp: jobs jobs')
  moreover have "length (charges_of w2 u) \<le> 1" for u using assms(1) by (simp add: ch money_inv_def)
  ultimately have "money_inv w2" using assms(1) d by (simp add: money_inv_def w2 g h)
  then show ?thesis by (simp add: w2_def)
qed

lemma money_inv_terminate:
  assumes "money_inv w" and "r \<in> set (wo_reads w)" and "terminate_tx S scan_num now r poll status w = Some w'"
  shows "money_inv w'"
proof (cases "status = Completed")
  case True
  obtain m jobs where m: "MarkVideoJobTerminal now (j_ID r) status poll (wo_jobs w) = (m, jobs)" by (metis surj_pair)
  obtain n jobs' where n: "SettleVideoJob (j_ID r) (j_HoldNano r) jobs = (n, jobs')" by (metis surj_pair)
  from assms(3) True m n have pos: "m \<noteq> 0" "n \<noteq> 0"
    and w': "\<exists>b. w' = w\<lparr>wo_jobs := jobs', wo_charges := wo_charges w @ [(j_ID r, j_HoldNano r)], wo_books := b\<rparr>"
    by (auto simp: terminate_tx_def Let_def split: if_splits sum.splits)
  obtain m' n' where "m = Suc m'" "n = Suc n'" using pos by (metis not0_implies_Suc)
  then show ?thesis
    using w' money_inv_settle [OF assms(1,2) m [unfolded MarkVideoJobTerminal_def \<open>m = Suc m'\<close>] n [unfolded \<open>n = Suc n'\<close>]]
    by auto
next
  case False
  then obtain b where w': "w' = w\<lparr>wo_jobs := snd (VoidVideoJob (j_ID r)
      (snd (MarkVideoJobTerminal now (j_ID r) status poll (wo_jobs w)))), wo_books := b\<rparr>"
    using assms(3) by (auto simp: terminate_tx_def Let_def split: if_splits prod.splits)
  have "money_inv (w\<lparr>wo_jobs := snd (VoidVideoJob (j_ID r)
      (snd (MarkVideoJobTerminal now (j_ID r) status poll (wo_jobs w))))\<rparr>)"
    using False money_inv_set_where [OF money_inv_set_where [OF assms(1)], of
        "\<lambda>j. j_ID j = j_ID r \<and> running (j_Status j)" _ "\<lambda>j. j_ID j = j_ID r \<and> j_SettlementState j \<in> {Held, Protected}"
        "\<lambda>j. j\<lparr>j_SettlementState := Voided, j_ChargedNano := 0\<rparr>"]
    by (simp add: update_defs keeps_money_def) (force simp: row_ok_def keeps_money_def)
  then show ?thesis unfolding w' using money_inv_books by fastforce
qed

lemma money_inv_read:
  assumes "money_inv w" and "set rows \<subseteq> set (wo_jobs w)"
  shows "money_inv (read_rows rows w)"
proof -
  have "j_HoldNano r = j_HoldNano j" if "r \<in> set rows" "j \<in> set (wo_jobs w)" "j_ID r = j_ID j" for r j
    using assms that distinct_ids_eq [of j_ID "wo_jobs w" r j] by (auto simp: money_inv_def)
  then show ?thesis using assms(1) by (auto simp: money_inv_def read_rows_def row_ok_def charges_of_def)
qed

lemma money_inv_create:
  assumes "money_inv w" and "j_ID j \<notin> j_ID ` set (wo_jobs w @ wo_reads w)" and "j_ID j \<notin> fst ` set (wo_charges w)"
    and "j_Status j = Queued" and "j_SettlementState j = Held" and "j_ChargedNano j = 0"
  shows "money_inv (w\<lparr>wo_jobs := wo_jobs w @ [j], wo_reads := j # wo_reads w\<rparr>)"
proof -
  define w2 where "w2 = w\<lparr>wo_jobs := wo_jobs w @ [j], wo_reads := j # wo_reads w\<rparr>"
  have w2: "wo_jobs w2 = wo_jobs w @ [j]" "wo_reads w2 = j # wo_reads w" "charges_of w2 u = charges_of w u" for u
    by (simp_all add: w2_def charges_of_def)
  have "filter (\<lambda>c. fst c = j_ID j) (wo_charges w) = []" using assms(3) by (auto simp: filter_empty_conv image_iff)
  then have "charges_of w (j_ID j) = []" by (simp add: charges_of_def)
  then have "row_ok w2 j" using assms(4-6) by (simp add: row_ok_def w2)
  moreover have "j_ID x \<noteq> j_ID j" if "x \<in> set (wo_jobs w) \<union> set (wo_reads w)" for x
    using assms(2) that by (metis image_eqI set_append)
  moreover have "row_ok w2 x = row_ok w x" for x by (simp add: row_ok_def w2)
  ultimately have "money_inv w2" using assms(1,2) by (auto simp: money_inv_def w2)
  then show ?thesis by (simp add: w2_def)
qed

lemma money_inv_delete: "money_inv w \<Longrightarrow> money_inv (w\<lparr>wo_jobs := DeleteVideoJob u (wo_jobs w)\<rparr>)"
  by (auto simp: money_inv_def DeleteVideoJob_def row_ok_def charges_of_def distinct_map_filter)

lemma keeps_money_refl: "keeps_money j j"
  by (simp add: keeps_money_def)

lemma money_inv_step: "video_step S w w' \<Longrightarrow> money_inv w \<Longrightarrow> money_inv w'"
proof (induction rule: video_step.induct)
  case (claim now lease n w due jobs)
  obtain P f where "jobs = set_where P f (wo_jobs w)" and "\<And>j. keeps_money j (f j)"
    using claim(1) that by (auto simp: ClaimDueVideoJobs_def Let_def keeps_money_def)
  then show ?case using claim(2) money_inv_set_where by blast
next
  case (progress j w poll now d)
  then show ?case unfolding MarkVideoJobProgress_def
    by (intro money_inv_set_where) (auto simp: keeps_money_def running_def)
next
  case (not_found w now u d)
  then show ?case unfolding MarkVideoJobNotFound_def Let_def snd_conv
    by (intro money_inv_set_where) (auto simp: keeps_money_def)
qed (auto intro: money_inv_terminate money_inv_fail money_inv_delete money_inv_read money_inv_create
      intro!: money_inv_set_where simp: money_inv_books MarkVideoJobSubmitted_def ProtectVideoJobHold_def
      OrphanVideoJobHold_def RecordVideoJobArtifact_def ClearVideoJobArtifact_def keeps_money_def)

lemma money_inv_run: "(video_step S)\<^sup>*\<^sup>* w w' \<Longrightarrow> money_inv w \<Longrightarrow> money_inv w'"
  by (induction rule: rtranclp_induct) (auto intro: money_inv_step)


section \<open>Whole passes are interleavings\<close>

lemma reads_kept [simp]:
  "wo_reads (VoidHold S org req w) = wo_reads w"
  "wo_reads (fail_tx now job code message w) = wo_reads w"
  "wo_reads (failVideoJob S now job code message w) = wo_reads w"
  "wo_reads (keepVideoHoldAlive S now job w) = wo_reads w"
  by (simp_all add: VoidHold_def fail_tx_def failVideoJob_def keepVideoHoldAlive_def Let_def case_prod_beta
      split: option.split sum.split bool.split)

lemma reads_terminate_tx: "terminate_tx S scan_num now job poll status w = Some w' \<Longrightarrow> wo_reads w' = wo_reads w"
  by (auto simp: terminate_tx_def Let_def case_prod_beta split: if_splits sum.splits)

lemma reads_terminate [simp]: "wo_reads (terminateVideoJob S scan_num now job poll status w) = wo_reads w"
  by (auto simp: terminateVideoJob_def Let_def reads_terminate_tx split: option.split)

lemma reads_poll [simp]: "wo_reads (pollVideoJob S env now job w) = wo_reads w"
  by (simp add: pollVideoJob_def Let_def case_prod_beta split: option.split)

lemma books_run: "(video_step S)\<^sup>*\<^sup>* w (w\<lparr>wo_books := b\<rparr>)"
  by (rule r_into_rtranclp) (rule video_step.books)

lemma fail_run: "job \<in> set (wo_reads w) \<Longrightarrow> (video_step S)\<^sup>*\<^sup>* w (failVideoJob S now job code message w)"
  unfolding failVideoJob_def
  by (rule rtranclp.rtrancl_into_rtrancl [of _ _ "VoidHold S (j_OrgID job) (j_RequestID job) w"])
    (simp_all add: VoidHold_def books_run video_step.fail)

lemma terminate_run:
  assumes "job \<in> set (wo_reads w)" and "\<not> running status"
  shows "(video_step S)\<^sup>*\<^sup>* w (terminateVideoJob S scan_num now job poll status w)"
proof -
  define w1 where "w1 = (if status \<noteq> Completed then VoidHold S (j_OrgID job) (j_RequestID job) w else w)"
  have w1: "(video_step S)\<^sup>*\<^sup>* w w1" "job \<in> set (wo_reads w1)"
    using assms(1) by (auto simp: w1_def) (simp add: VoidHold_def books_run)
  show ?thesis
  proof (cases "terminate_tx S scan_num now job poll status w1")
    case None
    then show ?thesis using w1(1) by (simp add: terminateVideoJob_def Let_def w1_def)
  next
    case (Some w2)
    then have "video_step S w1 w2" by (rule video_step.terminate [OF w1(2) assms(2)])
    then show ?thesis using Some w1(1) by (simp add: terminateVideoJob_def Let_def w1_def)
  qed
qed

lemma keep_run: "(video_step S)\<^sup>*\<^sup>* w (keepVideoHoldAlive S now job w)"
proof -
  obtain kept l where k: "st_ProtectHold S (j_OrgID job) (j_RequestID job) (bo_ledger (wo_books w)) = (kept, l)"
    by (metis surj_pair)
  define w1 where "w1 = w\<lparr>wo_books := (wo_books w)\<lparr>bo_ledger := l\<rparr>\<rparr>"
  have "(video_step S)\<^sup>*\<^sup>* w w1" unfolding w1_def by (rule books_run)
  moreover have "video_step S w1 (w1\<lparr>wo_jobs := ProtectVideoJobHold (j_ID job) (wo_jobs w1)\<rparr>)"
    "video_step S w1 (w1\<lparr>wo_jobs := OrphanVideoJobHold (j_ID job) (wo_jobs w1)\<rparr>)"
    by (rule video_step.protect, rule video_step.orphan)
  ultimately show ?thesis
    by (auto simp: keepVideoHoldAlive_def k Let_def w1_def [symmetric] split: option.split sum.split bool.split)
qed

lemma one_step: "(video_step S)\<^sup>*\<^sup>* w w1 \<Longrightarrow> video_step S w1 w2 \<Longrightarrow> (video_step S)\<^sup>*\<^sup>* w w2"
  by (rule rtranclp.rtrancl_into_rtrancl)

text \<open>The answer a vendor's mapper may give to a poll: the gateway's own verdict is not in its vocabulary.\<close>

definition polls_are_upstream :: "video_env \<Rightarrow> bool" where
  "polls_are_upstream env \<longleftrightarrow> (\<forall>cred up p. ve_poll env cred up = Some p \<longrightarrow> po_Status p \<noteq> Expired)"

lemma poll_run:
  assumes "polls_are_upstream env" and "job \<in> set (wo_reads w)"
  shows "(video_step S)\<^sup>*\<^sup>* w (pollVideoJob S env now job w)"
proof (cases "videoRouteFor env job")
  case None
  then show ?thesis using fail_run [OF assms(2)] by (simp add: pollVideoJob_def)
next
  case (Some rc)
  then obtain route cred where rc: "videoRouteFor env job = Some (route, cred)" by (cases rc) simp
  show ?thesis
  proof (cases "ve_poll env cred (j_UpstreamID job)")
    case None
    then show ?thesis by (simp add: pollVideoJob_def rc)
  next
    case (Some poll)
    then have "po_Status poll \<noteq> Expired" using assms(1) by (simp add: polls_are_upstream_def)
    then have run: "\<not> Terminal (po_Status poll) \<Longrightarrow> running (po_Status poll)"
      by (cases "po_Status poll") (simp_all add: Terminal_def running_def)
    obtain count jobs where nf: "MarkVideoJobNotFound now (j_ID job) pollBaseInProgress (wo_jobs w) = (count, jobs)"
      by (metis surj_pair)
    then have lost: "(video_step S)\<^sup>*\<^sup>* w (w\<lparr>wo_jobs := jobs\<rparr>)"
      using video_step.not_found [of S w now "j_ID job" pollBaseInProgress] by simp
    note struck = rtranclp_trans [OF lost terminate_run [of job _ Expired]]
    note ended = terminate_run [OF assms(2), of "po_Status poll"]
    have stored: "(video_step S)\<^sup>*\<^sup>* w1 (w1\<lparr>wo_jobs := RecordVideoJobArtifact (j_ID job) key (wo_jobs w1)\<rparr>)" for w1 key
      by (rule r_into_rtranclp) (rule video_step.artifact)
    have kept: "\<not> Terminal (po_Status poll) \<Longrightarrow> (video_step S)\<^sup>*\<^sup>* w
      ((keepVideoHoldAlive S now job w)\<lparr>wo_jobs := MarkVideoJobProgress now (j_ID job) poll d
        (wo_jobs (keepVideoHoldAlive S now job w))\<rparr>)" for d
      by (rule one_step [OF keep_run video_step.progress]) (simp_all add: assms(2) run)
    have over: "Terminal st \<Longrightarrow> \<not> running st" for st by (auto simp: Terminal_def running_def)
    show ?thesis
      using assms(2) kept lost struck ended over rtranclp_trans [OF ended stored]
      by (auto simp: pollVideoJob_def rc Some nf Let_def running_def split: option.split)
  qed
qed

lemma each_row_run:
  assumes "set rows \<subseteq> set (wo_jobs w)"
    and act: "\<And>job w. job \<in> set rows \<Longrightarrow> job \<in> set (wo_reads w) \<Longrightarrow>
      (video_step S)\<^sup>*\<^sup>* w (act job w) \<and> wo_reads (act job w) = wo_reads w"
  shows "(video_step S)\<^sup>*\<^sup>* w (each_row act rows w)"
proof -
  have "(video_step S)\<^sup>*\<^sup>* v (foldl (\<lambda>w job. act job w) v todo)"
    if "set todo \<subseteq> set rows" "set todo \<subseteq> set (wo_reads v)" for todo v
    using that
  proof (induction todo arbitrary: v)
    case (Cons job todo)
    then have "(video_step S)\<^sup>*\<^sup>* v (act job v)" "wo_reads (act job v) = wo_reads v" using act by auto
    then show ?case using Cons.IH [of "act job v"] Cons.prems by (auto intro: rtranclp_trans)
  qed simp
  from this [of rows "read_rows rows w"] have "(video_step S)\<^sup>*\<^sup>* (read_rows rows w) (each_row act rows w)"
    by (simp add: each_row_def read_rows_def)
  then show ?thesis using video_step.read [OF assms(1)] by (rule converse_rtranclp_into_rtranclp [rotated])
qed

lemma claimed_rows: "ClaimDueVideoJobs now lease n jobs = (due, jobs') \<Longrightarrow> set due \<subseteq> set jobs'"
  by (auto simp: ClaimDueVideoJobs_def Let_def)

lemma listed_rows:
  "set (ListUnsubmittedVideoJobs now d n jobs) \<subseteq> set jobs"
  "set (ListStaleVideoJobs now n jobs) \<subseteq> set jobs"
  "set (ListExpiredVideoJobs now n jobs) \<subseteq> set jobs"
  by (auto simp: ListUnsubmittedVideoJobs_def ListStaleVideoJobs_def ListExpiredVideoJobs_def dest: in_set_takeD)

lemma scan_run:
  assumes "polls_are_upstream env"
  shows "(video_step S)\<^sup>*\<^sup>* w (VideoScan_Work S env now w)"
proof -
  obtain due jobs where c: "ClaimDueVideoJobs now pollLease videoClaimBatch (wo_jobs w) = (due, jobs)"
    by (metis surj_pair)
  have "(video_step S)\<^sup>*\<^sup>* (w\<lparr>wo_jobs := jobs\<rparr>) (each_row (pollVideoJob S env now) due (w\<lparr>wo_jobs := jobs\<rparr>))"
    by (rule each_row_run) (simp_all add: claimed_rows [OF c] poll_run [OF assms])
  then show ?thesis using video_step.claim [OF c]
    by (simp add: VideoScan_Work_def c) (rule converse_rtranclp_into_rtranclp)
qed

lemma expired_run:
  assumes "job \<in> set (wo_reads w)"
  shows "(video_step S)\<^sup>*\<^sup>* w (sweep_expired env job w) \<and> wo_reads (sweep_expired env job w) = wo_reads w"
proof -
  have "video_step S w (w\<lparr>wo_jobs := ClearVideoJobArtifact (j_ID job) (wo_jobs w)\<rparr>)" by (rule video_step.clear)
  moreover have "videoDeleteRefusal job = None \<Longrightarrow> video_step S w (w\<lparr>wo_jobs := DeleteVideoJob (j_ID job) (wo_jobs w)\<rparr>)"
    by (rule video_step.delete [OF assms])
  ultimately show ?thesis by (auto simp: sweep_expired_def)
qed

lemma sweep_run: "(video_step S)\<^sup>*\<^sup>* w (VideoSweep_Work S env now w)"
proof -
  have a: "(video_step S)\<^sup>*\<^sup>* w (each_row (sweep_unsubmitted S now) (ListUnsubmittedVideoJobs now d n (wo_jobs w)) w)"
    for w d n by (rule each_row_run) (simp_all add: listed_rows sweep_unsubmitted_def fail_run)
  have b: "(video_step S)\<^sup>*\<^sup>* w (each_row (sweep_stale S env now) (ListStaleVideoJobs now n (wo_jobs w)) w)" for w n
    by (rule each_row_run) (simp_all add: listed_rows sweep_stale_def terminate_run running_def)
  have c: "(video_step S)\<^sup>*\<^sup>* w (each_row (sweep_expired env) (ListExpiredVideoJobs now n (wo_jobs w)) w)" for w n
    by (rule each_row_run) (simp_all add: listed_rows expired_run)
  show ?thesis unfolding VideoSweep_Work_def Let_def by (blast intro: rtranclp_trans a b c)
qed

lemma get_listed: "VideoJobs_Get parsed org jobs = Inr job \<Longrightarrow> job \<in> set jobs"
  by (auto simp: VideoJobs_Get_def GetVideoJob_def find_Some_iff split: option.splits)

lemma cancel_run: "(video_step S)\<^sup>*\<^sup>* w (snd (VideoJobs_Cancel S env now org parsed w))"
proof (cases "VideoJobs_Get parsed org (wo_jobs w)")
  case (Inr job)
  then have "video_step S w (read_rows [job] w)" by (intro video_step.read) (simp add: get_listed)
  then have "(video_step S)\<^sup>*\<^sup>* w (terminateVideoJob S num now job poll Canceled (read_rows [job] w))" for num poll
    by (rule converse_rtranclp_into_rtranclp) (rule terminate_run, simp_all add: read_rows_def running_def)
  then show ?thesis using Inr
    by (auto simp: VideoJobs_Cancel_def Let_def split: option.split sum.split)
qed (simp add: VideoJobs_Cancel_def)

lemma delete_run: "(video_step S)\<^sup>*\<^sup>* w (snd (VideoJobs_Delete env org parsed w))"
proof (cases "VideoJobs_Get parsed org (wo_jobs w)")
  case (Inr job)
  then have r: "video_step S w (read_rows [job] w)" by (intro video_step.read) (simp add: get_listed)
  have "videoDeleteRefusal job = None \<Longrightarrow>
    video_step S (read_rows [job] w) ((read_rows [job] w)\<lparr>wo_jobs := DeleteVideoJob (j_ID job) (wo_jobs w)\<rparr>)"
    using video_step.delete [of job "read_rows [job] w" S] by (simp add: read_rows_def)
  moreover have "(video_step S)\<^sup>*\<^sup>* w (read_rows [job] w)" using r by (rule r_into_rtranclp)
  ultimately show ?thesis using Inr
    by (auto simp: VideoJobs_Delete_def split: option.split intro: one_step)
qed (simp add: VideoJobs_Delete_def)

section \<open>A job, end to end\<close>

definition demo_job :: Job where
  "demo_job = \<lparr>j_ID = Some 1, j_OrgID = Some 3, j_ApiKeyID = Some 7, j_RequestID = ''req-1'', j_IdempotencyKey = ''k'',
     j_RequestFingerprint = ''f'', j_ModelID = Some 2,
     j_ModelSlug = ''m'', j_RouteID = Some 4, j_ProviderID = Some 9, j_ProviderKeyID = Some 5, j_OrgProviderKeyID = None,
     j_Byok = False, j_UpstreamID = ''u'', j_Status = Queued, j_SettlementState = Held, j_UpstreamStatus = [],
     j_Progress = 0, j_ErrorCode = [], j_ErrorMessage = [], j_Params = Some (JObj []),
     j_BillingUnits = Some (unitsSnapshot [(\<lparr>uk_Unit = ''second'', uk_Resolution = [], uk_Audio = [], uk_Variant = [], uk_ServiceTier = []\<rparr>, 5)]),
     j_HoldID = None, j_HoldNano = 8, j_HoldExpiresAt = Some 500, j_ChargedNano = 0, j_ChargedCurrency = ''USD'',
     j_PricingSnapshot = Some (JObj [(''schema_version'', JNum 1)]), j_MaxJobSeconds = 600, j_PollAttempts = 0,
     j_NotFoundCount = 0, j_NextPollAt = Some 50, j_ArtifactKey = [], j_UpstreamArtifactRef = [], j_EndUserID = [],
     j_ExpiresAt = 900, j_CreatedAt = 0, j_SubmittedAt = Some 10, j_TerminalAt = None\<rparr>"

definition empty_world :: "key_spend world" where
  "empty_world = \<lparr>wo_jobs = [], wo_books = sample_books\<lparr>bo_unsettled := []\<rparr>, wo_reads = [], wo_charges = []\<rparr>"

definition demo_world :: "key_spend world" where
  "demo_world = empty_world\<lparr>wo_jobs := [demo_job], wo_reads := [demo_job]\<rparr>"

definition demo_env :: video_env where
  "demo_env = \<lparr>ve_GetVideoJobRoute = \<lambda>_. Some \<lparr>pr_BaseURL = ''b'', pr_Vendor = ''v'', pr_Transport = [], pr_CancelMode = ''always''\<rparr>,
     ve_MapperFor = \<lambda>_. True, ve_ParseTransport = \<lambda>_. True, ve_GetOrgProviderKeySecret = \<lambda>_ _. None,
     ve_GetVideoJobProviderKey = Some \<circ> UUIDString, ve_Open = \<lambda>c _. Some c,
     ve_poll = \<lambda>_ _. Some (no_poll\<lparr>po_Status := Completed\<rparr>), ve_cancel = \<lambda>_ _. Inr 200, ve_capture = \<lambda>_. None,
     ve_delete_artifact = \<lambda>_. True, ve_scan_num = Some\<rparr>"

lemma demo_created: "(video_step S)\<^sup>*\<^sup>* empty_world demo_world"
  using video_step.create [of demo_job empty_world S] by (simp add: demo_world_def demo_job_def empty_world_def)

lemma demo_scan: "wo_charges (VideoScan_Work Recorder demo_env 100 demo_world) = [(Some 1, 8)]"
  by code_simp




end
