(* ===== verification/VideoSubmit.thy ===== *)
theory VideoSubmit
  imports Settlement VideoRuns
begin

text \<open>
  The admission and submission of a video job: \<open>admitAndSubmitVideo\<close> of \<open>proxy/videos.go\<close> and
  \<open>proxy/video_submit.go\<close>. It joins the request path of \<open>Admission\<close> with the job table of
  \<open>VideoJobs\<close>: the state is a gateway beside a world of jobs, whose books are the gateway's.
  Shown: a submission is an interleaving of the atomic steps of \<open>VideoRuns\<close>, a job settles as it
  was quoted, a key has at most one job, and what failover makes of that.
\<close>

section \<open>The state\<close>

type_synonym ('c, 's, 'l, 'b) video_state = "('c, 's, 'l, 'b) gateway \<times> 'b world"

text \<open>The books live in the world; an operation of the gateway works on them there.\<close>

definition in_gateway :: "(('c, 's, 'l, 'b) gateway \<Rightarrow> 'r \<times> ('c, 's, 'l, 'b) gateway) \<Rightarrow> ('c, 's, 'l, 'b) video_state
    \<Rightarrow> 'r \<times> ('c, 's, 'l, 'b) video_state" where
  "in_gateway f s =
     (let (r, g) = f ((fst s)\<lparr>gw_books := wo_books (snd s)\<rparr>)
      in (r, (g, (snd s)\<lparr>wo_books := gw_books g\<rparr>)))"

definition in_world :: "('b world \<Rightarrow> 'b world) \<Rightarrow> ('c, 's, 'l, 'b) video_state \<Rightarrow> ('c, 's, 'l, 'b) video_state" where
  "in_world f s = (fst s, f (snd s))"

text \<open>The ids that some row, some copy of a row or some charge carries.\<close>

definition used_ids :: "'b world \<Rightarrow> uuid list" where
  "used_ids w = map j_ID (wo_jobs w @ wo_reads w) @ map fst (wo_charges w)"

text \<open>
  What a submission needs besides a request's environment: the vendor's mapper -- whether there is one, whether
  it can shape the request, what it makes of an answer --, the call itself and how long it takes, the id the database gives a new
  row, whether a statement succeeds, and the stored form of the parameters, which nothing below reads.
\<close>

record submit_env =
  sv_MapperFor :: "string \<Rightarrow> bool"
  sv_Submit :: "VideoRoute \<Rightarrow> VideoRequest \<Rightarrow> bool \<Rightarrow> string option"
  sv_call :: "VideoRoute \<Rightarrow> videoCredential \<Rightarrow> upstream_answer \<times> duration"
  sv_SubmitResult :: "VideoRoute \<Rightarrow> VideoRequest \<Rightarrow> int \<Rightarrow> string \<Rightarrow> string option"
  sv_newID :: "uuid list \<Rightarrow> uuid"
  sv_insert_ok :: "Job \<Rightarrow> bool"
  sv_mark_ok :: bool
  sv_params :: "VideoRequest \<Rightarrow> json"

section \<open>The row\<close>

definition holdSlack :: int where "holdSlack = 3"
definition minVideoHoldTTL :: duration where "minVideoHoldTTL = minutes 30"
definition maxVideoHoldTTL :: duration where "maxVideoHoldTTL = hours 6"
definition firstPollDelay :: duration where "firstPollDelay = seconds 5"

definition videoHoldTTL :: "int \<Rightarrow> duration" where
  "videoHoldTTL maxJobSeconds = min (max (mul64 (mul64 maxJobSeconds holdSlack) 1000000000) minVideoHoldTTL) maxVideoHoldTTL"

definition BYOK :: "videoCredential \<Rightarrow> bool" where "BYOK c \<longleftrightarrow> uuid_valid (vc_OrgProviderKeyID c)"

definition json_of_unit_rate :: "ModelPriceUnitRate \<Rightarrow> json" where
  "json_of_unit_rate r = JObj ([(''unit'', JStr (ur_Unit r))] @ omit (ur_Resolution r = []) ''resolution'' (JStr (ur_Resolution r)) @
     omit (ur_Audio r = []) ''audio'' (JStr (ur_Audio r)) @ omit (ur_Variant r = []) ''variant'' (JStr (ur_Variant r)) @
     omit (ur_ServiceTier r = []) ''service_tier'' (JStr (ur_ServiceTier r)) @ [(''nano_per_unit'', JNum (ur_NanoPerUnit r))])"

text \<open>A map is rendered with its keys in order.\<close>

definition video_snapshot :: "Quote \<Rightarrow> UnitPriceTable \<Rightarrow> json" where
  "video_snapshot quote table = JObj
     [(''charged_nano'', JNum (q_ChargedNano quote)), (''fx_rate'', JStr (q_FXRate quote)),
      (''model_multiplier_bps'', JNum (q_ModelMultiplierBps quote)), (''plan_multiplier_bps'', JNum (q_PlanMultiplierBps quote)),
      (''procurement_multiplier_bps'', JNum (q_ProcurementMultiplierBps quote)),
      (''schema_version'', JNum usagePricingSchemaVersion),
      (''unit_rates'', JArr (map json_of_unit_rate (UnitSnapshot table))), (''upstream_usd_nano'', JNum (q_UpstreamUSDNano quote))]"

definition video_row :: "('c, 's, 'l, 'b) gateway_env \<Rightarrow> submit_env \<Rightarrow> instant \<Rightarrow> prepared \<Rightarrow> Request \<Rightarrow> VideoRequest \<Rightarrow> Quote \<Rightarrow> Units
    \<Rightarrow> VideoRoute \<Rightarrow> videoCredential \<Rightarrow> uuid \<Rightarrow> duration \<Rightarrow> string \<Rightarrow> string \<Rightarrow> int \<Rightarrow> uuid \<Rightarrow> Job" where
  "video_row env sv now prep rq req quote units route cred holdID ttl idempotencyKey fingerprint maxJobSeconds u =
     \<lparr>j_ID = u, j_OrgID = id_OrgID (pr_id prep), j_ApiKeyID = id_KeyID (pr_id prep), j_RequestID = rq_RequestID rq,
      j_IdempotencyKey = idempotencyKey, j_RequestFingerprint = fingerprint, j_ModelID = m_ID (re_Model (pr_res prep)),
      j_ModelSlug = pr_modelSlug prep, j_RouteID = r_ID route, j_ProviderID = r_ProviderID route,
      j_ProviderKeyID = vc_ProviderKeyID cred, j_OrgProviderKeyID = vc_OrgProviderKeyID cred, j_Byok = BYOK cred,
      j_UpstreamID = [], j_Status = Queued, j_SettlementState = Held, j_UpstreamStatus = [], j_Progress = 0, j_ErrorCode = [],
      j_ErrorMessage = [], j_Params = Some (sv_params sv req), j_BillingUnits = Some (unitsSnapshot units), j_HoldID = holdID,
      j_HoldNano = q_ChargedNano quote, j_HoldExpiresAt = Some (now + ttl), j_ChargedNano = 0,
      j_ChargedCurrency = id_WalletCurrency (pr_id prep), j_PricingSnapshot = Some (video_snapshot quote (pr_unitPriceTable prep)),
      j_MaxJobSeconds = to_int32 maxJobSeconds, j_PollAttempts = 0, j_NotFoundCount = 0, j_NextPollAt = Some now, j_ArtifactKey = [],
      j_UpstreamArtifactRef = [], j_EndUserID = rq_EndUserID rq, j_ExpiresAt = now + VideoRetention (ge_settings env), j_CreatedAt = now,
      j_SubmittedAt = None, j_TerminalAt = None\<rparr>"

text \<open>The unique index on organization and key, and the statements it decides.\<close>

definition same_key :: "uuid \<Rightarrow> string \<Rightarrow> Job \<Rightarrow> bool" where
  "same_key orgID key j \<longleftrightarrow> j_OrgID j = orgID \<and> j_IdempotencyKey j = key"

definition GetVideoJobByIdempotencyKey :: "uuid \<Rightarrow> string \<Rightarrow> Job list \<Rightarrow> Job option" where
  "GetVideoJobByIdempotencyKey orgID key jobs = find (same_key orgID key) jobs"

definition CreateVideoJob :: "submit_env \<Rightarrow> Job \<Rightarrow> 'b world \<Rightarrow> unit + 'b world" where
  "CreateVideoJob sv row w =
     (if (\<exists>j \<in> set (wo_jobs w). same_key (j_OrgID row) (j_IdempotencyKey row) j) \<or> \<not> sv_insert_ok sv row then Inl ()
      else Inr (w\<lparr>wo_jobs := wo_jobs w @ [row], wo_reads := row # wo_reads w\<rparr>))"

definition videoJobForKey :: "uuid \<Rightarrow> string \<Rightarrow> Job list \<Rightarrow> Job option" where
  "videoJobForKey orgID key jobs = GetVideoJobByIdempotencyKey orgID key jobs"

definition createVideoJobRow :: "submit_env \<Rightarrow> Job \<Rightarrow> ('c, 's, 'l, 'b) video_state \<Rightarrow> (Error + Job \<times> bool) \<times> ('c, 's, 'l, 'b) video_state" where
  "createVideoJobRow sv row s =
     (case CreateVideoJob sv row (snd s) of
        Inr w \<Rightarrow> (Inr (row, False), (fst s, w))
      | Inl _ \<Rightarrow>
          (case videoJobForKey (j_OrgID row) (j_IdempotencyKey row) (wo_jobs (snd s)) of
             Some won \<Rightarrow> (Inr (won, True), s)
           | None \<Rightarrow> (Inl (NewError GatewayInternal ''The job could not be created''), s)))"

section \<open>One candidate\<close>

definition pinVideoCredential :: "('c, 's, 'l, 'b) gateway_env \<Rightarrow> instant \<Rightarrow> VideoRoute \<Rightarrow> byokChoices \<Rightarrow> ('c, 's, 'l, 'b) gateway
    \<Rightarrow> (Error + videoCredential) \<times> ('c, 's, 'l, 'b) gateway" where
  "pinVideoCredential env now route byok g =
     (let pipe = gw_pipe g;
          (cred, c, cursors) = credentialFor (pc_breaker (ge_config env)) (ge_attempt env) now (Route.truncate route) byok
             (ps_circuits pipe) (at_cursors (ps_attempt pipe))
      in (case cred of
            Inl e \<Rightarrow> Inl e
          | Inr (keyID, apiKey, baseURL, byokKeyID) \<Rightarrow>
              Inr \<lparr>vc_APIKey = apiKey, vc_BaseURL = baseURL, vc_ProviderKeyID = keyID, vc_OrgProviderKeyID = byokKeyID\<rparr>,
          g\<lparr>gw_pipe := pipe\<lparr>ps_circuits := c, ps_attempt := (ps_attempt pipe)\<lparr>at_cursors := cursors\<rparr>\<rparr>\<rparr>))"

definition videoCharge :: "prepared \<Rightarrow> Units \<Rightarrow> bool \<Rightarrow> pricing_error + Quote" where
  "videoCharge prep units own =
     (let (list, cost) = billingUnitPrices prep; rates = pi_rates (pr_pricing prep)
      in if own then ComputeUnitsBYOK list units (pi_byokFeeBps (pr_pricing prep)) rates else ComputeUnits list cost units rates)"

definition quoteVideoForCredential :: "('c, 's, 'l, 'b) gateway_env \<Rightarrow> instant \<Rightarrow> prepared \<Rightarrow> Units \<Rightarrow> videoCredential
    \<Rightarrow> ('c, 's, 'l, 'b) gateway \<Rightarrow> (Error + Quote) \<times> ('c, 's, 'l, 'b) gateway" where
  "quoteVideoForCredential env now prep units cred g = quoteOrRefuse env now (pr_modelSlug prep) (videoCharge prep units (BYOK cred)) g"

definition doVideoCall :: "submit_env \<Rightarrow> VideoRoute \<Rightarrow> videoCredential \<Rightarrow> Error + int \<times> string" where
  "doVideoCall sv route cred =
     (case fst (sv_call sv route cred) of
        NotBuilt _ \<Rightarrow> Inl (NewError GatewayInternal ''The upstream request could not be built'')
      | NoAnswer _ \<Rightarrow> Inl (NewError GatewayAllProvidersFailed ''The upstream could not be reached'')
      | Answer status body _ \<Rightarrow> Inr (status, body)
      | _ \<Rightarrow> Inl (NewError GatewayInternal ''The upstream response could not be read''))"

definition callVideoUpstream :: "submit_env \<Rightarrow> VideoRoute \<Rightarrow> videoCredential \<Rightarrow> VideoRequest \<Rightarrow> bool \<Rightarrow> Error + string" where
  "callVideoUpstream sv route cred req audioOn =
     (case sv_Submit sv route req audioOn of
        Some msg \<Rightarrow> Inl (NewError GatewayInvalidRequest msg)
      | None \<Rightarrow>
          bind_result (doVideoCall sv route cred) (\<lambda>(status, body).
            case sv_SubmitResult sv route req status body of
              None \<Rightarrow> Inl (NewError GatewayAllProvidersFailed ''The upstream refused the request'')
            | Some upstreamID \<Rightarrow> Inr upstreamID))"

definition no_upstream_serves :: Error where
  "no_upstream_serves = NewError GatewayAllProvidersFailed ''No upstream is able to serve this model''"

text \<open>The end of an attempt: the upstream is called, and the row learns its id or is failed.\<close>

definition deliverVideoJob :: "'b settle_env \<Rightarrow> submit_env \<Rightarrow> instant \<Rightarrow> Job \<Rightarrow> VideoRequest \<Rightarrow> bool \<Rightarrow> VideoRoute \<Rightarrow> videoCredential
    \<Rightarrow> ('c, 's, 'l, 'b) video_state \<Rightarrow> (Error + Job) \<times> ('c, 's, 'l, 'b) video_state" where
  "deliverVideoJob se sv later job req audioOn route cred s =
     (case callVideoUpstream sv route cred req audioOn of
        Inl gerr \<Rightarrow> (Inl gerr, in_world (failVideoJob (se_settler se) later job ''gateway.all_providers_failed'' (e_Message gerr)) s)
      | Inr upstreamID \<Rightarrow>
          if \<not> sv_mark_ok sv
          then (Inl (NewError GatewayInternal ''The job could not be recorded''),
                in_world (failVideoJob (se_settler se) later job ''gateway.internal'' ''the job could not be recorded'') s)
          else (Inr (job\<lparr>j_UpstreamID := upstreamID, j_Status := InProgress\<rparr>),
                in_world (\<lambda>w. w\<lparr>wo_jobs := MarkVideoJobSubmitted later (j_ID job) upstreamID ''submitted'' InProgress firstPollDelay (wo_jobs w)\<rparr>) s))"

definition submitToRoute :: "('c, 's, 'l, 'b) gateway_env \<Rightarrow> 'b settle_env \<Rightarrow> submit_env \<Rightarrow> prepared \<Rightarrow> Request \<Rightarrow> VideoRequest \<Rightarrow> bool \<Rightarrow> Units
    \<Rightarrow> string \<Rightarrow> string \<Rightarrow> int \<Rightarrow> instant \<Rightarrow> VideoRoute \<Rightarrow> ('c, 's, 'l, 'b) video_state \<Rightarrow> ((Error + Job) \<times> instant) \<times> ('c, 's, 'l, 'b) video_state" where
  "submitToRoute env se sv prep rq req audioOn units idempotencyKey fingerprint maxJobSeconds now route s =
     (if \<not> sv_MapperFor sv (r_ProviderVendor route) then ((Inl no_upstream_serves, now), s)
      else case in_gateway (pinVideoCredential env now route (pr_byok prep)) s of
        (Inl gerr, s) \<Rightarrow> ((Inl gerr, now), s)
      | (Inr cred, s) \<Rightarrow>
          (case in_gateway (quoteVideoForCredential env now prep units cred) s of
             (Inl gerr, s) \<Rightarrow> ((Inl gerr, now), s)
           | (Inr quote, s) \<Rightarrow>
               (let ttl = videoHoldTTL maxJobSeconds
                in case in_gateway (ReserveFor se (pr_id prep) (rq_RequestID rq) (q_ChargedNano quote) ttl) s of
                     (Inl gerr, s) \<Rightarrow> ((Inl gerr, now), s)
                   | (Inr holdID, s) \<Rightarrow>
                       (let row = video_row env sv now prep rq req quote units route cred holdID ttl idempotencyKey fingerprint maxJobSeconds
                                    (sv_newID sv (used_ids (snd s)))
                        in case createVideoJobRow sv row s of
                             (Inl gerr, s) \<Rightarrow> ((Inl gerr, now), in_world (VoidHold (se_settler se) (id_OrgID (pr_id prep)) (rq_RequestID rq)) s)
                           | (Inr (job, True), s) \<Rightarrow> ((Inr job, now), in_world (VoidHold (se_settler se) (id_OrgID (pr_id prep)) (rq_RequestID rq)) s)
                           | (Inr (job, False), s) \<Rightarrow>
                               (let later = now + snd (sv_call sv route cred);
                                    (r, s) = deliverVideoJob se sv later job req audioOn route cred s
                                in ((r, later), s))))))"

section \<open>All candidates\<close>

definition retryableVideoSubmit :: "Error \<Rightarrow> bool" where
  "retryableVideoSubmit e \<longleftrightarrow>
     e_Code e \<notin> {GatewayInvalidRequest, GatewayVideoParamsUnsupported, GatewayInsufficientCredits, GatewayInternal}"

fun submit_routes :: "(instant \<Rightarrow> VideoRoute \<Rightarrow> ('c, 's, 'l, 'b) video_state \<Rightarrow> ((Error + Job) \<times> instant) \<times> ('c, 's, 'l, 'b) video_state)
    \<Rightarrow> VideoRoute list \<Rightarrow> Error option \<Rightarrow> instant \<Rightarrow> ('c, 's, 'l, 'b) video_state \<Rightarrow> ((Error + Job) \<times> instant) \<times> ('c, 's, 'l, 'b) video_state" where
  "submit_routes submit [] lastErr now s = ((Inl (case lastErr of None \<Rightarrow> no_upstream_serves | Some e \<Rightarrow> e), now), s)"
| "submit_routes submit (route # routes) lastErr now s =
     (case submit now route s of
        ((Inr job, later), s) \<Rightarrow> ((Inr job, later), s)
      | ((Inl gerr, later), s) \<Rightarrow>
          if \<not> retryableVideoSubmit gerr then ((Inl gerr, later), s) else submit_routes submit routes (Some gerr) later s)"

definition submitVideoJob :: "('c, 's, 'l, 'b) gateway_env \<Rightarrow> 'b settle_env \<Rightarrow> submit_env \<Rightarrow> prepared \<Rightarrow> Request \<Rightarrow> VideoRequest \<Rightarrow> bool \<Rightarrow> Units
    \<Rightarrow> VideoRoute list \<Rightarrow> string \<Rightarrow> string \<Rightarrow> int \<Rightarrow> instant \<Rightarrow> ('c, 's, 'l, 'b) video_state
    \<Rightarrow> ((Error + Job) \<times> instant) \<times> ('c, 's, 'l, 'b) video_state" where
  "submitVideoJob env se sv prep rq req audioOn units routes idempotencyKey fingerprint maxJobSeconds now s =
     submit_routes (submitToRoute env se sv prep rq req audioOn units idempotencyKey fingerprint maxJobSeconds) routes None now s"

section \<open>Admission\<close>

fun join_text :: "string list \<Rightarrow> string" where
  "join_text [] = []"
| "join_text [t] = t"
| "join_text (t # ts) = t @ '', '' @ join_text ts"

definition outside_text :: "ErrOutsideEnvelope \<Rightarrow> string" where
  "outside_text e =
     (if oe_Admissible e = [] then ''this model does not support '' @ oe_Field e @ ''='' @ oe_Got e
      else ''this model does not support '' @ oe_Field e @ ''='' @ oe_Got e @ ''; it accepts '' @ join_text (oe_Admissible e))"

definition videoUnits :: "('c, 's, 'l, 'b) gateway_env \<Rightarrow> instant \<Rightarrow> prepared \<Rightarrow> VideoRequest \<Rightarrow> bool \<Rightarrow> ('c, 's, 'l, 'b) gateway
    \<Rightarrow> (Error + Units) \<times> ('c, 's, 'l, 'b) gateway" where
  "videoUnits env now prep req audioOn g =
     (case BillingUnit (pr_unitPriceTable prep) of
        Inl _ \<Rightarrow> (Inl unpriced, alertUnpriced env now (pr_modelSlug prep) g)
      | Inr unit \<Rightarrow>
          (let units = BillingUnits (vr_Resolution req) (vr_DurationSeconds req) (vr_N req) audioOn unit
           in case quoteOrRefuse env now (pr_modelSlug prep) (videoCharge prep units False) g of
                (Inl e, g) \<Rightarrow> (Inl e, g)
              | (Inr _, g) \<Rightarrow> (Inr units, g)))"

definition key_reused :: Error where
  "key_reused = NewError GatewayInvalidRequest ''This Idempotency-Key was already used for a different request''"

text \<open>The checks between admission and the first reservation: the candidates that can serve the request, and its quantity.\<close>

definition videoCandidates :: "prepared \<Rightarrow> VideoRequest \<Rightarrow> string \<Rightarrow> Error + VideoRoute list \<times> bool \<times> int" where
  "videoCandidates prep req vendor =
     (let candidates = map VideoRoute.truncate (re_Routes (pr_res prep));
          candidates = (if vendor \<noteq> [] then routesOfVendor candidates vendor else candidates)
      in if vendor \<noteq> [] \<and> candidates = []
         then Inl (NewError GatewayModelNotFound (''this model is not served by '' @ vendor @ '' on this gateway''))
         else let envelopes = routeEnvelopes candidates; accepts = EnvelopeUnion envelopes; audioOn = ResolveAudio accepts req
              in case Validate accepts req audioOn of
                   Some e \<Rightarrow> Inl (NewError GatewayVideoParamsUnsupported (outside_text e))
                 | None \<Rightarrow>
                     let candidates = coveringRoutes candidates envelopes req audioOn
                     in if candidates = []
                        then Inl (NewError GatewayVideoParamsUnsupported ''no route for this model can serve that combination of parameters'')
                        else Inr (candidates, audioOn, envelopeJobSeconds accepts))"

definition admitAndSubmitVideo :: "('c, 's, 'l, 'b) gateway_env \<Rightarrow> 'b settle_env \<Rightarrow> submit_env \<Rightarrow> instant \<Rightarrow> Request \<Rightarrow> VideoRequest \<Rightarrow> string
    \<Rightarrow> string \<Rightarrow> string \<Rightarrow> ('c, 's, 'l, 'b) video_state \<Rightarrow> (Error + Job \<times> bool) \<times> ('c, 's, 'l, 'b) video_state" where
  "admitAndSubmitVideo env se sv now rq req vendor idempotencyKey fingerprint s =
     (let ((prep, gerr), s) = in_gateway (Prepare env now rq) s;
          refuse = (\<lambda>e later s. (Inl e, snd (in_gateway (\<lambda>g. ((), RecordRejection env se prep rq (rq_RequestID rq) e (later - now) g)) s)))
      in case gerr of
           Some e \<Rightarrow> refuse e now s
         | None \<Rightarrow>
             (case videoCandidates prep req vendor of
                Inl e \<Rightarrow> refuse e now s
              | Inr (candidates, audioOn, jobSeconds) \<Rightarrow>
                  (case in_gateway (videoUnits env now prep req audioOn) s of
                     (Inl e, s) \<Rightarrow> refuse e now s
                   | (Inr units, s) \<Rightarrow>
                       (case videoJobForKey (id_OrgID (pr_id prep)) idempotencyKey (wo_jobs (snd s)) of
                          Some existing \<Rightarrow>
                            if j_RequestFingerprint existing \<noteq> fingerprint then refuse key_reused now s
                            else (Inr (existing, True), s)
                        | None \<Rightarrow>
                            (case submitVideoJob env se sv prep rq req audioOn units candidates idempotencyKey fingerprint jobSeconds now s of
                               ((Inl e, later), s) \<Rightarrow> refuse e later s
                             | ((Inr job, _), s) \<Rightarrow> (Inr (job, False), s))))))"

section \<open>A submission is an interleaving\<close>

lemma in_gateway_world: "in_gateway f s = (r, s') \<Longrightarrow> \<exists>b. snd s' = (snd s)\<lparr>wo_books := b\<rparr>"
  by (auto simp: in_gateway_def Let_def split: prod.splits)

lemma VoidHold_world: "\<exists>b. VoidHold S org req w = w\<lparr>wo_books := b\<rparr>"
  by (auto simp: VoidHold_def)

lemma CreateVideoJob_Inr:
  assumes "CreateVideoJob sv row w = Inr w'"
  shows "w' = w\<lparr>wo_jobs := wo_jobs w @ [row], wo_reads := row # wo_reads w\<rparr>"
    and "\<not> (\<exists>j \<in> set (wo_jobs w). same_key (j_OrgID row) (j_IdempotencyKey row) j)"
  using assms by (auto simp: CreateVideoJob_def split: if_splits)

text \<open>What each part of a submission does to the job table: rows keep their organization and their key.\<close>

definition keyed :: "Job \<Rightarrow> uuid \<times> string" where "keyed j = (j_OrgID j, j_IdempotencyKey j)"

lemma same_key_keyed: "same_key org key j \<longleftrightarrow> keyed j = (org, key)"
  by (auto simp: same_key_def keyed_def)

lemma keyed_set_where: "(\<And>j. keyed (f j) = keyed j) \<Longrightarrow> map keyed (set_where P f jobs) = map keyed jobs"
  by (simp add: set_where_def)

lemma keyed_fail: "map keyed (wo_jobs (fail_tx now j code msg w)) = map keyed (wo_jobs w)"
  by (simp add: fail_tx_def VoidVideoJob_def MarkVideoJobTerminal_def update_where_def keyed_set_where keyed_def)

lemma keyed_submitted: "map keyed (MarkVideoJobSubmitted now u up ups st d jobs) = map keyed jobs"
  by (simp add: MarkVideoJobSubmitted_def keyed_set_where keyed_def)

lemma deliver_run:
  assumes "deliverVideoJob se sv later job req audioOn route cred s = (r, s')" and "job \<in> set (wo_reads (snd s))"
  shows "(video_step (se_settler se))\<^sup>*\<^sup>* (snd s) (snd s')" and "map keyed (wo_jobs (snd s')) = map keyed (wo_jobs (snd s))"
proof -
  have fail: "(video_step (se_settler se))\<^sup>*\<^sup>* w (failVideoJob (se_settler se) later job code msg w) \<and>
      map keyed (wo_jobs (failVideoJob (se_settler se) later job code msg w)) = map keyed (wo_jobs w)"
    if "job \<in> set (wo_reads w)" for w code msg
    using fail_run [OF that] by (auto simp: failVideoJob_def keyed_fail VoidHold_def)
  have submitted: "(video_step (se_settler se))\<^sup>*\<^sup>* w (w\<lparr>wo_jobs := MarkVideoJobSubmitted later (j_ID job) up ups InProgress d (wo_jobs w)\<rparr>)"
    if "job \<in> set (wo_reads w)" for w up ups d
    by (rule r_into_rtranclp) (rule video_step.submitted [OF that])
  show "(video_step (se_settler se))\<^sup>*\<^sup>* (snd s) (snd s')"
    using assms fail submitted by (auto simp: deliverVideoJob_def in_world_def split: sum.splits if_splits)
  show "map keyed (wo_jobs (snd s')) = map keyed (wo_jobs (snd s))"
    using assms fail by (auto simp: deliverVideoJob_def in_world_def keyed_submitted split: sum.splits if_splits)
qed

text \<open>The table after a part of a submission: a run of steps, after which the request's key is on a row or the table is as it was.\<close>

definition submission :: "'b Settler \<Rightarrow> uuid \<times> string \<Rightarrow> 'b world \<Rightarrow> 'b world \<Rightarrow> bool" where
  "submission S k w w' \<longleftrightarrow> (video_step S)\<^sup>*\<^sup>* w w' \<and> (distinct (map keyed (wo_jobs w)) \<longrightarrow> distinct (map keyed (wo_jobs w'))) \<and>
     ((\<exists>b. w' = w\<lparr>wo_books := b\<rparr>) \<or> k \<in> keyed ` set (wo_jobs w'))"

definition may_insert :: "submit_env \<Rightarrow> uuid \<times> string \<Rightarrow> 'b world \<Rightarrow> bool" where
  "may_insert sv k w \<longleftrightarrow> sv_newID sv (used_ids w) \<notin> set (used_ids w) \<or> k \<in> keyed ` set (wo_jobs w)"

lemma submission_books: "submission S k w (w\<lparr>wo_books := b\<rparr>)"
  by (auto simp: submission_def books_run)

lemma submission_trans: "submission S k w w1 \<Longrightarrow> submission S k w1 w2 \<Longrightarrow> submission S k w w2"
  by (auto simp: submission_def)

lemma may_insert_books [simp]: "may_insert sv k (w\<lparr>wo_books := b\<rparr>) = may_insert sv k w"
  by (simp add: may_insert_def used_ids_def)

lemma submission_may_insert: "submission S k w w' \<Longrightarrow> may_insert sv k w \<Longrightarrow> may_insert sv k w'"
  by (auto simp: submission_def) (auto simp: may_insert_def)

lemma submission_gateway: "in_gateway f s = (r, s') \<Longrightarrow> submission S k (snd s) (snd s') \<and> (may_insert sv k (snd s) \<longrightarrow> may_insert sv k (snd s'))"
  by (drule in_gateway_world) (auto simp: submission_books)

lemma submission_void: "submission S k w (VoidHold S' org req w)"
  unfolding VoidHold_def by (rule submission_books)

lemma submission_create:
  assumes "CreateVideoJob sv row w = Inr w'" and "may_insert sv (keyed row) w" and "j_ID row = sv_newID sv (used_ids w)"
    and "j_Status row = Queued" and "j_SettlementState row = Held" and "j_ChargedNano row = 0"
  shows "submission S (keyed row) w w'"
proof -
  have w': "w' = w\<lparr>wo_jobs := wo_jobs w @ [row], wo_reads := row # wo_reads w\<rparr>" and free: "keyed row \<notin> keyed ` set (wo_jobs w)"
    using CreateVideoJob_Inr [OF assms(1)] by (auto simp: same_key_keyed keyed_def)
  then have "j_ID row \<notin> set (used_ids w)" using assms(2,3) by (simp add: may_insert_def)
  then have "video_step S w w'" unfolding w' using assms(4-6) by (intro video_step.create) (auto simp: used_ids_def)
  then show ?thesis using free by (auto simp: submission_def w')
qed

lemma submit_created:
  assumes "createVideoJobRow sv row s = (Inr (job, False), s1)" and "deliverVideoJob se sv later job req audioOn route cred s1 = (r, s')"
    and "may_insert sv (keyed row) (snd s)" and "j_ID row = sv_newID sv (used_ids (snd s))"
    and "j_Status row = Queued" and "j_SettlementState row = Held" and "j_ChargedNano row = 0"
  shows "submission (se_settler se) (keyed row) (snd s) (snd s')"
proof -
  have c: "CreateVideoJob sv row (snd s) = Inr (snd s1)" and job: "job = row"
    using assms(1) by (auto simp: createVideoJobRow_def split: sum.splits option.splits)
  note sub = submission_create [OF c assms(3-7), of "se_settler se"]
  have w: "snd s1 = (snd s)\<lparr>wo_jobs := wo_jobs (snd s) @ [row], wo_reads := row # wo_reads (snd s)\<rparr>" by (rule CreateVideoJob_Inr [OF c])
  have read: "job \<in> set (wo_reads (snd s1))" by (simp add: w job)
  note run = deliver_run [OF assms(2) read]
  have "keyed row \<in> set (map keyed (wo_jobs (snd s')))" unfolding run(2) by (simp add: w)
  then have k: "keyed row \<in> keyed ` set (wo_jobs (snd s'))" by simp
  have "submission (se_settler se) (keyed row) (snd s1) (snd s')" unfolding submission_def run(2) using run(1) k by blast
  with sub show ?thesis by (rule submission_trans)
qed

text \<open>An attempt ends before its row is written, with an error and nothing in the table changed, or at its row.\<close>

definition at_row :: "'b settle_env \<Rightarrow> submit_env \<Rightarrow> VideoRequest \<Rightarrow> bool \<Rightarrow> instant \<Rightarrow> VideoRoute \<Rightarrow> videoCredential \<Rightarrow> Job
    \<Rightarrow> ('c, 's, 'l, 'b) video_state \<Rightarrow> ((Error + Job) \<times> instant) \<times> ('c, 's, 'l, 'b) video_state" where
  "at_row se sv req audioOn now route cred row s =
     (case createVideoJobRow sv row s of
        (Inl gerr, s) \<Rightarrow> ((Inl gerr, now), in_world (VoidHold (se_settler se) (j_OrgID row) (j_RequestID row)) s)
      | (Inr (job, True), s) \<Rightarrow> ((Inr job, now), in_world (VoidHold (se_settler se) (j_OrgID row) (j_RequestID row)) s)
      | (Inr (job, False), s) \<Rightarrow>
          (let later = now + snd (sv_call sv route cred); (r, s) = deliverVideoJob se sv later job req audioOn route cred s in ((r, later), s)))"

lemma in_gateway_trans: "in_gateway f s1 = (r, s2) \<Longrightarrow> snd s1 = (snd s)\<lparr>wo_books := b\<rparr> \<Longrightarrow> \<exists>b. snd s2 = (snd s)\<lparr>wo_books := b\<rparr>"
  by (drule in_gateway_world) auto

lemma submitToRoute_cases:
  assumes "submitToRoute env se sv prep rq req audioOn units key fp mj now route s = ((r, later), s')"
  obtains (refused) b where "isl r" "snd s' = (snd s)\<lparr>wo_books := b\<rparr>"
  | (row) b s1 quote cred holdID ttl row where "snd s1 = (snd s)\<lparr>wo_books := b\<rparr>"
      "row = video_row env sv now prep rq req quote units route cred holdID ttl key fp mj (sv_newID sv (used_ids (snd s)))"
      "at_row se sv req audioOn now route cred row s1 = ((r, later), s')"
proof -
  obtain r1 s1 where c1: "in_gateway (pinVideoCredential env now route (pr_byok prep)) s = (r1, s1)" by (metis surj_pair)
  obtain b1 where b1: "snd s1 = (snd s)\<lparr>wo_books := b1\<rparr>" using in_gateway_world [OF c1] by blast
  note run = assms(1) [unfolded submitToRoute_def c1]
  show ?thesis
  proof (cases "\<not> sv_MapperFor sv (r_ProviderVendor route) \<or> isl r1")
    case True
    then have "isl r \<and> (s' = s \<or> s' = s1)" using run by (cases r1) (auto split: if_splits)
    then show ?thesis using refused [of b1] refused [of "wo_books (snd s)"] b1 by auto
  next
    case False
    then obtain cred where r1: "r1 = Inr cred" by (cases r1) auto
    obtain r2 s2 where c2: "in_gateway (quoteVideoForCredential env now prep units cred) s1 = (r2, s2)" by (metis surj_pair)
    obtain b2 where b2: "snd s2 = (snd s)\<lparr>wo_books := b2\<rparr>" using in_gateway_trans [OF c2 b1] by blast
    show ?thesis
    proof (cases r2)
      case (Inl e)
      then show ?thesis using run False b2 by (intro refused [of b2]) (auto simp: r1 c2)
    next
      case r2: (Inr quote)
      let ?ttl = "videoHoldTTL mj"
      obtain r3 s3 where c3: "in_gateway (ReserveFor se (pr_id prep) (rq_RequestID rq) (q_ChargedNano quote) ?ttl) s2 = (r3, s3)" by (metis surj_pair)
      obtain b3 where b3: "snd s3 = (snd s)\<lparr>wo_books := b3\<rparr>" using in_gateway_trans [OF c3 b2] by blast
      then have used: "used_ids (snd s3) = used_ids (snd s)" by (simp add: used_ids_def)
      show ?thesis
      proof (cases r3)
        case (Inl e)
        then show ?thesis using run False b3 by (intro refused [of b3]) (auto simp: r1 c2 r2 c3 Let_def)
      next
        case r3: (Inr holdID)
        define row where "row = video_row env sv now prep rq req quote units route cred holdID ?ttl key fp mj (sv_newID sv (used_ids (snd s)))"
        have cols: "j_OrgID row = id_OrgID (pr_id prep)" "j_RequestID row = rq_RequestID rq" by (simp_all add: row_def video_row_def)
        have "at_row se sv req audioOn now route cred row s3 = ((r, later), s')"
          using run False unfolding at_row_def cols by (simp add: r1 c2 r2 c3 r3 Let_def used row_def)
        then show ?thesis using b3 by (rule that(2) [rotated 2]) (rule row_def)
      qed
    qed
  qed
qed

lemma at_row_run:
  assumes "at_row se sv req audioOn now route cred row s = ((r, later), s')" and "may_insert sv (keyed row) (snd s)"
    and "j_ID row = sv_newID sv (used_ids (snd s))" and "j_Status row = Queued" and "j_SettlementState row = Held" and "j_ChargedNano row = 0"
  shows "submission (se_settler se) (keyed row) (snd s) (snd s')"
proof -
  obtain r4 s4 where c4: "createVideoJobRow sv row s = (r4, s4)" by (metis surj_pair)
  note run = assms(1) [unfolded at_row_def c4 Let_def prod.case]
  show ?thesis
  proof (cases "\<exists>job. r4 = Inr (job, False)")
    case True
    then obtain job where r4: "r4 = Inr (job, False)" by blast
    obtain r5 s5 where c5: "deliverVideoJob se sv (now + snd (sv_call sv route cred)) job req audioOn route cred s4 = (r5, s5)"
      by (metis surj_pair)
    from submit_created [OF c4 [unfolded r4] c5 assms(2-6)] show ?thesis using run by (simp add: r4 c5)
  next
    case False
    then have "s4 = s" using c4 by (auto simp: createVideoJobRow_def split: sum.splits option.splits)
    then show ?thesis using run False submission_void [of "se_settler se" "keyed row"]
      by (auto simp: in_world_def split: sum.splits bool.splits)
  qed
qed

lemma submitToRoute_run:
  assumes "submitToRoute env se sv prep rq req audioOn units key fp mj now route s = ((r, later), s')"
    and "may_insert sv (id_OrgID (pr_id prep), key) (snd s)"
  shows "submission (se_settler se) (id_OrgID (pr_id prep), key) (snd s) (snd s')"
  using assms(1)
proof (cases rule: submitToRoute_cases)
  case (refused b)
  then show ?thesis by (simp add: submission_books)
next
  case (row b s1 quote cred holdID ttl row)
  have k: "keyed row = (id_OrgID (pr_id prep), key)" by (simp add: row(2) video_row_def keyed_def)
  have "submission (se_settler se) (keyed row) (snd s1) (snd s')"
    using assms(2) row(1) by (intro at_row_run [OF row(3)]) (simp_all add: k, simp_all add: row(2) video_row_def used_ids_def)
  then show ?thesis using submission_trans [OF submission_books] by (metis k row(1))
qed

lemma submit_routes_run:
  assumes "submit_routes (submitToRoute env se sv prep rq req audioOn units key fp mj) routes lastErr now s = ((r, later), s')"
    and "may_insert sv (id_OrgID (pr_id prep), key) (snd s)"
  shows "submission (se_settler se) (id_OrgID (pr_id prep), key) (snd s) (snd s')"
  using assms
proof (induction routes arbitrary: lastErr now s)
  case Nil
  then show ?case using submission_books [of _ _ "snd s" "wo_books (snd s)"] by simp
next
  case (Cons route routes)
  obtain r1 t s1 where c: "submitToRoute env se sv prep rq req audioOn units key fp mj now route s = ((r1, t), s1)" by (metis surj_pair)
  note sub = submitToRoute_run [OF c Cons.prems(2)]
  show ?case
  proof (cases "\<exists>e. r1 = Inl e \<and> retryableVideoSubmit e")
    case True
    then obtain e where r1: "r1 = Inl e" "retryableVideoSubmit e" by blast
    from Cons.prems(1) have "submit_routes (submitToRoute env se sv prep rq req audioOn units key fp mj) routes (Some e) t s1 = ((r, later), s')"
      by (simp add: c r1)
    from Cons.IH [OF this submission_may_insert [OF sub Cons.prems(2)]] show ?thesis by (rule submission_trans [OF sub])
  next
    case False
    then show ?thesis using Cons.prems(1) sub by (cases r1) (auto simp: c)
  qed
qed

lemma admitAndSubmitVideo_run:
  assumes "admitAndSubmitVideo env se sv now rq req vendor key fp s = (r, s')"
    and "sv_newID sv (used_ids (snd s)) \<notin> set (used_ids (snd s))"
  shows "\<exists>k. submission (se_settler se) k (snd s) (snd s')"
proof -
  obtain prep e s1 where c1: "in_gateway (Prepare env now rq) s = ((prep, e), s1)" by (metis surj_pair)
  define k where "k = (id_OrgID (pr_id prep), key)"
  note gw = submission_gateway [where S = "se_settler se" and k = k and sv = sv]
  have "may_insert sv k (snd s)" using assms(2) by (simp add: may_insert_def)
  then have s1: "submission (se_settler se) k (snd s) (snd s1)" "may_insert sv k (snd s1)" using gw [OF c1] by blast+
  have refuse: "submission (se_settler se) k (snd s) (snd (snd (in_gateway (\<lambda>g. ((), f g)) t)))"
    if "submission (se_settler se) k (snd s) (snd t)" for f t
    using submission_trans [OF that] gw [of "\<lambda>g. ((), f g)" t] by (metis surj_pair snd_conv)
  note run = assms(1) [unfolded admitAndSubmitVideo_def Let_def c1 prod.case]
  have "submission (se_settler se) k (snd s) (snd s')"
  proof (cases "e \<noteq> None \<or> isl (videoCandidates prep req vendor)")
    case True
    then show ?thesis using run refuse [OF s1(1)] by (cases e; cases "videoCandidates prep req vendor") auto
  next
    case False
    then obtain rs a m where cand: "e = None" "videoCandidates prep req vendor = Inr (rs, a, m)" by (cases "videoCandidates prep req vendor") auto
    obtain u s2 where c2: "in_gateway (videoUnits env now prep req a) s1 = (u, s2)" by (metis surj_pair)
    have s2: "submission (se_settler se) k (snd s) (snd s2)" "may_insert sv k (snd s2)" using gw [OF c2] s1 submission_trans by blast+
    show ?thesis
    proof (cases "isl u \<or> videoJobForKey (id_OrgID (pr_id prep)) key (wo_jobs (snd s2)) \<noteq> None")
      case True
      then show ?thesis using run refuse [OF s2(1)] s2(1) cand
        by (cases u; cases "videoJobForKey (id_OrgID (pr_id prep)) key (wo_jobs (snd s2))") (auto simp: c2 split: if_splits)
    next
      case False
      then obtain units where u: "u = Inr units" by (cases u) auto
      obtain q t s3 where c3: "submitVideoJob env se sv prep rq req a units rs key fp m now s2 = ((q, t), s3)" by (metis surj_pair)
      have s3: "submission (se_settler se) k (snd s) (snd s3)"
        using submit_routes_run [OF c3 [unfolded submitVideoJob_def], folded k_def, OF s2(2)] submission_trans [OF s2(1)] by blast
      show ?thesis using run refuse [OF s3] s3 cand False by (cases q) (auto simp: c2 u c3)
    qed
  qed
  then show ?thesis by blast
qed


section \<open>A job settles as it was quoted\<close>

text \<open>The columns a settlement reads; no statement writes them after the insert.\<close>

definition quoted_columns :: "Job \<Rightarrow> (uuid \<times> uuid \<times> uuid \<times> string) \<times> int \<times> json option \<times> json option \<times> string" where
  "quoted_columns j = ((j_ID j, j_OrgID j, j_ApiKeyID j, j_RequestID j), j_HoldNano j, j_PricingSnapshot j, j_BillingUnits j, j_ChargedCurrency j)"

definition quoted_as :: "Job \<Rightarrow> 'b world \<Rightarrow> bool" where
  "quoted_as row w \<longleftrightarrow> j_ID row \<in> j_ID ` set (wo_reads w) \<and>
     (\<forall>j \<in> set (wo_jobs w) \<union> set (wo_reads w). j_ID j = j_ID row \<longrightarrow> quoted_columns j = quoted_columns row)"

lemma quoted_id: "quoted_columns j = quoted_columns k \<Longrightarrow> j_ID j = j_ID k"
  by (simp add: quoted_columns_def)

lemma quoted_subset:
  assumes "quoted_as row w" and "set (wo_reads w') = set (wo_reads w)"
    and "quoted_columns ` set (wo_jobs w') \<subseteq> quoted_columns ` set (wo_jobs w)"
  shows "quoted_as row w'"
proof -
  have "quoted_columns j = quoted_columns row" if j: "j \<in> set (wo_jobs w')" and id: "j_ID j = j_ID row" for j
  proof -
    obtain i where i: "i \<in> set (wo_jobs w)" "quoted_columns j = quoted_columns i" using assms(3) j by auto
    then have "j_ID i = j_ID row" using quoted_id id by metis
    then show ?thesis using assms(1) i by (simp add: quoted_as_def)
  qed
  then show ?thesis using assms(1) unfolding quoted_as_def assms(2) by blast
qed

lemma quoted_set_where: "(\<And>j. quoted_columns (f j) = quoted_columns j) \<Longrightarrow> map quoted_columns (set_where P f jobs) = map quoted_columns jobs"
  by (simp add: set_where_def)

lemma quoted_statements:
  "map quoted_columns (MarkVideoJobSubmitted now u up ups st d jobs) = map quoted_columns jobs"
  "map quoted_columns (MarkVideoJobProgress now u poll d jobs) = map quoted_columns jobs"
  "map quoted_columns (snd (MarkVideoJobNotFound now u d jobs)) = map quoted_columns jobs"
  "map quoted_columns (ProtectVideoJobHold u jobs) = map quoted_columns jobs"
  "map quoted_columns (OrphanVideoJobHold u jobs) = map quoted_columns jobs"
  "map quoted_columns (RecordVideoJobArtifact u key jobs) = map quoted_columns jobs"
  "map quoted_columns (ClearVideoJobArtifact u jobs) = map quoted_columns jobs"
  "map quoted_columns (snd (ClaimDueVideoJobs now lease n jobs)) = map quoted_columns jobs"
  "map quoted_columns (snd (MarkVideoJobTerminal now u status poll jobs)) = map quoted_columns jobs"
  "map quoted_columns (snd (SettleVideoJob u charged jobs)) = map quoted_columns jobs"
  "map quoted_columns (snd (VoidVideoJob u jobs)) = map quoted_columns jobs"
  by (simp_all add: MarkVideoJobSubmitted_def MarkVideoJobProgress_def MarkVideoJobNotFound_def ProtectVideoJobHold_def
      OrphanVideoJobHold_def RecordVideoJobArtifact_def ClearVideoJobArtifact_def ClaimDueVideoJobs_def MarkVideoJobTerminal_def SettleVideoJob_def
      VoidVideoJob_def update_where_def quoted_set_where
      quoted_columns_def Let_def)

lemma quoted_terminate:
  "terminate_tx S scan_num now j poll status w = Some w' \<Longrightarrow> map quoted_columns (wo_jobs w') = map quoted_columns (wo_jobs w)"
  by (auto simp: terminate_tx_def case_prod_beta Let_def quoted_statements split: if_splits sum.splits)

lemma quoted_fail: "map quoted_columns (wo_jobs (fail_tx now j code msg w)) = map quoted_columns (wo_jobs w)"
  by (simp add: fail_tx_def quoted_statements)

lemma quoted_kept:
  assumes "quoted_as row w" and "wo_reads w' = wo_reads w" and "map quoted_columns (wo_jobs w') = map quoted_columns (wo_jobs w)"
  shows "quoted_as row w'"
  using assms(2) arg_cong [OF assms(3), of set] by (intro quoted_subset [OF assms(1)]) simp_all

lemma quoted_step:
  assumes "video_step S w w'" and "quoted_as row w"
  shows "quoted_as row w'"
  using assms(1)
proof cases
  case (create j)
  have "j_ID j \<noteq> j_ID row" using create(2) assms(2) by (auto simp: quoted_as_def)
  then show ?thesis using assms(2) by (auto simp: quoted_as_def create(1))
next
  case (read rows)
  then show ?thesis using assms(2) by (auto simp: quoted_as_def read_rows_def)
next
  case (claim now lease n due jobs)
  have "jobs = snd (ClaimDueVideoJobs now lease n (wo_jobs w))" using claim(2) by simp
  then show ?thesis unfolding claim(1) by (intro quoted_kept [OF assms(2)]) (simp_all add: quoted_statements)
next
  case (terminate j status scan_num now poll)
  then show ?thesis by (intro quoted_kept [OF assms(2)]) (simp_all add: reads_terminate_tx quoted_terminate)
next
  case (delete j)
  then show ?thesis by (intro quoted_subset [OF assms(2)]) (auto simp: DeleteVideoJob_def)
qed (use assms(2) in \<open>auto intro!: quoted_kept [OF assms(2)] simp: quoted_statements quoted_fail\<close>)

lemma quoted_run: "(video_step S)\<^sup>*\<^sup>* w w' \<Longrightarrow> quoted_as row w \<Longrightarrow> quoted_as row w'"
  by (induction rule: rtranclp_induct) (auto intro: quoted_step)

lemma snapshot_reads_back:
  "is_int64 (q_UpstreamUSDNano quote) \<Longrightarrow> upstreamCostFrom (Some (video_snapshot quote table)) = q_UpstreamUSDNano quote"
  "q_FXRate quote \<noteq> [] \<Longrightarrow> fxRateFrom (Some (video_snapshot quote table)) = q_FXRate quote"
  by (simp_all add: upstreamCostFrom_def fxRateFrom_def video_snapshot_def get_number_def get_string_def)

lemma units_read_back: "is_int64 n \<Longrightarrow> unitRowsOf (Some (unitsSnapshot [(k, n)])) = [(uk_Unit k, n)]"
  by (simp add: unitRowsOf_def unitsSnapshot_def get_number_def get_string_def)

lemma videoUsageLogParams_columns:
  "u_ChargedNano (videoUsageLogParams sn now j poll st n) = n" "u_ApiKeyID (videoUsageLogParams sn now j poll st n) = j_ApiKeyID j"
  "u_RequestID (videoUsageLogParams sn now j poll st n) = j_RequestID j"
  "u_UpstreamCostUsdNano (videoUsageLogParams sn now j poll st n) = upstreamCostFrom (j_PricingSnapshot j)"
  "u_FxRate (videoUsageLogParams sn now j poll st n) = numericFromString sn (fxRateFrom (j_PricingSnapshot j))"
  "u_BilledUnits (videoUsageLogParams sn now j poll st n) = billedUnitsOf (j_BillingUnits j)"
  "u_BilledUnit (videoUsageLogParams sn now j poll st n) = billedUnitOf (j_BillingUnits j)"
  by (simp_all add: videoUsageLogParams_def)

text \<open>
  C12. A job settles as it was quoted, however long it runs. Whatever pollers, sweepers, callers and other submissions do
  after its row was written, when a worker that read the row -- at any time -- settles it, the charge is the one quoted
  for the credential it was pinned to, on the key that submitted it, and the usage row carries the quote's cost
  and exchange rate and the quantity that was priced, read back out of the stored snapshot.
\<close>

theorem job_settles_as_quoted:
  assumes "row = video_row env sv now prep rq req quote [(k, n)] route cred holdID ttl key fp mj u"
    and "is_int64 (q_UpstreamUSDNano quote)" and "q_FXRate quote \<noteq> []" and "is_int64 n"
    and "quoted_as row w" and "(video_step S)\<^sup>*\<^sup>* w w'"
    and "job \<in> set (wo_reads w')" and "j_ID job = u"
    and "terminate_tx S scan_num t job poll Completed w' = Some w''"
  shows "wo_charges w'' = wo_charges w' @ [(u, q_ChargedNano quote)] \<and>
    (\<exists>p. bo_usage (wo_books w'') = bo_usage (wo_books w') @ [p] \<and> u_ApiKeyID p = id_KeyID (pr_id prep) \<and> u_RequestID p = rq_RequestID rq \<and>
       u_ChargedNano p = q_ChargedNano quote \<and> u_UpstreamCostUsdNano p = q_UpstreamUSDNano quote \<and>
       u_FxRate p = scan_num (q_FXRate quote) \<and> u_BilledUnit p = uk_Unit k \<and>
       u_BilledUnits p = Some (to_int32 (min n 2147483647)))"
proof -
  have id: "j_ID row = u" by (simp add: assms(1) video_row_def)
  have "quoted_columns job = quoted_columns row"
    using quoted_run [OF assms(6,5)] assms(7,8) id by (auto simp: quoted_as_def)
  then have cols: "j_HoldNano job = q_ChargedNano quote" "j_PricingSnapshot job = Some (video_snapshot quote (pr_unitPriceTable prep))"
    "j_BillingUnits job = Some (unitsSnapshot [(k, n)])" "j_ApiKeyID job = id_KeyID (pr_id prep)" "j_RequestID job = rq_RequestID rq"
    by (simp_all add: quoted_columns_def assms(1) video_row_def)
  let ?p = "videoUsageLogParams scan_num t job poll Completed (j_HoldNano job)"
  have out: "wo_charges w'' = wo_charges w' @ [(j_ID job, j_HoldNano job)]" "bo_usage (wo_books w'') = bo_usage (wo_books w') @ [?p]"
    using assms(9)
    by (auto simp: terminate_tx_def case_prod_beta Let_def recordVideoUnsettled_def RecordUnsettled_def split: if_splits sum.splits)
  have units: "billedUnitOf (j_BillingUnits job) = uk_Unit k" "billedUnitsOf (j_BillingUnits job) = Some (to_int32 (min n 2147483647))"
    using assms(4) by (simp_all add: cols billedUnitOf_def billedUnitsOf_def units_read_back add64_def to_int64_id Let_def)
  show ?thesis
    using assms(2,3) units out(1) assms(8)
    by (intro conjI exI [of _ ?p]) (simp_all add: out videoUsageLogParams_columns cols snapshot_reads_back numericFromString_def)
qed

section \<open>What failover makes of the key\<close>

text \<open>The row a failed attempt leaves behind still carries the request's key.\<close>

lemma set_where_last: "(\<And>j. j \<in> set js \<Longrightarrow> \<not> P j) \<Longrightarrow> P x \<Longrightarrow> set_where P f (js @ [x]) = js @ [f x]"
  by (simp add: set_where_def map_idI)

lemma fail_tx_last:
  assumes "j_ID row \<notin> j_ID ` set js" and "j_Status row = Queued" and "j_SettlementState row = Held" and "wo_jobs w = js @ [row]"
  shows "\<exists>failed. wo_jobs (fail_tx now row code msg w) = js @ [failed] \<and> keyed failed = keyed row \<and> j_Status failed = Failed"
proof -
  have other: "j_ID j \<noteq> j_ID row" if "j \<in> set js" for j using assms(1) imageI [OF that, of j_ID] by metis
  show ?thesis
    using assms(2,3) other
    by (auto simp: fail_tx_def assms(4) VoidVideoJob_def MarkVideoJobTerminal_def update_where_def set_where_last running_def keyed_def)
qed

lemma deliver_failed_row:
  assumes "deliverVideoJob se sv later row req audioOn route cred s = (Inl e, s')" and "wo_jobs (snd s) = js @ [row]"
    and "j_ID row \<notin> j_ID ` set js" and "j_Status row = Queued" and "j_SettlementState row = Held" and "keyed row \<notin> keyed ` set js"
  shows "\<exists>failed. videoJobForKey (j_OrgID row) (j_IdempotencyKey row) (wo_jobs (snd s')) = Some failed \<and> j_Status failed = Failed"
proof -
  obtain code msg where s': "snd s' = failVideoJob (se_settler se) later row code msg (snd s)"
    using assms(1) by (auto simp: deliverVideoJob_def in_world_def split: sum.splits if_splits)
  obtain failed where f: "wo_jobs (snd s') = js @ [failed]" "keyed failed = keyed row" "j_Status failed = Failed"
    using fail_tx_last [OF assms(3-5), where w = "VoidHold (se_settler se) (j_OrgID row) (j_RequestID row) (snd s)" and now = later
        and code = code and msg = msg] assms(2)
    unfolding s' failVideoJob_def by (auto simp: VoidHold_def)
  have "find (same_key (j_OrgID row) (j_IdempotencyKey row)) (js @ [failed]) = Some failed"
    using assms(6) f(2) by (intro find_only) (auto simp: same_key_keyed keyed_def image_iff)
  then have "videoJobForKey (j_OrgID row) (j_IdempotencyKey row) (wo_jobs (snd s')) = Some failed"
    by (simp add: f(1) videoJobForKey_def GetVideoJobByIdempotencyKey_def)
  then show ?thesis using f(3) by blast
qed

text \<open>While a row carries the key, an attempt answers with that row or an error, and leaves the table alone.\<close>

lemma create_taken:
  assumes "videoJobForKey (j_OrgID row) (j_IdempotencyKey row) (wo_jobs (snd s)) = Some won"
  shows "createVideoJobRow sv row s = (Inr (won, True), s)"
proof -
  have "\<exists>j \<in> set (wo_jobs (snd s)). same_key (j_OrgID row) (j_IdempotencyKey row) j"
    using assms by (auto simp: videoJobForKey_def GetVideoJobByIdempotencyKey_def find_Some_iff)
  then show ?thesis using assms by (simp add: createVideoJobRow_def CreateVideoJob_def)
qed

lemma submitToRoute_taken:
  assumes "submitToRoute env se sv prep rq req audioOn units key fp mj now route s = ((r, later), s')"
    and "videoJobForKey (id_OrgID (pr_id prep)) key (wo_jobs (snd s)) = Some won"
  shows "(isl r \<or> r = Inr won) \<and> wo_jobs (snd s') = wo_jobs (snd s)"
  using assms(1)
proof (cases rule: submitToRoute_cases)
  case (row b s1 quote cred holdID ttl row)
  have "videoJobForKey (j_OrgID row) (j_IdempotencyKey row) (wo_jobs (snd s1)) = Some won"
    using assms(2) by (simp add: row(1,2) video_row_def)
  from row(3) [unfolded at_row_def create_taken [OF this]] show ?thesis
    using row(1) by (auto simp: in_world_def VoidHold_def)
qed simp

lemma submit_routes_taken:
  assumes "submit_routes (submitToRoute env se sv prep rq req audioOn units key fp mj) routes lastErr now s = ((r, later), s')"
    and "videoJobForKey (id_OrgID (pr_id prep)) key (wo_jobs (snd s)) = Some won"
  shows "(isl r \<or> r = Inr won) \<and> wo_jobs (snd s') = wo_jobs (snd s)"
  using assms
proof (induction routes arbitrary: lastErr now s)
  case (Cons route routes)
  obtain r1 t s1 where c: "submitToRoute env se sv prep rq req audioOn units key fp mj now route s = ((r1, t), s1)" by (metis surj_pair)
  note taken = submitToRoute_taken [OF c Cons.prems(2)]
  show ?case
  proof (cases "\<exists>e. r1 = Inl e \<and> retryableVideoSubmit e")
    case True
    then obtain e where r1: "r1 = Inl e" "retryableVideoSubmit e" by blast
    from Cons.prems(1) have "submit_routes (submitToRoute env se sv prep rq req audioOn units key fp mj) routes (Some e) t s1 = ((r, later), s')"
      by (simp add: c r1)
    from Cons.IH [OF this] show ?thesis using taken Cons.prems(2) by simp
  next
    case False
    then show ?thesis using Cons.prems(1) taken by (cases r1) (auto simp: c)
  qed
qed auto

lemma submitToRoute_failed:
  assumes "submitToRoute env se sv prep rq req audioOn units key fp mj now route s = ((Inl e, later), s')"
    and "sv_newID sv (used_ids (snd s)) \<notin> set (used_ids (snd s))" and "wo_jobs (snd s') \<noteq> wo_jobs (snd s)"
  shows "\<exists>failed. videoJobForKey (id_OrgID (pr_id prep)) key (wo_jobs (snd s')) = Some failed \<and> j_Status failed = Failed"
  using assms(1)
proof (cases rule: submitToRoute_cases)
  case (row b s1 quote cred holdID ttl row)
  have id: "j_ID row \<notin> j_ID ` set (wo_jobs (snd s))" and cols: "j_Status row = Queued" "j_SettlementState row = Held"
    "j_OrgID row = id_OrgID (pr_id prep)" "j_IdempotencyKey row = key"
    using assms(2) by (auto simp: row(2) video_row_def used_ids_def)
  obtain r4 s4 where c4: "createVideoJobRow sv row s1 = (r4, s4)" by (metis surj_pair)
  note run = row(3) [unfolded at_row_def c4 Let_def prod.case]
  have "\<exists>w. CreateVideoJob sv row (snd s1) = Inr w"
  proof (rule ccontr)
    assume "\<nexists>w. CreateVideoJob sv row (snd s1) = Inr w"
    then have "s4 = s1 \<and> (\<forall>j. r4 \<noteq> Inr (j, False))"
      using c4 by (cases "CreateVideoJob sv row (snd s1)") (auto simp: createVideoJobRow_def split: option.splits)
    then have "wo_jobs (snd s') = wo_jobs (snd s1)" using run by (auto simp: in_world_def VoidHold_def split: sum.splits bool.splits)
    then show False using assms(3) row(1) by simp
  qed
  then obtain w where c: "CreateVideoJob sv row (snd s1) = Inr w" by blast
  note w = CreateVideoJob_Inr [OF c]
  have c4': "r4 = Inr (row, False)" "snd s4 = w" using c4 by (auto simp: createVideoJobRow_def c)
  have free: "keyed row \<notin> keyed ` set (wo_jobs (snd s))" using w(2) row(1) by (auto simp: same_key_keyed keyed_def)
  obtain r5 s5 where c5: "deliverVideoJob se sv (now + snd (sv_call sv route cred)) row req audioOn route cred s4 = (r5, s5)" by (metis surj_pair)
  then have r5: "r5 = Inl e" "s5 = s'" using run by (simp_all add: c4')
  have jobs: "wo_jobs (snd s4) = wo_jobs (snd s) @ [row]" by (simp add: c4' w(1) row(1))
  from deliver_failed_row [OF c5 [unfolded r5] jobs id cols(1,2) free] show ?thesis by (simp add: cols)
qed (use assms(3) in simp)

text \<open>
  C38. Failover cannot serve a video request whose first upstream was called and failed. The first attempt's row keeps
  the request's key, and the key admits one row: whichever candidates remain, no later attempt writes a row
  (and an upstream is called only for a row just written), and when one of them gets as far as the insert, the request is answered as accepted,
  with the job that has already failed. The rotation the source describes stops at the first row, not at the first upstream id.
\<close>

theorem failover_answers_with_failed_job:
  assumes "submitToRoute env se sv prep rq req audioOn units key fp mj now route s = ((Inl e, t), s1)" and "retryableVideoSubmit e"
    and "sv_newID sv (used_ids (snd s)) \<notin> set (used_ids (snd s))" and "wo_jobs (snd s1) \<noteq> wo_jobs (snd s)"
    and "submitVideoJob env se sv prep rq req audioOn units (route # routes) key fp mj now s = ((r, later), s')"
  shows "(case r of Inl _ \<Rightarrow> True | Inr job \<Rightarrow> j_Status job = Failed) \<and> wo_jobs (snd s') = wo_jobs (snd s1)"
proof -
  obtain failed where f: "videoJobForKey (id_OrgID (pr_id prep)) key (wo_jobs (snd s1)) = Some failed" "j_Status failed = Failed"
    using submitToRoute_failed [OF assms(1,3,4)] by blast
  have "submit_routes (submitToRoute env se sv prep rq req audioOn units key fp mj) routes (Some e) t s1 = ((r, later), s')"
    using assms(5) by (simp add: submitVideoJob_def assms(1,2))
  from submit_routes_taken [OF this f(1)] show ?thesis using f(2) by (auto split: sum.split)
qed

section \<open>A submission, end to end\<close>

text \<open>A model priced by the second, served by two routes, whose upstream does not answer.\<close>

definition video_settle :: "key_spend settle_env" where
  "video_settle = \<lparr>se_settler = Recorder, se_scan_num = Some, se_insert_ok = (\<lambda>_. True), se_freshID = ''fresh''\<rparr>"

definition fresh_id :: "uuid list \<Rightarrow> uuid" where
  "fresh_id ids = Some (1 + fold max (map (\<lambda>u. case u of None \<Rightarrow> 0 | Some n \<Rightarrow> n) ids) 0)"

definition demo_submit :: "upstream_answer \<Rightarrow> submit_env" where
  "demo_submit answer = \<lparr>sv_MapperFor = (\<lambda>_. True), sv_Submit = (\<lambda>_ _ _. None), sv_call = (\<lambda>_ _. (answer, seconds 2)),
     sv_SubmitResult = (\<lambda>_ _ _ body. Some body), sv_newID = fresh_id, sv_insert_ok = (\<lambda>_. True), sv_mark_ok = True,
     sv_params = (\<lambda>_. JObj [])\<rparr>"

definition demo_video :: VideoRequest where
  "demo_video = no_request\<lparr>vr_DurationSeconds := 5, vr_N := 1\<rparr>"

definition second_key :: UnitKey where
  "second_key = \<lparr>uk_Unit = ''second'', uk_Resolution = [], uk_Audio = [], uk_Variant = [], uk_ServiceTier = []\<rparr>"

definition demo_video_prepared :: prepared where
  "demo_video_prepared = demo_prepared\<lparr>pr_byok := [(''v'', \<lparr>bc_KeyID = Some 31, bc_Secret = ''sealed'', bc_BaseURL = ''https://own'', bc_Fallback = True\<rparr>)],
     pr_unitPriceTable := \<lparr>ut_rates = [(normalize_key second_key, 400000000)], ut_billingFree = False\<rparr>\<rparr>"

definition demo_video_route :: "128 word \<Rightarrow> VideoRoute" where
  "demo_video_route u = VideoRoute.truncate (route_of ProtocolOpenAI (demo_row u 1) demo_provider plain_transport)"

definition demo_video_credential :: videoCredential where
  "demo_video_credential = \<lparr>vc_APIKey = ''sealed'', vc_BaseURL = ''https://own'', vc_ProviderKeyID = None, vc_OrgProviderKeyID = Some 31\<rparr>"

lemma demo_video_pin: "pinVideoCredential (gateway_demo answer) now (demo_video_route u) (pr_byok demo_video_prepared) g = (Inr demo_video_credential, g)"
  by (simp add: pinVideoCredential_def credentialFor_def forVendor_def active_choice_def demo_video_prepared_def demo_video_route_def
      VideoRoute.truncate_def Route.truncate_def route_of_def demo_row_def demo_provider_def demo_video_credential_def Let_def)

definition demo_video_quote :: Quote where
  "demo_video_quote = (case videoCharge demo_video_prepared [(second_key, 5)] True of Inr q \<Rightarrow> q | Inl _ \<Rightarrow> demo_quote)"

lemma demo_video_charge:
  "videoCharge demo_video_prepared [(second_key, 5)] True = Inr demo_video_quote" "q_ChargedNano demo_video_quote = 100000000"
  by code_simp+

definition demo_video_row :: "instant \<Rightarrow> uuid \<Rightarrow> 128 word \<Rightarrow> Job" where
  "demo_video_row now u route = video_row (gateway_demo (NoAnswer NetTimeout)) (demo_submit (NoAnswer NetTimeout)) now demo_video_prepared demo_request demo_video demo_video_quote
     [(second_key, 5)] (demo_video_route route) demo_video_credential None (videoHoldTTL 600) ''k'' ''f'' 600 u"

text \<open>An attempt reaches its row.\<close>

lemma demo_submit_at_row:
  assumes "gw_books (fst s) = wo_books (snd s)"
  shows "submitToRoute (gateway_demo (NoAnswer NetTimeout)) video_settle (demo_submit (NoAnswer NetTimeout)) demo_video_prepared demo_request demo_video False
      [(second_key, 5)] ''k'' ''f'' 600 now (demo_video_route route) s =
    at_row video_settle (demo_submit (NoAnswer NetTimeout)) demo_video False now (demo_video_route route) demo_video_credential
      (demo_video_row now (fresh_id (used_ids (snd s))) route) s"
proof -
  have same: "in_gateway (\<lambda>g. (x, g)) s = (x, s)" for x using assms by (cases s) (simp add: in_gateway_def)
  have pin: "in_gateway (pinVideoCredential (gateway_demo (NoAnswer NetTimeout)) now (demo_video_route route) (pr_byok demo_video_prepared)) s = (Inr demo_video_credential, s)"
    unfolding demo_video_pin by (rule same)
  have quote: "quoteVideoForCredential (gateway_demo (NoAnswer NetTimeout)) now demo_video_prepared [(second_key, 5)] demo_video_credential = (\<lambda>g. (Inr demo_video_quote, g))"
    by (simp add: fun_eq_iff quoteVideoForCredential_def quoteOrRefuse_def BYOK_def demo_video_credential_def demo_video_charge)
  have hold: "ReserveFor video_settle i r n ttl = (\<lambda>g. (Inr None, g))" for i r n ttl
    by (simp add: fun_eq_iff ReserveFor_def video_settle_def Recorder_def Recorder_Hold_def put_books_def)
  have sv: "sv_MapperFor (demo_submit (NoAnswer NetTimeout)) v = True" "sv_newID (demo_submit (NoAnswer NetTimeout)) = fresh_id" for v
    by (simp_all add: demo_submit_def)
  have cols: "j_OrgID (demo_video_row now u route) = id_OrgID (pr_id demo_video_prepared)" "j_RequestID (demo_video_row now u route) = rq_RequestID demo_request" for u
    by (simp_all add: demo_video_row_def video_row_def)
  show ?thesis
    unfolding submitToRoute_def pin quote hold sv at_row_def cols prod.case sum.case same Let_def not_True_eq_False if_False
    unfolding demo_video_row_def
    by (rule refl)
qed

definition demo_video_world :: "key_spend world" where
  "demo_video_world = empty_world\<lparr>wo_books := gw_books demo_gateway\<rparr>"

lemma demo_video_ids: "used_ids demo_video_world = []" "fresh_id [] = Some 1" "wo_jobs demo_video_world = []"
  by (simp_all add: demo_video_world_def empty_world_def used_ids_def fresh_id_def)

definition demo_failed_row :: Job where
  "demo_failed_row = (demo_video_row 0 (Some 1) 21)\<lparr>j_Status := Failed, j_TerminalAt := Some (seconds 2),
     j_ErrorCode := ''gateway.all_providers_failed'', j_ErrorMessage := ''The upstream could not be reached'', j_NextPollAt := None,
     j_SettlementState := Voided\<rparr>"

definition demo_after_failure :: "key_spend world" where
  "demo_after_failure = demo_video_world\<lparr>wo_jobs := [demo_failed_row], wo_reads := [demo_video_row 0 (Some 1) 21]\<rparr>"

lemma demo_first_attempt:
  "at_row video_settle (demo_submit (NoAnswer NetTimeout)) demo_video False 0 (demo_video_route 21) demo_video_credential (demo_video_row 0 (Some 1) 21)
     (demo_gateway, demo_video_world) =
   ((Inl (NewError GatewayAllProvidersFailed ''The upstream could not be reached''), seconds 2), (demo_gateway, demo_after_failure))"
proof -
  have create: "CreateVideoJob (demo_submit (NoAnswer NetTimeout)) (demo_video_row 0 (Some 1) 21) demo_video_world =
      Inr (demo_video_world\<lparr>wo_jobs := [demo_video_row 0 (Some 1) 21], wo_reads := [demo_video_row 0 (Some 1) 21]\<rparr>)"
    by (simp add: CreateVideoJob_def demo_video_ids demo_submit_def) (simp add: demo_video_world_def empty_world_def)
  have call: "callVideoUpstream (demo_submit (NoAnswer NetTimeout)) rt cr v a =
      Inl (NewError GatewayAllProvidersFailed ''The upstream could not be reached'')" for rt cr v a
    by (simp add: callVideoUpstream_def doVideoCall_def demo_submit_def)
  define w where "w = demo_video_world\<lparr>wo_jobs := [demo_video_row 0 (Some 1) 21], wo_reads := [demo_video_row 0 (Some 1) 21]\<rparr>"
  have fail: "failVideoJob (se_settler video_settle) (seconds 2) (demo_video_row 0 (Some 1) 21) ''gateway.all_providers_failed''
      ''The upstream could not be reached'' w = demo_after_failure"
    by (simp add: failVideoJob_def fail_tx_def VoidHold_def video_settle_def Recorder_def Recorder_Void_def w_def
        VoidVideoJob_def MarkVideoJobTerminal_def update_where_def set_where_def no_poll_def demo_after_failure_def demo_failed_row_def)
      (simp add: demo_video_world_def empty_world_def demo_video_row_def video_row_def running_def)
  have "deliverVideoJob video_settle (demo_submit (NoAnswer NetTimeout)) (seconds 2) (demo_video_row 0 (Some 1) 21) v a rt cr (demo_gateway, w) =
      (Inl (NewError GatewayAllProvidersFailed ''The upstream could not be reached''), (demo_gateway, demo_after_failure))" for v a rt cr
    by (simp add: deliverVideoJob_def call in_world_def NewError_def fail)
  moreover have "snd (sv_call (demo_submit (NoAnswer NetTimeout)) rt cr) = seconds 2" for rt cr by (simp add: demo_submit_def)
  ultimately show ?thesis by (simp add: at_row_def createVideoJobRow_def create [folded w_def])
qed

lemma demo_second_attempt:
  "at_row video_settle (demo_submit (NoAnswer NetTimeout)) demo_video False now (demo_video_route 22) demo_video_credential (demo_video_row now u 22)
     (demo_gateway, demo_after_failure) = ((Inr demo_failed_row, now), (demo_gateway, demo_after_failure))"
proof -
  have "videoJobForKey (j_OrgID (demo_video_row now u 22)) (j_IdempotencyKey (demo_video_row now u 22)) (wo_jobs (snd (demo_gateway, demo_after_failure))) =
      Some demo_failed_row"
    by (simp add: videoJobForKey_def GetVideoJobByIdempotencyKey_def demo_after_failure_def same_key_def demo_failed_row_def demo_video_row_def video_row_def)
  then show ?thesis
    by (simp add: at_row_def create_taken in_world_def VoidHold_def video_settle_def Recorder_def Recorder_Void_def)
qed

theorem failover_answers_with_failed_job_witness:
  "\<exists>s'. submitVideoJob (gateway_demo (NoAnswer NetTimeout)) video_settle (demo_submit (NoAnswer NetTimeout)) demo_video_prepared demo_request demo_video
      False [(second_key, 5)] [demo_video_route 21, demo_video_route 22] ''k'' ''f'' 600 0 (demo_gateway, demo_video_world) =
        ((Inr demo_failed_row, seconds 2), s') \<and>
     j_Status demo_failed_row = Failed \<and> wo_jobs (snd s') = wo_jobs demo_after_failure"
proof -
  let ?env = "gateway_demo (NoAnswer NetTimeout)" and ?sv = "demo_submit (NoAnswer NetTimeout)"
  let ?e = "NewError GatewayAllProvidersFailed ''The upstream could not be reached''"
  have books: "wo_books demo_video_world = gw_books demo_gateway" "wo_books demo_after_failure = gw_books demo_gateway"
    by (simp_all add: demo_video_world_def demo_after_failure_def)
  have first: "submitToRoute ?env video_settle ?sv demo_video_prepared demo_request demo_video False [(second_key, 5)] ''k'' ''f'' 600 0
      (demo_video_route 21) (demo_gateway, demo_video_world) = ((Inl ?e, seconds 2), (demo_gateway, demo_after_failure))"
    by (simp add: demo_submit_at_row books demo_video_ids demo_first_attempt)
  have second: "submitToRoute ?env video_settle ?sv demo_video_prepared demo_request demo_video False [(second_key, 5)] ''k'' ''f'' 600 (seconds 2)
      (demo_video_route 22) (demo_gateway, demo_after_failure) = ((Inr demo_failed_row, seconds 2), (demo_gateway, demo_after_failure))"
    by (simp add: demo_submit_at_row books demo_second_attempt)
  have retry: "retryableVideoSubmit ?e" by code_simp
  have run: "submitVideoJob ?env video_settle ?sv demo_video_prepared demo_request demo_video False [(second_key, 5)]
      [demo_video_route 21, demo_video_route 22] ''k'' ''f'' 600 0 (demo_gateway, demo_video_world) =
        ((Inr demo_failed_row, seconds 2), (demo_gateway, demo_after_failure))"
    by (simp add: submitVideoJob_def first second retry)
  have "sv_newID ?sv (used_ids demo_video_world) \<notin> set (used_ids demo_video_world)" by (simp add: demo_video_ids)
  moreover have "wo_jobs demo_after_failure \<noteq> wo_jobs demo_video_world" by (simp add: demo_video_ids demo_after_failure_def)
  ultimately show ?thesis using failover_answers_with_failed_job [OF first retry _ _ run] run by auto
qed


definition demo_submitted :: "key_spend world" where
  "demo_submitted = demo_video_world\<lparr>wo_jobs := [demo_video_row 0 (Some 1) 21], wo_reads := [demo_video_row 0 (Some 1) 21]\<rparr>"

theorem job_settles_as_quoted_witness:
  "\<exists>w. terminate_tx Recorder Some (seconds 60) (demo_video_row 0 (Some 1) 21) no_poll Completed demo_submitted = Some w \<and>
     wo_charges w = [(Some 1, 100000000)]"
proof -
  have row: "j_HoldNano (demo_video_row 0 (Some 1) 21) = 100000000" "j_Status (demo_video_row 0 (Some 1) 21) = Queued"
    "j_SettlementState (demo_video_row 0 (Some 1) 21) = Held" "j_ApiKeyID (demo_video_row 0 (Some 1) 21) = id_KeyID demo_identity"
    by (simp_all add: demo_video_row_def video_row_def demo_video_charge demo_video_prepared_def demo_prepared_def)
  have key: "id_KeyID demo_identity = Some 7" by code_simp
  have "\<not> isl (Recorder_SettleTx (seconds 60) \<lparr>si_OrgID = org, si_RequestID = req, si_ActualNano = 100000000, si_APIKeyID = Some 7\<rparr>
      (bo_ledger (gw_books demo_gateway)))" for org req
    by (simp add: Recorder_SettleTx_def AddSpend_def demo_gateway_def daily_of_def is_int64_def)
  from this [of "j_OrgID (demo_video_row 0 (Some 1) 21)" "j_RequestID (demo_video_row 0 (Some 1) 21)"]
  have "terminate_tx Recorder Some (seconds 60) (demo_video_row 0 (Some 1) 21) no_poll Completed demo_submitted \<noteq> None"
    by (auto simp: terminate_tx_def demo_submitted_def demo_video_world_def MarkVideoJobTerminal_def SettleVideoJob_def update_where_def set_where_def
        row key running_def Recorder_def Let_def split: sum.splits)
  then obtain w where w: "terminate_tx Recorder Some (seconds 60) (demo_video_row 0 (Some 1) 21) no_poll Completed demo_submitted = Some w" by blast
  have quote: "is_int64 (q_UpstreamUSDNano demo_video_quote)" "q_FXRate demo_video_quote \<noteq> []" by code_simp+
  have "is_int64 5" by code_simp
  moreover have "quoted_as (demo_video_row 0 (Some 1) 21) demo_submitted" by (auto simp: quoted_as_def demo_submitted_def)
  moreover have "demo_video_row 0 (Some 1) 21 \<in> set (wo_reads demo_submitted)" by (simp add: demo_submitted_def)
  moreover have "j_ID (demo_video_row 0 (Some 1) 21) = Some 1" by (simp add: demo_video_row_def video_row_def)
  ultimately show ?thesis
    using job_settles_as_quoted [OF demo_video_row_def quote _ _ rtranclp.rtrancl_refl _ _ w] w
    by (auto simp: demo_video_charge demo_submitted_def demo_video_world_def empty_world_def)
qed

end
