(* ===== verification/Spec2Isabelle.thy ===== *)
theory Spec2Isabelle
  imports StreamCalls Envelope VideoSubmit
begin

text \<open>
  A verification library of FairLB, a gateway between API clients and AI model vendors.

  \<^bold>\<open>The program.\<close> A request carries a virtual key. The gateway authenticates it, passes it
  through the admission gates, resolves its model to candidate routes, prices the worst
  case and holds that amount, forwards the request to one candidate after another until
  one serves it, and settles what was used. Text and image requests are answered at once;
  a video request becomes a job row that background workers poll, settle and sweep. What
  cannot be settled at once is queued and replayed. Everything the customer pays is
  computed in integer nano-units from a versioned price table.

  \<^bold>\<open>The theories\<close>, each after the Go files it translates, under \<open>src/\<close>:

  \<^item> \<open>Prelude\<close>: results as sums, Go's 64-bit arithmetic written out, truncated division,
    instants and durations as nanoseconds, ids as optional 128-bit words.
  \<^item> \<open>Money\<close> (\<open>foundation/money\<close>): printing and parsing of nano amounts, with the round trip.
  \<^item> \<open>PriceTable\<close>, \<open>Pricing\<close>, \<open>UnitPrice\<close> (\<open>internal/gateway/catalog\<close>): the price table with
    tiers, variants and context bands; the token bill, its exact per-bucket
    contributions, the own-credential fee and the hold; the per-unit rate cards. Costs are
    rationals as the code's \<open>big.Rat\<close> are, rounded up once. Shown: the bill is the published
    cost times the multipliers, rounded up once; the hold covers the settlement; a lookup
    stays in its tier; snapshots replay; missing rates refuse.
  \<^item> \<open>PublicId\<close> (\<open>foundation/publicid\<close>), \<open>Errors\<close> (\<open>proxy/errors.go\<close>, \<open>foundation/errcode\<close>),
    \<open>Classify\<close> (\<open>proxy/classify.go\<close>): ids, the error surface of three protocols, and the
    classification of upstream failures.
  \<^item> \<open>BreakerStore\<close>, \<open>Breaker\<close> (\<open>foundation/drivers/breaker\<close>, \<open>proxy/breaker.go\<close>): the state
    store contract and the two-level circuit breaker over any store that keeps it.
  \<^item> \<open>RateLimit\<close> (\<open>foundation/drivers/ratelimit\<close>): the limiter contract and the server-side
    token bucket script that implements it. The script's floating-point quantities are
    rationals here.
  \<^item> \<open>Router\<close> (\<open>proxy/router.go\<close>): weighted candidate order, the global retry budget and the
    per-provider semaphore; random draws are an argument.
  \<^item> \<open>Guard\<close> (\<open>proxy/guard.go\<close>): the model, tier, budget and rate gates.
  \<^item> \<open>Rotation\<close> (\<open>proxy/rotation.go\<close> and its helpers in \<open>pipeline.go\<close>): the failover loop and
    the choice of a credential, over any attempt. \<open>Byok\<close> (\<open>proxy/byok.go\<close>, \<open>Execute\<close> and
    \<open>attemptOnce\<close> of \<open>pipeline.go\<close>): the attempt itself, with the organization's own
    credentials; the upstream call is a parameter. Shown: an own credential's refusal leaves
    the shared circuits alone and retires only that credential, it is sent to its vendor
    only, and what is reported is the hop that served.
  \<^item> \<open>Ledger\<close> (\<open>internal/gateway/settle\<close>, \<open>internal/community/settle\<close>, \<open>access/apikeys\<close>): the
    contract a ledger keeps, and the self-hosted ledger that keeps it.
  \<^item> \<open>Replay\<close>, \<open>Unsettled\<close> (\<open>internal/gateway/usage\<close>): the JSON a charge is queued as, and the
    queue with its worker. A queue of one batch drains in eight rounds.
  \<^item> \<open>KeyFormat\<close> (\<open>access/keyfmt\<close>): the checksummed form of an API key; \<open>Auth\<close>
    (\<open>proxy/auth.go\<close>, \<open>foundation/drivers/cache\<close>): authentication over any cache, and the
    interleavings of requests, edits and invalidations that bound how old an accepted
    snapshot is.
  \<^item> \<open>Usage\<close> (\<open>proxy/protocols.go\<close>, \<open>usage_wire.go\<close>, \<open>estimate.go\<close>, \<open>images.go\<close>,
    \<open>utility.go\<close>): the counts read out of an upstream body in five dialects and the request
    rewritten for the upstream. A body is a JSON value with its members in order, decoded
    by \<open>encoding/json\<close>'s rules; integers that do not fit fail the decoding.
  \<^item> \<open>Catalog\<close> (\<open>catalog/catalog.go\<close>, \<open>settings.go\<close> and the SQL under \<open>gateway/db\<close>): the tables
    of surfaces, the resolution of a model into candidate routes, and the locked prices. The
    caches in front of the queries are transparent here: every read is of the snapshot.
  \<^item> \<open>Admission\<close> (\<open>Prepare\<close> of \<open>pipeline.go\<close>, \<open>affinity.go\<close>): all admission steps in their
    order, from the credential to the amount to hold, and the table that sends a follow-up
    to the route and credential that made what it refers to.
  \<^item> \<open>Settlement\<close> (\<open>buffered_settlement.go\<close>, \<open>pricing_snapshot.go\<close>, \<open>Run\<close>, \<open>RunUtility\<close>,
    \<open>RunImageEdit\<close>): the usage row, the hold and its release, and a whole buffered call from
    admission to its books. \<open>Calls\<close>: what such a call leaves on the books of any ledger that
    keeps the contract -- nothing when it is refused, one account of it when it is served.
  \<^item> \<open>Stream\<close> (\<open>proxy/stream.go\<close>, \<open>stream_usage.go\<close>): the relay of an event stream and the usage read
    off it. The branch each turn of its loop takes, with the time it took, is an argument; a
    schedule longer than the stream has events is enough for it to return. \<open>StreamCalls\<close>
    (\<open>pipeline_stream.go\<close>): a streamed call from admission to its books. Shown: the bytes pass
    unchanged and from one candidate, a stream is billed as the buffered answer would be, a call
    that sent nothing costs nothing and one that started is accounted once.
  \<^item> \<open>Envelope\<close> (\<open>internal/gateway/video\<close>, \<open>proxy/videos.go\<close>): the request vocabulary of the
    video plane, what a model accepts, and the narrowing of its candidates.
  \<^item> \<open>VideoJobs\<close> (\<open>proxy/video_worker.go\<close>, \<open>video_submit.go\<close>, \<open>video_jobs.go\<close>,
    \<open>db/videojobs.sql.go\<close>): the job row, the SQL statements on it as functions on the table,
    and the workers. \<open>VideoRuns\<close>: any interleaving of their atomic steps, the invariant of
    the money columns over all of them, and that the workers are such interleavings.
  \<^item> \<open>VideoSubmit\<close> (\<open>admitAndSubmitVideo\<close> of \<open>proxy/videos.go\<close>, \<open>video_submit.go\<close>): a video request
    from admission to its job row and the upstream's id, one candidate after another. Shown:
    a submission is such an interleaving too and keeps one row for a key, a job settles as it
    was quoted, and a failed first call leaves nothing to fail over to.

  \<^bold>\<open>Interfaces.\<close> A limiter, a breaker store and a ledger are records of operations; the laws a
  client relies on are locales (\<open>rate_limiter\<close>, \<open>breaker_store\<close>, \<open>settlement\<close> and the pricing
  chains), proved of the program's own implementations by interpretation.

  \<^bold>\<open>Effects.\<close> State is passed explicitly; the time, the random draws and the answers of an
  upstream are arguments. Errors are values: a sum whose left side is the error. A table is
  the list of its rows, a statement is a function on it, a transaction is one step. Loops
  over lists are structural; none needs fuel. Logging and metrics have no counterpart.

  \<^bold>\<open>Bounds.\<close> Integers that the code keeps in 64 bits wrap in the model where they wrap in the
  code; database columns that overflow fail the statement. Floating-point durations (the
  backoff and poll ladders and the jitter) are rationals.

  \<^bold>\<open>Not modelled\<close>: the HTTP handlers; the re-framing of a Bedrock event stream (the body of a
  stream is the one after it) and the reader's exit on a done context, after which the relay is
  taken to end through that context; the building of headers, URLs and signatures of an upstream request; the
  validation of a provider's transport profile (a parameter of resolution); the vendor
  mappers, the probes, reporting and model listings; and the administrative APIs with their
  generated bindings -- plumbing and text processing of vendor formats around the core
  above. What the model takes as parameters: the upstream's answers, the decryption of
  stored credentials, the digest of a key, the JSON parser, the success of each database
  write, and the random draws.
\<close>

end
